(* ===== verification/Prelude.thy ===== *)
theory Prelude
  imports Main "HOL-Library.AList" "HOL-Library.Code_Target_Nat"
begin

text \<open>
  What every component of the development shares: the collections of simplification rules,
  the model of Go maps, times and durations, generic lemmas on lists, and the two locales
  that lift one-step facts to whole runs of a state machine.
\<close>

named_theorems gomap_simps \<open>lookup, update and delete on modelled Go maps\<close>
named_theorems time_simps \<open>unfolding the arithmetic of times and durations\<close>

section \<open>Go maps\<close>

text \<open>
  A Go map is an association list with distinct keys. Lookup is \<^const>\<open>map_of\<close>; assignment
  keeps the place of a present key and appends a new one. Iteration order is unspecified in
  Go; the model iterates in list order, and every place of the source that iterates over a
  map either counts or sorts afterwards.
\<close>

type_synonym ('k, 'v) gomap = "('k \<times> 'v) list"

definition gm_get :: "('k, 'v) gomap \<Rightarrow> 'k \<Rightarrow> 'v option" where
  "gm_get m k = map_of m k"

definition gm_set :: "'k \<Rightarrow> 'v \<Rightarrow> ('k, 'v) gomap \<Rightarrow> ('k, 'v) gomap" where
  "gm_set k v m = AList.update k v m"

definition gm_del :: "'k \<Rightarrow> ('k, 'v) gomap \<Rightarrow> ('k, 'v) gomap" where
  "gm_del k m = AList.delete k m"

definition gm_keys :: "('k, 'v) gomap \<Rightarrow> 'k list" where
  "gm_keys m = map fst m"

definition gm_wf :: "('k, 'v) gomap \<Rightarrow> bool" where
  "gm_wf m = distinct (gm_keys m)"

lemma gm_get_set [gomap_simps, simp]:
  "gm_get (gm_set k v m) k' = (if k' = k then Some v else gm_get m k')"
  by (simp add: gm_get_def gm_set_def update_conv')

lemma gm_get_del [gomap_simps, simp]:
  "gm_get (gm_del k m) k' = (if k' = k then None else gm_get m k')"
  by (simp add: gm_get_def gm_del_def delete_conv')

lemma gm_get_Nil [gomap_simps, simp]: "gm_get [] k = None"
  by (simp add: gm_get_def)

lemma gm_get_Cons [gomap_simps]:
  "gm_get ((k', v) # m) k = (if k = k' then Some v else gm_get m k)"
  by (simp add: gm_get_def)

lemma gm_get_None_iff: "gm_get m k = None \<longleftrightarrow> k \<notin> set (gm_keys m)"
  by (simp add: gm_get_def gm_keys_def map_of_eq_None_iff)

lemma gm_get_Some_keys: "gm_get m k = Some v \<Longrightarrow> k \<in> set (gm_keys m)"
  by (metis gm_get_None_iff option.distinct(1))

lemma gm_keys_get: "k \<in> set (gm_keys m) \<Longrightarrow> \<exists>v. gm_get m k = Some v"
  by (metis gm_get_None_iff not_None_eq)

lemma gm_get_in_set: "gm_get m k = Some v \<Longrightarrow> (k, v) \<in> set m"
  by (simp add: gm_get_def map_of_SomeD)

lemma gm_in_set_get: "gm_wf m \<Longrightarrow> (k, v) \<in> set m \<Longrightarrow> gm_get m k = Some v"
  by (simp add: gm_get_def gm_wf_def gm_keys_def)

lemma gm_keys_set_old: "k \<in> set (gm_keys m) \<Longrightarrow> gm_keys (gm_set k v m) = gm_keys m"
  by (induction m) (auto simp: gm_keys_def gm_set_def)

lemma gm_keys_set_new: "k \<notin> set (gm_keys m) \<Longrightarrow> gm_keys (gm_set k v m) = gm_keys m @ [k]"
  by (induction m) (auto simp: gm_keys_def gm_set_def)

lemma gm_keys_set: "set (gm_keys (gm_set k v m)) = insert k (set (gm_keys m))"
  by (cases "k \<in> set (gm_keys m)") (auto simp: gm_keys_set_old gm_keys_set_new)

lemma gm_wf_Nil [intro, simp]: "gm_wf []"
  by (simp add: gm_wf_def gm_keys_def)

lemma gm_wf_set [intro]: "gm_wf m \<Longrightarrow> gm_wf (gm_set k v m)"
  by (cases "k \<in> set (gm_keys m)") (auto simp: gm_wf_def gm_keys_set_old gm_keys_set_new)

lemma gm_wf_del [intro]: "gm_wf m \<Longrightarrow> gm_wf (gm_del k m)"
  by (simp add: gm_wf_def gm_keys_def gm_del_def distinct_delete)

lemma gm_keys_Nil [simp]: "gm_keys [] = []"
  by (simp add: gm_keys_def)

section \<open>Times and durations\<close>

text \<open>
  A \<open>time.Time\<close> is the number of nanoseconds since Go's zero time, so that \<open>IsZero\<close> is
  being 0; a \<open>time.Duration\<close> is a number of nanoseconds in the range of \<open>int64\<close>.
  \<open>t.Sub(u)\<close> saturates at the ends of that range, as the library does; 64-bit products and
  sums of durations wrap around.
\<close>

type_synonym time = int
type_synonym duration = int

definition time_IsZero :: "time \<Rightarrow> bool" where
  "time_IsZero t = (t = 0)"

definition maxInt64 :: int where "maxInt64 = 9223372036854775807"
definition minInt64 :: int where "minInt64 = - 9223372036854775808"

definition time_Sub :: "time \<Rightarrow> time \<Rightarrow> duration" where
  "time_Sub t u = (if t - u > maxInt64 then maxInt64
                   else if t - u < minInt64 then minInt64 else t - u)"

definition time_Add :: "time \<Rightarrow> duration \<Rightarrow> time" where
  "time_Add t d = t + d"

definition wrap64 :: "int \<Rightarrow> int" where
  "wrap64 x = (x + 9223372036854775808) mod 18446744073709551616 - 9223372036854775808"

abbreviation Millisecond :: duration where "Millisecond \<equiv> 1000000"
abbreviation Second :: duration where "Second \<equiv> 1000000000"
abbreviation Minute :: duration where "Minute \<equiv> 60000000000"
abbreviation Hour :: duration where "Hour \<equiv> 3600000000000"

lemma wrap64_id: "minInt64 \<le> x \<Longrightarrow> x \<le> maxInt64 \<Longrightarrow> wrap64 x = x"
  by (simp add: wrap64_def minInt64_def maxInt64_def)

lemma wrap64_range: "minInt64 \<le> wrap64 x \<and> wrap64 x \<le> maxInt64"
  using pos_mod_bound [of "18446744073709551616::int" "x + 9223372036854775808"]
    pos_mod_sign [of "18446744073709551616::int" "x + 9223372036854775808"]
  unfolding wrap64_def minInt64_def maxInt64_def by linarith

lemma time_Sub_range: "minInt64 \<le> time_Sub t u \<and> time_Sub t u \<le> maxInt64"
  by (simp add: time_Sub_def minInt64_def maxInt64_def)

lemma time_Sub_nonneg: "u \<le> t \<Longrightarrow> 0 \<le> time_Sub t u"
  by (simp add: time_Sub_def minInt64_def maxInt64_def)

section \<open>Lists\<close>

definition takeLast :: "nat \<Rightarrow> 'a list \<Rightarrow> 'a list" where
  "takeLast n xs = drop (length xs - n) xs"

lemma length_takeLast [simp]: "length (takeLast n xs) = min n (length xs)"
  by (simp add: takeLast_def)

lemma takeLast_snoc_full:
  "0 < n \<Longrightarrow> n \<le> length xs \<Longrightarrow> takeLast n (xs @ [x]) = tl (takeLast n xs) @ [x]"
  by (simp add: takeLast_def drop_Suc Suc_diff_le tl_drop)

lemma takeLast_all: "length xs \<le> n \<Longrightarrow> takeLast n xs = xs"
  by (simp add: takeLast_def)

lemma takeLast_takeLast_append: "takeLast n (takeLast n xs @ ys) = takeLast n (xs @ ys)"
proof (cases "length xs \<le> n")
  case False
  then have "length ys + (length xs - n) = length xs + length ys - n"
    and "length xs + length ys - n - length xs = length ys - n"
    by simp_all
  with False show ?thesis by (simp add: takeLast_def)
qed (simp add: takeLast_all)

lemma filter_conv_if: "filter P (x # xs) = (if P x then [x] else []) @ filter P xs"
  by simp

text \<open>The first element that is not \<open>P\<close> is \<open>Q\<close>, one element at a time.\<close>

lemma split_Cons:
  "(\<exists>fs r rest. x # xs = fs @ r # rest \<and> list_all P fs \<and> Q r) \<longleftrightarrow>
     Q x \<or> (P x \<and> (\<exists>fs r rest. xs = fs @ r # rest \<and> list_all P fs \<and> Q r))" (is "?l \<longleftrightarrow> ?r")
proof
  assume ?l
  then obtain fs r rest where e: "x # xs = fs @ r # rest" "list_all P fs" "Q r" by blast
  then show ?r by (cases fs) auto
next
  assume ?r
  then show ?l
  proof
    assume "Q x"
    then show ?l by (intro exI [of _ "[]"] exI [of _ x] exI [of _ xs]) simp
  next
    assume "P x \<and> (\<exists>fs r rest. xs = fs @ r # rest \<and> list_all P fs \<and> Q r)"
    then obtain fs r rest where "P x" "xs = fs @ r # rest" "list_all P fs" "Q r" by blast
    then show ?l by (intro exI [of _ "x # fs"] exI [of _ r] exI [of _ rest]) simp
  qed
qed

section \<open>Runs of a state machine\<close>

text \<open>
  A component is a partial step function: \<open>None\<close> is a run-time panic of the code. A run
  performs a list of labelled steps one after the other.
\<close>

fun run_steps :: "('l \<Rightarrow> 's \<Rightarrow> 's option) \<Rightarrow> 'l list \<Rightarrow> 's \<Rightarrow> 's option" where
  "run_steps step [] s = Some s"
| "run_steps step (l # ls) s = (case step l s of None \<Rightarrow> None | Some s' \<Rightarrow> run_steps step ls s')"

lemma run_steps_append:
  "run_steps step (ls @ ms) s = (case run_steps step ls s of None \<Rightarrow> None | Some s' \<Rightarrow> run_steps step ms s')"
  by (induction ls arbitrary: s) (auto split: option.splits)

text \<open>A property that steps with admitted labels keep is kept by runs of such steps.\<close>

lemma run_steps_keep:
  assumes "\<And>l s s'. ok l \<Longrightarrow> P s \<Longrightarrow> step l s = Some s' \<Longrightarrow> P s'"
  shows "list_all ok ls \<Longrightarrow> P s \<Longrightarrow> run_steps step ls s = Some s' \<Longrightarrow> P s'"
proof (induction ls arbitrary: s)
  case (Cons l ls)
  then obtain s1 where "step l s = Some s1" and rest: "run_steps step ls s1 = Some s'"
    by (auto split: option.splits)
  with Cons.prems assms have "P s1" by auto
  with Cons.IH Cons.prems(1) rest show ?case by simp
qed simp

text \<open>The contract of a component with an invariant: no step panics and every step keeps it.\<close>

locale invariant_machine =
  fixes step :: "'l \<Rightarrow> 's \<Rightarrow> 's option" and inv :: "'s \<Rightarrow> bool"
  assumes step_safe: "inv s \<Longrightarrow> \<exists>s'. step l s = Some s' \<and> inv s'"
begin

lemma run_safe: "inv s \<Longrightarrow> \<exists>s'. run_steps step ls s = Some s' \<and> inv s'"
proof (induction ls arbitrary: s)
  case (Cons l ls)
  obtain s1 where "step l s = Some s1" and "inv s1"
    using step_safe [OF Cons.prems] by blast
  with Cons.IH [of s1] show ?case by simp
qed simp

lemma run_inv: "inv s \<Longrightarrow> run_steps step ls s = Some s' \<Longrightarrow> inv s'"
  using run_safe [of s ls] by auto

end

text \<open>A machine whose steps only move its state up a preorder: so do its runs.\<close>

locale monotone_machine = invariant_machine step inv
  for step :: "'l \<Rightarrow> 's \<Rightarrow> 's option" and inv :: "'s \<Rightarrow> bool" +
  fixes le :: "'s \<Rightarrow> 's \<Rightarrow> bool"
  assumes le_refl: "le s s"
    and le_trans: "le s t \<Longrightarrow> le t u \<Longrightarrow> le s u"
    and step_le: "inv s \<Longrightarrow> step l s = Some s' \<Longrightarrow> le s s'"
begin

lemma run_le: "inv s \<Longrightarrow> run_steps step ls s = Some s' \<Longrightarrow> le s s'"
proof (induction ls arbitrary: s)
  case Nil
  then show ?case by (simp add: le_refl)
next
  case (Cons l ls)
  then obtain s1 where s1: "step l s = Some s1" and rest: "run_steps step ls s1 = Some s'"
    by (auto split: option.splits)
  have "inv s1" using step_safe [OF Cons.prems(1), of l] s1 by simp
  then have "le s1 s'" using Cons.IH rest by blast
  with step_le [OF Cons.prems(1) s1] show ?case by (rule le_trans)
qed

end

end
