(* ===== verification/GoStrings.thy ===== *)
theory GoStrings
  imports Prelude
begin

text \<open>
  Go strings and the part of \<open>strings\<close>, \<open>strconv\<close>, \<open>unicode\<close> and
  \<open>unicode/utf8\<close> that the program uses. A Go string is a sequence of bytes, here a
  \<^typ>\<open>string\<close> (a list of characters 0..255), so \<open>len\<close> is \<^const>\<open>length\<close>.
  \<open>range\<close> over a string decodes UTF-8: \<open>utf8_chunks\<close> gives the runes with the bytes
  each was decoded from; a malformed byte is the rune U+FFFD of width one.
\<close>

section \<open>Bytes and runes\<close>

type_synonym rune = nat

definition byte :: "char \<Rightarrow> nat" where
  "byte c = of_char c"

definition runeError :: rune where "runeError = 65533"

definition is_cont :: "nat \<Rightarrow> bool" where
  "is_cont b = (128 \<le> b \<and> b \<le> 191)"

text \<open>\<open>utf8.DecodeRuneInString\<close>, on the bytes of the string.\<close>

fun decode_rune :: "nat list \<Rightarrow> rune \<times> nat" where
  "decode_rune (b0 # b1 # b2 # b3 # bs) =
     (if b0 < 128 then (b0, 1)
      else if 194 \<le> b0 \<and> b0 \<le> 223 \<and> is_cont b1 then ((b0 - 192) * 64 + (b1 - 128), 2)
      else if 224 \<le> b0 \<and> b0 \<le> 239 \<and> is_cont b1 \<and> (b0 = 224 \<longrightarrow> 160 \<le> b1) \<and> (b0 = 237 \<longrightarrow> b1 \<le> 159)
              \<and> is_cont b2
           then ((b0 - 224) * 4096 + (b1 - 128) * 64 + (b2 - 128), 3)
      else if 240 \<le> b0 \<and> b0 \<le> 244 \<and> is_cont b1 \<and> (b0 = 240 \<longrightarrow> 144 \<le> b1) \<and> (b0 = 244 \<longrightarrow> b1 \<le> 143)
              \<and> is_cont b2 \<and> is_cont b3
           then ((b0 - 240) * 262144 + (b1 - 128) * 4096 + (b2 - 128) * 64 + (b3 - 128), 4)
      else (runeError, 1))"
| "decode_rune [b0, b1, b2] =
     (if b0 < 128 then (b0, 1)
      else if 194 \<le> b0 \<and> b0 \<le> 223 \<and> is_cont b1 then ((b0 - 192) * 64 + (b1 - 128), 2)
      else if 224 \<le> b0 \<and> b0 \<le> 239 \<and> is_cont b1 \<and> (b0 = 224 \<longrightarrow> 160 \<le> b1) \<and> (b0 = 237 \<longrightarrow> b1 \<le> 159)
              \<and> is_cont b2
           then ((b0 - 224) * 4096 + (b1 - 128) * 64 + (b2 - 128), 3)
      else (runeError, 1))"
| "decode_rune [b0, b1] =
     (if b0 < 128 then (b0, 1)
      else if 194 \<le> b0 \<and> b0 \<le> 223 \<and> is_cont b1 then ((b0 - 192) * 64 + (b1 - 128), 2)
      else (runeError, 1))"
| "decode_rune [b0] = (if b0 < 128 then (b0, 1) else (runeError, 1))"
| "decode_rune [] = (runeError, 0)"

lemma decode_rune_size: "bs \<noteq> [] \<Longrightarrow> 1 \<le> snd (decode_rune bs)"
  by (induction bs rule: decode_rune.induct) auto

lemma decode_rune_ascii: "b < 128 \<Longrightarrow> decode_rune (b # bs) = (b, 1)"
  by (cases "b # bs" rule: decode_rune.cases) auto

lemma decode_rune_nonascii: "128 \<le> b \<Longrightarrow> 128 \<le> fst (decode_rune (b # bs))"
  by (cases "b # bs" rule: decode_rune.cases) (auto simp: is_cont_def runeError_def)

function utf8_chunks :: "string \<Rightarrow> (rune \<times> string) list" where
  "utf8_chunks [] = []"
| "utf8_chunks (c # cs) =
     (let d = decode_rune (map byte (c # cs))
      in (fst d, take (snd d) (c # cs)) # utf8_chunks (drop (snd d - 1) cs))"
  by pat_completeness auto
termination
  by (relation "measure length") auto

declare utf8_chunks.simps(2) [simp del]

definition runes :: "string \<Rightarrow> rune list" where
  "runes s = map fst (utf8_chunks s)"

lemma utf8_chunks_ascii: "byte c < 128 \<Longrightarrow> utf8_chunks (c # cs) = (byte c, [c]) # utf8_chunks cs"
  by (simp add: utf8_chunks.simps(2) decode_rune_ascii)

text \<open>ASCII first, so that evaluation does not read ahead.\<close>

lemma utf8_chunks_code [code]:
  "utf8_chunks [] = []"
  "utf8_chunks (c # cs) =
     (if byte c < 128 then (byte c, [c]) # utf8_chunks cs
      else let d = decode_rune (map byte (c # cs))
           in (fst d, take (snd d) (c # cs)) # utf8_chunks (drop (snd d - 1) cs))"
  by (simp_all add: utf8_chunks.simps(2) decode_rune_ascii)

text \<open>The chunks put together are the string.\<close>

lemma utf8_chunks_concat: "concat (map snd (utf8_chunks s)) = s"
proof (induction s rule: utf8_chunks.induct)
  case (2 c cs)
  let ?d = "decode_rune (map byte (c # cs))"
  have n: "1 \<le> snd ?d" by (rule decode_rune_size) simp
  then have "take (snd ?d) (c # cs) @ drop (snd ?d - 1) cs = c # cs"
    by (cases "snd ?d") auto
  with 2 [OF refl] show ?case
    by (simp add: utf8_chunks.simps(2) Let_def del: take_Cons')
qed simp

lemma runes_Nil [simp]: "runes [] = []"
  by (simp add: runes_def)

lemma runes_ascii: "byte c < 128 \<Longrightarrow> runes (c # cs) = byte c # runes cs"
  by (simp add: runes_def utf8_chunks_ascii)

lemma runes_nonascii: "128 \<le> byte c \<Longrightarrow> \<exists>r rs. runes (c # cs) = r # rs \<and> 128 \<le> r"
  using decode_rune_nonascii [of "byte c" "map byte cs"]
  by (auto simp: runes_def utf8_chunks.simps(2) Let_def)

text \<open>A test that admits ASCII runes only may as well look at the bytes.\<close>

lemma all_runes_ascii:
  assumes "\<And>r. P r \<Longrightarrow> r < 128"
  shows "list_all P (runes s) = list_all (\<lambda>c. P (byte c)) s"
proof (induction s)
  case (Cons c s)
  show ?case
  proof (cases "byte c < 128")
    case True
    with Cons.IH show ?thesis by (simp add: runes_ascii)
  next
    case False
    then obtain r rs where "runes (c # s) = r # rs" and "128 \<le> r"
      using runes_nonascii by (metis not_le)
    moreover have "\<not> P r" and "\<not> P (byte c)"
      using assms \<open>128 \<le> r\<close> False by fastforce+
    ultimately show ?thesis by simp
  qed
qed simp

lemma length_runes_le: "length (runes s) \<le> length s"
proof (induction s rule: utf8_chunks.induct)
  case (2 c cs)
  show ?case
    using 2 [OF refl]
    by (simp add: runes_def utf8_chunks.simps(2) Let_def)
qed simp

section \<open>Encoding\<close>

definition encode_rune :: "rune \<Rightarrow> string" where
  "encode_rune r0 =
     (let r = (if r0 > 1114111 \<or> (55296 \<le> r0 \<and> r0 \<le> 57343) then runeError else r0)
      in map char_of
        (if r < 128 then [r]
         else if r < 2048 then [192 + r div 64, 128 + r mod 64]
         else if r < 65536 then [224 + r div 4096, 128 + r div 64 mod 64, 128 + r mod 64]
         else [240 + r div 262144, 128 + r div 4096 mod 64, 128 + r div 64 mod 64, 128 + r mod 64]))"

definition string_of_runes :: "rune list \<Rightarrow> string" where
  "string_of_runes rs = concat (map encode_rune rs)"

definition valid_rune :: "rune \<Rightarrow> bool" where
  "valid_rune r = (r \<le> 1114111 \<and> \<not> (55296 \<le> r \<and> r \<le> 57343))"

lemma byte_char_of: "b < 256 \<Longrightarrow> byte (char_of b) = b"
  by (simp add: byte_def)

lemma byte_less: "byte c < 256"
  by (simp add: byte_def)

lemma char_of_byte [simp]: "char_of (byte c) = c"
  by (simp add: byte_def)

section \<open>Decimal and hexadecimal printing\<close>

definition digit_char :: "nat \<Rightarrow> char" where
  "digit_char d = char_of (48 + d)"

fun show_nat :: "nat \<Rightarrow> string" where
  "show_nat n = (if n < 10 then [digit_char n] else show_nat (n div 10) @ [digit_char (n mod 10)])"

declare show_nat.simps [simp del]

text \<open>The verb \<open>%d\<close> of \<open>fmt\<close>.\<close>

definition show_int :: "int \<Rightarrow> string" where
  "show_int i = (if i < 0 then ''-'' @ show_nat (nat (- i)) else show_nat (nat i))"

definition read_nat :: "string \<Rightarrow> nat" where
  "read_nat s = foldl (\<lambda>a c. a * 10 + (byte c - 48)) 0 s"

definition is_digit :: "char \<Rightarrow> bool" where
  "is_digit c = (48 \<le> byte c \<and> byte c \<le> 57)"

lemma byte_digit_char: "d < 10 \<Longrightarrow> byte (digit_char d) = 48 + d"
  by (simp add: digit_char_def byte_char_of)

lemma is_digit_digit_char: "d < 10 \<Longrightarrow> is_digit (digit_char d)"
  by (simp add: is_digit_def byte_digit_char)

lemma show_nat_digits: "list_all is_digit (show_nat n)"
proof (induction n rule: show_nat.induct)
  case (1 n)
  show ?case
    by (subst show_nat.simps) (use 1 in \<open>auto simp: is_digit_digit_char\<close>)
qed

lemma show_nat_ne [simp]: "show_nat n \<noteq> []"
  by (subst show_nat.simps) simp

lemma read_show_nat: "read_nat (show_nat n) = n"
proof (induction n rule: show_nat.induct)
  case (1 n)
  show ?case
    by (subst show_nat.simps) (use 1 in \<open>auto simp: read_nat_def byte_digit_char\<close>)
qed

lemma show_nat_inj: "show_nat m = show_nat n \<longleftrightarrow> m = n"
  by (metis read_show_nat)

lemma show_nat_length: "0 < k \<Longrightarrow> n < 10 ^ k \<Longrightarrow> length (show_nat n) \<le> k"
proof (induction k arbitrary: n)
  case (Suc k)
  show ?case
  proof (cases "n < 10")
    case True
    then show ?thesis by (subst show_nat.simps) simp
  next
    case False
    with Suc.prems have k: "0 < k" by (cases k) auto
    have "n div 10 < 10 ^ k" using Suc.prems by (simp add: less_mult_imp_div_less)
    from Suc.IH [OF k this] False show ?thesis by (subst show_nat.simps) simp
  qed
qed simp

lemma show_int_ne [simp]: "show_int i \<noteq> []"
  by (simp add: show_int_def)

lemma minus_not_digit: "\<not> is_digit CHR ''-''"
  by (simp add: is_digit_def byte_def)

lemma show_int_inj: "show_int i = show_int j \<longleftrightarrow> i = j"
proof -
  have no: "show_nat m \<noteq> CHR ''-'' # xs" for m xs
    using show_nat_digits [of m] minus_not_digit by auto
  show ?thesis
    by (auto simp: show_int_def show_nat_inj no no [symmetric])
qed

text \<open>
  \<open>Duration.String\<close>: the largest unit first, fractions without trailing zeros. Below one second
  the unit is ns, \<open>us\<close> (written with the micro sign, two bytes in UTF-8) or ms.
\<close>

definition dur_frac :: "nat \<Rightarrow> nat \<Rightarrow> string" where
  "dur_frac v prec =
     (let ds = show_nat (v mod 10 ^ prec);
          padded = replicate (prec - length ds) CHR ''0'' @ ds;
          cut = rev (dropWhile (\<lambda>c. c = CHR ''0'') (rev padded))
      in if cut = [] then [] else CHR ''.'' # cut)"

definition Duration_String :: "duration \<Rightarrow> string" where
  "Duration_String d =
     (let u = nat \<bar>d\<bar>;
          s = (if u = 0 then ''0s''
               else if u < 1000 then show_nat u @ ''ns''
               else if u < 1000000 then show_nat (u div 1000) @ dur_frac u 3 @ [CHR 0xC2, CHR 0xB5, CHR ''s'']
               else if u < 1000000000 then show_nat (u div 1000000) @ dur_frac u 6 @ ''ms''
               else let secs = u div 1000000000; mins = secs div 60; hours = mins div 60
                    in (if hours > 0 then show_nat hours @ ''h'' else [])
                       @ (if mins > 0 then show_nat (mins mod 60) @ ''m'' else [])
                       @ show_nat (secs mod 60) @ dur_frac u 9 @ ''s'')
      in if d < 0 then CHR ''-'' # s else s)"

definition hex_digit :: "nat \<Rightarrow> char" where
  "hex_digit d = (if d < 10 then char_of (48 + d) else char_of (87 + d))"

text \<open>\<open>hex.EncodeToString\<close>: two lower-case digits for each byte.\<close>

definition hex_encode :: "string \<Rightarrow> string" where
  "hex_encode bs = concat (map (\<lambda>c. [hex_digit (byte c div 16), hex_digit (byte c mod 16)]) bs)"

lemma length_hex_encode [simp]: "length (hex_encode bs) = 2 * length bs"
  by (induction bs) (auto simp: hex_encode_def)

lemma byte_hex_digit: "d < 16 \<Longrightarrow> byte (hex_digit d) = (if d < 10 then 48 + d else 87 + d)"
  by (simp add: hex_digit_def byte_char_of)

section \<open>Spaces, case and searching\<close>

text \<open>\<open>unicode.IsSpace\<close>.\<close>

definition IsSpace :: "rune \<Rightarrow> bool" where
  "IsSpace r = ((9 \<le> r \<and> r \<le> 13) \<or> r = 32 \<or> r = 133 \<or> r = 160 \<or> r = 5760 \<or> (8192 \<le> r \<and> r \<le> 8202)
     \<or> r = 8232 \<or> r = 8233 \<or> r = 8239 \<or> r = 8287 \<or> r = 12288)"

definition TrimSpace :: "string \<Rightarrow> string" where
  "TrimSpace s = concat (map snd (rev (dropWhile (IsSpace \<circ> fst)
     (rev (dropWhile (IsSpace \<circ> fst) (utf8_chunks s))))))"

fun fields_loop :: "(rune \<times> string) list \<Rightarrow> string \<Rightarrow> string list" where
  "fields_loop [] cur = (if cur = [] then [] else [cur])"
| "fields_loop ((r, b) # cs) cur =
     (if IsSpace r then (if cur = [] then fields_loop cs [] else cur # fields_loop cs [])
      else fields_loop cs (cur @ b))"

text \<open>\<open>strings.Fields\<close>.\<close>

definition Fields :: "string \<Rightarrow> string list" where
  "Fields s = fields_loop (utf8_chunks s) []"

definition upper_ascii :: "char \<Rightarrow> char" where
  "upper_ascii c = (if 97 \<le> byte c \<and> byte c \<le> 122 then char_of (byte c - 32) else c)"

definition lower_ascii :: "char \<Rightarrow> char" where
  "lower_ascii c = (if 65 \<le> byte c \<and> byte c \<le> 90 then char_of (byte c + 32) else c)"

text \<open>
  \<open>strings.ToLower\<close>, exact on every rune whose lower case is ASCII (the letters A to Z, the
  Kelvin sign and the dotted capital I). Other runes are left alone: the program only
  searches the result for ASCII text.
\<close>

definition ToLower :: "string \<Rightarrow> string" where
  "ToLower s = concat (map (\<lambda>(r, b). if r = 8490 then ''k'' else if r = 304 then ''i''
     else map lower_ascii b) (utf8_chunks s))"

text \<open>
  \<open>strings.ToUpper\<close>, exact on the runes whose upper case is ASCII (a to z, the dotless i and the
  long s). Other runes are left alone: the program only decodes the result as hexadecimal
  digits, or searches it for ASCII text.
\<close>

definition ToUpper :: "string \<Rightarrow> string" where
  "ToUpper s = concat (map (\<lambda>(r, b). if r = 305 then ''I'' else if r = 383 then ''S''
     else map upper_ascii b) (utf8_chunks s))"

fun HasPrefix :: "string \<Rightarrow> string \<Rightarrow> bool" where
  "HasPrefix s [] = True"
| "HasPrefix [] (p # ps) = False"
| "HasPrefix (c # s) (p # ps) = (c = p \<and> HasPrefix s ps)"

fun Contains :: "string \<Rightarrow> string \<Rightarrow> bool" where
  "Contains [] p = (p = [])"
| "Contains (c # s) p = (HasPrefix (c # s) p \<or> Contains s p)"

lemma HasPrefix_iff: "HasPrefix s p \<longleftrightarrow> (\<exists>r. s = p @ r)"
  by (induction s p rule: HasPrefix.induct) auto

lemma Contains_iff: "Contains s p \<longleftrightarrow> (\<exists>a b. s = a @ p @ b)"
proof (induction s)
  case (Cons c s)
  show ?case
  proof
    assume "Contains (c # s) p"
    then show "\<exists>a b. c # s = a @ p @ b"
      by (metis Contains.simps(2) Cons.IH HasPrefix_iff append_Cons append_Nil)
  next
    assume "\<exists>a b. c # s = a @ p @ b"
    then obtain a b where ab: "c # s = a @ p @ b" by blast
    show "Contains (c # s) p"
    proof (cases a)
      case Nil
      with ab have "HasPrefix (c # s) p" unfolding HasPrefix_iff by auto
      then show ?thesis by simp
    next
      case (Cons d ds)
      with ab Cons.IH show ?thesis by auto
    qed
  qed
qed simp

text \<open>A field list of a text without spaces is the text itself.\<close>

lemma fields_loop_nospace:
  "list_all (\<lambda>(r, b). \<not> IsSpace r) cs \<Longrightarrow>
   fields_loop cs cur = (if cur @ concat (map snd cs) = [] then [] else [cur @ concat (map snd cs)])"
  by (induction cs arbitrary: cur) (auto simp del: concat_eq_Nil_conv)

lemma Fields_nospace:
  assumes "list_all (\<lambda>r. \<not> IsSpace r) (runes s)" and "s \<noteq> []"
  shows "Fields s = [s]"
  using assms
  by (simp add: Fields_def fields_loop_nospace utf8_chunks_concat runes_def list_all_iff split_beta)

section \<open>Splitting and joining\<close>

fun split_on :: "char \<Rightarrow> string \<Rightarrow> string list" where
  "split_on c [] = [[]]"
| "split_on c (x # xs) =
     (if x = c then [] # split_on c xs
      else (case split_on c xs of [] \<Rightarrow> [[x]] | y # ys \<Rightarrow> (x # y) # ys))"

text \<open>\<open>strings.Join\<close>.\<close>

fun join_with :: "string \<Rightarrow> string list \<Rightarrow> string" where
  "join_with sep [] = []"
| "join_with sep [x] = x"
| "join_with sep (x # y # ys) = x @ sep @ join_with sep (y # ys)"

lemma split_on_ne [simp]: "split_on c xs \<noteq> []"
  by (induction xs) (auto split: list.splits)

lemma split_on_plain: "c \<notin> set x \<Longrightarrow> split_on c x = [x]"
  by (induction x) auto

lemma split_on_append: "c \<notin> set x \<Longrightarrow> split_on c (x @ c # ys) = x # split_on c ys"
  by (induction x) (auto split: list.splits)

lemma split_on_sep: "split_on c (xs @ c # ys) = split_on c xs @ split_on c ys"
proof (induction xs)
  case (Cons x xs)
  then show ?case by (cases "split_on c xs") auto
qed simp

lemma split_join:
  "list_all (\<lambda>x. c \<notin> set x) xs \<Longrightarrow> xs \<noteq> [] \<Longrightarrow> split_on c (join_with [c] xs) = xs"
  by (induction "[c]" xs rule: join_with.induct) (auto simp: split_on_plain split_on_append)

lemma split_on_parts: "list_all (\<lambda>x. c \<notin> set x) (split_on c xs)"
proof (induction xs)
  case (Cons x xs)
  then show ?case by (cases "split_on c xs") auto
qed simp

lemma join_with_snoc: "xs \<noteq> [] \<Longrightarrow> join_with sep (xs @ [x]) = join_with sep xs @ sep @ x"
  by (induction sep xs rule: join_with.induct) auto

end
