(* ===== verification/LeaseQueue.thy ===== *)
theory LeaseQueue
  imports GoStrings
begin

text \<open>
  \<open>internal/leasequeue/queue.go\<close>: the coordinator's FIFO queue with leases. Each exported
  method takes the queue's mutex for its whole body, so a method is one atomic step: it takes
  the reading of \<open>q.now()\<close> (and, for \<open>Claim\<close>, the value \<open>q.newLeaseID()\<close> returns) as
  arguments and gives the new queue with the result. An \<^typ>\<open>'a option\<close> around a result is
  a possible panic: \<open>None\<close> is a nil pointer dereference. Tasks are pointers that only the map
  \<open>tasks\<close> holds, so writing through one is updating the map.
\<close>

section \<open>Data\<close>

datatype TaskState = StateQueued | StateLeased | StateCompleted | StateFailed

instantiation TaskState :: enum
begin

definition "enum_class.enum = [StateQueued, StateLeased, StateCompleted, StateFailed]"
definition "enum_class.enum_all P = list_all P [StateQueued, StateLeased, StateCompleted, StateFailed]"
definition "enum_class.enum_ex P = list_ex P [StateQueued, StateLeased, StateCompleted, StateFailed]"

instance
proof
  show UNIV: "(UNIV :: TaskState set) = set enum_class.enum"
    using TaskState.exhaust by (auto simp: enum_TaskState_def)
  show "enum_class.enum_all P = Ball UNIV P" and "enum_class.enum_ex P = Bex UNIV P" for P :: "TaskState \<Rightarrow> bool"
    by (simp_all add: UNIV enum_TaskState_def enum_all_TaskState_def enum_ex_TaskState_def)
qed (simp add: enum_TaskState_def)

end

fun TaskState_str :: "TaskState \<Rightarrow> string" where
  "TaskState_str StateQueued = ''queued''"
| "TaskState_str StateLeased = ''leased''"
| "TaskState_str StateCompleted = ''completed''"
| "TaskState_str StateFailed = ''failed''"

datatype CompletionOutcome = OutcomeCompleted | OutcomeRequeued | OutcomeFailed

datatype lq_error =
    ErrLeaseDuration | ErrMaxAttempts | ErrTaskIDRequired
  | ErrTaskExists | ErrTaskNotFound | ErrInvalidWorker | ErrStaleLease
  | ErrWrongWorker | ErrAlreadyCompleted | ErrTaskFailed

fun lq_error_msg :: "lq_error \<Rightarrow> string" where
  "lq_error_msg ErrLeaseDuration = ''lease duration must be positive''"
| "lq_error_msg ErrMaxAttempts = ''max attempts must be positive''"
| "lq_error_msg ErrTaskIDRequired = ''task ID is required''"
| "lq_error_msg ErrTaskExists = ''task already exists''"
| "lq_error_msg ErrTaskNotFound = ''task not found''"
| "lq_error_msg ErrInvalidWorker = ''worker ID is required''"
| "lq_error_msg ErrStaleLease = ''stale lease''"
| "lq_error_msg ErrWrongWorker = ''lease belongs to another worker''"
| "lq_error_msg ErrAlreadyCompleted = ''task already completed''"
| "lq_error_msg ErrTaskFailed = ''task has permanently failed''"

record Config =
  cfg_LeaseDuration :: duration
  cfg_MaxAttempts :: int

record TaskSpec =
  ts_ID :: string
  ts_JobID :: string
  ts_Key :: string
  ts_Type :: string
  ts_Input :: string

record LResult =
  res_Output :: string
  res_Duration :: duration
  res_Error :: string

record Lease =
  l_ID :: string
  l_TaskID :: string
  l_WorkerID :: string
  l_IssuedAt :: time
  l_ExpiresAt :: time
  l_Attempt :: int

record Task =
  t_ID :: string
  t_JobID :: string
  t_Key :: string
  t_Type :: string
  t_Input :: string
  t_State :: TaskState
  t_Attempts :: int
  t_WorkerID :: string
  t_Lease :: "Lease option"
  t_Result :: "LResult option"

record Assignment =
  a_Task :: TaskSpec
  a_Lease :: Lease

record Stats =
  sts_Queued :: int
  sts_Leased :: int
  sts_Completed :: int
  sts_Failed :: int
  sts_Total :: int

record Queue =
  leaseDuration :: duration
  maxAttempts :: int
  queued :: "string list"
  order :: "string list"
  tasks :: "(string, Task) gomap"

section \<open>Operations\<close>

definition New :: "Config \<Rightarrow> lq_error + Queue" where
  "New config =
     (if cfg_LeaseDuration config \<le> 0 then Inl ErrLeaseDuration
      else if cfg_MaxAttempts config \<le> 0 then Inl ErrMaxAttempts
      else Inr \<lparr>leaseDuration = cfg_LeaseDuration config, maxAttempts = cfg_MaxAttempts config,
                queued = [], order = [], tasks = []\<rparr>)"

definition newTask :: "TaskSpec \<Rightarrow> Task" where
  "newTask spec = \<lparr>t_ID = ts_ID spec, t_JobID = ts_JobID spec, t_Key = ts_Key spec,
     t_Type = ts_Type spec, t_Input = ts_Input spec, t_State = StateQueued, t_Attempts = 0,
     t_WorkerID = [], t_Lease = None, t_Result = None\<rparr>"

definition Enqueue :: "TaskSpec \<Rightarrow> Queue \<Rightarrow> lq_error + Queue" where
  "Enqueue spec q =
     (if ts_ID spec = [] then Inl ErrTaskIDRequired
      else if gm_get (tasks q) (ts_ID spec) \<noteq> None then Inl ErrTaskExists
      else Inr (q\<lparr>tasks := gm_set (ts_ID spec) (newTask spec) (tasks q),
                  queued := queued q @ [ts_ID spec],
                  order := order q @ [ts_ID spec]\<rparr>))"

definition expiredResult :: LResult where
  "expiredResult = \<lparr>res_Output = [], res_Duration = 0,
     res_Error = ''lease expired and retry policy was exhausted''\<rparr>"

definition expireTaskLocked :: "Task \<Rightarrow> Queue \<Rightarrow> Queue" where
  "expireTaskLocked task q =
     (if t_Attempts task \<ge> maxAttempts q
      then q\<lparr>tasks := gm_set (t_ID task)
               (task\<lparr>t_Lease := None, t_State := StateFailed, t_Result := Some expiredResult\<rparr>) (tasks q)\<rparr>
      else q\<lparr>tasks := gm_set (t_ID task)
               (task\<lparr>t_Lease := None, t_State := StateQueued, t_Result := None\<rparr>) (tasks q),
             queued := queued q @ [t_ID task]\<rparr>)"

text \<open>The test of \<open>expireLocked\<close>: leased, and now is not before the expiry.\<close>

definition lease_expired :: "time \<Rightarrow> Task \<Rightarrow> bool" where
  "lease_expired now task =
     (t_State task = StateLeased \<and>
      (case t_Lease task of None \<Rightarrow> False | Some l \<Rightarrow> \<not> now < l_ExpiresAt l))"

fun expire_loop :: "time \<Rightarrow> string list \<Rightarrow> Queue \<Rightarrow> (string list \<times> Queue) option" where
  "expire_loop now [] q = Some ([], q)"
| "expire_loop now (tid # ids) q =
     (case gm_get (tasks q) tid of
        None \<Rightarrow> None
      | Some task \<Rightarrow>
          if lease_expired now task
          then map_option (\<lambda>(xs, q'). (t_ID task # xs, q')) (expire_loop now ids (expireTaskLocked task q))
          else expire_loop now ids q)"

definition expireLocked :: "time \<Rightarrow> Queue \<Rightarrow> (string list \<times> Queue) option" where
  "expireLocked now q = expire_loop now (order q) q"

text \<open>The loop of \<open>Claim\<close> over the front of the queue.\<close>

fun claim_loop :: "string \<Rightarrow> time \<Rightarrow> string \<Rightarrow> string list \<Rightarrow> Queue \<Rightarrow> Queue \<times> Assignment option" where
  "claim_loop workerID now leaseID [] q = (q\<lparr>queued := []\<rparr>, None)"
| "claim_loop workerID now leaseID (taskID # rest) q =
     (case gm_get (tasks q) taskID of
        None \<Rightarrow> claim_loop workerID now leaseID rest q
      | Some task \<Rightarrow>
          if t_State task \<noteq> StateQueued then claim_loop workerID now leaseID rest q
          else
            let lease = \<lparr>l_ID = leaseID, l_TaskID = t_ID task, l_WorkerID = workerID, l_IssuedAt = now,
                         l_ExpiresAt = time_Add now (leaseDuration q), l_Attempt = t_Attempts task + 1\<rparr>;
                task' = task\<lparr>t_Attempts := t_Attempts task + 1, t_State := StateLeased,
                             t_WorkerID := workerID, t_Lease := Some lease\<rparr>
            in (q\<lparr>queued := rest, tasks := gm_set taskID task' (tasks q)\<rparr>,
                Some \<lparr>a_Task = \<lparr>ts_ID = t_ID task, ts_JobID = t_JobID task, ts_Key = t_Key task,
                                ts_Type = t_Type task, ts_Input = t_Input task\<rparr>,
                      a_Lease = lease\<rparr>))"

definition Claim :: "string \<Rightarrow> time \<Rightarrow> string \<Rightarrow> Queue \<Rightarrow> (Queue \<times> (lq_error + Assignment option)) option" where
  "Claim workerID now leaseID q =
     (if workerID = [] then Some (q, Inl ErrInvalidWorker)
      else case expireLocked now q of
             None \<Rightarrow> None
           | Some (_, q1) \<Rightarrow>
               let (q2, a) = claim_loop workerID now leaseID (queued q1) q1 in Some (q2, Inr a))"

definition activeLeaseLocked :: "string \<Rightarrow> string \<Rightarrow> string \<Rightarrow> time \<Rightarrow> Queue \<Rightarrow> Queue \<times> (lq_error + Task)" where
  "activeLeaseLocked taskID leaseID workerID now q =
     (case gm_get (tasks q) taskID of
        None \<Rightarrow> (q, Inl ErrTaskNotFound)
      | Some task \<Rightarrow>
          if t_State task = StateCompleted then (q, Inl ErrAlreadyCompleted)
          else if t_State task = StateFailed then (q, Inl ErrTaskFailed)
          else (case t_Lease task of
                  None \<Rightarrow> (q, Inl ErrStaleLease)
                | Some lease \<Rightarrow>
                    if t_State task \<noteq> StateLeased \<or> l_ID lease \<noteq> leaseID then (q, Inl ErrStaleLease)
                    else if l_WorkerID lease \<noteq> workerID then (q, Inl ErrWrongWorker)
                    else if \<not> now < l_ExpiresAt lease then (expireTaskLocked task q, Inl ErrStaleLease)
                    else (q, Inr task)))"

definition Renew :: "string \<Rightarrow> string \<Rightarrow> string \<Rightarrow> time \<Rightarrow> Queue \<Rightarrow> (Queue \<times> (lq_error + Lease)) option" where
  "Renew taskID leaseID workerID now q =
     (case activeLeaseLocked taskID leaseID workerID now q of
        (q1, Inl e) \<Rightarrow> Some (q1, Inl e)
      | (q1, Inr task) \<Rightarrow>
          (case t_Lease task of
             None \<Rightarrow> None
           | Some lease \<Rightarrow>
               let lease' = lease\<lparr>l_ExpiresAt := time_Add now (leaseDuration q1)\<rparr>
               in Some (q1\<lparr>tasks := gm_set taskID (task\<lparr>t_Lease := Some lease'\<rparr>) (tasks q1)\<rparr>, Inr lease')))"

definition Complete :: "string \<Rightarrow> string \<Rightarrow> string \<Rightarrow> LResult \<Rightarrow> time \<Rightarrow> Queue \<Rightarrow>
    Queue \<times> (lq_error + CompletionOutcome)" where
  "Complete taskID leaseID workerID result now q =
     (case activeLeaseLocked taskID leaseID workerID now q of
        (q1, Inl e) \<Rightarrow> (q1, Inl e)
      | (q1, Inr task) \<Rightarrow>
          if res_Error result = []
          then (q1\<lparr>tasks := gm_set taskID
                  (task\<lparr>t_State := StateCompleted, t_Result := Some result, t_Lease := None\<rparr>) (tasks q1)\<rparr>,
                Inr OutcomeCompleted)
          else if t_Attempts task \<ge> maxAttempts q1
          then (q1\<lparr>tasks := gm_set taskID
                  (task\<lparr>t_Lease := None, t_State := StateFailed, t_Result := Some result\<rparr>) (tasks q1)\<rparr>,
                Inr OutcomeFailed)
          else (q1\<lparr>tasks := gm_set taskID
                  (task\<lparr>t_Lease := None, t_State := StateQueued, t_Result := None\<rparr>) (tasks q1),
                  queued := queued q1 @ [t_ID task]\<rparr>,
                Inr OutcomeRequeued))"

definition RequeueExpired :: "time \<Rightarrow> Queue \<Rightarrow> (Queue \<times> string list) option" where
  "RequeueExpired now q = map_option (\<lambda>(ids, q'). (q', ids)) (expireLocked now q)"

text \<open>
  \<open>cloneTask\<close> copies the task and what its two pointers refer to; values have no identity
  here, so a copy is the value. A nil task panics.
\<close>

definition cloneTask :: "Task option \<Rightarrow> Task option" where
  "cloneTask task = task"

definition Get :: "string \<Rightarrow> time \<Rightarrow> Queue \<Rightarrow> (Queue \<times> Task option) option" where
  "Get taskID now q = map_option (\<lambda>(_, q'). (q', gm_get (tasks q') taskID)) (expireLocked now q)"

fun clone_all :: "(Task \<Rightarrow> bool) \<Rightarrow> string list \<Rightarrow> Queue \<Rightarrow> Task list option" where
  "clone_all P [] q = Some []"
| "clone_all P (tid # ids) q =
     (case cloneTask (gm_get (tasks q) tid) of
        None \<Rightarrow> None
      | Some task \<Rightarrow> map_option (\<lambda>ts. if P task then task # ts else ts) (clone_all P ids q))"

definition JobTasks :: "string \<Rightarrow> time \<Rightarrow> Queue \<Rightarrow> (Queue \<times> Task list) option" where
  "JobTasks jobID now q =
     (case expireLocked now q of
        None \<Rightarrow> None
      | Some (_, q') \<Rightarrow> map_option (Pair q') (clone_all (\<lambda>task. t_JobID task = jobID) (order q') q'))"

definition Snapshot :: "time \<Rightarrow> Queue \<Rightarrow> (Queue \<times> Task list) option" where
  "Snapshot now q =
     (case expireLocked now q of
        None \<Rightarrow> None
      | Some (_, q') \<Rightarrow> map_option (Pair q') (clone_all (\<lambda>_. True) (order q') q'))"

definition Observe :: "Queue \<Rightarrow> Task list option" where
  "Observe q = clone_all (\<lambda>_. True) (order q) q"

fun count_task :: "TaskState \<Rightarrow> Stats \<Rightarrow> Stats" where
  "count_task StateQueued s = s\<lparr>sts_Queued := sts_Queued s + 1\<rparr>"
| "count_task StateLeased s = s\<lparr>sts_Leased := sts_Leased s + 1\<rparr>"
| "count_task StateCompleted s = s\<lparr>sts_Completed := sts_Completed s + 1\<rparr>"
| "count_task StateFailed s = s\<lparr>sts_Failed := sts_Failed s + 1\<rparr>"

definition stats_zero :: "int \<Rightarrow> Stats" where
  "stats_zero n = \<lparr>sts_Queued = 0, sts_Leased = 0, sts_Completed = 0, sts_Failed = 0, sts_Total = n\<rparr>"

definition Queue_Stats :: "time \<Rightarrow> Queue \<Rightarrow> (Queue \<times> Stats) option" where
  "Queue_Stats now q =
     (case expireLocked now q of
        None \<Rightarrow> None
      | Some (_, q') \<Rightarrow>
          Some (q', fold (\<lambda>(_, task). count_task (t_State task)) (tasks q')
                      (stats_zero (int (length (tasks q'))))))"

text \<open>
  The default source of lease IDs: sixteen random bytes in hexadecimal, or, when the system's
  generator fails, the clock and a process-wide counter (a \<open>uint64\<close>, here already
  incremented).
\<close>

definition generateLeaseID :: "string option \<Rightarrow> time \<Rightarrow> nat \<Rightarrow> string" where
  "generateLeaseID random unixNano counter =
     (case random of
        Some b \<Rightarrow> hex_encode b
      | None \<Rightarrow> ''lease-'' @ show_int unixNano @ ''-'' @ show_nat counter)"

section \<open>The methods as labelled steps\<close>

datatype lq_op =
    OpEnqueue TaskSpec
  | OpClaim string string
  | OpRenew string string string
  | OpComplete string string string LResult
  | OpRequeueExpired
  | OpGet string
  | OpJobTasks string
  | OpSnapshot
  | OpObserve
  | OpStats

fun lq_step :: "lq_op \<times> time \<Rightarrow> Queue \<Rightarrow> Queue option" where
  "lq_step (OpEnqueue spec, now) q = Some (case Enqueue spec q of Inl _ \<Rightarrow> q | Inr q' \<Rightarrow> q')"
| "lq_step (OpClaim w leaseID, now) q = map_option fst (Claim w now leaseID q)"
| "lq_step (OpRenew t l w, now) q = map_option fst (Renew t l w now q)"
| "lq_step (OpComplete t l w r, now) q = Some (fst (Complete t l w r now q))"
| "lq_step (OpRequeueExpired, now) q = map_option fst (RequeueExpired now q)"
| "lq_step (OpGet t, now) q = map_option fst (Get t now q)"
| "lq_step (OpJobTasks j, now) q = map_option fst (JobTasks j now q)"
| "lq_step (OpSnapshot, now) q = map_option fst (Snapshot now q)"
| "lq_step (OpObserve, now) q = map_option (\<lambda>_. q) (Observe q)"
| "lq_step (OpStats, now) q = map_option fst (Queue_Stats now q)"

end
