(* ===== verification/LeaseQueueInv.thy ===== *)
theory LeaseQueueInv
  imports LeaseQueue
begin

text \<open>
  The invariant of the lease queue, the closed form of the expiry loop and of \<open>Claim\<close>, and
  the preservation of the invariant by every method.
\<close>

named_theorems queue_defs \<open>definitions of the queue's methods\<close>

section \<open>The invariant\<close>

definition task_wf :: "int \<Rightarrow> Task \<Rightarrow> bool" where
  "task_wf m t =
     (t_ID t \<noteq> [] \<and> 0 \<le> t_Attempts t \<and> t_Attempts t \<le> m \<and> (t_Attempts t = 0 \<longleftrightarrow> t_WorkerID t = []) \<and>
      (case t_State t of
         StateQueued \<Rightarrow> t_Lease t = None \<and> t_Result t = None \<and> t_Attempts t < m
       | StateLeased \<Rightarrow> t_Result t = None \<and> 0 < t_Attempts t \<and>
           (case t_Lease t of None \<Rightarrow> False
            | Some l \<Rightarrow> l_TaskID l = t_ID t \<and> l_WorkerID l = t_WorkerID t \<and> l_Attempt l = t_Attempts t)
       | StateCompleted \<Rightarrow> t_Lease t = None \<and> 0 < t_Attempts t \<and>
           (case t_Result t of None \<Rightarrow> False | Some r \<Rightarrow> res_Error r = [])
       | StateFailed \<Rightarrow> t_Lease t = None \<and> t_Attempts t = m \<and>
           (case t_Result t of None \<Rightarrow> False | Some r \<Rightarrow> res_Error r \<noteq> [])))"

definition state_of :: "Queue \<Rightarrow> string \<Rightarrow> TaskState option" where
  "state_of q tid = map_option t_State (gm_get (tasks q) tid)"

text \<open>
  Every task is stored under its ID and well formed; \<open>order\<close> lists all tasks once, \<open>queued\<close>
  lists exactly the queued ones, once.
\<close>

definition queue_inv :: "Queue \<Rightarrow> bool" where
  "queue_inv q =
     (0 < leaseDuration q \<and> 0 < maxAttempts q \<and> gm_keys (tasks q) = order q \<and> distinct (order q) \<and>
      distinct (queued q) \<and>
      list_all (\<lambda>tid. state_of q tid = Some StateQueued) (queued q) \<and>
      list_all (\<lambda>(tid, t). t_ID t = tid \<and> task_wf (maxAttempts q) t \<and>
        (t_State t = StateQueued \<longrightarrow> tid \<in> set (queued q))) (tasks q))"

lemma queue_inv_wf: "queue_inv q \<Longrightarrow> gm_wf (tasks q)"
  by (simp add: queue_inv_def gm_wf_def)

lemma queue_inv_task:
  assumes "queue_inv q" and "gm_get (tasks q) tid = Some t"
  shows "t_ID t = tid" and "task_wf (maxAttempts q) t"
    and "t_State t = StateQueued \<longleftrightarrow> tid \<in> set (queued q)"
    and "tid \<in> set (order q)"
proof -
  have "(tid, t) \<in> set (tasks q)" using assms(2) by (rule gm_get_in_set)
  then show "t_ID t = tid" and "task_wf (maxAttempts q) t"
    using assms(1) by (auto simp: queue_inv_def list_all_iff)
  show "t_State t = StateQueued \<longleftrightarrow> tid \<in> set (queued q)"
    using assms \<open>(tid, t) \<in> set (tasks q)\<close>
    by (auto simp: queue_inv_def list_all_iff state_of_def)
  show "tid \<in> set (order q)"
    using assms gm_get_Some_keys by (fastforce simp: queue_inv_def)
qed

lemma queue_inv_order: "queue_inv q \<Longrightarrow> tid \<in> set (order q) \<Longrightarrow> \<exists>t. gm_get (tasks q) tid = Some t"
  using gm_keys_get [of tid "tasks q"] by (simp add: queue_inv_def)

lemma queue_inv_queued:
  "queue_inv q \<Longrightarrow> tid \<in> set (queued q) \<Longrightarrow> \<exists>t. gm_get (tasks q) tid = Some t \<and> t_State t = StateQueued"
  by (auto simp: queue_inv_def list_all_iff state_of_def)

text \<open>The invariant read through lookups, as the proofs of the methods establish it.\<close>

lemma queue_invI:
  assumes "0 < leaseDuration q" and "0 < maxAttempts q"
    and "gm_keys (tasks q) = order q" and "distinct (order q)" and "distinct (queued q)"
    and "\<And>tid. tid \<in> set (queued q) \<longleftrightarrow> state_of q tid = Some StateQueued"
    and "\<And>tid t. gm_get (tasks q) tid = Some t \<Longrightarrow> t_ID t = tid \<and> task_wf (maxAttempts q) t"
  shows "queue_inv q"
proof -
  have wf: "gm_wf (tasks q)" using assms(3,4) by (simp add: gm_wf_def)
  then have "t_ID t = tid \<and> task_wf (maxAttempts q) t \<and> (t_State t = StateQueued \<longrightarrow> tid \<in> set (queued q))"
    if "(tid, t) \<in> set (tasks q)" for tid t
    using gm_in_set_get [OF wf that] assms(6,7) by (auto simp: state_of_def)
  with assms show ?thesis by (auto simp: queue_inv_def list_all_iff)
qed

lemma queue_invE:
  assumes "queue_inv q"
  shows "0 < leaseDuration q" and "0 < maxAttempts q" and "gm_keys (tasks q) = order q"
    and "distinct (order q)" and "distinct (queued q)"
    and "tid \<in> set (queued q) \<longleftrightarrow> state_of q tid = Some StateQueued"
proof -
  show "tid \<in> set (queued q) \<longleftrightarrow> state_of q tid = Some StateQueued"
    using assms queue_inv_task(3) [OF assms] queue_inv_queued [OF assms]
    by (auto simp: state_of_def)
qed (use assms in \<open>simp_all add: queue_inv_def\<close>)

text \<open>Overwriting one task, with the queue of waiting tasks adjusted to its new state.\<close>

lemma queue_inv_put:
  assumes inv: "queue_inv q" and old: "gm_get (tasks q) tid = Some t"
    and t': "t_ID t' = tid" "task_wf (maxAttempts q) t'"
    and qs: "distinct qs"
      "set qs = (if t_State t' = StateQueued then insert tid (set (queued q)) else set (queued q) - {tid})"
  shows "queue_inv (q\<lparr>tasks := gm_set tid t' (tasks q), queued := qs\<rparr>)"
proof (rule queue_invI)
  note E = queue_invE [OF inv]
  have "tid \<in> set (gm_keys (tasks q))" using old by (rule gm_get_Some_keys)
  then show "gm_keys (tasks (q\<lparr>tasks := gm_set tid t' (tasks q), queued := qs\<rparr>))
      = order (q\<lparr>tasks := gm_set tid t' (tasks q), queued := qs\<rparr>)"
    using E(3) by (simp add: gm_keys_set_old)
  fix i
  show "i \<in> set (queued (q\<lparr>tasks := gm_set tid t' (tasks q), queued := qs\<rparr>)) \<longleftrightarrow>
      state_of (q\<lparr>tasks := gm_set tid t' (tasks q), queued := qs\<rparr>) i = Some StateQueued"
    using E(6) [of i] qs(2) by (auto simp: state_of_def)
  fix u
  assume "gm_get (tasks (q\<lparr>tasks := gm_set tid t' (tasks q), queued := qs\<rparr>)) i = Some u"
  then show "t_ID u = i \<and>
      task_wf (maxAttempts (q\<lparr>tasks := gm_set tid t' (tasks q), queued := qs\<rparr>)) u"
    using t' queue_inv_task(1,2) [OF inv] by (auto split: if_splits)
qed (use queue_invE [OF inv] qs in simp_all)

lemma New_inv: "New cfg = Inr q \<Longrightarrow> queue_inv q"
  by (auto simp: New_def queue_inv_def split: if_splits)

section \<open>Enqueue\<close>

lemma Enqueue_inv:
  assumes inv: "queue_inv q" and e: "Enqueue spec q = Inr q'"
  shows "queue_inv q'"
proof (rule queue_invI)
  note E = queue_invE [OF inv]
  have ne: "ts_ID spec \<noteq> []" and new: "gm_get (tasks q) (ts_ID spec) = None"
    and q': "q' = q\<lparr>tasks := gm_set (ts_ID spec) (newTask spec) (tasks q),
      queued := queued q @ [ts_ID spec], order := order q @ [ts_ID spec]\<rparr>"
    using e by (auto simp: Enqueue_def split: if_splits)
  have "ts_ID spec \<notin> set (order q)"
    using new E(3) by (simp add: gm_get_None_iff)
  moreover have "ts_ID spec \<notin> set (queued q)"
    using new E(6) [of "ts_ID spec"] by (simp add: state_of_def)
  ultimately show "gm_keys (tasks q') = order q'" and "distinct (order q')" and "distinct (queued q')"
    using E by (auto simp: q' gm_keys_set_new)
  show "tid \<in> set (queued q') \<longleftrightarrow> state_of q' tid = Some StateQueued" for tid
    using E(6) [of tid] by (auto simp: q' state_of_def newTask_def)
  show "t_ID t = tid \<and> task_wf (maxAttempts q') t" if "gm_get (tasks q') tid = Some t" for tid t
    using that queue_inv_task(1,2) [OF inv] ne E(2)
    by (auto simp: q' newTask_def task_wf_def split: if_splits)
qed (use e queue_invE [OF inv] in \<open>auto simp: Enqueue_def split: if_splits\<close>)

section \<open>Expiry in closed form\<close>

text \<open>What expiry does to one task, and which tasks it touches.\<close>

definition expire_task :: "int \<Rightarrow> time \<Rightarrow> Task \<Rightarrow> Task" where
  "expire_task m now t =
     (if \<not> lease_expired now t then t
      else if t_Attempts t \<ge> m
      then t\<lparr>t_Lease := None, t_State := StateFailed, t_Result := Some expiredResult\<rparr>
      else t\<lparr>t_Lease := None, t_State := StateQueued, t_Result := None\<rparr>)"

definition expires :: "time \<Rightarrow> Queue \<Rightarrow> string \<Rightarrow> bool" where
  "expires now q tid = (case gm_get (tasks q) tid of None \<Rightarrow> False | Some t \<Rightarrow> lease_expired now t)"

definition requeues :: "time \<Rightarrow> Queue \<Rightarrow> string \<Rightarrow> bool" where
  "requeues now q tid = (case gm_get (tasks q) tid of None \<Rightarrow> False
     | Some t \<Rightarrow> lease_expired now t \<and> t_Attempts t < maxAttempts q)"

definition expire_map :: "string list \<Rightarrow> int \<Rightarrow> time \<Rightarrow> (string, Task) gomap \<Rightarrow> (string, Task) gomap" where
  "expire_map ids m now ts = map (\<lambda>(i, t). (i, if i \<in> set ids then expire_task m now t else t)) ts"

definition expired_queue :: "time \<Rightarrow> Queue \<Rightarrow> Queue" where
  "expired_queue now q =
     q\<lparr>tasks := map (\<lambda>(i, t). (i, expire_task (maxAttempts q) now t)) (tasks q),
       queued := queued q @ filter (requeues now q) (order q)\<rparr>"

lemma gm_get_map: "gm_get (map (\<lambda>(i, t). (i, f i t)) m) k = map_option (f k) (gm_get m k)"
  by (induction m) (auto simp: gm_get_Cons)

lemma gm_set_as_map:
  "gm_wf m \<Longrightarrow> gm_get m k = Some u \<Longrightarrow> gm_set k v m = map (\<lambda>(i, t). (i, if i = k then v else t)) m"
proof (induction m)
  case (Cons p m)
  obtain i t where p: "p = (i, t)" by (cases p)
  show ?case
  proof (cases "i = k")
    case True
    with Cons.prems(1) p have "\<forall>(j, t) \<in> set m. j \<noteq> k"
      by (auto simp: gm_wf_def gm_keys_def image_iff)
    then have "map (\<lambda>(i, t). (i, if i = k then v else t)) m = m"
      by (intro map_idI) auto
    with True p show ?thesis by (simp add: gm_set_def)
  next
    case False
    with Cons p show ?thesis by (auto simp: gm_wf_def gm_keys_def gm_get_Cons gm_set_def)
  qed
qed simp

lemma expire_map_Cons:
  assumes "gm_wf ts" and "gm_get ts tid = Some t" and "tid \<notin> set ids"
  shows "expire_map (tid # ids) m now ts = expire_map ids m now (gm_set tid (expire_task m now t) ts)"
proof -
  have t: "u = t" if "(tid, u) \<in> set ts" for u
    using gm_in_set_get [OF assms(1) that] assms(2) by simp
  show ?thesis
    using assms(3) t by (auto simp: expire_map_def gm_set_as_map [OF assms(1,2)])
qed

lemma expire_map_skip:
  assumes "gm_wf ts" and "gm_get ts tid = Some t" and "expire_task m now t = t"
  shows "expire_map (tid # ids) m now ts = expire_map ids m now ts"
proof -
  have t: "u = t" if "(tid, u) \<in> set ts" for u
    using gm_in_set_get [OF assms(1) that] assms(2) by simp
  show ?thesis using assms(3) t by (auto simp: expire_map_def)
qed

lemma expire_map_Nil: "expire_map [] m now ts = ts"
  unfolding expire_map_def by (rule map_idI) auto

lemma expireTaskLocked_eq:
  "lease_expired now t \<Longrightarrow> t_ID t = tid \<Longrightarrow> expireTaskLocked t q =
     q\<lparr>tasks := gm_set tid (expire_task (maxAttempts q) now t) (tasks q),
       queued := queued q @ (if t_Attempts t < maxAttempts q then [tid] else [])\<rparr>"
  by (simp add: expireTaskLocked_def expire_task_def)

lemma expire_loop_eq:
  "gm_wf (tasks q) \<Longrightarrow> distinct ids \<Longrightarrow> set ids \<subseteq> set (gm_keys (tasks q)) \<Longrightarrow>
   (\<And>i t. gm_get (tasks q) i = Some t \<Longrightarrow> t_ID t = i) \<Longrightarrow>
   expire_loop now ids q = Some (filter (expires now q) ids,
     q\<lparr>tasks := expire_map ids (maxAttempts q) now (tasks q),
       queued := queued q @ filter (requeues now q) ids\<rparr>)"
proof (induction ids arbitrary: q)
  case Nil
  then show ?case by (simp add: expire_map_Nil)
next
  case (Cons tid ids)
  obtain t where t: "gm_get (tasks q) tid = Some t" using Cons.prems(3) gm_keys_get by fastforce
  then have id: "t_ID t = tid" by (rule Cons.prems(4))
  show ?case
  proof (cases "lease_expired now t")
    case False
    then have "expire_task (maxAttempts q) now t = t" by (simp add: expire_task_def)
    with Cons t False show ?thesis
      by (simp add: expires_def requeues_def expire_map_skip [OF Cons.prems(1) t])
  next
    case True
    let ?q = "expireTaskLocked t q"
    note q = expireTaskLocked_eq [OF True id, of q]
    have other: "expires now ?q i = expires now q i" "requeues now ?q i = requeues now q i"
      if "i \<in> set ids" for i
      using that Cons.prems(2) by (cases "i = tid", simp, cases "gm_get (tasks q) i",
          simp_all add: q expires_def requeues_def)+
    have same: "filter (expires now ?q) ids = filter (expires now q) ids"
      "filter (requeues now ?q) ids = filter (requeues now q) ids"
      using other by (simp_all cong: filter_cong)
    have keys: "gm_keys (tasks ?q) = gm_keys (tasks q)"
      using gm_get_Some_keys [OF t] by (simp add: q gm_keys_set_old)
    have ids: "t_ID u = i" if "gm_get (tasks ?q) i = Some u" for i u
      using that Cons.prems(4) id by (auto simp: q expire_task_def split: if_splits)
    have "expire_loop now ids ?q = Some (filter (expires now q) ids,
      ?q\<lparr>tasks := expire_map ids (maxAttempts ?q) now (tasks ?q),
         queued := queued ?q @ filter (requeues now q) ids\<rparr>)"
      using Cons.IH [of ?q] Cons.prems ids keys same by (simp add: gm_wf_def)
    moreover have "expires now q tid" and "requeues now q tid = (t_Attempts t < maxAttempts q)"
      using t True by (simp_all add: expires_def requeues_def)
    ultimately show ?thesis
      using True t id Cons.prems(1,2) by (simp add: q expire_map_Cons)
  qed
qed

text \<open>The loop of \<open>expireLocked\<close> computes the closed form; in particular it never panics.\<close>

lemma expireLocked_eq:
  assumes "queue_inv q"
  shows "expireLocked now q = Some (filter (expires now q) (order q), expired_queue now q)"
proof -
  note E = queue_invE [OF assms]
  have keys: "fst ` set (tasks q) \<subseteq> set (order q)"
    using E(3) by (simp add: gm_keys_def flip: E(3))
  have "expire_map (order q) (maxAttempts q) now (tasks q)
      = map (\<lambda>(i, t). (i, expire_task (maxAttempts q) now t)) (tasks q)"
    unfolding expire_map_def using keys by (intro map_cong) auto
  then show ?thesis
    using expire_loop_eq [of q "order q" now] queue_inv_wf [OF assms] E queue_inv_task(1) [OF assms]
    by (simp add: expireLocked_def expired_queue_def)
qed

lemma gm_get_expired [simp]:
  "gm_get (tasks (expired_queue now q)) tid = map_option (expire_task (maxAttempts q) now) (gm_get (tasks q) tid)"
  by (simp add: expired_queue_def gm_get_map [of "\<lambda>i. expire_task (maxAttempts q) now"])

lemma expired_queue_sel [simp]:
  "leaseDuration (expired_queue now q) = leaseDuration q"
  "maxAttempts (expired_queue now q) = maxAttempts q"
  "order (expired_queue now q) = order q"
  "queued (expired_queue now q) = queued q @ filter (requeues now q) (order q)"
  by (simp_all add: expired_queue_def)

lemma expire_task_ID [simp]: "t_ID (expire_task m now t) = t_ID t"
  by (simp add: expire_task_def)

lemma expire_task_wf: "task_wf m t \<Longrightarrow> task_wf m (expire_task m now t)"
  by (auto simp: expire_task_def task_wf_def lease_expired_def expiredResult_def
      split: option.splits TaskState.splits)

lemma expire_task_queued:
  "t_State (expire_task m now t) = StateQueued \<longleftrightarrow>
     t_State t = StateQueued \<or> (lease_expired now t \<and> t_Attempts t < m)"
  by (auto simp: expire_task_def lease_expired_def)

lemma expired_queue_inv:
  assumes inv: "queue_inv q"
  shows "queue_inv (expired_queue now q)"
proof (rule queue_invI)
  note E = queue_invE [OF inv]
  show "gm_keys (tasks (expired_queue now q)) = order (expired_queue now q)"
    using E(3) by (simp add: expired_queue_def gm_keys_def comp_def split_beta)
  have disj: "\<not> requeues now q tid" if "tid \<in> set (queued q)" for tid
    using queue_inv_queued [OF inv that] by (auto simp: requeues_def lease_expired_def)
  show "distinct (queued (expired_queue now q))"
    using E disj by auto
  fix tid
  show "tid \<in> set (queued (expired_queue now q)) \<longleftrightarrow> state_of (expired_queue now q) tid = Some StateQueued"
  proof (cases "gm_get (tasks q) tid")
    case None
    then show ?thesis
      using E(6) [of tid] by (simp add: state_of_def requeues_def)
  next
    case (Some t)
    then show ?thesis
      using E(6) [of tid] queue_inv_task(4) [OF inv Some]
      by (auto simp: state_of_def requeues_def expire_task_queued)
  qed
  show "t_ID t = tid \<and> task_wf (maxAttempts (expired_queue now q)) t"
    if "gm_get (tasks (expired_queue now q)) tid = Some t" for t
    using that queue_inv_task(1,2) [OF inv] by (auto intro: expire_task_wf)
qed (use queue_invE [OF inv] in simp_all)

section \<open>Claim in closed form\<close>

definition new_lease :: "string \<Rightarrow> time \<Rightarrow> string \<Rightarrow> duration \<Rightarrow> Task \<Rightarrow> Lease" where
  "new_lease w now leaseID d t = \<lparr>l_ID = leaseID, l_TaskID = t_ID t, l_WorkerID = w, l_IssuedAt = now,
     l_ExpiresAt = time_Add now d, l_Attempt = t_Attempts t + 1\<rparr>"

definition claimed_task :: "string \<Rightarrow> time \<Rightarrow> string \<Rightarrow> duration \<Rightarrow> Task \<Rightarrow> Task" where
  "claimed_task w now leaseID d t = t\<lparr>t_Attempts := t_Attempts t + 1, t_State := StateLeased,
     t_WorkerID := w, t_Lease := Some (new_lease w now leaseID d t)\<rparr>"

definition spec_of :: "Task \<Rightarrow> TaskSpec" where
  "spec_of t = \<lparr>ts_ID = t_ID t, ts_JobID = t_JobID t, ts_Key = t_Key t, ts_Type = t_Type t, ts_Input = t_Input t\<rparr>"

definition claim_head :: "string \<Rightarrow> time \<Rightarrow> string \<Rightarrow> string \<Rightarrow> string list \<Rightarrow> Task \<Rightarrow> Queue \<Rightarrow> Queue" where
  "claim_head w now leaseID tid rest t q =
     q\<lparr>tasks := gm_set tid (claimed_task w now leaseID (leaseDuration q) t) (tasks q), queued := rest\<rparr>"

lemma claim_loop_head:
  assumes "queue_inv q" and "queued q = tid # rest" and "gm_get (tasks q) tid = Some t"
  shows "claim_loop w now leaseID (queued q) q = (claim_head w now leaseID tid rest t q,
     Some \<lparr>a_Task = spec_of t, a_Lease = new_lease w now leaseID (leaseDuration q) t\<rparr>)"
proof -
  have "t_State t = StateQueued" using queue_inv_task(3) [OF assms(1,3)] assms(2) by simp
  with assms show ?thesis
    by (simp add: Let_def claim_head_def claimed_task_def new_lease_def spec_of_def)
qed

text \<open>
  \<open>Claim\<close> after expiry either finds the queue empty or leases its head: no entry is ever
  skipped.
\<close>

lemma Claim_cases:
  assumes inv: "queue_inv q" and w: "w \<noteq> []"
  shows "queued (expired_queue now q) = [] \<and> Claim w now leaseID q = Some (expired_queue now q, Inr None) \<or>
    (\<exists>tid rest t. queued (expired_queue now q) = tid # rest \<and>
       gm_get (tasks (expired_queue now q)) tid = Some t \<and> t_State t = StateQueued \<and>
       Claim w now leaseID q = Some (claim_head w now leaseID tid rest t (expired_queue now q),
         Inr (Some \<lparr>a_Task = spec_of t, a_Lease = new_lease w now leaseID (leaseDuration q) t\<rparr>)))"
proof (cases "queued (expired_queue now q)")
  case Nil
  have "Claim w now leaseID q = Some (expired_queue now q, Inr None)"
    using w Nil by (simp add: Claim_def expireLocked_eq [OF inv] expired_queue_def)
  with Nil show ?thesis by blast
next
  case (Cons tid rest)
  note qi = expired_queue_inv [OF inv, of now]
  have "tid \<in> set (queued (expired_queue now q))" using Cons by simp
  then obtain t where t: "gm_get (tasks (expired_queue now q)) tid = Some t" "t_State t = StateQueued"
    using queue_inv_queued [OF qi] by blast
  have "Claim w now leaseID q = Some (claim_head w now leaseID tid rest t (expired_queue now q),
      Inr (Some \<lparr>a_Task = spec_of t, a_Lease = new_lease w now leaseID (leaseDuration q) t\<rparr>))"
    using w claim_loop_head [OF qi Cons t(1), of w now leaseID]
    by (simp add: Claim_def expireLocked_eq [OF inv])
  with Cons t show ?thesis by blast
qed

lemma claimed_task_wf:
  "task_wf m t \<Longrightarrow> t_State t = StateQueued \<Longrightarrow> w \<noteq> [] \<Longrightarrow> task_wf m (claimed_task w now leaseID d t)"
  by (auto simp: task_wf_def claimed_task_def new_lease_def)

lemma claim_head_inv:
  assumes inv: "queue_inv q" and q: "queued q = tid # rest" and t: "gm_get (tasks q) tid = Some t"
    and w: "w \<noteq> []"
  shows "queue_inv (claim_head w now leaseID tid rest t q)"
proof -
  have "t_State t = StateQueued" using queue_inv_task(3) [OF inv t] q by simp
  then show ?thesis
    unfolding claim_head_def
    using queue_inv_put [OF inv t, of "claimed_task w now leaseID (leaseDuration q) t" rest]
      queue_inv_task(1,2) [OF inv t] queue_invE(5) [OF inv] q w
    by (auto simp: claimed_task_wf) (auto simp: claimed_task_def)
qed

section \<open>Renew and Complete\<close>

text \<open>The lease of a task that a request with these identifiers may act on.\<close>

definition holds_lease :: "string \<Rightarrow> string \<Rightarrow> time \<Rightarrow> Task \<Rightarrow> Lease \<Rightarrow> bool" where
  "holds_lease leaseID w now t l =
     (t_State t = StateLeased \<and> t_Lease t = Some l \<and> l_ID l = leaseID \<and> l_WorkerID l = w \<and> now < l_ExpiresAt l)"

lemma activeLease_cases:
  assumes "activeLeaseLocked tid leaseID w now q = (q1, r)"
  shows "(\<exists>t l. r = Inr t \<and> q1 = q \<and> gm_get (tasks q) tid = Some t \<and> holds_lease leaseID w now t l) \<or>
    (\<exists>e. r = Inl e \<and> q1 = q) \<or>
    (\<exists>t. r = Inl ErrStaleLease \<and> gm_get (tasks q) tid = Some t \<and> lease_expired now t \<and> q1 = expireTaskLocked t q)"
  using assms
  by (auto simp: activeLeaseLocked_def holds_lease_def lease_expired_def split: option.splits if_splits)

lemma expireTask_inv:
  assumes inv: "queue_inv q" and t: "gm_get (tasks q) tid = Some t" and e: "lease_expired now t"
  shows "queue_inv (expireTaskLocked t q)"
proof -
  note T = queue_inv_task [OF inv t]
  have "tid \<notin> set (queued q)" using T(3) e by (auto simp: lease_expired_def)
  then show ?thesis
    unfolding expireTaskLocked_eq [OF e T(1), of q]
    using queue_invE(5) [OF inv] T(1,2) e expire_task_wf [OF T(2), of now]
    by (intro queue_inv_put [OF inv t]) (auto simp: expire_task_def)
qed

lemma renewed_wf: "task_wf m t \<Longrightarrow> holds_lease i w now t l \<Longrightarrow> task_wf m (t\<lparr>t_Lease := Some (l\<lparr>l_ExpiresAt := e\<rparr>)\<rparr>)"
  by (auto simp: task_wf_def holds_lease_def)

lemma Renew_safe:
  assumes inv: "queue_inv q"
  shows "\<exists>q' r. Renew tid leaseID w now q = Some (q', r) \<and> queue_inv q'"
proof -
  obtain q1 r where a: "activeLeaseLocked tid leaseID w now q = (q1, r)" by (meson surj_pair)
  from activeLease_cases [OF a] show ?thesis
  proof (elim disjE exE conjE)
    fix t l
    assume r: "r = Inr t" and q1: "q1 = q" and t: "gm_get (tasks q) tid = Some t"
      and l: "holds_lease leaseID w now t l"
    let ?t = "t\<lparr>t_Lease := Some (l\<lparr>l_ExpiresAt := time_Add now (leaseDuration q)\<rparr>)\<rparr>"
    have "queue_inv (q\<lparr>tasks := gm_set tid ?t (tasks q), queued := queued q\<rparr>)"
      using queue_inv_task [OF inv t] l renewed_wf [OF _ l] queue_invE(5) [OF inv]
      by (intro queue_inv_put [OF inv t]) (auto simp: holds_lease_def)
    then show ?thesis
      using a r q1 l by (simp add: Renew_def Let_def holds_lease_def)
  next
    fix e
    assume "r = Inl e" and "q1 = q"
    with a inv show ?thesis by (simp add: Renew_def)
  next
    fix t
    assume "r = Inl ErrStaleLease" and "gm_get (tasks q) tid = Some t" and "lease_expired now t"
      and "q1 = expireTaskLocked t q"
    with a expireTask_inv [OF inv] show ?thesis by (simp add: Renew_def)
  qed
qed

text \<open>What accepting a result makes of the task.\<close>

definition completed_task :: "int \<Rightarrow> LResult \<Rightarrow> Task \<Rightarrow> Task" where
  "completed_task m r t =
     (if res_Error r = [] then t\<lparr>t_State := StateCompleted, t_Result := Some r, t_Lease := None\<rparr>
      else if t_Attempts t \<ge> m then t\<lparr>t_Lease := None, t_State := StateFailed, t_Result := Some r\<rparr>
      else t\<lparr>t_Lease := None, t_State := StateQueued, t_Result := None\<rparr>)"

definition outcome_of :: "int \<Rightarrow> LResult \<Rightarrow> Task \<Rightarrow> CompletionOutcome" where
  "outcome_of m r t =
     (if res_Error r = [] then OutcomeCompleted
      else if t_Attempts t \<ge> m then OutcomeFailed else OutcomeRequeued)"

lemma Complete_ok:
  assumes inv: "queue_inv q" and t: "gm_get (tasks q) tid = Some t" and l: "holds_lease leaseID w now t l"
  shows "Complete tid leaseID w r now q =
    (q\<lparr>tasks := gm_set tid (completed_task (maxAttempts q) r t) (tasks q),
       queued := queued q @ (if outcome_of (maxAttempts q) r t = OutcomeRequeued then [tid] else [])\<rparr>,
     Inr (outcome_of (maxAttempts q) r t))"
proof -
  have a: "activeLeaseLocked tid leaseID w now q = (q, Inr t)"
    using t l by (simp add: activeLeaseLocked_def holds_lease_def)
  have "t_ID t = tid" using queue_inv_task(1) [OF inv t] .
  with a show ?thesis by (simp add: Complete_def completed_task_def outcome_of_def)
qed

lemma completed_wf: "task_wf m t \<Longrightarrow> holds_lease i w now t l \<Longrightarrow> task_wf m (completed_task m r t)"
  by (auto simp: task_wf_def holds_lease_def completed_task_def)

lemma Complete_inv:
  assumes inv: "queue_inv q"
  shows "queue_inv (fst (Complete tid leaseID w r now q))"
proof -
  obtain q1 x where a: "activeLeaseLocked tid leaseID w now q = (q1, x)" by (meson surj_pair)
  from activeLease_cases [OF a] show ?thesis
  proof (elim disjE exE conjE)
    fix t l
    assume t: "gm_get (tasks q) tid = Some t" and l: "holds_lease leaseID w now t l"
    note T = queue_inv_task [OF inv t]
    have "tid \<notin> set (queued q)" using T(3) l by (simp add: holds_lease_def)
    then show ?thesis
      unfolding Complete_ok [OF inv t l] fst_conv
      using T completed_wf [OF T(2) l] queue_invE(5) [OF inv]
      by (intro queue_inv_put [OF inv t]) (auto simp: completed_task_def outcome_of_def)
  next
    fix e
    assume "x = Inl e" and "q1 = q"
    with a inv show ?thesis by (simp add: Complete_def)
  next
    fix t
    assume "x = Inl ErrStaleLease" and "gm_get (tasks q) tid = Some t" and "lease_expired now t"
      and "q1 = expireTaskLocked t q"
    with a expireTask_inv [OF inv] show ?thesis by (simp add: Complete_def)
  qed
qed

section \<open>The reading methods\<close>

definition task_list :: "Queue \<Rightarrow> Task list" where
  "task_list q = map snd (tasks q)"

lemma clone_all_eq:
  "\<forall>i \<in> set ids. \<exists>t. gm_get (tasks q) i = Some t \<Longrightarrow>
   clone_all P ids q = Some (filter P (map (\<lambda>i. the (gm_get (tasks q) i)) ids))"
  by (induction ids) (auto simp: cloneTask_def)

lemma clone_all_order:
  assumes inv: "queue_inv q"
  shows "clone_all P (order q) q = Some (filter P (task_list q))"
proof -
  have "map (\<lambda>i. the (gm_get (tasks q) i)) (gm_keys (tasks q)) = task_list q"
    using gm_in_set_get [OF queue_inv_wf [OF inv]] by (auto simp: gm_keys_def task_list_def)
  moreover have "clone_all P (order q) q = Some (filter P (map (\<lambda>i. the (gm_get (tasks q) i)) (order q)))"
    using queue_inv_order [OF inv] by (intro clone_all_eq) blast
  ultimately show ?thesis by (simp add: queue_invE(3) [OF inv])
qed

lemma reading_eqs:
  assumes "queue_inv q"
  shows "RequeueExpired now q = Some (expired_queue now q, filter (expires now q) (order q))"
    and "Get tid now q = Some (expired_queue now q, gm_get (tasks (expired_queue now q)) tid)"
    and "JobTasks j now q = Some (expired_queue now q, filter (\<lambda>t. t_JobID t = j) (task_list (expired_queue now q)))"
    and "Snapshot now q = Some (expired_queue now q, task_list (expired_queue now q))"
    and "Observe q = Some (task_list q)"
  using expireLocked_eq [OF assms] clone_all_order [OF assms] clone_all_order [OF expired_queue_inv [OF assms]]
  by (simp_all add: RequeueExpired_def Get_def JobTasks_def Snapshot_def Observe_def filter_True)

lemma Claim_safe:
  assumes inv: "queue_inv q"
  shows "\<exists>q' r. Claim w now leaseID q = Some (q', r) \<and> queue_inv q'"
proof (cases "w = []")
  case True
  with inv show ?thesis by (simp add: Claim_def)
next
  case False
  note qi = expired_queue_inv [OF inv, of now]
  from Claim_cases [OF inv False, of now leaseID] qi claim_head_inv [OF qi _ _ False]
  show ?thesis by blast
qed

text \<open>Every method is safe: it does not panic and keeps the invariant.\<close>

lemma lq_step_safe:
  assumes inv: "queue_inv q"
  shows "\<exists>q'. lq_step l q = Some q' \<and> queue_inv q'"
proof -
  note qi = expired_queue_inv [OF inv]
  obtain opn now where l: "l = (opn, now)" by (cases l)
  show ?thesis
  proof (cases opn)
    case (OpEnqueue spec)
    then show ?thesis using l inv by (auto simp: Enqueue_inv split: sum.splits)
  next
    case (OpClaim w i)
    then show ?thesis using l Claim_safe [OF inv, of w now i] by auto
  next
    case (OpRenew t i w)
    then show ?thesis using l Renew_safe [OF inv, of t i w now] by auto
  next
    case (OpComplete t i w r)
    then show ?thesis using l Complete_inv [OF inv] by simp
  next
    case OpStats
    then show ?thesis using l qi by (simp add: Queue_Stats_def expireLocked_eq [OF inv])
  qed (use l inv qi in \<open>simp_all add: reading_eqs [OF inv]\<close>)
qed

text \<open>The lease queue is a machine with an invariant: runs of its methods inherit it.\<close>

interpretation lq: invariant_machine lq_step queue_inv
  by unfold_locales (rule lq_step_safe)

end
