(* ===== verification/LeaseQueueSpec.thy ===== *)
theory LeaseQueueSpec
  imports LeaseQueueInv
begin

text \<open>
  What the lease queue promises. The abstract specification is the task lifecycle of SPEC.md
  as a transition relation on phases; every method refines it for every task, so runs of the
  queue do. On top of it: order of service, exclusiveness of leases, rejection of stale
  results, and the bound on the number of executions.
\<close>

section \<open>The task lifecycle\<close>

datatype phase = PQueued int | PLeased int | PDone "LResult option" | PFailed "LResult option"

text \<open>The number is the attempts made so far; \<open>m\<close> is the retry policy.\<close>

inductive life :: "int \<Rightarrow> phase \<Rightarrow> phase \<Rightarrow> bool" for m where
  claimed: "n < m \<Longrightarrow> life m (PQueued n) (PLeased (n + 1))"
| requeued: "n < m \<Longrightarrow> life m (PLeased n) (PQueued n)"
| completed: "res_Error r = [] \<Longrightarrow> life m (PLeased n) (PDone (Some r))"
| exhausted: "n = m \<Longrightarrow> res_Error r \<noteq> [] \<Longrightarrow> life m (PLeased n) (PFailed (Some r))"

inductive_cases life_DoneE: "life m (PDone r) p"
inductive_cases life_FailedE: "life m (PFailed r) p"
inductive_simps life_Done [simp]: "life m (PDone r) p"
inductive_simps life_Failed [simp]: "life m (PFailed r) p"

definition phase_of :: "Task \<Rightarrow> phase" where
  "phase_of t = (case t_State t of
       StateQueued \<Rightarrow> PQueued (t_Attempts t)
     | StateLeased \<Rightarrow> PLeased (t_Attempts t)
     | StateCompleted \<Rightarrow> PDone (t_Result t)
     | StateFailed \<Rightarrow> PFailed (t_Result t))"

definition same_payload :: "Task \<Rightarrow> Task \<Rightarrow> bool" where
  "same_payload t t' = (spec_of t = spec_of t')"

text \<open>How a task may have changed: same payload, attempts only grow, phases along the lifecycle.\<close>

definition task_le :: "int \<Rightarrow> Task \<Rightarrow> Task \<Rightarrow> bool" where
  "task_le m t t' = (same_payload t t' \<and> t_Attempts t \<le> t_Attempts t' \<and> (life m)\<^sup>*\<^sup>* (phase_of t) (phase_of t'))"

lemma task_le_refl [simp]: "task_le m t t"
  by (simp add: task_le_def same_payload_def)

lemma task_le_trans: "task_le m t u \<Longrightarrow> task_le m u v \<Longrightarrow> task_le m t v"
  by (auto simp: task_le_def same_payload_def)

lemma task_le_expire: "task_wf m t \<Longrightarrow> task_le m t (expire_task m now t)"
  by (auto simp: task_le_def same_payload_def spec_of_def expire_task_def phase_of_def lease_expired_def
      task_wf_def expiredResult_def intro!: r_into_rtranclp life.intros)

lemma task_le_claim: "task_wf m t \<Longrightarrow> t_State t = StateQueued \<Longrightarrow> task_le m t (claimed_task w now i d t)"
  by (auto simp: task_le_def same_payload_def spec_of_def claimed_task_def phase_of_def
      task_wf_def intro!: r_into_rtranclp life.intros)

lemma task_le_lease: "task_le m t (t\<lparr>t_Lease := l\<rparr>)"
  by (cases "t_State t") (simp_all add: task_le_def same_payload_def spec_of_def phase_of_def)

lemma task_le_complete: "task_wf m t \<Longrightarrow> holds_lease i w now t l \<Longrightarrow> task_le m t (completed_task m r t)"
  by (auto simp: task_le_def same_payload_def spec_of_def completed_task_def phase_of_def
      task_wf_def holds_lease_def intro!: r_into_rtranclp life.intros)

definition queue_le :: "Queue \<Rightarrow> Queue \<Rightarrow> bool" where
  "queue_le q q' = (maxAttempts q' = maxAttempts q \<and> leaseDuration q' = leaseDuration q \<and>
     (\<exists>xs. order q' = order q @ xs) \<and>
     (\<forall>tid t. gm_get (tasks q) tid = Some t \<longrightarrow>
        (\<exists>t'. gm_get (tasks q') tid = Some t' \<and> task_le (maxAttempts q) t t')))"

lemma queue_le_refl [simp]: "queue_le q q"
  by (simp add: queue_le_def)

lemma queue_le_trans:
  assumes "queue_le q r" and "queue_le r s"
  shows "queue_le q s"
proof -
  have m: "maxAttempts r = maxAttempts q" using assms(1) by (simp add: queue_le_def)
  have "\<exists>t''. gm_get (tasks s) tid = Some t'' \<and> task_le (maxAttempts q) t t''"
    if t: "gm_get (tasks q) tid = Some t" for tid t
  proof -
    obtain t' where t': "gm_get (tasks r) tid = Some t'" "task_le (maxAttempts q) t t'"
      using assms(1) t by (auto simp: queue_le_def)
    obtain t'' where "gm_get (tasks s) tid = Some t''" "task_le (maxAttempts r) t' t''"
      using assms(2) t'(1) by (auto simp: queue_le_def)
    with t'(2) m show ?thesis by (auto intro: task_le_trans)
  qed
  then show ?thesis using assms by (auto simp: queue_le_def)
qed

lemma queue_le_expired: "queue_inv q \<Longrightarrow> queue_le q (expired_queue now q)"
  using queue_inv_task(2) by (auto simp: queue_le_def intro!: task_le_expire)

lemma queue_le_put:
  assumes "gm_get (tasks q) tid = Some t" and "task_le (maxAttempts q) t t'"
  shows "queue_le q (q\<lparr>tasks := gm_set tid t' (tasks q), queued := qs\<rparr>)"
  using assms by (auto simp: queue_le_def)

lemma queue_le_Enqueue: "Enqueue spec q = Inr q' \<Longrightarrow> queue_le q q'"
  by (auto simp: Enqueue_def queue_le_def split: if_splits)

lemma queue_le_expireTask:
  assumes inv: "queue_inv q" and t: "gm_get (tasks q) tid = Some t" and e: "lease_expired now t"
  shows "queue_le q (expireTaskLocked t q)"
  unfolding expireTaskLocked_eq [OF e queue_inv_task(1) [OF inv t], of q]
  by (rule queue_le_put [OF t]) (rule task_le_expire [OF queue_inv_task(2) [OF inv t]])

lemma queue_le_Claim:
  assumes inv: "queue_inv q" and c: "Claim w now i q = Some (q', r)"
  shows "queue_le q q'"
proof (cases "w = []")
  case True
  with c show ?thesis by (simp add: Claim_def)
next
  case False
  note qi = expired_queue_inv [OF inv, of now]
  from Claim_cases [OF inv False, of now i] c queue_le_expired [OF inv, of now]
  show ?thesis
    by (auto simp: claim_head_def simp del: expired_queue_sel(4) gm_get_expired
        intro!: queue_le_trans [of q "expired_queue now q"] queue_le_put
          task_le_claim [OF queue_inv_task(2) [OF qi], unfolded expired_queue_sel])
qed

lemma queue_le_Renew:
  assumes inv: "queue_inv q" and r: "Renew tid i w now q = Some (q', x)"
  shows "queue_le q q'"
proof -
  obtain q1 y where a: "activeLeaseLocked tid i w now q = (q1, y)" by (meson surj_pair)
  from activeLease_cases [OF a] show ?thesis
  proof (elim disjE exE conjE)
    fix t l
    assume "y = Inr t" and "q1 = q" and t: "gm_get (tasks q) tid = Some t" and "holds_lease i w now t l"
    then have "q' = q\<lparr>tasks := gm_set tid (t\<lparr>t_Lease := t_Lease t\<rparr>\<lparr>t_Lease := Some (l\<lparr>l_ExpiresAt :=
        time_Add now (leaseDuration q)\<rparr>)\<rparr>) (tasks q), queued := queued q\<rparr>"
      using a r by (auto simp: Renew_def Let_def holds_lease_def)
    then show ?thesis by (simp only:) (rule queue_le_put [OF t], simp add: task_le_lease)
  next
    fix t
    assume "y = Inl ErrStaleLease" and "gm_get (tasks q) tid = Some t" and "lease_expired now t"
      and "q1 = expireTaskLocked t q"
    with a r queue_le_expireTask [OF inv] show ?thesis by (auto simp: Renew_def)
  qed (use a r in \<open>auto simp: Renew_def\<close>)
qed

lemma queue_le_Complete:
  assumes inv: "queue_inv q"
  shows "queue_le q (fst (Complete tid i w r now q))"
proof -
  obtain q1 y where a: "activeLeaseLocked tid i w now q = (q1, y)" by (meson surj_pair)
  from activeLease_cases [OF a] show ?thesis
  proof (elim disjE exE conjE)
    fix t l
    assume t: "gm_get (tasks q) tid = Some t" and l: "holds_lease i w now t l"
    show ?thesis
      unfolding Complete_ok [OF inv t l] fst_conv
      by (rule queue_le_put [OF t]) (rule task_le_complete [OF queue_inv_task(2) [OF inv t] l])
  next
    fix t
    assume "y = Inl ErrStaleLease" and "gm_get (tasks q) tid = Some t" and "lease_expired now t"
      and "q1 = expireTaskLocked t q"
    with a queue_le_expireTask [OF inv] show ?thesis by (auto simp: Complete_def)
  qed (use a in \<open>auto simp: Complete_def\<close>)
qed

lemma lq_step_le:
  assumes inv: "queue_inv q" and s: "lq_step l q = Some q'"
  shows "queue_le q q'"
proof -
  obtain opn now where l: "l = (opn, now)" by (cases l)
  note le = queue_le_expired [OF inv, of now]
  show ?thesis
  proof (cases opn)
    case (OpEnqueue spec)
    then show ?thesis using l s queue_le_Enqueue by (auto split: sum.splits)
  next
    case (OpClaim w i)
    then show ?thesis using l s queue_le_Claim [OF inv] by auto
  next
    case (OpRenew t i w)
    then show ?thesis using l s queue_le_Renew [OF inv] by auto
  next
    case (OpComplete t i w r)
    then show ?thesis using l s queue_le_Complete [OF inv] by auto
  next
    case OpStats
    then show ?thesis using l s le by (auto simp: Queue_Stats_def expireLocked_eq [OF inv])
  qed (use l s le in \<open>auto simp: reading_eqs [OF inv]\<close>)
qed

interpretation lqm: monotone_machine lq_step queue_inv queue_le
  by unfold_locales (auto intro: queue_le_trans lq_step_le)

lemma life_done_stays: "(life m)\<^sup>*\<^sup>* (PDone r) p \<Longrightarrow> p = PDone r"
  by (induction rule: rtranclp_induct) auto

lemma life_failed_stays: "(life m)\<^sup>*\<^sup>* (PFailed r) p \<Longrightarrow> p = PFailed r"
  by (induction rule: rtranclp_induct) auto

lemma queue_le_terminal:
  assumes "queue_le q q'" and "gm_get (tasks q) tid = Some t"
    and "t_State t = StateCompleted \<or> t_State t = StateFailed"
  shows "\<exists>t'. gm_get (tasks q') tid = Some t' \<and> t_State t' = t_State t \<and> t_Result t' = t_Result t \<and>
    same_payload t t'"
proof -
  obtain t' where t': "gm_get (tasks q') tid = Some t'" "task_le (maxAttempts q) t t'"
    using assms(1,2) by (auto simp: queue_le_def)
  then have "(life (maxAttempts q))\<^sup>*\<^sup>* (phase_of t) (phase_of t')" by (simp add: task_le_def)
  then have "phase_of t' = phase_of t"
    using assms(3) by (auto simp: phase_of_def dest: life_done_stays life_failed_stays)
  then have "t_State t' = t_State t \<and> t_Result t' = t_Result t"
    using assms(3) by (auto simp: phase_of_def split: TaskState.splits)
  with t' show ?thesis by (auto simp: task_le_def)
qed

section \<open>Reachable queues\<close>

inductive lq_reach :: "Config \<Rightarrow> Queue \<Rightarrow> bool" for cfg where
  created: "New cfg = Inr q \<Longrightarrow> lq_reach cfg q"
| stepped: "lq_reach cfg q \<Longrightarrow> lq_step l q = Some q' \<Longrightarrow> lq_reach cfg q'"

lemma lq_reach_inv: "lq_reach cfg q \<Longrightarrow> queue_inv q"
proof (induction rule: lq_reach.induct)
  case (created q)
  then show ?case by (rule New_inv)
next
  case (stepped q l q')
  with lq_step_safe [OF stepped.IH, of l] show ?case by simp
qed

lemma lq_reach_params:
  "lq_reach cfg q \<Longrightarrow> maxAttempts q = cfg_MaxAttempts cfg \<and> leaseDuration q = cfg_LeaseDuration cfg"
proof (induction rule: lq_reach.induct)
  case (created q)
  then show ?case by (auto simp: New_def split: if_splits)
next
  case (stepped q l q')
  with lq_step_le [OF lq_reach_inv [OF stepped.hyps(1)] stepped.hyps(2)] show ?case
    by (simp add: queue_le_def)
qed

lemma lq_reach_run: "lq_reach cfg q \<Longrightarrow> run_steps lq_step ls q = Some q' \<Longrightarrow> lq_reach cfg q'"
  by (induction ls arbitrary: q) (auto split: option.splits intro: lq_reach.stepped)

section \<open>A held lease is exclusive\<close>

text \<open>Requests that act on the lease \<open>leaseID\<close> of the task \<open>tid\<close>.\<close>

fun acts_on :: "string \<Rightarrow> string \<Rightarrow> lq_op \<Rightarrow> bool" where
  "acts_on tid leaseID (OpRenew t i w) = (t = tid \<and> i = leaseID)"
| "acts_on tid leaseID (OpComplete t i w r) = (t = tid \<and> i = leaseID)"
| "acts_on tid leaseID _ = False"

lemma expire_task_held: "t_Lease t = Some l \<Longrightarrow> now < l_ExpiresAt l \<Longrightarrow> expire_task m now t = t"
  by (simp add: expire_task_def lease_expired_def)

lemma activeLease_other:
  assumes "activeLeaseLocked t' i w now q = (q1, r)" and "queue_inv q"
    and "gm_get (tasks q) tid = Some t" and "t_Lease t = Some l" and "t_State t = StateLeased"
    and "\<not> (t' = tid \<and> i = l_ID l)"
  shows "gm_get (tasks q1) tid = Some t \<and> (t' = tid \<longrightarrow> (\<exists>e. r = Inl e))"
proof (cases "t' = tid")
  case True
  with assms show ?thesis by (auto simp: activeLeaseLocked_def)
next
  case False
  from activeLease_cases [OF assms(1)] show ?thesis
    using False assms(3) expireTaskLocked_eq queue_inv_task(1) [OF assms(2)] by auto
qed

lemma held_lease_step:
  assumes inv: "queue_inv q" and t: "gm_get (tasks q) tid = Some t"
    and l: "t_State t = StateLeased" "t_Lease t = Some l" "now < l_ExpiresAt l"
    and no: "\<not> acts_on tid (l_ID l) opn" and s: "lq_step (opn, now) q = Some q'"
  shows "gm_get (tasks q') tid = Some t"
proof -
  have exp: "gm_get (tasks (expired_queue now q)) tid = Some t"
    using t l expire_task_held by simp
  show ?thesis
  proof (cases opn)
    case (OpEnqueue spec)
    then show ?thesis using s t by (auto simp: Enqueue_def split: sum.splits if_splits)
  next
    case (OpClaim w i)
    show ?thesis
    proof (cases "w = []")
      case True
      then show ?thesis using s t OpClaim by (auto simp: Claim_def)
    next
      case False
      from Claim_cases [OF inv False, of now i] s exp l(1) show ?thesis
        by (auto simp: OpClaim claim_head_def simp del: gm_get_expired)
    qed
  next
    case (OpRenew t' i w)
    obtain q1 r where a: "activeLeaseLocked t' i w now q = (q1, r)" by (meson surj_pair)
    have "\<not> (t' = tid \<and> i = l_ID l)" using no OpRenew by simp
    from activeLease_other [OF a inv t l(2,1) this] s a OpRenew show ?thesis
      by (auto simp: Renew_def Let_def split: sum.splits option.splits)
  next
    case (OpComplete t' i w r)
    obtain q1 x where a: "activeLeaseLocked t' i w now q = (q1, x)" by (meson surj_pair)
    have "\<not> (t' = tid \<and> i = l_ID l)" using no OpComplete by simp
    from activeLease_other [OF a inv t l(2,1) this] s a OpComplete show ?thesis
      by (auto simp: Complete_def split: sum.splits if_splits)
  next
    case OpStats
    then show ?thesis using s exp by (auto simp: Queue_Stats_def expireLocked_eq [OF inv])
  qed (use s t exp in \<open>auto simp: reading_eqs [OF inv]\<close>)
qed

lemma held_lease_run:
  assumes inv: "queue_inv q" and t: "gm_get (tasks q) tid = Some t"
    and l: "t_State t = StateLeased" "t_Lease t = Some l"
    and ok: "list_all (\<lambda>(opn, now). now < l_ExpiresAt l \<and> \<not> acts_on tid (l_ID l) opn) ls"
    and run: "run_steps lq_step ls q = Some q'"
  shows "gm_get (tasks q') tid = Some t"
proof -
  have "queue_inv q' \<and> gm_get (tasks q') tid = Some t"
  proof (rule run_steps_keep [OF _ ok _ run])
    show "queue_inv q \<and> gm_get (tasks q) tid = Some t" using inv t by simp
    fix lab s s'
    assume "(\<lambda>(opn, now). now < l_ExpiresAt l \<and> \<not> acts_on tid (l_ID l) opn) lab"
      and "queue_inv s \<and> gm_get (tasks s) tid = Some t" and "lq_step lab s = Some s'"
    then show "queue_inv s' \<and> gm_get (tasks s') tid = Some t"
      using l held_lease_step [of s tid t l] lq.run_inv [of s "[lab]" s'] by (cases lab) auto
  qed
  then show ?thesis ..
qed

section \<open>What holds of all leases\<close>

definition all_leases :: "(string \<Rightarrow> Lease \<Rightarrow> bool) \<Rightarrow> Queue \<Rightarrow> bool" where
  "all_leases P q = (\<forall>tid t l. gm_get (tasks q) tid = Some t \<longrightarrow> t_Lease t = Some l \<longrightarrow> P tid l)"

lemma all_leases_put: "all_leases P q \<Longrightarrow> (case t_Lease u of None \<Rightarrow> True | Some l \<Rightarrow> P k l) \<Longrightarrow>
    all_leases P (q\<lparr>tasks := gm_set k u (tasks q), queued := qs\<rparr>)"
  by (auto simp: all_leases_def)

lemma all_leases_expired: "all_leases P q \<Longrightarrow> all_leases P (expired_queue now q)"
  by (fastforce simp: all_leases_def expire_task_def split: if_splits)

lemma all_leases_expireTask:
  assumes "queue_inv q" and "gm_get (tasks q) k = Some t" and "all_leases P q"
  shows "all_leases P (expireTaskLocked t q)"
  using assms(3) queue_inv_task(1) [OF assms(1,2)] by (auto simp: all_leases_def expireTaskLocked_def)

lemma all_leases_active:
  assumes "activeLeaseLocked k j w now q = (q1, r)" and "queue_inv q" and "all_leases P q"
  shows "all_leases P q1"
  using activeLease_cases [OF assms(1)] assms(2,3) all_leases_expireTask by auto

text \<open>What holds of every lease stays so when it holds of the leases that a call makes.\<close>

lemma all_leases_step:
  assumes inv: "queue_inv q" and n: "all_leases P q" and s: "lq_step (opn, now) q = Some q'"
    and claim: "\<And>w i k t. opn = OpClaim w i \<Longrightarrow> P k (new_lease w now i (leaseDuration q) t)"
    and renew: "\<And>w i k l. opn = OpRenew k i w \<Longrightarrow> P k l \<Longrightarrow> P k (l\<lparr>l_ExpiresAt := time_Add now (leaseDuration q)\<rparr>)"
  shows "all_leases P q'"
proof -
  note exp = all_leases_expired [OF n, of now]
  show ?thesis
  proof (cases opn)
    case (OpEnqueue spec)
    then show ?thesis using s n
      by (auto simp: Enqueue_def all_leases_def newTask_def split: sum.splits if_splits)
  next
    case (OpClaim w j)
    show ?thesis
    proof (cases "w = []")
      case True
      then show ?thesis using s n OpClaim by (auto simp: Claim_def)
    next
      case False
      from Claim_cases [OF inv False, of now j] s exp claim [OF OpClaim] show ?thesis
        by (auto simp: OpClaim claim_head_def claimed_task_def simp del: gm_get_expired intro!: all_leases_put)
    qed
  next
    case (OpRenew k j w)
    obtain q1 r where a: "activeLeaseLocked k j w now q = (q1, r)" by (meson surj_pair)
    note A = all_leases_active [OF a inv n]
    show ?thesis
      using activeLease_cases [OF a] s a A n renew [OF OpRenew]
      by (auto simp: OpRenew Renew_def Let_def all_leases_def holds_lease_def split: if_splits)
  next
    case (OpComplete k j w x)
    obtain q1 r where a: "activeLeaseLocked k j w now q = (q1, r)" by (meson surj_pair)
    note A = all_leases_active [OF a inv n]
    show ?thesis using s a A OpComplete
      by (auto simp: Complete_def all_leases_def split: sum.splits if_splits)
  next
    case OpStats
    then show ?thesis using s exp by (auto simp: Queue_Stats_def expireLocked_eq [OF inv])
  qed (use s n exp in \<open>auto simp: reading_eqs [OF inv]\<close>)
qed

section \<open>A lost lease stays lost\<close>

definition no_lease :: "string \<Rightarrow> string \<Rightarrow> Queue \<Rightarrow> bool" where
  "no_lease tid leaseID q = (case gm_get (tasks q) tid of None \<Rightarrow> True
     | Some t \<Rightarrow> (case t_Lease t of None \<Rightarrow> True | Some l \<Rightarrow> l_ID l \<noteq> leaseID))"

fun grants_lease :: "string \<Rightarrow> lq_op \<Rightarrow> bool" where
  "grants_lease leaseID (OpClaim w i) = (i = leaseID)"
| "grants_lease leaseID _ = False"

lemma no_lease_all: "no_lease tid i q = all_leases (\<lambda>k l. k = tid \<longrightarrow> l_ID l \<noteq> i) q"
  by (auto simp: no_lease_def all_leases_def split: option.splits)

lemma no_lease_step:
  assumes inv: "queue_inv q" and n: "no_lease tid i q" and g: "\<not> grants_lease i opn"
    and s: "lq_step (opn, now) q = Some q'"
  shows "no_lease tid i q'"
  using n unfolding no_lease_all
  by (rule all_leases_step [OF inv _ s]) (use g in \<open>auto simp: new_lease_def\<close>)

lemma no_lease_run:
  assumes inv: "queue_inv q" and n: "no_lease tid i q"
    and ok: "list_all (\<lambda>(opn, now). \<not> grants_lease i opn) ls"
    and run: "run_steps lq_step ls q = Some q'"
  shows "queue_inv q' \<and> no_lease tid i q'"
proof (rule run_steps_keep [OF _ ok _ run])
  show "queue_inv q \<and> no_lease tid i q" using inv n by simp
  fix lab s s'
  assume "(\<lambda>(opn, now). \<not> grants_lease i opn) lab" and "queue_inv s \<and> no_lease tid i s"
    and "lq_step lab s = Some s'"
  then show "queue_inv s' \<and> no_lease tid i s'"
    using no_lease_step [of s tid i] lq.run_inv [of s "[lab]" s'] by (cases lab) auto
qed

lemma no_lease_rejects:
  "no_lease tid i q \<Longrightarrow> \<exists>e. snd (Complete tid i w r now q) = Inl e"
  by (auto simp: no_lease_def Complete_def activeLeaseLocked_def split: option.splits)

section \<open>The contract of a lease\<close>

text \<open>
  The time a lease is good until, as its holder sees it: every event happens before the
  current expiry, the holder's own renewals move the expiry to one lease duration after them,
  and nobody else uses the holder's lease ID. \<open>None\<close>: the holder came too late or the ID leaked.
\<close>

fun lease_window :: "('l \<Rightarrow> bool) \<Rightarrow> ('l \<Rightarrow> bool) \<Rightarrow> duration \<Rightarrow> time \<Rightarrow> ('l \<times> time) list \<Rightarrow> time option" where
  "lease_window own foreign d e [] = Some e"
| "lease_window own foreign d e ((l, now) # ls) =
     (if \<not> now < e then None
      else if own l then lease_window own foreign d (time_Add now d) ls
      else if foreign l then None
      else lease_window own foreign d e ls)"

locale lease_service = invariant_machine step inv
  for step :: "'l \<times> time \<Rightarrow> 's \<Rightarrow> 's option" and inv :: "'s \<Rightarrow> bool" +
  fixes holds :: "time \<Rightarrow> 's \<Rightarrow> bool" and own :: "'l \<Rightarrow> bool" and foreign :: "'l \<Rightarrow> bool"
    and d :: duration
  assumes renew_law: "inv s \<Longrightarrow> holds e s \<Longrightarrow> now < e \<Longrightarrow> own l \<Longrightarrow> step (l, now) s = Some s' \<Longrightarrow>
      holds (time_Add now d) s'"
    and other_law: "inv s \<Longrightarrow> holds e s \<Longrightarrow> now < e \<Longrightarrow> \<not> own l \<Longrightarrow> \<not> foreign l \<Longrightarrow>
      step (l, now) s = Some s' \<Longrightarrow> holds e s'"
begin

lemma window_run:
  "inv s \<Longrightarrow> holds e s \<Longrightarrow> lease_window own foreign d e ls = Some e' \<Longrightarrow>
   run_steps step ls s = Some s' \<Longrightarrow> holds e' s'"
proof (induction ls arbitrary: s e)
  case (Cons p ls)
  obtain l now where p: "p = (l, now)" by (cases p)
  obtain s1 where s1: "step p s = Some s1" "inv s1"
    using step_safe [OF Cons.prems(1)] by blast
  have now: "now < e" using Cons.prems(3) by (simp add: p split: if_splits)
  show ?case
  proof (cases "own l")
    case True
    then have "holds (time_Add now d) s1" using renew_law [OF Cons.prems(1,2) now] s1 p by simp
    with True now s1 Cons.prems(3,4) Cons.IH [of s1 "time_Add now d"] show ?thesis by (simp add: p)
  next
    case False
    then have "\<not> foreign l" using Cons.prems(3) now by (simp add: p split: if_splits)
    with False have "holds e s1" using other_law [OF Cons.prems(1,2) now] s1 p by simp
    with False \<open>\<not> foreign l\<close> now s1 Cons.prems(3,4) Cons.IH [of s1 e] show ?thesis by (simp add: p)
  qed
qed simp

end

text \<open>The lease of a task as the queue stores it, whatever its time of issue.\<close>

definition lease_held :: "string \<Rightarrow> string \<Rightarrow> string \<Rightarrow> time \<Rightarrow> Queue \<Rightarrow> bool" where
  "lease_held tid leaseID w e q = (case gm_get (tasks q) tid of None \<Rightarrow> False
     | Some t \<Rightarrow> t_State t = StateLeased \<and> (case t_Lease t of None \<Rightarrow> False
         | Some l \<Rightarrow> l_ID l = leaseID \<and> l_WorkerID l = w \<and> l_ExpiresAt l = e))"

definition lq_ok :: "duration \<Rightarrow> Queue \<Rightarrow> bool" where
  "lq_ok d q = (queue_inv q \<and> leaseDuration q = d)"

lemma lease_held_iff:
  "lease_held tid i w e q \<longleftrightarrow> (\<exists>t l. gm_get (tasks q) tid = Some t \<and> t_State t = StateLeased \<and>
     t_Lease t = Some l \<and> l_ID l = i \<and> l_WorkerID l = w \<and> l_ExpiresAt l = e)"
  by (auto simp: lease_held_def split: option.splits)

lemma lq_ok_step: "lq_ok d q \<Longrightarrow> \<exists>q'. lq_step l q = Some q' \<and> lq_ok d q'"
  using lq_step_safe [of q l] lq_step_le [of q l] by (auto simp: lq_ok_def queue_le_def)

lemma Renew_held:
  assumes "lq_ok d q" and "lease_held tid i w e q" and "now < e"
  shows "\<exists>l q'. Renew tid i w now q = Some (q', Inr l) \<and> l_ExpiresAt l = time_Add now d \<and>
    lease_held tid i w (time_Add now d) q'"
proof -
  obtain t l where t: "gm_get (tasks q) tid = Some t" "t_State t = StateLeased" "t_Lease t = Some l"
      "l_ID l = i" "l_WorkerID l = w" "l_ExpiresAt l = e"
    using assms(2) by (auto simp: lease_held_iff)
  then have "activeLeaseLocked tid i w now q = (q, Inr t)"
    using assms(3) by (simp add: activeLeaseLocked_def)
  with t assms(1) show ?thesis by (simp add: Renew_def Let_def lease_held_iff lq_ok_def)
qed

lemma Complete_held:
  assumes "lq_ok d q" and "lease_held tid i w e q" and "now < e"
  shows "\<exists>t. gm_get (tasks q) tid = Some t \<and>
    snd (Complete tid i w r now q) = Inr (outcome_of (maxAttempts q) r t)"
proof -
  obtain t l where t: "gm_get (tasks q) tid = Some t" and l: "holds_lease i w now t l"
    using assms(2,3) by (auto simp: lease_held_iff holds_lease_def)
  then show ?thesis using assms(1) Complete_ok by (auto simp: lq_ok_def)
qed

interpretation lease: lease_service lq_step "lq_ok d" "lease_held tid i w"
    "\<lambda>opn. opn = OpRenew tid i w" "acts_on tid i" d
  for d tid i w
proof unfold_locales
  fix l q
  show "lq_ok d q \<Longrightarrow> \<exists>q'. lq_step l q = Some q' \<and> lq_ok d q'" by (rule lq_ok_step)
next
  fix s e now l s'
  assume "lq_ok d s" and "lease_held tid i w e s" and "now < e" and "l = OpRenew tid i w"
    and "lq_step (l, now) s = Some s'"
  with Renew_held [of d s tid i w e now] show "lease_held tid i w (time_Add now d) s'" by auto
next
  fix s e now l s'
  assume ok: "lq_ok d s" and h: "lease_held tid i w e s" and now: "now < e" and "l \<noteq> OpRenew tid i w"
    and no: "\<not> acts_on tid i l" and s: "lq_step (l, now) s = Some s'"
  obtain t k where t: "gm_get (tasks s) tid = Some t" "t_State t = StateLeased" "t_Lease t = Some k"
      "l_ID k = i" "l_WorkerID k = w" "l_ExpiresAt k = e"
    using h by (auto simp: lease_held_iff)
  have "gm_get (tasks s') tid = Some t"
    using held_lease_step [OF _ t(1,2,3) _ _ s] ok t now no by (simp add: lq_ok_def)
  with t show "lease_held tid i w e s'" by (auto simp: lease_held_iff)
qed

section \<open>How often tasks are handed out\<close>

fun granted :: "lq_op \<times> time \<Rightarrow> Queue \<Rightarrow> bool" where
  "granted (OpClaim w i, now) q = (case Claim w now i q of
     None \<Rightarrow> False | Some (_, r) \<Rightarrow> (case r of Inl _ \<Rightarrow> False | Inr a \<Rightarrow> a \<noteq> None))"
| "granted _ q = False"

fun grants :: "(lq_op \<times> time) list \<Rightarrow> Queue \<Rightarrow> int" where
  "grants [] q = 0"
| "grants (l # ls) q = (case lq_step l q of None \<Rightarrow> 0
     | Some q' \<Rightarrow> (if granted l q then 1 else 0) + grants ls q')"

definition total_attempts :: "Queue \<Rightarrow> int" where
  "total_attempts q = sum_list (map (\<lambda>(_, t). t_Attempts t) (tasks q))"

lemma sum_gm_set_old:
  fixes f :: "'b \<Rightarrow> int"
  shows "gm_get m k = Some u \<Longrightarrow>
    sum_list (map (\<lambda>(_, v). f v) (gm_set k w m)) = sum_list (map (\<lambda>(_, v). f v) m) - f u + f w"
proof (induction m)
  case (Cons p m)
  then show ?case by (cases p) (auto simp: gm_get_Cons gm_set_def split: if_splits)
qed simp

lemma sum_gm_set_new:
  fixes f :: "'b \<Rightarrow> int"
  shows "gm_get m k = None \<Longrightarrow>
    sum_list (map (\<lambda>(_, v). f v) (gm_set k w m)) = sum_list (map (\<lambda>(_, v). f v) m) + f w"
proof (induction m)
  case (Cons p m)
  then show ?case by (cases p) (auto simp: gm_get_Cons gm_set_def split: if_splits)
qed (simp add: gm_set_def)

lemma total_attempts_put:
  "gm_get (tasks q) k = Some t \<Longrightarrow>
   total_attempts (q\<lparr>tasks := gm_set k t' (tasks q), queued := qs\<rparr>) = total_attempts q - t_Attempts t + t_Attempts t'"
  using sum_gm_set_old [of "tasks q" k t t_Attempts t'] by (simp add: total_attempts_def)

lemma total_attempts_set:
  "gm_get (tasks q) k = Some t \<Longrightarrow>
   total_attempts (q\<lparr>tasks := gm_set k t' (tasks q)\<rparr>) = total_attempts q - t_Attempts t + t_Attempts t'"
  using sum_gm_set_old [of "tasks q" k t t_Attempts t'] by (simp add: total_attempts_def)

lemma expire_task_attempts [simp]: "t_Attempts (expire_task m now t) = t_Attempts t"
  by (simp add: expire_task_def)

lemma total_attempts_expired [simp]: "total_attempts (expired_queue now q) = total_attempts q"
  by (simp add: total_attempts_def expired_queue_def comp_def case_prod_unfold)

lemma total_attempts_expireTask:
  "queue_inv q \<Longrightarrow> gm_get (tasks q) k = Some t \<Longrightarrow> lease_expired now t \<Longrightarrow>
   total_attempts (expireTaskLocked t q) = total_attempts q"
  using expireTaskLocked_eq [of now t k q] queue_inv_task(1) [of q k t] total_attempts_put [of q k t]
  by simp

lemma active_attempts:
  assumes "activeLeaseLocked k i w now q = (q1, r)" and "queue_inv q"
  shows "total_attempts q1 = total_attempts q"
  using activeLease_cases [OF assms(1)] total_attempts_expireTask [OF assms(2)] by auto

lemma step_attempts:
  assumes inv: "queue_inv q" and s: "lq_step l q = Some q'"
  shows "total_attempts q' = total_attempts q + (if granted l q then 1 else 0)"
proof -
  obtain opn now where l: "l = (opn, now)" by (cases l)
  show ?thesis
  proof (cases opn)
    case (OpEnqueue spec)
    show ?thesis
      using s sum_gm_set_new [of "tasks q" "ts_ID spec" t_Attempts "newTask spec"]
      by (auto simp: OpEnqueue l Enqueue_def total_attempts_def newTask_def split: sum.splits if_splits)
  next
    case (OpClaim w i)
    show ?thesis
    proof (cases "w = []")
      case True
      then show ?thesis using s by (auto simp: OpClaim l Claim_def)
    next
      case False
      from Claim_cases [OF inv False, of now i] s show ?thesis
        by (auto simp: OpClaim l claim_head_def claimed_task_def total_attempts_put simp del: gm_get_expired)
    qed
  next
    case (OpRenew k i w)
    obtain q1 r where a: "activeLeaseLocked k i w now q = (q1, r)" by (meson surj_pair)
    show ?thesis
      using s a active_attempts [OF a inv] activeLease_cases [OF a]
      by (auto simp: OpRenew l Renew_def Let_def total_attempts_set split: sum.splits option.splits)
  next
    case (OpComplete k i w x)
    obtain q1 r where a: "activeLeaseLocked k i w now q = (q1, r)" by (meson surj_pair)
    show ?thesis
      using s a active_attempts [OF a inv] activeLease_cases [OF a]
      by (auto simp: OpComplete l Complete_def total_attempts_set total_attempts_put split: sum.splits if_splits)
  next
    case OpStats
    then show ?thesis using s l by (auto simp: Queue_Stats_def expireLocked_eq [OF inv])
  qed (use s l in \<open>auto simp: reading_eqs [OF inv]\<close>)
qed

lemma grants_eq:
  "queue_inv q \<Longrightarrow> run_steps lq_step ls q = Some q' \<Longrightarrow> total_attempts q' = total_attempts q + grants ls q"
proof (induction ls arbitrary: q)
  case (Cons l ls)
  obtain q1 where q1: "lq_step l q = Some q1" "queue_inv q1"
    using lq_step_safe [OF Cons.prems(1)] by blast
  with Cons step_attempts [OF Cons.prems(1) q1(1)] show ?case by simp
qed simp

lemma sum_list_le_bound:
  fixes f :: "'a \<Rightarrow> int"
  shows "\<forall>x \<in> set xs. f x \<le> m \<Longrightarrow> sum_list (map f xs) \<le> m * int (length xs)"
  by (induction xs) (auto simp: algebra_simps)

lemma total_attempts_bound:
  assumes inv: "queue_inv q"
  shows "total_attempts q \<le> maxAttempts q * int (length (order q))"
proof -
  have "\<forall>(i, t) \<in> set (tasks q). t_Attempts t \<le> maxAttempts q"
    using inv by (auto simp: queue_inv_def list_all_iff task_wf_def)
  then have "total_attempts q \<le> maxAttempts q * int (length (tasks q))"
    unfolding total_attempts_def by (intro sum_list_le_bound) auto
  moreover have "length (tasks q) = length (order q)"
    using queue_invE(3) [OF inv] by (metis gm_keys_def length_map)
  ultimately show ?thesis by simp
qed

end
