(* ===== verification/Json.thy ===== *)
theory Json
  imports GoStrings
begin

text \<open>
  The part of \<open>encoding/json\<close> that decides what the program accepts. A document is the
  number of its bytes and the sequence of values that successive calls of
  \<open>decoder.Decode\<close> meet in it (\<open>None\<close>: the tokenizer finds malformed text); a value is
  a syntax tree. Decoding a value into a Go struct with \<open>DisallowUnknownFields\<close> is modelled
  here: matching of keys up to letter case, \<open>null\<close> leaving a field alone, kinds and ranges of
  numbers, unknown keys. Every caller ignores the struct after a failed decode, so a failure
  is \<open>None\<close>. Splitting bytes into tokens is the library's and is not modelled.
\<close>

datatype json =
    JNull
  | JBool bool
  | JInt int
  | JFrac string
  | JString string
  | JArray "json list"
  | JObject "(string \<times> json) list"

record json_doc =
  doc_len :: int
  doc_vals :: "json option list"

text \<open>
  \<open>foldName\<close>: two keys match when their folded spellings agree. Apart from ASCII case, the
  Kelvin sign folds to K and the long s to S; no other rune folds to ASCII.
\<close>

definition fold_name :: "string \<Rightarrow> string" where
  "fold_name s = concat (map (\<lambda>(r, b). if r = 8490 then ''K'' else if r = 383 then ''S''
     else map upper_ascii b) (utf8_chunks s))"

text \<open>The fields of a struct: the key of its tag and how a value is stored into the field.\<close>

type_synonym 's fields = "(string \<times> (json \<Rightarrow> 's \<Rightarrow> 's option)) list"

definition find_field :: "'s fields \<Rightarrow> string \<Rightarrow> (json \<Rightarrow> 's \<Rightarrow> 's option) option" where
  "find_field fs k = (case map_of fs k of
       Some f \<Rightarrow> Some f
     | None \<Rightarrow> map_of (map (\<lambda>(n, f). (fold_name n, f)) fs) (fold_name k))"

fun decode_members :: "'s fields \<Rightarrow> (string \<times> json) list \<Rightarrow> 's \<Rightarrow> 's option" where
  "decode_members fs [] s = Some s"
| "decode_members fs ((k, v) # kvs) s =
     (case find_field fs k of
        None \<Rightarrow> None
      | Some f \<Rightarrow> (case f v s of None \<Rightarrow> None | Some s' \<Rightarrow> decode_members fs kvs s'))"

fun decode_struct :: "'s fields \<Rightarrow> json \<Rightarrow> 's \<Rightarrow> 's option" where
  "decode_struct fs JNull s = Some s"
| "decode_struct fs (JObject kvs) s = decode_members fs kvs s"
| "decode_struct fs _ s = None"

fun decode_string :: "json \<Rightarrow> string \<Rightarrow> string option" where
  "decode_string JNull old = Some old"
| "decode_string (JString s) old = Some s"
| "decode_string _ old = None"

fun decode_int64 :: "json \<Rightarrow> int \<Rightarrow> int option" where
  "decode_int64 JNull old = Some old"
| "decode_int64 (JInt i) old = (if minInt64 \<le> i \<and> i \<le> maxInt64 then Some i else None)"
| "decode_int64 _ old = None"

text \<open>
  A slice: elements are stored into the elements already there (a repeated key) and new ones
  start from the zero value.
\<close>

fun decode_elems :: "(json \<Rightarrow> 'a \<Rightarrow> 'a option) \<Rightarrow> 'a \<Rightarrow> json list \<Rightarrow> 'a list \<Rightarrow> 'a list option" where
  "decode_elems f z [] old = Some []"
| "decode_elems f z (v # vs) old =
     (case f v (case old of [] \<Rightarrow> z | x # _ \<Rightarrow> x) of
        None \<Rightarrow> None
      | Some a \<Rightarrow> map_option ((#) a) (decode_elems f z vs (tl old)))"

fun decode_slice :: "(json \<Rightarrow> 'a \<Rightarrow> 'a option) \<Rightarrow> 'a \<Rightarrow> json \<Rightarrow> 'a list \<Rightarrow> 'a list option" where
  "decode_slice f z JNull old = Some []"
| "decode_slice f z (JArray vs) old = decode_elems f z vs old"
| "decode_slice f z _ old = None"

text \<open>A key that no tag of the struct matches makes the whole value fail.\<close>

lemma decode_members_unknown:
  "k \<in> fst ` set kvs \<Longrightarrow> find_field fs k = None \<Longrightarrow> decode_members fs kvs s = None"
  by (induction fs kvs s rule: decode_members.induct) (auto split: option.splits)

lemma decode_struct_unknown:
  "k \<in> fst ` set kvs \<Longrightarrow> find_field fs k = None \<Longrightarrow> decode_struct fs (JObject kvs) s = None"
  by (simp add: decode_members_unknown)

lemma decode_elems_length: "decode_elems f z vs old = Some xs \<Longrightarrow> length xs = length vs"
  by (induction f z vs old arbitrary: xs rule: decode_elems.induct) (auto split: option.splits)

end
