(* ===== verification/Types.thy ===== *)
theory Types
  imports Json
begin

text \<open>
  \<open>internal/types\<close>: the wire types of the coordinator's protocol with their JSON decoding,
  and the validation of identifiers and results (\<open>validation.go\<close>). An error value is its
  text; \<open>None\<close> is a nil error.
\<close>

section \<open>Wire types (types.go)\<close>

record TResult =
  tr_TaskID :: string
  tr_Output :: string
  tr_Duration :: duration
  tr_DurationStr :: string
  tr_Error :: string

datatype PullStatus =
    PullTaskAvailable | PullNoTask | PullLeaseRenewed | PullTaskCompleted
  | PullTaskRequeued | PullTaskFailed | PullStaleLease | PullRejected

record PullTask =
  pt_TaskID :: string
  pt_JobID :: string
  pt_Type :: string
  pt_Input :: string
  pt_LeaseID :: string
  pt_Attempt :: int
  pt_LeaseExpiresAt :: time

record PullClaimRequest =
  cq_WorkerID :: string

record PullClaimResponse =
  cs_Status :: PullStatus
  cs_Task :: "PullTask option"
  cs_Message :: string

record PullRenewRequest =
  rq_WorkerID :: string
  rq_TaskID :: string
  rq_LeaseID :: string

record PullRenewResponse =
  rs_Status :: PullStatus
  rs_LeaseExpiresAt :: time
  rs_Message :: string

record PullResultRequest =
  uq_WorkerID :: string
  uq_TaskID :: string
  uq_LeaseID :: string
  uq_Result :: TResult

record PullResultResponse =
  us_Status :: PullStatus
  us_Message :: string

record PullSubmitTask =
  st_Key :: string
  st_Input :: string

record PullSubmitRequest =
  sq_TaskType :: string
  sq_Inputs :: "string list"
  sq_Tasks :: "PullSubmitTask list"

record PullSubmitResponse =
  ss_JobID :: string
  ss_TaskIDs :: "string list"

datatype PullJobState = PullJobQueued | PullJobRunning | PullJobCompleted | PullJobFailed

fun PullJobState_str :: "PullJobState \<Rightarrow> string" where
  "PullJobState_str PullJobQueued = ''queued''"
| "PullJobState_str PullJobRunning = ''running''"
| "PullJobState_str PullJobCompleted = ''completed''"
| "PullJobState_str PullJobFailed = ''failed''"

record PullJobTask =
  jt_TaskID :: string
  jt_Key :: string
  jt_State :: string
  jt_Attempts :: int
  jt_WorkerID :: string
  jt_Result :: "TResult option"

record PullJobResponse =
  jr_JobID :: string
  jr_State :: PullJobState
  jr_Tasks :: "PullJobTask list"

record PullWorkerStatus =
  ws_WorkerID :: string
  ws_LastActivity :: time
  ws_ActiveLeases :: int

record CoordinatorStatusResponse =
  cr_QueuedTasks :: int
  cr_LeasedTasks :: int
  cr_CompletedTasks :: int
  cr_FailedTasks :: int
  cr_TotalTasks :: int
  cr_TotalJobs :: int
  cr_RecentWorkers :: "PullWorkerStatus list"
  cr_Uptime :: duration

section \<open>Decoding of the request bodies\<close>

definition zero_TResult :: TResult where
  "zero_TResult = \<lparr>tr_TaskID = [], tr_Output = [], tr_Duration = 0, tr_DurationStr = [], tr_Error = []\<rparr>"

definition zero_PullClaimRequest :: PullClaimRequest where
  "zero_PullClaimRequest = \<lparr>cq_WorkerID = []\<rparr>"

definition zero_PullRenewRequest :: PullRenewRequest where
  "zero_PullRenewRequest = \<lparr>rq_WorkerID = [], rq_TaskID = [], rq_LeaseID = []\<rparr>"

definition zero_PullResultRequest :: PullResultRequest where
  "zero_PullResultRequest = \<lparr>uq_WorkerID = [], uq_TaskID = [], uq_LeaseID = [], uq_Result = zero_TResult\<rparr>"

definition zero_PullSubmitTask :: PullSubmitTask where
  "zero_PullSubmitTask = \<lparr>st_Key = [], st_Input = []\<rparr>"

definition zero_PullSubmitRequest :: PullSubmitRequest where
  "zero_PullSubmitRequest = \<lparr>sq_TaskType = [], sq_Inputs = [], sq_Tasks = []\<rparr>"

definition fields_TResult :: "TResult fields" where
  "fields_TResult =
    [(''task_id'', \<lambda>v r. map_option (\<lambda>x. r\<lparr>tr_TaskID := x\<rparr>) (decode_string v (tr_TaskID r))),
     (''output'', \<lambda>v r. map_option (\<lambda>x. r\<lparr>tr_Output := x\<rparr>) (decode_string v (tr_Output r))),
     (''duration_ns'', \<lambda>v r. map_option (\<lambda>x. r\<lparr>tr_Duration := x\<rparr>) (decode_int64 v (tr_Duration r))),
     (''duration'', \<lambda>v r. map_option (\<lambda>x. r\<lparr>tr_DurationStr := x\<rparr>) (decode_string v (tr_DurationStr r))),
     (''error'', \<lambda>v r. map_option (\<lambda>x. r\<lparr>tr_Error := x\<rparr>) (decode_string v (tr_Error r)))]"

definition fields_PullClaimRequest :: "PullClaimRequest fields" where
  "fields_PullClaimRequest =
    [(''worker_id'', \<lambda>v r. map_option (\<lambda>x. r\<lparr>cq_WorkerID := x\<rparr>) (decode_string v (cq_WorkerID r)))]"

definition fields_PullRenewRequest :: "PullRenewRequest fields" where
  "fields_PullRenewRequest =
    [(''worker_id'', \<lambda>v r. map_option (\<lambda>x. r\<lparr>rq_WorkerID := x\<rparr>) (decode_string v (rq_WorkerID r))),
     (''task_id'', \<lambda>v r. map_option (\<lambda>x. r\<lparr>rq_TaskID := x\<rparr>) (decode_string v (rq_TaskID r))),
     (''lease_id'', \<lambda>v r. map_option (\<lambda>x. r\<lparr>rq_LeaseID := x\<rparr>) (decode_string v (rq_LeaseID r)))]"

definition fields_PullResultRequest :: "PullResultRequest fields" where
  "fields_PullResultRequest =
    [(''worker_id'', \<lambda>v r. map_option (\<lambda>x. r\<lparr>uq_WorkerID := x\<rparr>) (decode_string v (uq_WorkerID r))),
     (''task_id'', \<lambda>v r. map_option (\<lambda>x. r\<lparr>uq_TaskID := x\<rparr>) (decode_string v (uq_TaskID r))),
     (''lease_id'', \<lambda>v r. map_option (\<lambda>x. r\<lparr>uq_LeaseID := x\<rparr>) (decode_string v (uq_LeaseID r))),
     (''result'', \<lambda>v r. map_option (\<lambda>x. r\<lparr>uq_Result := x\<rparr>) (decode_struct fields_TResult v (uq_Result r)))]"

definition fields_PullSubmitTask :: "PullSubmitTask fields" where
  "fields_PullSubmitTask =
    [(''key'', \<lambda>v r. map_option (\<lambda>x. r\<lparr>st_Key := x\<rparr>) (decode_string v (st_Key r))),
     (''input'', \<lambda>v r. map_option (\<lambda>x. r\<lparr>st_Input := x\<rparr>) (decode_string v (st_Input r)))]"

definition fields_PullSubmitRequest :: "PullSubmitRequest fields" where
  "fields_PullSubmitRequest =
    [(''task_type'', \<lambda>v r. map_option (\<lambda>x. r\<lparr>sq_TaskType := x\<rparr>) (decode_string v (sq_TaskType r))),
     (''inputs'', \<lambda>v r. map_option (\<lambda>x. r\<lparr>sq_Inputs := x\<rparr>)
        (decode_slice decode_string [] v (sq_Inputs r))),
     (''tasks'', \<lambda>v r. map_option (\<lambda>x. r\<lparr>sq_Tasks := x\<rparr>)
        (decode_slice (decode_struct fields_PullSubmitTask) zero_PullSubmitTask v (sq_Tasks r)))]"

section \<open>Validation (validation.go)\<close>

definition MaxWorkerIDBytes :: nat where "MaxWorkerIDBytes = 64"
definition MaxTaskIDBytes :: nat where "MaxTaskIDBytes = 256"
definition MaxLeaseIDBytes :: nat where "MaxLeaseIDBytes = 128"
definition MaxResultOutputBytes :: nat where "MaxResultOutputBytes = 64 * 1024"
definition MaxResultErrorBytes :: nat where "MaxResultErrorBytes = 4 * 1024"

lemmas limit_defs = MaxWorkerIDBytes_def MaxTaskIDBytes_def MaxLeaseIDBytes_def
  MaxResultOutputBytes_def MaxResultErrorBytes_def

text \<open>The character test that both loops make: a-z, A-Z, 0-9, '-', '_' and '.'.\<close>

definition safe_rune :: "rune \<Rightarrow> bool" where
  "safe_rune r = ((97 \<le> r \<and> r \<le> 122) \<or> (65 \<le> r \<and> r \<le> 90) \<or> (48 \<le> r \<and> r \<le> 57)
     \<or> r = 45 \<or> r = 95 \<or> r = 46)"

definition quoted :: "char \<Rightarrow> string" where
  "quoted c = [CHR 0x27, c, CHR 0x27]"

definition may_contain_text :: string where
  "may_contain_text = '' may contain only letters, numbers, '' @ quoted CHR ''.'' @ '', ''
     @ quoted CHR ''_'' @ '' and '' @ quoted CHR ''-''"

definition ValidateWorkerID :: "string \<Rightarrow> string option" where
  "ValidateWorkerID workerID =
     (if workerID = [] then Some ''worker ID is required''
      else if length workerID > MaxWorkerIDBytes
        then Some (''worker ID exceeds the '' @ show_nat MaxWorkerIDBytes @ ''-byte limit'')
      else if \<not> list_all safe_rune (runes workerID)
        then Some (''worker ID'' @ may_contain_text)
      else None)"

definition validateSafeIdentifier :: "string \<Rightarrow> string \<Rightarrow> nat \<Rightarrow> string option" where
  "validateSafeIdentifier name value limit =
     (if value = [] then Some (name @ '' is required'')
      else if length value > limit
        then Some (name @ '' exceeds the '' @ show_nat limit @ ''-byte limit'')
      else if \<not> list_all safe_rune (runes value)
        then Some (name @ may_contain_text)
      else None)"

definition ValidateTaskID :: "string \<Rightarrow> string option" where
  "ValidateTaskID taskID = validateSafeIdentifier ''task ID'' taskID MaxTaskIDBytes"

definition ValidateLeaseID :: "string \<Rightarrow> string option" where
  "ValidateLeaseID leaseID = validateSafeIdentifier ''lease ID'' leaseID MaxLeaseIDBytes"

definition ValidateResult :: "TResult \<Rightarrow> string option" where
  "ValidateResult result =
     (if length (tr_TaskID result) > MaxTaskIDBytes
        then Some (''result task ID exceeds the '' @ show_nat MaxTaskIDBytes @ ''-byte limit'')
      else if length (tr_Output result) > MaxResultOutputBytes
        then Some (''result output exceeds the '' @ show_nat MaxResultOutputBytes @ ''-byte limit'')
      else if length (tr_Error result) > MaxResultErrorBytes
        then Some (''result error exceeds the '' @ show_nat MaxResultErrorBytes @ ''-byte limit'')
      else None)"

text \<open>The bytes an accepted identifier is made of.\<close>

definition safe_byte :: "char \<Rightarrow> bool" where
  "safe_byte c = safe_rune (byte c)"

lemma safe_rune_ascii: "safe_rune r \<Longrightarrow> r < 128"
  by (auto simp: safe_rune_def)

lemma all_safe_runes: "list_all safe_rune (runes s) = list_all safe_byte s"
  unfolding safe_byte_def by (rule all_runes_ascii) (rule safe_rune_ascii)

lemma validateSafeIdentifier_None:
  "validateSafeIdentifier name v limit = None \<longleftrightarrow> v \<noteq> [] \<and> length v \<le> limit \<and> list_all safe_byte v"
  by (auto simp: validateSafeIdentifier_def all_safe_runes)

lemma ValidateWorkerID_None:
  "ValidateWorkerID w = None \<longleftrightarrow> w \<noteq> [] \<and> length w \<le> 64 \<and> list_all safe_byte w"
  by (auto simp: ValidateWorkerID_def all_safe_runes MaxWorkerIDBytes_def)

lemma ValidateTaskID_None:
  "ValidateTaskID t = None \<longleftrightarrow> t \<noteq> [] \<and> length t \<le> 256 \<and> list_all safe_byte t"
  by (simp add: ValidateTaskID_def validateSafeIdentifier_None MaxTaskIDBytes_def)

lemma ValidateLeaseID_None:
  "ValidateLeaseID t = None \<longleftrightarrow> t \<noteq> [] \<and> length t \<le> 128 \<and> list_all safe_byte t"
  by (simp add: ValidateLeaseID_def validateSafeIdentifier_None MaxLeaseIDBytes_def)

lemma safe_byte_digit: "is_digit c \<Longrightarrow> safe_byte c"
  by (auto simp: is_digit_def safe_byte_def safe_rune_def)

lemma safe_byte_hex: "d < 16 \<Longrightarrow> safe_byte (hex_digit d)"
  by (auto simp: safe_byte_def safe_rune_def byte_hex_digit)

lemma all_safe_hex_encode: "list_all safe_byte (hex_encode bs)"
proof (induction bs)
  case (Cons c bs)
  have "byte c div 16 < 16" using byte_less [of c] by simp
  with Cons show ?case by (simp add: hex_encode_def safe_byte_hex)
qed (simp add: hex_encode_def)

lemma all_safe_show_nat: "list_all safe_byte (show_nat n)"
  using show_nat_digits [of n] by (auto simp: list_all_iff safe_byte_digit)

lemma all_safe_show_int: "list_all safe_byte (show_int i)"
  by (auto simp: show_int_def all_safe_show_nat safe_byte_def safe_rune_def byte_def)

end
