(* ===== verification/QueueTheorems.thy ===== *)
theory QueueTheorems
  imports LeaseQueueSpec Types
begin

text \<open>
  The properties of the lease queue, each with a concrete instance. The example queue is
  what the code builds from lease duration 10, two attempts and two tasks, of which the first
  has been claimed at time 3.
\<close>

section \<open>An example\<close>

definition ex_cfg :: Config where
  "ex_cfg = \<lparr>cfg_LeaseDuration = 10, cfg_MaxAttempts = 2\<rparr>"

definition ex_spec :: "string \<Rightarrow> TaskSpec" where
  "ex_spec s = \<lparr>ts_ID = s, ts_JobID = ''j'', ts_Key = [], ts_Type = ''diagnostic_sleep'', ts_Input = ''1s''\<rparr>"

definition ex_result :: "string \<Rightarrow> LResult" where
  "ex_result e = \<lparr>res_Output = ''out'', res_Duration = 1, res_Error = e\<rparr>"

definition ex_new :: Queue where
  "ex_new = \<lparr>leaseDuration = 10, maxAttempts = 2, queued = [], order = [], tasks = []\<rparr>"

definition ex_ops :: "(lq_op \<times> time) list" where
  "ex_ops = [(OpEnqueue (ex_spec ''a''), 1), (OpEnqueue (ex_spec ''b''), 2), (OpClaim ''w'' ''L1'', 3)]"

definition ex_lease :: Lease where
  "ex_lease = \<lparr>l_ID = ''L1'', l_TaskID = ''a'', l_WorkerID = ''w'', l_IssuedAt = 3, l_ExpiresAt = 13, l_Attempt = 1\<rparr>"

definition ex_a :: Task where
  "ex_a = (newTask (ex_spec ''a''))\<lparr>t_State := StateLeased, t_Attempts := 1, t_WorkerID := ''w'',
     t_Lease := Some ex_lease\<rparr>"

definition ex_queue :: Queue where
  "ex_queue = ex_new\<lparr>queued := [''b''], order := [''a'', ''b''],
     tasks := [(''a'', ex_a), (''b'', newTask (ex_spec ''b''))]\<rparr>"

definition ex_enqueued :: Queue where
  "ex_enqueued = ex_new\<lparr>queued := [''a'', ''b''], order := [''a'', ''b''],
     tasks := [(''a'', newTask (ex_spec ''a'')), (''b'', newTask (ex_spec ''b''))]\<rparr>"

definition ex_done :: Queue where
  "ex_done = fst (Complete ''a'' ''L1'' ''w'' (ex_result []) 4 ex_queue)"

lemma ex_New: "New ex_cfg = Inr ex_new"
  by (simp add: New_def ex_cfg_def ex_new_def)

lemma ex_run: "run_steps lq_step ex_ops ex_new = Some ex_queue"
  by code_simp

lemma ex_run_enqueued: "run_steps lq_step (take 2 ex_ops) ex_new = Some ex_enqueued"
  by code_simp

lemma ex_reach: "lq_reach ex_cfg ex_queue"
  using ex_run by (rule lq_reach_run [OF lq_reach.created [OF ex_New]])

lemma ex_reach_enqueued: "lq_reach ex_cfg ex_enqueued"
  using ex_run_enqueued by (rule lq_reach_run [OF lq_reach.created [OF ex_New]])

lemma ex_reach_done: "lq_reach ex_cfg ex_done"
proof (rule lq_reach.stepped [OF ex_reach])
  show "lq_step (OpComplete ''a'' ''L1'' ''w'' (ex_result []), 4) ex_queue = Some ex_done"
    by (simp add: ex_done_def)
qed

section \<open>Safety\<close>

text \<open>
  C1. From every reachable queue, every sequence of calls with any clock readings runs to its
  end without a nil dereference and keeps the invariant: each task well formed in its state
  (lease, result and attempt counter agree with it), \<open>order\<close> listing every task once and
  \<open>queued\<close> exactly the waiting tasks, once.
\<close>

theorem queue_calls_safe:
  assumes "lq_reach cfg q"
  shows "\<exists>q'. run_steps lq_step ls q = Some q' \<and> queue_inv q'"
  by (rule lq.run_safe [OF lq_reach_inv [OF assms]])

theorem queue_calls_safe_witness:
  "\<exists>q'. run_steps lq_step [(OpSnapshot, 99), (OpClaim ''v'' ''L2'', 100)] ex_queue = Some q' \<and> queue_inv q'"
  using queue_calls_safe [OF ex_reach] .

text \<open>
  C2. A completed or permanently failed task is final: whatever calls follow, it keeps its
  state, result and payload, and a further result for it is refused with the error that names
  its state.
\<close>

theorem terminal_tasks_final:
  assumes "lq_reach cfg q" and "gm_get (tasks q) tid = Some t"
    and "t_State t = StateCompleted \<or> t_State t = StateFailed"
    and "run_steps lq_step ls q = Some q'"
  shows "\<exists>t'. gm_get (tasks q') tid = Some t' \<and> t_State t' = t_State t \<and> t_Result t' = t_Result t \<and>
    spec_of t' = spec_of t \<and>
    snd (Complete tid leaseID w r now q')
      = Inl (if t_State t = StateCompleted then ErrAlreadyCompleted else ErrTaskFailed)"
proof -
  have "queue_le q q'" using assms(4) by (rule lqm.run_le [OF lq_reach_inv [OF assms(1)]])
  from queue_le_terminal [OF this assms(2,3)] obtain t' where
    t': "gm_get (tasks q') tid = Some t'" "t_State t' = t_State t" "t_Result t' = t_Result t"
      "same_payload t t'" by blast
  then show ?thesis
    using assms(3) by (auto simp: same_payload_def Complete_def activeLeaseLocked_def)
qed

theorem terminal_tasks_final_witness:
  "\<exists>q' t'. run_steps lq_step [(OpClaim ''v'' ''L2'', 50), (OpRequeueExpired, 90)] ex_done = Some q' \<and>
    gm_get (tasks q') ''a'' = Some t' \<and> t_State t' = StateCompleted"
proof -
  obtain q' where q': "run_steps lq_step [(OpClaim ''v'' ''L2'', 50), (OpRequeueExpired, 90)] ex_done = Some q'"
    using lq.run_safe [OF lq_reach_inv [OF ex_reach_done]] by blast
  have "map_option t_State (gm_get (tasks ex_done) ''a'') = Some StateCompleted" by code_simp
  then obtain t where t: "gm_get (tasks ex_done) ''a'' = Some t" "t_State t = StateCompleted" by auto
  from terminal_tasks_final [OF ex_reach_done t(1) disjI1 [OF t(2)] q'] obtain t' where
    "gm_get (tasks q') ''a'' = Some t'" and "t_State t' = t_State t" by blast
  with q' t(2) show ?thesis by metis
qed

text \<open>
  C3. A result is accepted exactly when the task is leased under this lease ID to this worker
  and the lease has not expired at the time of the call. It then completes the task, or
  requeues or permanently fails it by the retry policy; in every other case the call is an
  error.
\<close>

theorem complete_iff_live_lease:
  assumes "lq_reach cfg q"
  shows "(case snd (Complete tid leaseID w r now q) of
       Inl _ \<Rightarrow> \<forall>t l. gm_get (tasks q) tid = Some t \<longrightarrow> \<not> holds_lease leaseID w now t l
     | Inr out \<Rightarrow> \<exists>t l. gm_get (tasks q) tid = Some t \<and> holds_lease leaseID w now t l \<and>
         out = (if res_Error r = [] then OutcomeCompleted
                else if t_Attempts t \<ge> cfg_MaxAttempts cfg then OutcomeFailed else OutcomeRequeued) \<and>
         gm_get (tasks (fst (Complete tid leaseID w r now q))) tid
           = Some (completed_task (cfg_MaxAttempts cfg) r t))"
proof -
  note inv = lq_reach_inv [OF assms]
  show ?thesis
  proof (cases "\<exists>t l. gm_get (tasks q) tid = Some t \<and> holds_lease leaseID w now t l")
    case True
    then obtain t l where tl: "gm_get (tasks q) tid = Some t" "holds_lease leaseID w now t l" by blast
    with Complete_ok [OF inv tl, of r] lq_reach_params [OF assms] show ?thesis
      by (auto simp: outcome_of_def)
  next
    case False
    obtain q1 x where a: "activeLeaseLocked tid leaseID w now q = (q1, x)" by (meson surj_pair)
    from activeLease_cases [OF a] False a show ?thesis by (auto simp: Complete_def)
  qed
qed

theorem complete_iff_live_lease_witness:
  "\<exists>t l. gm_get (tasks ex_queue) ''a'' = Some t \<and> holds_lease ''L1'' ''w'' 12 t l"
proof -
  have "snd (Complete ''a'' ''L1'' ''w'' (ex_result []) 12 ex_queue) = Inr OutcomeCompleted" by code_simp
  with complete_iff_live_lease [OF ex_reach, where tid = "''a''" and leaseID = "''L1''" and w = "''w''"
      and r = "ex_result []" and now = 12] show ?thesis by auto
qed

text \<open>
  C4. A worker that claimed a task and whose every renewal arrives before the expiry of the
  moment keeps the task, whatever other calls are interleaved, as long as nobody else uses
  its lease ID: its result is accepted at any time before the last expiry.
\<close>

theorem renewing_worker_keeps_task:
  assumes "lq_reach cfg q" and "Claim w t0 leaseID q = Some (q1, Inr (Some a))"
    and "tid = ts_ID (a_Task a)"
    and "lease_window (\<lambda>opn. opn = OpRenew tid leaseID w) (acts_on tid leaseID) (cfg_LeaseDuration cfg)
      (l_ExpiresAt (a_Lease a)) ls = Some e"
    and "run_steps lq_step ls q1 = Some q2" and "now < e"
  shows "\<exists>out. snd (Complete tid leaseID w r now q2) = Inr out \<and>
    (res_Error r = [] \<longrightarrow> out = OutcomeCompleted)"
proof -
  note inv = lq_reach_inv [OF assms(1)]
  have w: "w \<noteq> []" using assms(2) by (auto simp: Claim_def)
  have held: "lease_held tid leaseID w (l_ExpiresAt (a_Lease a)) q1"
    using Claim_cases [OF inv w, of t0 leaseID] assms(2,3) queue_inv_task(1) [OF expired_queue_inv [OF inv]]
    by (auto simp: lease_held_def claim_head_def claimed_task_def new_lease_def spec_of_def
        simp del: gm_get_expired)
  have "lq_reach cfg q1"
    using lq_reach.stepped [OF assms(1), of "(OpClaim w leaseID, t0)" q1] assms(2) by simp
  then have ok: "lq_ok (cfg_LeaseDuration cfg) q1"
    by (simp add: lq_ok_def lq_reach_inv lq_reach_params)
  have "lease_held tid leaseID w e q2"
    by (rule lease.window_run [OF ok held assms(4,5)])
  moreover have "lq_ok (cfg_LeaseDuration cfg) q2"
    by (rule lease.run_inv [OF ok assms(5)])
  ultimately show ?thesis
    using Complete_held [of "cfg_LeaseDuration cfg" q2 tid leaseID w e now r] assms(6)
    by (auto simp: outcome_of_def)
qed

theorem renewing_worker_keeps_task_witness:
  "\<exists>q2 out. run_steps lq_step [(OpRenew ''a'' ''L1'' ''w'', 12), (OpClaim ''v'' ''L2'', 15), (OpStats, 21)] ex_queue = Some q2 \<and>
      snd (Complete ''a'' ''L1'' ''w'' (ex_result []) 21 q2) = Inr out"
proof -
  let ?ls = "[(OpRenew ''a'' ''L1'' ''w'', 12), (OpClaim ''v'' ''L2'', 15), (OpStats, 21)] :: (lq_op \<times> time) list"
  let ?a = "\<lparr>a_Task = ex_spec ''a'', a_Lease = ex_lease\<rparr>"
  have c: "Claim ''w'' 3 ''L1'' ex_enqueued = Some (ex_queue, Inr (Some ?a))" by code_simp
  have tid: "''a'' = ts_ID (a_Task ?a)" by (simp add: ex_spec_def)
  have win: "lease_window (\<lambda>opn. opn = OpRenew ''a'' ''L1'' ''w'') (acts_on ''a'' ''L1'')
      (cfg_LeaseDuration ex_cfg) (l_ExpiresAt (a_Lease ?a)) ?ls = Some 22"
    by (simp add: ex_cfg_def ex_lease_def time_Add_def)
  obtain q2 where q2: "run_steps lq_step ?ls ex_queue = Some q2"
    using lq.run_safe [OF lq_reach_inv [OF ex_reach]] by blast
  from renewing_worker_keeps_task [OF ex_reach_enqueued c tid win q2, of 21 "ex_result []"] q2
  show ?thesis by auto
qed

text \<open>
  C5. A lease that is no longer the task's current lease never comes back: unless its ID is
  issued again, a result sent under it is an error in every later state. Late results of a
  worker that lost its task are therefore never recorded.
\<close>

theorem stale_lease_rejected:
  assumes "lq_reach cfg q"
    and "\<forall>t l. gm_get (tasks q) tid = Some t \<longrightarrow> t_Lease t = Some l \<longrightarrow> l_ID l \<noteq> leaseID"
    and "\<forall>(opn, now) \<in> set ls. \<not> grants_lease leaseID opn"
    and "run_steps lq_step ls q = Some q'"
  shows "\<exists>e. snd (Complete tid leaseID w r now q') = Inl e"
proof (rule no_lease_rejects)
  have "no_lease tid leaseID q" using assms(2) by (auto simp: no_lease_def split: option.splits)
  with no_lease_run [OF lq_reach_inv [OF assms(1)] _ _ assms(4)] assms(3)
  show "no_lease tid leaseID q'" by (auto simp: list_all_iff)
qed

theorem stale_lease_rejected_witness:
  "\<exists>q' e. run_steps lq_step [(OpClaim ''v'' ''L2'', 20), (OpClaim ''v'' ''L3'', 21)] ex_queue = Some q' \<and>
    snd (Complete ''a'' ''L0'' ''w'' (ex_result []) 22 q') = Inl e"
proof -
  obtain q' where q': "run_steps lq_step [(OpClaim ''v'' ''L2'', 20), (OpClaim ''v'' ''L3'', 21)] ex_queue = Some q'"
    using lq.run_safe [OF lq_reach_inv [OF ex_reach]] by blast
  have "\<forall>t l. gm_get (tasks ex_queue) ''a'' = Some t \<longrightarrow> t_Lease t = Some l \<longrightarrow> l_ID l \<noteq> ''L0''"
    by (simp add: ex_queue_def gm_get_def ex_a_def ex_lease_def)
  from stale_lease_rejected [OF ex_reach this _ q'] q' show ?thesis by auto
qed

section \<open>Service\<close>

text \<open>
  C6. First in, first out: \<open>Claim\<close> leases the oldest waiting task, where the tasks whose
  lease has just expired with attempts left are lined up behind the waiting ones in the order
  they were submitted. The assignment carries the task's payload and a lease for this worker
  that runs for one lease duration; with no such task it reports that there is no work.
\<close>

theorem claim_first_in_first_out:
  assumes "lq_reach cfg q" and "w \<noteq> []"
  shows "case queued q @ filter (requeues now q) (order q) of
      [] \<Rightarrow> Claim w now leaseID q = Some (expired_queue now q, Inr None)
    | tid # rest \<Rightarrow> \<exists>q' t. gm_get (tasks (expired_queue now q)) tid = Some t \<and>
        Claim w now leaseID q = Some (q', Inr (Some \<lparr>a_Task = spec_of t,
          a_Lease = \<lparr>l_ID = leaseID, l_TaskID = tid, l_WorkerID = w, l_IssuedAt = now,
            l_ExpiresAt = now + cfg_LeaseDuration cfg, l_Attempt = t_Attempts t + 1\<rparr>\<rparr>)) \<and>
        queued q' = rest"
proof -
  note inv = lq_reach_inv [OF assms(1)]
  show ?thesis
    using Claim_cases [OF inv assms(2), of now leaseID] queue_inv_task(1) [OF expired_queue_inv [OF inv]]
      lq_reach_params [OF assms(1)]
    by (auto simp: claim_head_def new_lease_def time_Add_def simp del: gm_get_expired
        split: list.splits)
qed

theorem claim_first_in_first_out_witness:
  "\<exists>q' t. Claim ''v'' 14 ''L2'' ex_queue = Some (q', Inr (Some \<lparr>a_Task = spec_of t,
     a_Lease = \<lparr>l_ID = ''L2'', l_TaskID = ''b'', l_WorkerID = ''v'', l_IssuedAt = 14, l_ExpiresAt = 24,
       l_Attempt = t_Attempts t + 1\<rparr>\<rparr>)) \<and> queued q' = [''a'']"
proof -
  have l: "queued ex_queue @ filter (requeues 14 ex_queue) (order ex_queue) = [''b'', ''a'']" by code_simp
  show ?thesis
    using claim_first_in_first_out [OF ex_reach, of "''v''" 14 "''L2''"] unfolding l
    by (auto simp: ex_cfg_def)
qed

text \<open>
  C7. No task is stranded: \<open>Claim\<close> reports that there is no work exactly when every task is
  finished, is held under an unexpired lease, or has just used up its last attempt.
\<close>

theorem claim_none_iff_nothing_claimable:
  assumes "lq_reach cfg q" and "w \<noteq> []"
  shows "(\<exists>q'. Claim w now leaseID q = Some (q', Inr None)) \<longleftrightarrow>
    (\<forall>tid t. gm_get (tasks q) tid = Some t \<longrightarrow>
       t_State t = StateCompleted \<or> t_State t = StateFailed \<or>
       (t_State t = StateLeased \<and> (\<not> lease_expired now t \<or> t_Attempts t = cfg_MaxAttempts cfg)))"
    (is "?l \<longleftrightarrow> ?r")
proof -
  note inv = lq_reach_inv [OF assms(1)]
  have "?l \<longleftrightarrow> queued (expired_queue now q) = []"
    using Claim_cases [OF inv assms(2), of now leaseID] by auto
  also have "\<dots> \<longleftrightarrow> (\<forall>tid. state_of (expired_queue now q) tid \<noteq> Some StateQueued)"
    by (simp add: queue_invE(6) [OF expired_queue_inv [OF inv], symmetric] del: expired_queue_sel(4))
  also have "\<dots> \<longleftrightarrow> (\<forall>tid t. gm_get (tasks q) tid = Some t \<longrightarrow>
      \<not> (t_State t = StateQueued \<or> lease_expired now t \<and> t_Attempts t < maxAttempts q))"
  proof -
    have "state_of (expired_queue now q) tid = Some StateQueued \<longleftrightarrow> (\<exists>t. gm_get (tasks q) tid = Some t \<and>
        (t_State t = StateQueued \<or> lease_expired now t \<and> t_Attempts t < maxAttempts q))" for tid
      by (cases "gm_get (tasks q) tid") (simp_all add: state_of_def expire_task_queued)
    then show ?thesis by blast
  qed
  also have "\<dots> \<longleftrightarrow> ?r"
  proof -
    have "\<not> (t_State t = StateQueued \<or> lease_expired now t \<and> t_Attempts t < maxAttempts q) \<longleftrightarrow>
        t_State t = StateCompleted \<or> t_State t = StateFailed \<or>
        (t_State t = StateLeased \<and> (\<not> lease_expired now t \<or> t_Attempts t = cfg_MaxAttempts cfg))"
      if "gm_get (tasks q) tid = Some t" for tid t
      using queue_inv_task(2) [OF inv that] lq_reach_params [OF assms(1)]
      by (cases "t_State t") (auto simp: task_wf_def lease_expired_def)
    then show ?thesis by blast
  qed
  finally show ?thesis .
qed

theorem claim_none_iff_nothing_claimable_witness:
  "\<not> (\<exists>q'. Claim ''v'' 5 ''L2'' ex_queue = Some (q', Inr None))"
  using claim_none_iff_nothing_claimable [OF ex_reach, of "''v''" 5 "''L2''"]
  by (auto simp: ex_queue_def gm_get_def newTask_def intro!: exI [of _ "''b''"])

text \<open>
  C8. Every assignment handed out is one attempt: over any run from a new queue, the number of
  assignments is the sum of the tasks' attempt counters and at most \<open>MaxAttempts\<close> for each
  accepted task, so retrying ends.
\<close>

theorem assignments_bounded:
  assumes "New cfg = Inr q0" and "run_steps lq_step ls q0 = Some q"
  shows "grants ls q0 = total_attempts q \<and> grants ls q0 \<le> cfg_MaxAttempts cfg * int (length (order q))"
proof -
  note inv0 = New_inv [OF assms(1)]
  have "total_attempts q0 = 0"
    using assms(1) by (auto simp: New_def total_attempts_def split: if_splits)
  then have eq: "grants ls q0 = total_attempts q" using grants_eq [OF inv0 assms(2)] by simp
  have "lq_reach cfg q" by (rule lq_reach_run [OF lq_reach.created [OF assms(1)] assms(2)])
  with eq total_attempts_bound [of q] show ?thesis
    by (simp add: lq_reach_inv lq_reach_params)
qed

theorem assignments_bounded_witness:
  "grants ex_ops ex_new = 1 \<and> grants ex_ops ex_new \<le> 2 * int (length (order ex_queue))"
proof -
  have "total_attempts ex_queue = 1" by code_simp
  with assignments_bounded [OF ex_New ex_run] show ?thesis by (simp add: ex_cfg_def)
qed

section \<open>Refinement\<close>

text \<open>
  C9. Every call refines the task lifecycle: each task that existed before still exists with
  the same payload, its attempt counter has not decreased, and its phase has moved along
  \<open>queued \<rightarrow> leased \<rightarrow> queued / completed / failed\<close>, where a task is requeued only with attempts
  left and failed only when they are used up.
\<close>

theorem calls_refine_lifecycle:
  assumes "lq_reach cfg q" and "lq_step l q = Some q'" and "gm_get (tasks q) tid = Some t"
  shows "\<exists>t'. gm_get (tasks q') tid = Some t' \<and> spec_of t' = spec_of t \<and> t_Attempts t \<le> t_Attempts t' \<and>
    (life (cfg_MaxAttempts cfg))\<^sup>*\<^sup>* (phase_of t) (phase_of t')"
proof -
  obtain t' where "gm_get (tasks q') tid = Some t'" and "task_le (maxAttempts q) t t'"
    using lq_step_le [OF lq_reach_inv [OF assms(1)] assms(2)] assms(3) by (auto simp: queue_le_def)
  then show ?thesis
    using lq_reach_params [OF assms(1)] by (simp add: task_le_def same_payload_def)
qed

theorem calls_refine_lifecycle_witness:
  "\<exists>t'. gm_get (tasks (fst (Complete ''a'' ''L1'' ''w'' (ex_result ''boom'') 4 ex_queue))) ''a'' = Some t' \<and>
    (life 2)\<^sup>*\<^sup>* (PLeased 1) (phase_of t')"
proof -
  have "gm_get (tasks ex_queue) ''a'' = Some ex_a" by (simp add: ex_queue_def gm_get_def)
  from calls_refine_lifecycle [OF ex_reach _ this, of "(OpComplete ''a'' ''L1'' ''w'' (ex_result ''boom''), 4)"]
  show ?thesis by (auto simp: ex_cfg_def ex_a_def phase_of_def)
qed

text \<open>
  C10. The expiry loop, which mutates tasks and queue while it walks \<open>order\<close>, computes the
  reference definition: the expired IDs in submission order, every expired task requeued or
  failed independently of the others, the requeued ones appended in that order.
\<close>

theorem expiry_loop_reference:
  assumes "lq_reach cfg q"
  shows "expireLocked now q = Some (filter (expires now q) (order q),
    q\<lparr>tasks := map (\<lambda>(i, t). (i, expire_task (cfg_MaxAttempts cfg) now t)) (tasks q),
      queued := queued q @ filter (requeues now q) (order q)\<rparr>)"
  using expireLocked_eq [OF lq_reach_inv [OF assms]] lq_reach_params [OF assms]
  by (simp add: expired_queue_def)

theorem expiry_loop_reference_witness: "map_option fst (expireLocked 13 ex_queue) = Some [''a'']"
proof -
  have "filter (expires 13 ex_queue) (order ex_queue) = [''a'']" by code_simp
  with expiry_loop_reference [OF ex_reach, of 13] show ?thesis by simp
qed

text \<open>
  Every lease ID the default generator makes, from random bytes or from the clock and the
  counter, passes the validation that the coordinator applies to the lease IDs workers send
  back.
\<close>

theorem generated_lease_ids_valid:
  assumes "\<forall>b. random = Some b \<longrightarrow> length b = 16"
    and "minInt64 \<le> unixNano" and "unixNano \<le> maxInt64" and "counter < 2 ^ 64"
  shows "ValidateLeaseID (generateLeaseID random unixNano counter) = None"
proof (cases random)
  case (Some b)
  with assms(1) have "length (hex_encode b) = 32" by simp
  moreover from this have "hex_encode b \<noteq> []" by (cases "hex_encode b") auto
  ultimately show ?thesis
    by (simp add: Some generateLeaseID_def ValidateLeaseID_None all_safe_hex_encode)
next
  case None
  have "nat \<bar>unixNano\<bar> < 10 ^ 20" using assms(2,3) by (simp add: minInt64_def maxInt64_def nat_less_iff)
  then have "length (show_nat (nat \<bar>unixNano\<bar>)) \<le> 20" by (intro show_nat_length) auto
  then have "length (show_int unixNano) \<le> 21" by (simp add: show_int_def abs_if split: if_splits)
  moreover have "counter < 10 ^ 20" using assms(4) by simp
  then have "length (show_nat counter) \<le> 20" by (intro show_nat_length) auto
  ultimately show ?thesis
    by (simp add: None generateLeaseID_def ValidateLeaseID_None all_safe_show_int all_safe_show_nat
        safe_byte_def safe_rune_def byte_def)
qed

theorem generated_lease_ids_valid_witness:
  "ValidateLeaseID (generateLeaseID None 1700000000000000000 7) = None"
  by (rule generated_lease_ids_valid) (simp_all add: minInt64_def maxInt64_def)

end
