(* ===== verification/Workload.thy ===== *)
theory Workload
  imports Types
begin

text \<open>
  \<open>internal/workload/manifest.go\<close>: the versioned manifest, its bounds and its loading. The
  errors are values that carry what their messages print. Opening and reading the file is the
  operating system's: it is an argument, either a failure or the contents as a JSON document.
\<close>

section \<open>Data and limits\<close>

definition ManifestVersion :: int where "ManifestVersion = 1"
definition HTTPProbeType :: string where "HTTPProbeType = ''http_probe''"
definition MaxManifestBytes :: int where "MaxManifestBytes = 5 * 1024 * 1024"
definition MaxTasks :: nat where "MaxTasks = 1000"
definition MaxKeyBytes :: nat where "MaxKeyBytes = 128"
definition MaxInputBytes :: nat where "MaxInputBytes = 4096"
definition MaxTaskTypeBytes :: nat where "MaxTaskTypeBytes = 64"

lemmas workload_limits = ManifestVersion_def HTTPProbeType_def MaxManifestBytes_def MaxTasks_def
  MaxKeyBytes_def MaxInputBytes_def MaxTaskTypeBytes_def

record WTask =
  wt_Key :: string
  wt_Input :: string

record Manifest =
  mf_Version :: int
  mf_Type :: string
  mf_Tasks :: "WTask list"

datatype workload_error =
    ManifestPathRequired
  | ManifestReadFailed string
  | ManifestTooLarge
  | ManifestInvalidJSON
  | ManifestMultipleValues
  | UnsupportedVersion int
  | ManifestTypeRequired
  | TaskTypeRequired
  | TaskTypeTooLong
  | TaskTypeBadCharacter
  | InManifest workload_error
  | UnsupportedTaskType string
  | NoTasks
  | TooManyTasks nat
  | EmptyKey nat
  | KeyTooLong string
  | DuplicateKey string
  | EmptyInput string
  | InputTooLong string
  | NoInputs
  | TooManyInputs nat
  | SimpleInputTooLong nat

section \<open>Validation\<close>

definition type_rune :: "rune \<Rightarrow> bool" where
  "type_rune r = ((97 \<le> r \<and> r \<le> 122) \<or> r = 95)"

definition ValidateTaskType :: "string \<Rightarrow> workload_error option" where
  "ValidateTaskType taskType =
     (if taskType = [] then Some TaskTypeRequired
      else if length taskType > MaxTaskTypeBytes then Some TaskTypeTooLong
      else if \<not> list_all type_rune (runes taskType) then Some TaskTypeBadCharacter
      else None)"

fun validate_tasks_loop :: "nat \<Rightarrow> (string, unit) gomap \<Rightarrow> WTask list \<Rightarrow> workload_error option" where
  "validate_tasks_loop index keys [] = None"
| "validate_tasks_loop index keys (task # rest) =
     (if TrimSpace (wt_Key task) = [] then Some (EmptyKey index)
      else if length (wt_Key task) > MaxKeyBytes then Some (KeyTooLong (wt_Key task))
      else if gm_get keys (wt_Key task) \<noteq> None then Some (DuplicateKey (wt_Key task))
      else if length (wt_Input task) = 0 then Some (EmptyInput (wt_Key task))
      else if length (wt_Input task) > MaxInputBytes then Some (InputTooLong (wt_Key task))
      else validate_tasks_loop (index + 1) (gm_set (wt_Key task) () keys) rest)"

definition ValidateTasks :: "WTask list \<Rightarrow> workload_error option" where
  "ValidateTasks ts =
     (if length ts = 0 then Some NoTasks
      else if length ts > MaxTasks then Some (TooManyTasks (length ts))
      else validate_tasks_loop 0 [] ts)"

fun validate_inputs_loop :: "nat \<Rightarrow> string list \<Rightarrow> workload_error option" where
  "validate_inputs_loop index [] = None"
| "validate_inputs_loop index (input # rest) =
     (if length input > MaxInputBytes then Some (SimpleInputTooLong index)
      else validate_inputs_loop (index + 1) rest)"

definition ValidateSimpleInputs :: "string list \<Rightarrow> workload_error option" where
  "ValidateSimpleInputs inputs =
     (if length inputs = 0 then Some NoInputs
      else if length inputs > MaxTasks then Some (TooManyInputs (length inputs))
      else validate_inputs_loop 0 inputs)"

definition ValidateManifest :: "Manifest \<Rightarrow> workload_error option" where
  "ValidateManifest m =
     (if mf_Version m \<noteq> ManifestVersion then Some (UnsupportedVersion (mf_Version m))
      else if mf_Type m = [] then Some ManifestTypeRequired
      else case ValidateTaskType (mf_Type m) of
          Some e \<Rightarrow> Some (InManifest e)
        | None \<Rightarrow>
            if mf_Type m \<noteq> HTTPProbeType then Some (UnsupportedTaskType (mf_Type m))
            else ValidateTasks (mf_Tasks m))"

section \<open>Loading\<close>

definition zero_WTask :: WTask where
  "zero_WTask = \<lparr>wt_Key = [], wt_Input = []\<rparr>"

definition zero_Manifest :: Manifest where
  "zero_Manifest = \<lparr>mf_Version = 0, mf_Type = [], mf_Tasks = []\<rparr>"

definition fields_WTask :: "WTask fields" where
  "fields_WTask =
    [(''key'', \<lambda>v r. map_option (\<lambda>x. r\<lparr>wt_Key := x\<rparr>) (decode_string v (wt_Key r))),
     (''input'', \<lambda>v r. map_option (\<lambda>x. r\<lparr>wt_Input := x\<rparr>) (decode_string v (wt_Input r)))]"

definition fields_Manifest :: "Manifest fields" where
  "fields_Manifest =
    [(''version'', \<lambda>v r. map_option (\<lambda>x. r\<lparr>mf_Version := x\<rparr>) (decode_int64 v (mf_Version r))),
     (''type'', \<lambda>v r. map_option (\<lambda>x. r\<lparr>mf_Type := x\<rparr>) (decode_string v (mf_Type r))),
     (''tasks'', \<lambda>v r. map_option (\<lambda>x. r\<lparr>mf_Tasks := x\<rparr>)
        (decode_slice (decode_struct fields_WTask) zero_WTask v (mf_Tasks r)))]"

datatype file_contents = OpenFails string | ReadFails string | Contents json_doc

text \<open>\<open>decoder.Decode(&extra)\<close> on what follows the first value.\<close>

fun ensureEndOfJSON :: "json option list \<Rightarrow> workload_error option" where
  "ensureEndOfJSON [] = None"
| "ensureEndOfJSON (None # _) = Some ManifestInvalidJSON"
| "ensureEndOfJSON (Some _ # _) = Some ManifestMultipleValues"

definition LoadManifest :: "string \<Rightarrow> file_contents \<Rightarrow> workload_error + Manifest" where
  "LoadManifest path file =
     (if TrimSpace path = [] then Inl ManifestPathRequired
      else case file of
          OpenFails e \<Rightarrow> Inl (ManifestReadFailed e)
        | ReadFails e \<Rightarrow> Inl (ManifestReadFailed e)
        | Contents doc \<Rightarrow>
            if doc_len doc > MaxManifestBytes then Inl ManifestTooLarge
            else case doc_vals doc of
                Some v # rest \<Rightarrow>
                  (case decode_struct fields_Manifest v zero_Manifest of
                     None \<Rightarrow> Inl ManifestInvalidJSON
                   | Some m \<Rightarrow>
                       (case ensureEndOfJSON rest of
                          Some e \<Rightarrow> Inl e
                        | None \<Rightarrow> (case ValidateManifest m of Some e \<Rightarrow> Inl e | None \<Rightarrow> Inr m)))
              | _ \<Rightarrow> Inl ManifestInvalidJSON)"

section \<open>What validation accepts\<close>

definition type_byte :: "char \<Rightarrow> bool" where
  "type_byte c = type_rune (byte c)"

lemma ValidateTaskType_None:
  "ValidateTaskType s = None \<longleftrightarrow> s \<noteq> [] \<and> length s \<le> 64 \<and> list_all type_byte s"
proof -
  have "list_all type_rune (runes s) = list_all type_byte s"
    unfolding type_byte_def by (rule all_runes_ascii) (auto simp: type_rune_def)
  then show ?thesis by (auto simp: ValidateTaskType_def MaxTaskTypeBytes_def)
qed

text \<open>One task within the bounds of the manifest.\<close>

definition task_ok :: "WTask \<Rightarrow> bool" where
  "task_ok t = (TrimSpace (wt_Key t) \<noteq> [] \<and> length (wt_Key t) \<le> 128 \<and>
     0 < length (wt_Input t) \<and> length (wt_Input t) \<le> 4096)"

lemma validate_tasks_loop_None:
  "validate_tasks_loop i keys ts = None \<longleftrightarrow>
     list_all task_ok ts \<and> distinct (map wt_Key ts) \<and> (\<forall>t \<in> set ts. gm_get keys (wt_Key t) = None)"
proof (induction ts arbitrary: i keys)
  case (Cons t ts)
  show ?case
  proof (cases "task_ok t \<and> gm_get keys (wt_Key t) = None")
    case True
    then have "validate_tasks_loop i keys (t # ts) = validate_tasks_loop (i + 1) (gm_set (wt_Key t) () keys) ts"
      by (simp add: task_ok_def workload_limits)
    with True Cons.IH show ?thesis by (auto simp: image_iff)
  next
    case False
    then show ?thesis by (auto simp: task_ok_def workload_limits)
  qed
qed simp

lemma ValidateTasks_None:
  "ValidateTasks ts = None \<longleftrightarrow>
     1 \<le> length ts \<and> length ts \<le> 1000 \<and> list_all task_ok ts \<and> distinct (map wt_Key ts)"
  by (auto simp: ValidateTasks_def validate_tasks_loop_None MaxTasks_def Suc_le_eq)

lemma validate_inputs_loop_None:
  "validate_inputs_loop i xs = None \<longleftrightarrow> list_all (\<lambda>s. length s \<le> 4096) xs"
  by (induction i xs rule: validate_inputs_loop.induct) (auto simp: MaxInputBytes_def)

lemma ValidateSimpleInputs_None:
  "ValidateSimpleInputs xs = None \<longleftrightarrow>
     1 \<le> length xs \<and> length xs \<le> 1000 \<and> list_all (\<lambda>s. length s \<le> 4096) xs"
  by (auto simp: ValidateSimpleInputs_def validate_inputs_loop_None MaxTasks_def Suc_le_eq)

lemma HTTPProbeType_ok: "ValidateTaskType HTTPProbeType = None"
  by (simp add: ValidateTaskType_None HTTPProbeType_def type_byte_def type_rune_def byte_def)

lemma ValidateManifest_None:
  "ValidateManifest m = None \<longleftrightarrow> mf_Version m = 1 \<and> mf_Type m = HTTPProbeType \<and> ValidateTasks (mf_Tasks m) = None"
proof (cases "mf_Type m = HTTPProbeType")
  case True
  then show ?thesis
    using HTTPProbeType_ok by (simp add: ValidateManifest_def ManifestVersion_def)
      (simp add: HTTPProbeType_def)
next
  case False
  then show ?thesis by (auto simp: ValidateManifest_def ManifestVersion_def split: option.splits)
qed

lemma ensureEndOfJSON_None: "ensureEndOfJSON vs = None \<longleftrightarrow> vs = []"
  by (cases vs rule: ensureEndOfJSON.cases) auto

lemma LoadManifest_Inr:
  "LoadManifest path file = Inr m \<longleftrightarrow> TrimSpace path \<noteq> [] \<and>
     (\<exists>doc v. file = Contents doc \<and> doc_len doc \<le> MaxManifestBytes \<and> doc_vals doc = [Some v] \<and>
        decode_struct fields_Manifest v zero_Manifest = Some m \<and> ValidateManifest m = None)"
  by (auto simp: LoadManifest_def ensureEndOfJSON_None split: file_contents.splits list.splits option.splits)

end
