(* ===== verification/Monitor.thy ===== *)
theory Monitor
  imports Types "HOL-Library.Char_ord" "HOL-Library.List_Lexorder"
begin

text \<open>
  \<open>internal/monitor\<close>: the presentation-neutral views (\<open>model.go\<close>), the bounded event history
  (\<open>recorder.go\<close>), the progress of a job as the submit client sees it (\<open>job.go\<close>), and the
  trackers of the worker (\<open>worker.go\<close>) and of the submit command (\<open>submit.go\<close>). Each method
  runs under its lock, so it is one atomic step.
\<close>

section \<open>Model (model.go)\<close>

datatype ConnectionState =
    ConnectionStarting | ConnectionConnected | ConnectionUnavailable | ConnectionAuthFailed
  | ConnectionUntrusted | ConnectionIdentity | ConnectionStopping

record TaskCounts =
  tc_Queued :: int
  tc_Running :: int
  tc_Completed :: int
  tc_Failed :: int
  tc_Total :: int

record TaskProgress =
  tp_TaskID :: string
  tp_Key :: string
  tp_State :: string
  tp_WorkerID :: string
  tp_Attempt :: int
  tp_StartedAt :: time
  tp_Duration :: duration
  tp_Output :: string
  tp_Error :: string

record WorkerSummary =
  wm_WorkerID :: string
  wm_LastActivity :: time
  wm_Active :: int

record WorkerContribution =
  wc_WorkerID :: string
  wc_Active :: int
  wc_Completed :: int
  wc_Failed :: int

record JobProgress =
  jp_JobID :: string
  jp_State :: string
  jp_Total :: int
  jp_Queued :: int
  jp_Running :: int
  jp_Completed :: int
  jp_Failed :: int
  jp_StartedAt :: time
  jp_Elapsed :: duration
  jp_Tasks :: "TaskProgress list"
  jp_Workers :: "WorkerContribution list"

datatype Severity = SeverityInfo | SeverityWarning | SeverityError

record SystemEvent =
  ev_Time :: time
  ev_Severity :: Severity
  ev_Component :: string
  ev_Kind :: string
  ev_Message :: string
  ev_Fields :: "(string, string) gomap option"

record CoordinatorSnapshot =
  co_ObservedAt :: time
  co_Online :: bool
  co_Addresses :: "string list"
  co_Fingerprint :: string
  co_Uptime :: duration
  co_Tasks :: TaskCounts
  co_Jobs :: int
  co_Workers :: "WorkerSummary list"
  co_CurrentJob :: "JobProgress option"
  co_Events :: "SystemEvent list"

record WorkerSnapshot =
  wk_ObservedAt :: time
  wk_WorkerID :: string
  wk_Coordinator :: string
  wk_Connection :: ConnectionState
  wk_ConnectedAt :: time
  wk_UnavailableSince :: time
  wk_LastError :: string
  wk_RetryAttempt :: int
  wk_RetryAt :: time
  wk_Concurrency :: int
  wk_ActiveTasks :: "TaskProgress list"
  wk_Completed :: int
  wk_Failed :: int
  wk_Events :: "SystemEvent list"

record SubmitSnapshot =
  sn_ObservedAt :: time
  sn_Submitted :: bool
  sn_Done :: bool
  sn_TimedOut :: bool
  sn_Job :: JobProgress
  sn_Error :: string

section \<open>Event history (recorder.go)\<close>

definition defaultEventLimit :: int where "defaultEventLimit = 100"

record Recorder =
  rc_limit :: int
  rc_events :: "SystemEvent list"

definition NewRecorder :: "int \<Rightarrow> Recorder" where
  "NewRecorder limit = \<lparr>rc_limit = (if limit \<le> 0 then defaultEventLimit else limit), rc_events = []\<rparr>"

text \<open>An event without a time gets the clock's; the copy of its fields is the same map.\<close>

definition stamp :: "time \<Rightarrow> SystemEvent \<Rightarrow> SystemEvent" where
  "stamp now event = (if time_IsZero (ev_Time event) then event\<lparr>ev_Time := now\<rparr> else event)"

definition Record :: "time \<Rightarrow> SystemEvent \<Rightarrow> Recorder \<Rightarrow> Recorder" where
  "Record now event r =
     (if int (length (rc_events r)) = rc_limit r
      then r\<lparr>rc_events := tl (rc_events r) @ [stamp now event]\<rparr>
      else r\<lparr>rc_events := rc_events r @ [stamp now event]\<rparr>)"

definition Recorder_Snapshot :: "Recorder \<Rightarrow> SystemEvent list" where
  "Recorder_Snapshot r = rc_events r"

text \<open>
  The contract a bounded history offers to the components that log into it: what it shows is
  the end of what was recorded, at most \<open>limit\<close> events.
\<close>

locale event_history =
  fixes record_event :: "'i \<Rightarrow> 'r \<Rightarrow> 'r" and entry :: "'i \<Rightarrow> 'e" and shown :: "'r \<Rightarrow> 'e list"
    and limit :: "'r \<Rightarrow> nat" and ok :: "'r \<Rightarrow> bool"
  assumes ok_limit: "ok r \<Longrightarrow> 0 < limit r \<and> length (shown r) \<le> limit r"
    and ok_record: "ok r \<Longrightarrow> ok (record_event i r) \<and> limit (record_event i r) = limit r"
    and record_law: "ok r \<Longrightarrow> shown (record_event i r) =
        (if length (shown r) = limit r then tl (shown r) @ [entry i] else shown r @ [entry i])"
begin

lemma shown_record: "ok r \<Longrightarrow> shown (record_event i r) = takeLast (limit r) (shown r @ [entry i])"
proof (cases "length (shown r) = limit r")
  case True
  assume ok: "ok r"
  with True show ?thesis
    using takeLast_snoc_full [of "limit r" "shown r" "entry i"] ok_limit [OF ok]
    by (simp add: record_law takeLast_all)
next
  case False
  assume ok: "ok r"
  with False ok_limit [OF ok] show ?thesis by (simp add: record_law takeLast_all)
qed

text \<open>What is shown after any number of events is the end of the whole history.\<close>

lemma shown_history: "ok r \<Longrightarrow> shown (fold record_event is r) = takeLast (limit r) (shown r @ map entry is)"
proof (induction "is" arbitrary: r)
  case Nil
  then show ?case by (simp add: takeLast_all ok_limit)
next
  case (Cons i "is")
  then show ?case
    using takeLast_takeLast_append [of "limit r" "shown r @ [entry i]" "map entry is"]
    by (simp add: ok_record shown_record)
qed

lemma ok_fold: "ok r \<Longrightarrow> ok (fold record_event is r) \<and> limit (fold record_event is r) = limit r"
  by (induction "is" arbitrary: r) (auto simp: ok_record)

end

definition recorder_ok :: "Recorder \<Rightarrow> bool" where
  "recorder_ok r = (0 < rc_limit r \<and> int (length (rc_events r)) \<le> rc_limit r)"

lemma NewRecorder_ok: "recorder_ok (NewRecorder n)"
  by (simp add: recorder_ok_def NewRecorder_def defaultEventLimit_def)

interpretation recorder: event_history "\<lambda>(now, e). Record now e" "\<lambda>(now, e). stamp now e"
    Recorder_Snapshot "\<lambda>r. nat (rc_limit r)" recorder_ok
  by unfold_locales (auto simp: recorder_ok_def Record_def Recorder_Snapshot_def)

section \<open>Job progress of the client (job.go)\<close>

definition empty_JobProgress :: JobProgress where
  "empty_JobProgress = \<lparr>jp_JobID = [], jp_State = [], jp_Total = 0, jp_Queued = 0, jp_Running = 0,
     jp_Completed = 0, jp_Failed = 0, jp_StartedAt = 0, jp_Elapsed = 0, jp_Tasks = [], jp_Workers = []\<rparr>"

definition progress_of :: "PullJobTask \<Rightarrow> TaskProgress" where
  "progress_of task = \<lparr>tp_TaskID = jt_TaskID task, tp_Key = jt_Key task, tp_State = jt_State task,
     tp_WorkerID = jt_WorkerID task, tp_Attempt = jt_Attempts task, tp_StartedAt = 0,
     tp_Duration = (case jt_Result task of None \<Rightarrow> 0 | Some r \<Rightarrow> tr_Duration r),
     tp_Output = (case jt_Result task of None \<Rightarrow> [] | Some r \<Rightarrow> tr_Output r),
     tp_Error = (case jt_Result task of None \<Rightarrow> [] | Some r \<Rightarrow> tr_Error r)\<rparr>"

definition count_job_state :: "string \<Rightarrow> JobProgress \<Rightarrow> JobProgress" where
  "count_job_state st job =
     (if st = ''queued'' then job\<lparr>jp_Queued := jp_Queued job + 1\<rparr>
      else if st = ''leased'' then job\<lparr>jp_Running := jp_Running job + 1\<rparr>
      else if st = ''completed'' then job\<lparr>jp_Completed := jp_Completed job + 1\<rparr>
      else if st = ''failed'' then job\<lparr>jp_Failed := jp_Failed job + 1\<rparr>
      else job)"

definition count_contribution :: "string \<Rightarrow> WorkerContribution \<Rightarrow> WorkerContribution" where
  "count_contribution st w =
     (if st = ''leased'' then w\<lparr>wc_Active := wc_Active w + 1\<rparr>
      else if st = ''completed'' then w\<lparr>wc_Completed := wc_Completed w + 1\<rparr>
      else if st = ''failed'' then w\<lparr>wc_Failed := wc_Failed w + 1\<rparr>
      else w)"

text \<open>The body of the loop over the tasks; the accumulator is the job and the map of workers.\<close>

definition job_loop_step :: "PullJobTask \<Rightarrow> JobProgress \<times> (string, WorkerContribution) gomap \<Rightarrow>
    JobProgress \<times> (string, WorkerContribution) gomap" where
  "job_loop_step task = (\<lambda>(job, workers).
     (let job1 = count_job_state (jt_State task) job;
          job2 = job1\<lparr>jp_Tasks := jp_Tasks job1 @ [progress_of task]\<rparr>
      in if jt_WorkerID task = [] then (job2, workers)
         else let w = (case gm_get workers (jt_WorkerID task) of
                  None \<Rightarrow> \<lparr>wc_WorkerID = jt_WorkerID task, wc_Active = 0, wc_Completed = 0, wc_Failed = 0\<rparr>
                | Some w \<Rightarrow> w)
              in (job2, gm_set (jt_WorkerID task) (count_contribution (jt_State task) w) workers)))"

definition JobFromResponse :: "PullJobResponse \<Rightarrow> time \<Rightarrow> time \<Rightarrow> JobProgress" where
  "JobFromResponse response startedAt observedAt =
     (let job0 = empty_JobProgress\<lparr>jp_JobID := jr_JobID response,
            jp_State := PullJobState_str (jr_State response),
            jp_Total := int (length (jr_Tasks response)), jp_StartedAt := startedAt,
            jp_Elapsed := (if time_IsZero startedAt then 0 else time_Sub observedAt startedAt)\<rparr>;
          (job, workers) = fold job_loop_step (jr_Tasks response) (job0, [])
      in job\<lparr>jp_Workers := sort_key wc_WorkerID (map snd workers)\<rparr>)"

section \<open>Worker tracker (worker.go)\<close>

record WorkerTracker =
  wt_snapshot :: WorkerSnapshot
  wt_events :: Recorder

definition NewWorkerTracker :: "string \<Rightarrow> string \<Rightarrow> int \<Rightarrow> WorkerTracker" where
  "NewWorkerTracker workerID coordinator concurrency =
     \<lparr>wt_snapshot = \<lparr>wk_ObservedAt = 0, wk_WorkerID = workerID, wk_Coordinator = coordinator,
        wk_Connection = ConnectionStarting, wk_ConnectedAt = 0, wk_UnavailableSince = 0, wk_LastError = [],
        wk_RetryAttempt = 0, wk_RetryAt = 0, wk_Concurrency = concurrency, wk_ActiveTasks = [],
        wk_Completed = 0, wk_Failed = 0, wk_Events = []\<rparr>,
      wt_events = NewRecorder defaultEventLimit\<rparr>"

definition wt_Connected :: "time \<Rightarrow> WorkerTracker \<Rightarrow> WorkerTracker" where
  "wt_Connected now t =
     (let s = wt_snapshot t;
          s1 = (if wk_Connection s \<noteq> ConnectionConnected then s\<lparr>wk_ConnectedAt := now\<rparr> else s)
      in t\<lparr>wt_snapshot := s1\<lparr>wk_Connection := ConnectionConnected, wk_UnavailableSince := 0,
             wk_LastError := [], wk_RetryAttempt := 0, wk_RetryAt := 0\<rparr>\<rparr>)"

text \<open>The switch of \<open>Unavailable\<close> on the text of the error.\<close>

definition classify_unavailable :: "string \<Rightarrow> ConnectionState" where
  "classify_unavailable text =
     (let lower = ToLower text
      in if Contains lower ''authentication rejected'' \<or> Contains lower ''http 401'' then ConnectionAuthFailed
         else if Contains lower ''no coordinator identity is trusted'' then ConnectionUntrusted
         else if Contains lower ''fingerprint mismatch'' \<or> Contains lower ''certificate changed''
                 \<or> Contains lower ''coordinator identity mismatch'' then ConnectionIdentity
         else ConnectionUnavailable)"

definition wt_Unavailable :: "time \<Rightarrow> string option \<Rightarrow> int \<Rightarrow> time \<Rightarrow> WorkerTracker \<Rightarrow> WorkerTracker" where
  "wt_Unavailable now err attempt retryAt t =
     (let s = wt_snapshot t;
          state = (case err of None \<Rightarrow> ConnectionUnavailable | Some text \<Rightarrow> classify_unavailable text);
          s1 = (if wk_Connection s \<noteq> state then s\<lparr>wk_UnavailableSince := now\<rparr> else s);
          s2 = s1\<lparr>wk_Connection := state\<rparr>;
          s3 = (case err of None \<Rightarrow> s2 | Some text \<Rightarrow> s2\<lparr>wk_LastError := text\<rparr>)
      in t\<lparr>wt_snapshot := s3\<lparr>wk_RetryAttempt := attempt, wk_RetryAt := retryAt\<rparr>\<rparr>)"

definition wt_Stopping :: "WorkerTracker \<Rightarrow> WorkerTracker" where
  "wt_Stopping t = t\<lparr>wt_snapshot := (wt_snapshot t)\<lparr>wk_Connection := ConnectionStopping\<rparr>\<rparr>"

fun start_task :: "TaskProgress \<Rightarrow> TaskProgress list \<Rightarrow> TaskProgress list" where
  "start_task task [] = [task]"
| "start_task task (a # as) = (if tp_TaskID a = tp_TaskID task then task # as else a # start_task task as)"

definition wt_TaskStarted :: "TaskProgress \<Rightarrow> WorkerTracker \<Rightarrow> WorkerTracker" where
  "wt_TaskStarted task t = t\<lparr>wt_snapshot := (wt_snapshot t)\<lparr>wk_ActiveTasks :=
     start_task task (wk_ActiveTasks (wt_snapshot t))\<rparr>\<rparr>"

fun finish_task :: "string \<Rightarrow> TaskProgress list \<Rightarrow> TaskProgress list" where
  "finish_task taskID [] = []"
| "finish_task taskID (a # as) = (if tp_TaskID a = taskID then as else a # finish_task taskID as)"

definition wt_TaskFinished :: "string \<Rightarrow> bool \<Rightarrow> bool \<Rightarrow> WorkerTracker \<Rightarrow> WorkerTracker" where
  "wt_TaskFinished taskID completed failed t =
     (let s = wt_snapshot t
      in t\<lparr>wt_snapshot := s\<lparr>wk_ActiveTasks := finish_task taskID (wk_ActiveTasks s),
             wk_Completed := wk_Completed s + (if completed then 1 else 0),
             wk_Failed := wk_Failed s + (if failed then 1 else 0)\<rparr>\<rparr>)"

definition wt_Record :: "time \<Rightarrow> SystemEvent \<Rightarrow> WorkerTracker \<Rightarrow> WorkerTracker" where
  "wt_Record now event t = t\<lparr>wt_events := Record now event (wt_events t)\<rparr>"

definition wt_Snapshot :: "time \<Rightarrow> WorkerTracker \<Rightarrow> WorkerSnapshot" where
  "wt_Snapshot now t = (wt_snapshot t)\<lparr>wk_ObservedAt := now, wk_Events := Recorder_Snapshot (wt_events t),
     wk_ActiveTasks := sort_key tp_TaskID (wk_ActiveTasks (wt_snapshot t))\<rparr>"

section \<open>Submit tracker (submit.go)\<close>

record SubmitTracker =
  sb_snapshot :: SubmitSnapshot
  sb_startedAt :: time

definition NewSubmitTracker :: "int \<Rightarrow> SubmitTracker" where
  "NewSubmitTracker tot =
     \<lparr>sb_snapshot = \<lparr>sn_ObservedAt = 0, sn_Submitted = False, sn_Done = False, sn_TimedOut = False,
        sn_Job = empty_JobProgress\<lparr>jp_Total := tot, jp_Queued := tot, jp_State := ''submitting''\<rparr>,
        sn_Error = []\<rparr>,
      sb_startedAt = 0\<rparr>"

definition sb_Submitted :: "string \<Rightarrow> int \<Rightarrow> time \<Rightarrow> SubmitTracker \<Rightarrow> SubmitTracker" where
  "sb_Submitted jobID tot now t =
     \<lparr>sb_snapshot = (sb_snapshot t)\<lparr>sn_Submitted := True,
        sn_Job := empty_JobProgress\<lparr>jp_JobID := jobID, jp_State := ''queued'', jp_Total := tot,
          jp_Queued := tot, jp_StartedAt := now\<rparr>\<rparr>,
      sb_startedAt = now\<rparr>"

definition sb_Update :: "PullJobResponse \<Rightarrow> time \<Rightarrow> SubmitTracker \<Rightarrow> SubmitTracker \<times> JobProgress" where
  "sb_Update response now t =
     (let job = JobFromResponse response (sb_startedAt t) now
      in (t\<lparr>sb_snapshot := (sb_snapshot t)\<lparr>sn_Submitted := True, sn_Job := job\<rparr>\<rparr>, job))"

definition sb_Finish :: "string option \<Rightarrow> bool \<Rightarrow> SubmitTracker \<Rightarrow> SubmitTracker" where
  "sb_Finish err timedOut t =
     (let s = (sb_snapshot t)\<lparr>sn_Done := True, sn_TimedOut := timedOut\<rparr>
      in t\<lparr>sb_snapshot := (case err of None \<Rightarrow> s | Some text \<Rightarrow> s\<lparr>sn_Error := text\<rparr>)\<rparr>)"

definition sb_Snapshot :: "time \<Rightarrow> SubmitTracker \<Rightarrow> SubmitSnapshot" where
  "sb_Snapshot now t =
     (let s = (sb_snapshot t)\<lparr>sn_ObservedAt := now\<rparr>
      in if sn_Submitted s \<and> \<not> sn_Done s \<and> \<not> time_IsZero (sb_startedAt t)
         then s\<lparr>sn_Job := (sn_Job s)\<lparr>jp_Elapsed := time_Sub now (sb_startedAt t)\<rparr>\<rparr> else s)"

end
