(* ===== verification/Auth.thy ===== *)
theory Auth
  imports GoStrings
begin

text \<open>
  \<open>internal/auth/auth.go\<close> and \<open>internal/audit/logger.go\<close>: the bearer-token guard of every
  route, and the optional audit log it writes to. SHA-256 is an argument (\<open>sha256\<close>); what a
  property needs of it is a named hypothesis.
\<close>

section \<open>Audit log\<close>

record AuditEvent =
  ae_Type :: string
  ae_Source :: string
  ae_Status :: string
  ae_Msg :: string
  ae_Extra :: "(string, string) gomap"

text \<open>
  The package's globals: the open file (by name) and whether a logger writes to it, and what has
  been appended to each file so far.
\<close>

record Audit =
  au_file :: "string option"
  au_logger :: bool
  au_disk :: "string \<Rightarrow> AuditEvent list"

text \<open>\<open>openErr\<close> is the error \<open>os.OpenFile\<close> returns for the path, if it fails.\<close>

definition InitLogger :: "string \<Rightarrow> string option \<Rightarrow> Audit \<Rightarrow> Audit \<times> string option" where
  "InitLogger logFile openErr a =
     (let a1 = (if au_file a \<noteq> None then a\<lparr>au_file := None, au_logger := False\<rparr> else a)
      in if logFile = [] then (a1, None)
         else case openErr of
             Some e \<Rightarrow> (a1, Some e)
           | None \<Rightarrow> (a1\<lparr>au_file := Some logFile, au_logger := True\<rparr>, None))"

definition Audit_Close :: "string option \<Rightarrow> Audit \<Rightarrow> Audit \<times> string option" where
  "Audit_Close closeErr a =
     (if au_file a = None then (a\<lparr>au_logger := False\<rparr>, None)
      else (a\<lparr>au_logger := False, au_file := None\<rparr>, closeErr))"

definition LogEvent :: "AuditEvent \<Rightarrow> Audit \<Rightarrow> Audit" where
  "LogEvent e a =
     (if \<not> au_logger a then a
      else case au_file a of
          None \<Rightarrow> a
        | Some f \<Rightarrow> a\<lparr>au_disk := (au_disk a)(f := au_disk a f @ [e])\<rparr>)"

section \<open>Bearer authentication\<close>

text \<open>\<open>strings.EqualFold(s, "Bearer")\<close>: none of the letters folds to a rune beyond ASCII.\<close>

definition equalFoldBearer :: "string \<Rightarrow> bool" where
  "equalFoldBearer s = (map lower_ascii s = ''bearer'')"

definition bearerToken :: "string \<Rightarrow> string option" where
  "bearerToken header = (case Fields header of
       [scheme, token] \<Rightarrow> if \<not> equalFoldBearer scheme \<or> token = [] then None else Some token
     | _ \<Rightarrow> None)"

definition tokensEqual :: "(string \<Rightarrow> string) \<Rightarrow> string \<Rightarrow> string \<Rightarrow> bool" where
  "tokensEqual sha256 presented expected = (sha256 presented = sha256 expected)"

text \<open>
  The guard: whether \<open>next\<close> runs, and the audit log afterwards. When it does not run, the
  response is 401.
\<close>

definition WithBearerAuth :: "(string \<Rightarrow> string) \<Rightarrow> string \<Rightarrow> string list \<Rightarrow> string \<Rightarrow> string \<Rightarrow> Audit \<Rightarrow> Audit \<times> bool" where
  "WithBearerAuth sha256 expectedToken authorizationHeaders remoteAddr path a =
     (let presented = (case authorizationHeaders of [h] \<Rightarrow> bearerToken h | _ \<Rightarrow> None)
      in case presented of
          Some token \<Rightarrow>
            if tokensEqual sha256 token expectedToken then (a, True)
            else (LogEvent \<lparr>ae_Type = ''auth_failure'', ae_Source = remoteAddr, ae_Status = ''401'',
                   ae_Msg = ''Authentication failed'', ae_Extra = [(''path'', path)]\<rparr> a, False)
        | None \<Rightarrow>
            (LogEvent \<lparr>ae_Type = ''auth_failure'', ae_Source = remoteAddr, ae_Status = ''401'',
               ae_Msg = ''Authentication failed'', ae_Extra = [(''path'', path)]\<rparr> a, False))"

text \<open>The header every client sends: \<open>"Bearer " + token\<close>.\<close>

definition clientHeader :: "string \<Rightarrow> string" where
  "clientHeader token = ''Bearer '' @ token"

section \<open>Fields of a header\<close>

lemma fields_loop_flush:
  "cur \<noteq> [] \<Longrightarrow> fields_loop ((32, b) # cs) cur = cur # fields_loop cs []"
  by (simp add: IsSpace_def)

lemma utf8_chunks_Bearer:
  "utf8_chunks (''Bearer '' @ s) = map (\<lambda>c. (byte c, [c])) ''Bearer '' @ utf8_chunks s"
  by (simp add: utf8_chunks_ascii byte_def)

lemma Fields_clientHeader: "Fields (clientHeader token) = ''Bearer'' # Fields token"
  by (simp add: Fields_def clientHeader_def utf8_chunks_Bearer del: append.simps)
    (simp add: IsSpace_def byte_def)

text \<open>No field contains a byte that was not in the text, and a single field equal to the text means no spaces.\<close>

lemma fields_loop_length: "sum_list (map length (fields_loop cs cur)) = length cur + sum_list (map (\<lambda>(r, b). if IsSpace r then 0 else length b) cs)"
  by (induction cs cur rule: fields_loop.induct) auto

lemma utf8_chunk_ne: "(r, b) \<in> set (utf8_chunks s) \<Longrightarrow> b \<noteq> []"
proof (induction s rule: utf8_chunks.induct)
  case (2 c cs)
  have "1 \<le> snd (decode_rune (map byte (c # cs)))" by (rule decode_rune_size) simp
  with 2 show ?case by (auto simp: utf8_chunks.simps(2) Let_def)
qed simp

lemma Fields_self_nospace:
  assumes "Fields s = [s]"
  shows "list_all (\<lambda>r. \<not> IsSpace r) (runes s)"
proof -
  have len: "length s = sum_list (map (\<lambda>(r, b). length b) (utf8_chunks s))"
    using arg_cong [OF utf8_chunks_concat [of s], of length]
    by (simp add: length_concat comp_def case_prod_unfold)
  have "sum_list (map (\<lambda>(r, b). if IsSpace r then 0 else length b) (utf8_chunks s)) = length s"
    using fields_loop_length [of "utf8_chunks s" "[]"] assms by (simp add: Fields_def)
  with len have eq: "sum_list (map (\<lambda>(r, b). if IsSpace r then 0 else length b) (utf8_chunks s))
      = sum_list (map (\<lambda>(r, b). length b) (utf8_chunks s))" by simp
  have "\<not> IsSpace r" if "(r, b) \<in> set (utf8_chunks s)" for r b
  proof
    assume sp: "IsSpace r"
    have "length b \<noteq> 0" using utf8_chunk_ne [OF that] by simp
    have "sum_list (map (\<lambda>(r, b). if IsSpace r then 0 else length b) cs) + (if (r, b) \<in> set cs then length b else 0)
        \<le> sum_list (map (\<lambda>(r, b). length b) cs)" for cs :: "(rune \<times> string) list"
      using sp by (induction cs) (auto split: if_split_asm if_split)
    from this [of "utf8_chunks s"] that eq \<open>length b \<noteq> 0\<close> show False by simp
  qed
  then show ?thesis by (auto simp: runes_def list_all_iff)
qed

text \<open>The server reads back the token a client sends exactly when it contains no space.\<close>

lemma bearerToken_clientHeader:
  "bearerToken (clientHeader token) = Some token \<longleftrightarrow> token \<noteq> [] \<and> list_all (\<lambda>r. \<not> IsSpace r) (runes token)"
proof
  assume "bearerToken (clientHeader token) = Some token"
  then have "Fields token = [token]" and "token \<noteq> []"
    by (auto simp: bearerToken_def Fields_clientHeader split: list.splits if_splits)
  then show "token \<noteq> [] \<and> list_all (\<lambda>r. \<not> IsSpace r) (runes token)"
    using Fields_self_nospace by blast
next
  assume "token \<noteq> [] \<and> list_all (\<lambda>r. \<not> IsSpace r) (runes token)"
  then have "Fields token = [token]" by (intro Fields_nospace) auto
  moreover have "equalFoldBearer ''Bearer''" by code_simp
  ultimately show "bearerToken (clientHeader token) = Some token"
    using \<open>token \<noteq> [] \<and> _\<close> by (simp add: bearerToken_def Fields_clientHeader)
qed

end
