(* ===== verification/Coordinator.thy ===== *)
theory Coordinator
  imports LeaseQueueSpec Workload Monitor Auth
begin

text \<open>
  \<open>internal/coordinator\<close>: the server's state and its six HTTP handlers (\<open>server.go\<close>,
  \<open>pull.go\<close>, \<open>status.go\<close>) and the view for the terminal (\<open>monitor.go\<close>). A handler takes the
  request and the state and gives the new state with the response, or \<open>None\<close> if it panics.
  \<open>clk n\<close> is the n-th reading of the clock within the call. Log lines are left out; the event
  history, the audit log and the worker table are kept.
\<close>

section \<open>Requests, responses and server state\<close>

record Request =
  r_Method :: string
  r_Path :: string
  r_Authorization :: "string list"
  r_RemoteAddr :: string
  r_QueryID :: string
  r_Body :: json_doc

datatype submit_error =
    InvalidSubmitJSON
  | WorkloadError workload_error
  | InputsAndTasks
  | KeyedTasksNeedType
  | QueueError lq_error

datatype Body =
    BText string
  | BClaim PullClaimResponse
  | BRenew PullRenewResponse
  | BResult PullResultResponse
  | BSubmitError submit_error
  | BSubmit PullSubmitResponse
  | BErrorText string
  | BJob PullJobResponse
  | BStatus CoordinatorStatusResponse

record Response =
  rsp_Status :: int
  rsp_Body :: Body

abbreviation StatusOK :: int where "StatusOK \<equiv> 200"
abbreviation StatusBadRequest :: int where "StatusBadRequest \<equiv> 400"
abbreviation StatusUnauthorized :: int where "StatusUnauthorized \<equiv> 401"
abbreviation StatusNotFound :: int where "StatusNotFound \<equiv> 404"
abbreviation StatusMethodNotAllowed :: int where "StatusMethodNotAllowed \<equiv> 405"
abbreviation StatusConflict :: int where "StatusConflict \<equiv> 409"
abbreviation StatusRequestEntityTooLarge :: int where "StatusRequestEntityTooLarge \<equiv> 413"
abbreviation StatusInternalServerError :: int where "StatusInternalServerError \<equiv> 500"

definition DefaultLeaseDuration :: duration where "DefaultLeaseDuration = 6 * Second"
definition DefaultMaxAttempts :: int where "DefaultMaxAttempts = 3"
definition MaxWorkerRequestBytes :: int where "MaxWorkerRequestBytes = 128 * 1024"
definition recentWorkerWindow :: duration where "recentWorkerWindow = 30 * Second"

record ServerConfig =
  sc_Port :: int
  sc_Token :: string
  sc_LeaseDuration :: duration
  sc_MaxAttempts :: int

record Server =
  sv_startTime :: time
  sv_port :: int
  sv_token :: string
  sv_pullQueue :: Queue
  sv_events :: Recorder
  sv_leaseDuration :: duration
  sv_maxAttempts :: int
  sv_workerActivity :: "(string, time) gomap"

definition NewServer :: "ServerConfig \<Rightarrow> time \<Rightarrow> lq_error + Server" where
  "NewServer config now =
     (case New \<lparr>cfg_LeaseDuration = sc_LeaseDuration config, cfg_MaxAttempts = sc_MaxAttempts config\<rparr> of
        Inl e \<Rightarrow> Inl e
      | Inr q \<Rightarrow> Inr \<lparr>sv_startTime = now, sv_port = sc_Port config, sv_token = sc_Token config,
          sv_pullQueue = q, sv_events = NewRecorder 100, sv_leaseDuration = sc_LeaseDuration config,
          sv_maxAttempts = sc_MaxAttempts config, sv_workerActivity = []\<rparr>)"

definition recordWorkerActivity :: "string \<Rightarrow> time \<Rightarrow> Server \<Rightarrow> Server" where
  "recordWorkerActivity workerID now s =
     (if workerID = [] then s
      else s\<lparr>sv_workerActivity := gm_set workerID now (sv_workerActivity s)\<rparr>)"

definition recordEvent :: "time \<Rightarrow> Severity \<Rightarrow> string \<Rightarrow> string \<Rightarrow> (string, string) gomap \<Rightarrow> Server \<Rightarrow> Server" where
  "recordEvent now severity kind message flds s =
     s\<lparr>sv_events := Record now \<lparr>ev_Time = 0, ev_Severity = severity, ev_Component = ''coordinator'',
         ev_Kind = kind, ev_Message = message, ev_Fields = Some flds\<rparr> (sv_events s)\<rparr>"

definition writeJSON :: "Body \<Rightarrow> Response" where
  "writeJSON b = \<lparr>rsp_Status = StatusOK, rsp_Body = b\<rparr>"

definition writeJSONStatus :: "int \<Rightarrow> Body \<Rightarrow> Response" where
  "writeJSONStatus status b = \<lparr>rsp_Status = status, rsp_Body = b\<rparr>"

text \<open>
  One JSON value within \<open>maxBytes\<close> and nothing after it. A longer body makes a read fail, in the
  first or in the second call of the decoder; every failure is the same to the handlers.
\<close>

definition decodeJSONRequest :: "'a fields \<Rightarrow> 'a \<Rightarrow> json_doc \<Rightarrow> int \<Rightarrow> 'a option" where
  "decodeJSONRequest fs zero doc maxBytes =
     (if doc_len doc > maxBytes then None
      else case doc_vals doc of
          Some v # rest \<Rightarrow>
            (case decode_struct fs v zero of
               None \<Rightarrow> None
             | Some req \<Rightarrow> if rest = [] then Some req else None)
        | _ \<Rightarrow> None)"

definition logExpiredLease :: "time \<Rightarrow> string \<Rightarrow> Server \<Rightarrow> Server" where
  "logExpiredLease now taskID s = recordEvent now SeverityWarning ''lease_expired''
     ''Task lease expired; applying retry policy'' [(''task_id'', taskID)] s"

fun log_expired :: "(nat \<Rightarrow> time) \<Rightarrow> nat \<Rightarrow> string list \<Rightarrow> Server \<Rightarrow> nat \<times> Server" where
  "log_expired clk n [] s = (n, s)"
| "log_expired clk n (taskID # ids) s = log_expired clk (n + 1) ids (logExpiredLease (clk n) taskID s)"

fun pullErrorResponse :: "lq_error \<Rightarrow> PullStatus \<times> int" where
  "pullErrorResponse ErrAlreadyCompleted = (PullTaskCompleted, StatusConflict)"
| "pullErrorResponse ErrStaleLease = (PullStaleLease, StatusConflict)"
| "pullErrorResponse ErrTaskFailed = (PullTaskFailed, StatusConflict)"
| "pullErrorResponse ErrTaskNotFound = (PullRejected, StatusNotFound)"
| "pullErrorResponse ErrWrongWorker = (PullRejected, StatusConflict)"
| "pullErrorResponse _ = (PullRejected, StatusBadRequest)"

definition methodNotAllowed :: Response where
  "methodNotAllowed = \<lparr>rsp_Status = StatusMethodNotAllowed, rsp_Body = BText ''method not allowed''\<rparr>"

section \<open>Worker API (pull.go)\<close>

definition claim_reply :: "PullStatus \<Rightarrow> PullTask option \<Rightarrow> string \<Rightarrow> Body" where
  "claim_reply status task msg = BClaim \<lparr>cs_Status = status, cs_Task = task, cs_Message = msg\<rparr>"

definition pull_task_of :: "Assignment \<Rightarrow> PullTask" where
  "pull_task_of a = \<lparr>pt_TaskID = ts_ID (a_Task a), pt_JobID = ts_JobID (a_Task a),
     pt_Type = ts_Type (a_Task a), pt_Input = ts_Input (a_Task a), pt_LeaseID = l_ID (a_Lease a),
     pt_Attempt = l_Attempt (a_Lease a), pt_LeaseExpiresAt = l_ExpiresAt (a_Lease a)\<rparr>"

definition handlePullClaim :: "(nat \<Rightarrow> time) \<Rightarrow> string \<Rightarrow> Request \<Rightarrow> Server \<Rightarrow> (Server \<times> Response) option" where
  "handlePullClaim clk leaseID r s =
     (if r_Method r \<noteq> ''POST'' then Some (s, methodNotAllowed)
      else case decodeJSONRequest fields_PullClaimRequest zero_PullClaimRequest (r_Body r) MaxWorkerRequestBytes of
        None \<Rightarrow> Some (s, writeJSONStatus StatusBadRequest (claim_reply PullRejected None ''invalid request''))
      | Some req \<Rightarrow>
        (case ValidateWorkerID (cq_WorkerID req) of
           Some err \<Rightarrow> Some (s, writeJSONStatus StatusBadRequest (claim_reply PullRejected None err))
         | None \<Rightarrow>
           let s1 = recordWorkerActivity (cq_WorkerID req) (clk 0) s
           in case RequeueExpired (clk 1) (sv_pullQueue s1) of
                None \<Rightarrow> None
              | Some (q1, expired) \<Rightarrow>
                let (n, s2) = log_expired clk 2 expired (s1\<lparr>sv_pullQueue := q1\<rparr>)
                in case Claim (cq_WorkerID req) (clk n) leaseID (sv_pullQueue s2) of
                     None \<Rightarrow> None
                   | Some (q2, res) \<Rightarrow>
                     let s3 = s2\<lparr>sv_pullQueue := q2\<rparr>
                     in Some (case res of
                          Inl _ \<Rightarrow> (s3, writeJSONStatus StatusBadRequest (claim_reply PullRejected None []))
                        | Inr None \<Rightarrow> (s3, writeJSON (claim_reply PullNoTask None []))
                        | Inr (Some a) \<Rightarrow>
                            (recordEvent (clk (n + 1)) SeverityInfo ''task_leased'' ''Task leased''
                               [(''task_id'', ts_ID (a_Task a)), (''worker_id'', cq_WorkerID req),
                                (''attempt'', show_int (l_Attempt (a_Lease a)))] s3,
                             writeJSON (claim_reply PullTaskAvailable (Some (pull_task_of a)) [])))))"

definition validateLeaseRequest :: "string \<Rightarrow> string \<Rightarrow> string \<Rightarrow> string option" where
  "validateLeaseRequest workerID taskID leaseID =
     (case ValidateWorkerID workerID of
        Some e \<Rightarrow> Some e
      | None \<Rightarrow> (case ValidateTaskID taskID of Some e \<Rightarrow> Some e | None \<Rightarrow> ValidateLeaseID leaseID))"

definition renew_reply :: "PullStatus \<Rightarrow> time \<Rightarrow> string \<Rightarrow> Body" where
  "renew_reply status at msg = BRenew \<lparr>rs_Status = status, rs_LeaseExpiresAt = at, rs_Message = msg\<rparr>"

definition handlePullRenew :: "(nat \<Rightarrow> time) \<Rightarrow> Request \<Rightarrow> Server \<Rightarrow> (Server \<times> Response) option" where
  "handlePullRenew clk r s =
     (if r_Method r \<noteq> ''POST'' then Some (s, methodNotAllowed)
      else case decodeJSONRequest fields_PullRenewRequest zero_PullRenewRequest (r_Body r) MaxWorkerRequestBytes of
        None \<Rightarrow> Some (s, writeJSONStatus StatusBadRequest (renew_reply PullRejected 0 ''invalid request''))
      | Some req \<Rightarrow>
        (case validateLeaseRequest (rq_WorkerID req) (rq_TaskID req) (rq_LeaseID req) of
           Some err \<Rightarrow> Some (s, writeJSONStatus StatusBadRequest (renew_reply PullRejected 0 err))
         | None \<Rightarrow>
           let s1 = recordWorkerActivity (rq_WorkerID req) (clk 0) s
           in case Renew (rq_TaskID req) (rq_LeaseID req) (rq_WorkerID req) (clk 1) (sv_pullQueue s1) of
                None \<Rightarrow> None
              | Some (q1, Inl err) \<Rightarrow>
                  Some (s1\<lparr>sv_pullQueue := q1\<rparr>, writeJSONStatus (snd (pullErrorResponse err))
                    (renew_reply (fst (pullErrorResponse err)) 0 (lq_error_msg err)))
              | Some (q1, Inr lease) \<Rightarrow>
                  Some (s1\<lparr>sv_pullQueue := q1\<rparr>,
                    writeJSON (renew_reply PullLeaseRenewed (l_ExpiresAt lease) []))))"

definition result_reply :: "PullStatus \<Rightarrow> string \<Rightarrow> Body" where
  "result_reply status msg = BResult \<lparr>us_Status = status, us_Message = msg\<rparr>"

definition lresult_of :: "TResult \<Rightarrow> LResult" where
  "lresult_of r = \<lparr>res_Output = tr_Output r, res_Duration = tr_Duration r, res_Error = tr_Error r\<rparr>"

text \<open>The switch of \<open>handlePullResult\<close>; its default branch (an outcome that is none of the three) cannot be written.\<close>

fun result_outcome :: "time \<Rightarrow> string \<Rightarrow> string \<Rightarrow> CompletionOutcome \<Rightarrow> Server \<Rightarrow> Server \<times> Response" where
  "result_outcome now taskID workerID OutcomeCompleted s =
     (recordEvent now SeverityInfo ''task_completed'' ''Task completed''
        [(''task_id'', taskID), (''worker_id'', workerID)] s,
      writeJSON (result_reply PullTaskCompleted []))"
| "result_outcome now taskID workerID OutcomeRequeued s =
     (recordEvent now SeverityWarning ''task_requeued'' ''Task failed and was requeued''
        [(''task_id'', taskID), (''worker_id'', workerID)] s,
      writeJSON (result_reply PullTaskRequeued ''task execution failed; task returned to queue''))"
| "result_outcome now taskID workerID OutcomeFailed s =
     (recordEvent now SeverityError ''task_failed'' ''Task permanently failed''
        [(''task_id'', taskID), (''worker_id'', workerID)] s,
      writeJSON (result_reply PullTaskFailed ''task execution failed and retry policy was exhausted''))"

definition handlePullResult :: "(nat \<Rightarrow> time) \<Rightarrow> Request \<Rightarrow> Server \<Rightarrow> (Server \<times> Response) option" where
  "handlePullResult clk r s =
     (if r_Method r \<noteq> ''POST'' then Some (s, methodNotAllowed)
      else case decodeJSONRequest fields_PullResultRequest zero_PullResultRequest (r_Body r) MaxWorkerRequestBytes of
        None \<Rightarrow> Some (s, writeJSONStatus StatusBadRequest (result_reply PullRejected ''invalid request''))
      | Some req \<Rightarrow>
        (case validateLeaseRequest (uq_WorkerID req) (uq_TaskID req) (uq_LeaseID req) of
           Some err \<Rightarrow> Some (s, writeJSONStatus StatusBadRequest (result_reply PullRejected err))
         | None \<Rightarrow>
           if tr_TaskID (uq_Result req) \<noteq> [] \<and> tr_TaskID (uq_Result req) \<noteq> uq_TaskID req
           then Some (s, writeJSONStatus StatusBadRequest
                  (result_reply PullRejected ''result task ID does not match request task ID''))
           else case ValidateResult (uq_Result req) of
             Some err \<Rightarrow> Some (s, writeJSONStatus StatusRequestEntityTooLarge (result_reply PullRejected err))
           | None \<Rightarrow>
             let s1 = recordWorkerActivity (uq_WorkerID req) (clk 0) s
             in case Complete (uq_TaskID req) (uq_LeaseID req) (uq_WorkerID req) (lresult_of (uq_Result req))
                       (clk 1) (sv_pullQueue s1) of
                  (q1, Inl err) \<Rightarrow>
                    Some (s1\<lparr>sv_pullQueue := q1\<rparr>, writeJSONStatus (snd (pullErrorResponse err))
                      (result_reply (fst (pullErrorResponse err)) (lq_error_msg err)))
                | (q1, Inr out) \<Rightarrow>
                    Some (result_outcome (clk 2) (uq_TaskID req) (uq_WorkerID req) out (s1\<lparr>sv_pullQueue := q1\<rparr>))))"

section \<open>Client API (pull.go)\<close>

text \<open>\<open>time.Now().UnixNano()\<close>, an \<open>int64\<close>.\<close>

definition unixEpoch :: time where "unixEpoch = 62135596800 * Second"

definition UnixNano :: "time \<Rightarrow> int" where
  "UnixNano t = wrap64 (t - unixEpoch)"

definition job_id :: "time \<Rightarrow> string" where
  "job_id now = ''pull-job-'' @ show_int (UnixNano now)"

definition task_id :: "string \<Rightarrow> nat \<Rightarrow> string" where
  "task_id jobID i = jobID @ ''-task-'' @ show_nat i"

fun submit_loop :: "string \<Rightarrow> string \<Rightarrow> nat \<Rightarrow> WTask list \<Rightarrow> Queue \<Rightarrow> Queue \<times> (lq_error + string list)" where
  "submit_loop jobID taskType i [] q = (q, Inr [])"
| "submit_loop jobID taskType i (task # rest) q =
     (case Enqueue \<lparr>ts_ID = task_id jobID i, ts_JobID = jobID, ts_Key = wt_Key task,
              ts_Type = taskType, ts_Input = wt_Input task\<rparr> q of
        Inl e \<Rightarrow> (q, Inl e)
      | Inr q1 \<Rightarrow>
          (case submit_loop jobID taskType (i + 1) rest q1 of
             (q2, Inl e) \<Rightarrow> (q2, Inl e)
           | (q2, Inr ids) \<Rightarrow> (q2, Inr (task_id jobID i # ids))))"

text \<open>The checks of \<open>handlePullSubmit\<close> and the tasks a valid request stands for.\<close>

definition submit_tasks :: "PullSubmitRequest \<Rightarrow> submit_error + WTask list" where
  "submit_tasks req =
     (case ValidateTaskType (sq_TaskType req) of
        Some e \<Rightarrow> Inl (WorkloadError e)
      | None \<Rightarrow>
        if length (sq_Inputs req) > 0 \<and> length (sq_Tasks req) > 0 then Inl InputsAndTasks
        else if length (sq_Tasks req) > 0 then
          (if sq_TaskType req \<noteq> HTTPProbeType then Inl KeyedTasksNeedType
           else let ts = map (\<lambda>t. \<lparr>wt_Key = st_Key t, wt_Input = st_Input t\<rparr>) (sq_Tasks req)
                in case ValidateTasks ts of Some e \<Rightarrow> Inl (WorkloadError e) | None \<Rightarrow> Inr ts)
        else
          (case ValidateSimpleInputs (sq_Inputs req) of
             Some e \<Rightarrow> Inl (WorkloadError e)
           | None \<Rightarrow> Inr (map (\<lambda>input. \<lparr>wt_Key = [], wt_Input = input\<rparr>) (sq_Inputs req))))"

definition handlePullSubmit :: "(nat \<Rightarrow> time) \<Rightarrow> Request \<Rightarrow> Server \<Rightarrow> (Server \<times> Response) option" where
  "handlePullSubmit clk r s =
     (if r_Method r \<noteq> ''POST'' then Some (s, methodNotAllowed)
      else case decodeJSONRequest fields_PullSubmitRequest zero_PullSubmitRequest (r_Body r) MaxManifestBytes of
        None \<Rightarrow> Some (s, writeJSONStatus StatusBadRequest (BSubmitError InvalidSubmitJSON))
      | Some req \<Rightarrow>
        (case submit_tasks req of
           Inl e \<Rightarrow> Some (s, writeJSONStatus StatusBadRequest (BSubmitError e))
         | Inr ts \<Rightarrow>
           let jobID = job_id (clk 0)
           in case submit_loop jobID (sq_TaskType req) 0 ts (sv_pullQueue s) of
                (q1, Inl e) \<Rightarrow>
                  Some (s\<lparr>sv_pullQueue := q1\<rparr>, writeJSONStatus StatusInternalServerError (BSubmitError (QueueError e)))
              | (q1, Inr ids) \<Rightarrow>
                  Some (recordEvent (clk 1) SeverityInfo ''job_queued'' ''Job queued''
                          [(''job_id'', jobID), (''tasks'', show_nat (length ids))] (s\<lparr>sv_pullQueue := q1\<rparr>),
                        writeJSON (BSubmit \<lparr>ss_JobID = jobID, ss_TaskIDs = ids\<rparr>))))"

definition job_task_of :: "Task \<Rightarrow> PullJobTask" where
  "job_task_of task = \<lparr>jt_TaskID = t_ID task, jt_Key = t_Key task, jt_State = TaskState_str (t_State task),
     jt_Attempts = t_Attempts task, jt_WorkerID = t_WorkerID task,
     jt_Result = (case t_Result task of None \<Rightarrow> None
       | Some r \<Rightarrow> Some \<lparr>tr_TaskID = t_ID task, tr_Output = res_Output r, tr_Duration = res_Duration r,
           tr_DurationStr = Duration_String (res_Duration r), tr_Error = res_Error r\<rparr>)\<rparr>"

text \<open>The loop of \<open>handlePullJob\<close>: the three flags and the tasks of the response.\<close>

fun job_flags :: "Task list \<Rightarrow> bool \<times> bool \<times> bool \<Rightarrow> bool \<times> bool \<times> bool" where
  "job_flags [] fl = fl"
| "job_flags (task # rest) (allTerminal, anyFailed, started) =
     job_flags rest
       (if t_State task \<noteq> StateCompleted \<and> t_State task \<noteq> StateFailed then False else allTerminal,
        if t_State task = StateFailed then True else anyFailed,
        if t_Attempts task > 0 then True else started)"

definition job_state :: "Task list \<Rightarrow> PullJobState" where
  "job_state ts =
     (case job_flags ts (True, False, False) of
        (allTerminal, anyFailed, started) \<Rightarrow>
          if allTerminal then (if anyFailed then PullJobFailed else PullJobCompleted)
          else if started then PullJobRunning else PullJobQueued)"

definition handlePullJob :: "(nat \<Rightarrow> time) \<Rightarrow> Request \<Rightarrow> Server \<Rightarrow> (Server \<times> Response) option" where
  "handlePullJob clk r s =
     (if r_Method r \<noteq> ''GET'' then Some (s, methodNotAllowed)
      else if r_QueryID r = [] then Some (s, writeJSONStatus StatusBadRequest (BErrorText ''job id is required''))
      else case RequeueExpired (clk 0) (sv_pullQueue s) of
        None \<Rightarrow> None
      | Some (q1, expired) \<Rightarrow>
        let (n, s1) = log_expired clk 1 expired (s\<lparr>sv_pullQueue := q1\<rparr>)
        in case JobTasks (r_QueryID r) (clk n) (sv_pullQueue s1) of
             None \<Rightarrow> None
           | Some (q2, ts) \<Rightarrow>
             let s2 = s1\<lparr>sv_pullQueue := q2\<rparr>
             in if length ts = 0 then Some (s2, writeJSONStatus StatusNotFound (BErrorText ''job not found''))
                else Some (s2, writeJSON (BJob \<lparr>jr_JobID = r_QueryID r, jr_State = job_state ts,
                       jr_Tasks = map job_task_of ts\<rparr>)))"

section \<open>Status (status.go)\<close>

definition countTaskStates :: "Task list \<Rightarrow> Stats" where
  "countTaskStates ts = fold (\<lambda>task. count_task (t_State task)) ts (stats_zero (int (length ts)))"

definition active_leases :: "Task list \<Rightarrow> (string, int) gomap" where
  "active_leases ts = fold (\<lambda>task m.
     if t_State task = StateLeased then
       (case t_Lease task of
          None \<Rightarrow> m
        | Some l \<Rightarrow> gm_set (l_WorkerID l) (case gm_get m (l_WorkerID l) of None \<Rightarrow> 1 | Some n \<Rightarrow> n + 1) m)
     else m) ts []"

definition job_set :: "Task list \<Rightarrow> (string, unit) gomap" where
  "job_set ts = fold (\<lambda>task m. gm_set (t_JobID task) () m) ts []"

text \<open>The loop over \<open>workerActivity\<close>: entries before the cutoff are deleted, the others reported.\<close>

fun recent_workers :: "time \<Rightarrow> (string \<times> time) list \<Rightarrow> (string, time) gomap \<Rightarrow> (string, time) gomap \<times> (string \<times> time) list" where
  "recent_workers cutoff [] m = (m, [])"
| "recent_workers cutoff ((w, seen) # rest) m =
     (if seen < cutoff then recent_workers cutoff rest (gm_del w m)
      else case recent_workers cutoff rest m of (m', ws) \<Rightarrow> (m', (w, seen) # ws))"

definition handlePullStatus :: "(nat \<Rightarrow> time) \<Rightarrow> Request \<Rightarrow> Server \<Rightarrow> (Server \<times> Response) option" where
  "handlePullStatus clk r s =
     (if r_Method r \<noteq> ''GET'' then Some (s, methodNotAllowed)
      else case RequeueExpired (clk 0) (sv_pullQueue s) of
        None \<Rightarrow> None
      | Some (q1, expired) \<Rightarrow>
        let (n, s1) = log_expired clk 1 expired (s\<lparr>sv_pullQueue := q1\<rparr>)
        in case Snapshot (clk n) (sv_pullQueue s1) of
             None \<Rightarrow> None
           | Some (q2, ts) \<Rightarrow>
             let stats = countTaskStates ts;
                 active = active_leases ts;
                 (activity, recent) = recent_workers (time_Add (clk (n + 1)) (- recentWorkerWindow))
                   (sv_workerActivity s1) (sv_workerActivity s1);
                 workers = map (\<lambda>(w, seen). \<lparr>ws_WorkerID = w, ws_LastActivity = seen,
                   ws_ActiveLeases = (case gm_get active w of None \<Rightarrow> 0 | Some n \<Rightarrow> n)\<rparr>) recent
             in Some (s1\<lparr>sv_pullQueue := q2, sv_workerActivity := activity\<rparr>,
                  writeJSON (BStatus \<lparr>cr_QueuedTasks = sts_Queued stats, cr_LeasedTasks = sts_Leased stats,
                    cr_CompletedTasks = sts_Completed stats, cr_FailedTasks = sts_Failed stats,
                    cr_TotalTasks = sts_Total stats, cr_TotalJobs = int (length (job_set ts)),
                    cr_RecentWorkers = sort_key ws_WorkerID workers,
                    cr_Uptime = time_Sub (clk (n + 2)) (sv_startTime s1)\<rparr>)))"

section \<open>Routing (server.go)\<close>

text \<open>
  The mux with the guard in front of every handler. \<open>sha256\<close> is the hash of the guard; a path
  that is none of the six gets the mux's 404.
\<close>

definition dispatch :: "(nat \<Rightarrow> time) \<Rightarrow> string \<Rightarrow> Request \<Rightarrow> (Server \<Rightarrow> (Server \<times> Response) option) option" where
  "dispatch clk leaseID r =
     (if r_Path r = ''/worker/claim'' then Some (handlePullClaim clk leaseID r)
      else if r_Path r = ''/worker/renew'' then Some (handlePullRenew clk r)
      else if r_Path r = ''/worker/result'' then Some (handlePullResult clk r)
      else if r_Path r = ''/pull/submit'' then Some (handlePullSubmit clk r)
      else if r_Path r = ''/pull/job'' then Some (handlePullJob clk r)
      else if r_Path r = ''/status'' then Some (handlePullStatus clk r)
      else None)"

definition routes :: "(string \<Rightarrow> string) \<Rightarrow> (nat \<Rightarrow> time) \<Rightarrow> string \<Rightarrow> Request \<Rightarrow> Audit \<times> Server \<Rightarrow>
    ((Audit \<times> Server) \<times> Response) option" where
  "routes sha256 clk leaseID r = (\<lambda>(a, s).
     case dispatch clk leaseID r of
       None \<Rightarrow> Some ((a, s), \<lparr>rsp_Status = StatusNotFound, rsp_Body = BText ''404 page not found''\<rparr>)
     | Some h \<Rightarrow>
         (case WithBearerAuth sha256 (sv_token s) (r_Authorization r) (r_RemoteAddr r) (r_Path r) a of
            (a1, False) \<Rightarrow> Some ((a1, s), \<lparr>rsp_Status = StatusUnauthorized, rsp_Body = BText ''Unauthorized''\<rparr>)
          | (a1, True) \<Rightarrow> map_option (\<lambda>(s1, resp). ((a1, s1), resp)) (h s)))"

end
