(* ===== verification/CoordinatorInv.thy ===== *)
theory CoordinatorInv
  imports Coordinator
begin

text \<open>
  The coordinator as a client of the lease queue: which calls of the queue a request amounts
  to, the proof that each handler performs exactly these, the invariant of the server state,
  and what \<open>/pull/submit\<close> does to the task table. The theorems of the queue carry over to
  sequences of requests through these lemmas.
\<close>

section \<open>Requests as calls\<close>

text \<open>What an accepted request asks for; a request that the checks reject is \<open>None\<close>.\<close>

datatype call =
    ClaimCall string
  | RenewCall PullRenewRequest
  | ResultCall PullResultRequest
  | SubmitCall string "WTask list"
  | JobCall string
  | StatusCall

definition claim_call :: "Request \<Rightarrow> call option" where
  "claim_call r = (case decodeJSONRequest fields_PullClaimRequest zero_PullClaimRequest (r_Body r) MaxWorkerRequestBytes of
       None \<Rightarrow> None
     | Some req \<Rightarrow> if ValidateWorkerID (cq_WorkerID req) = None then Some (ClaimCall (cq_WorkerID req)) else None)"

definition renew_call :: "Request \<Rightarrow> call option" where
  "renew_call r = (case decodeJSONRequest fields_PullRenewRequest zero_PullRenewRequest (r_Body r) MaxWorkerRequestBytes of
       None \<Rightarrow> None
     | Some req \<Rightarrow> if validateLeaseRequest (rq_WorkerID req) (rq_TaskID req) (rq_LeaseID req) = None
         then Some (RenewCall req) else None)"

definition result_call :: "Request \<Rightarrow> call option" where
  "result_call r = (case decodeJSONRequest fields_PullResultRequest zero_PullResultRequest (r_Body r) MaxWorkerRequestBytes of
       None \<Rightarrow> None
     | Some req \<Rightarrow> if validateLeaseRequest (uq_WorkerID req) (uq_TaskID req) (uq_LeaseID req) = None \<and>
           (tr_TaskID (uq_Result req) = [] \<or> tr_TaskID (uq_Result req) = uq_TaskID req) \<and>
           ValidateResult (uq_Result req) = None
         then Some (ResultCall req) else None)"

definition submit_call :: "Request \<Rightarrow> call option" where
  "submit_call r = (case decodeJSONRequest fields_PullSubmitRequest zero_PullSubmitRequest (r_Body r) MaxManifestBytes of
       None \<Rightarrow> None
     | Some req \<Rightarrow> (case submit_tasks req of Inl _ \<Rightarrow> None | Inr ts \<Rightarrow> Some (SubmitCall (sq_TaskType req) ts)))"

definition call_of :: "Request \<Rightarrow> call option" where
  "call_of r =
     (if r_Path r = ''/worker/claim'' then (if r_Method r = ''POST'' then claim_call r else None)
      else if r_Path r = ''/worker/renew'' then (if r_Method r = ''POST'' then renew_call r else None)
      else if r_Path r = ''/worker/result'' then (if r_Method r = ''POST'' then result_call r else None)
      else if r_Path r = ''/pull/submit'' then (if r_Method r = ''POST'' then submit_call r else None)
      else if r_Path r = ''/pull/job'' then
        (if r_Method r = ''GET'' \<and> r_QueryID r \<noteq> [] then Some (JobCall (r_QueryID r)) else None)
      else if r_Path r = ''/status'' then (if r_Method r = ''GET'' then Some StatusCall else None)
      else None)"

text \<open>The calls of the queue that a request makes, with the clock reading each of them uses.\<close>

definition submit_spec :: "string \<Rightarrow> string \<Rightarrow> nat \<Rightarrow> WTask \<Rightarrow> TaskSpec" where
  "submit_spec jobID taskType i task = \<lparr>ts_ID = task_id jobID i, ts_JobID = jobID, ts_Key = wt_Key task,
     ts_Type = taskType, ts_Input = wt_Input task\<rparr>"

fun enqueue_ops :: "time \<Rightarrow> string \<Rightarrow> string \<Rightarrow> nat \<Rightarrow> WTask list \<Rightarrow> Queue \<Rightarrow> (lq_op \<times> time) list" where
  "enqueue_ops now jobID taskType i [] q = []"
| "enqueue_ops now jobID taskType i (task # rest) q =
     (OpEnqueue (submit_spec jobID taskType i task), now) #
     (case Enqueue (submit_spec jobID taskType i task) q of
        Inl _ \<Rightarrow> [] | Inr q1 \<Rightarrow> enqueue_ops now jobID taskType (i + 1) rest q1)"

definition n_expired :: "time \<Rightarrow> Queue \<Rightarrow> nat" where
  "n_expired now q = length (filter (expires now q) (order q))"

fun queue_calls :: "(nat \<Rightarrow> time) \<Rightarrow> string \<Rightarrow> call \<Rightarrow> Queue \<Rightarrow> (lq_op \<times> time) list" where
  "queue_calls clk leaseID (ClaimCall w) q =
     [(OpRequeueExpired, clk 1), (OpClaim w leaseID, clk (2 + n_expired (clk 1) q))]"
| "queue_calls clk leaseID (RenewCall req) q = [(OpRenew (rq_TaskID req) (rq_LeaseID req) (rq_WorkerID req), clk 1)]"
| "queue_calls clk leaseID (ResultCall req) q =
     [(OpComplete (uq_TaskID req) (uq_LeaseID req) (uq_WorkerID req) (lresult_of (uq_Result req)), clk 1)]"
| "queue_calls clk leaseID (SubmitCall taskType ts) q = enqueue_ops (clk 0) (job_id (clk 0)) taskType 0 ts q"
| "queue_calls clk leaseID (JobCall j) q =
     [(OpRequeueExpired, clk 0), (OpJobTasks j, clk (1 + n_expired (clk 0) q))]"
| "queue_calls clk leaseID StatusCall q =
     [(OpRequeueExpired, clk 0), (OpSnapshot, clk (1 + n_expired (clk 0) q))]"

definition request_calls :: "(nat \<Rightarrow> time) \<Rightarrow> string \<Rightarrow> Request \<Rightarrow> Queue \<Rightarrow> (lq_op \<times> time) list" where
  "request_calls clk leaseID r q = (case call_of r of None \<Rightarrow> [] | Some c \<Rightarrow> queue_calls clk leaseID c q)"

section \<open>Recording\<close>

lemma recordEvent_sel [simp]:
  "sv_pullQueue (recordEvent now sev k m f s) = sv_pullQueue s"
  "sv_workerActivity (recordEvent now sev k m f s) = sv_workerActivity s"
  "sv_token (recordEvent now sev k m f s) = sv_token s"
  "sv_startTime (recordEvent now sev k m f s) = sv_startTime s"
  by (simp_all add: recordEvent_def)

lemma log_expired_sel [simp]:
  "sv_pullQueue (snd (log_expired clk n ids s)) = sv_pullQueue s"
  "sv_workerActivity (snd (log_expired clk n ids s)) = sv_workerActivity s"
  "sv_token (snd (log_expired clk n ids s)) = sv_token s"
  "sv_startTime (snd (log_expired clk n ids s)) = sv_startTime s"
  "fst (log_expired clk n ids s) = n + length ids"
  by (induction clk n ids s rule: log_expired.induct) (simp_all add: logExpiredLease_def)

lemma recordWorkerActivity_sel [simp]:
  "sv_pullQueue (recordWorkerActivity w now s) = sv_pullQueue s"
  "sv_events (recordWorkerActivity w now s) = sv_events s"
  "sv_token (recordWorkerActivity w now s) = sv_token s"
  "sv_startTime (recordWorkerActivity w now s) = sv_startTime s"
  by (simp_all add: recordWorkerActivity_def)

definition server_inv :: "Server \<Rightarrow> bool" where
  "server_inv s = (queue_inv (sv_pullQueue s) \<and> recorder_ok (sv_events s) \<and> gm_wf (sv_workerActivity s))"

lemma recorder_ok_Record: "recorder_ok r \<Longrightarrow> recorder_ok (Record now e r)"
  using recorder.ok_record [of r "(now, e)"] by simp

lemma events_ok_recordEvent: "recorder_ok (sv_events s) \<Longrightarrow> recorder_ok (sv_events (recordEvent now sev k m f s))"
  by (simp add: recordEvent_def recorder_ok_Record)

lemma events_ok_log_expired: "recorder_ok (sv_events s) \<Longrightarrow> recorder_ok (sv_events (snd (log_expired clk n ids s)))"
  by (induction clk n ids s rule: log_expired.induct) (simp_all add: logExpiredLease_def events_ok_recordEvent)

lemma activity_wf_record: "gm_wf (sv_workerActivity s) \<Longrightarrow> gm_wf (sv_workerActivity (recordWorkerActivity w now s))"
  by (simp add: recordWorkerActivity_def gm_wf_set)

lemma recent_workers_wf: "gm_wf m \<Longrightarrow> gm_wf (fst (recent_workers cutoff ws m))"
  by (induction cutoff ws m rule: recent_workers.induct) (auto split: prod.splits)

lemma result_outcome_sel [simp]:
  "sv_pullQueue (fst (result_outcome now t w out s)) = sv_pullQueue s"
  "sv_workerActivity (fst (result_outcome now t w out s)) = sv_workerActivity s"
  "sv_token (fst (result_outcome now t w out s)) = sv_token s"
  by (cases out; simp)+

lemma events_ok_outcome: "recorder_ok (sv_events s) \<Longrightarrow> recorder_ok (sv_events (fst (result_outcome now t w out s)))"
  by (cases out) (simp_all add: events_ok_recordEvent)

lemmas events_ok = events_ok_recordEvent events_ok_log_expired events_ok_outcome activity_wf_record

section \<open>Every request is served\<close>

text \<open>
  The contract of a handler on a call: it does not panic, its effect on the queue is the given
  list of queue calls, and the server keeps its invariant and its token.
\<close>

definition served :: "(lq_op \<times> time) list \<Rightarrow> Server \<Rightarrow> (Server \<times> Response) option \<Rightarrow> bool" where
  "served ls s res = (case res of None \<Rightarrow> False
     | Some (s', resp) \<Rightarrow> run_steps lq_step ls (sv_pullQueue s) = Some (sv_pullQueue s') \<and>
         server_inv s' \<and> sv_token s' = sv_token s)"

definition rejected :: "Server \<Rightarrow> (Server \<times> Response) option \<Rightarrow> bool" where
  "rejected s res = (case res of None \<Rightarrow> False
     | Some (s', resp) \<Rightarrow> s' = s \<and> rsp_Status resp \<in> {400, 405, 413})"

lemma requeue_expired_eq:
  "queue_inv q \<Longrightarrow> RequeueExpired now q = Some (expired_queue now q, filter (expires now q) (order q))"
  by (rule reading_eqs)

lemma served_inv_queue:
  assumes "queue_inv q" and "run_steps lq_step ls q = Some q'"
  shows "queue_inv q'"
  using lq.run_inv [OF assms] .

text \<open>What the claim handler makes of the answer of the queue.\<close>

fun claim_answer :: "time \<Rightarrow> string \<Rightarrow> (lq_error + Assignment option) \<Rightarrow> Server \<Rightarrow> Server \<times> Response" where
  "claim_answer now w (Inl e) s = (s, writeJSONStatus StatusBadRequest (claim_reply PullRejected None []))"
| "claim_answer now w (Inr None) s = (s, writeJSON (claim_reply PullNoTask None []))"
| "claim_answer now w (Inr (Some a)) s =
     (recordEvent now SeverityInfo ''task_leased'' ''Task leased''
        [(''task_id'', ts_ID (a_Task a)), (''worker_id'', w), (''attempt'', show_int (l_Attempt (a_Lease a)))] s,
      writeJSON (claim_reply PullTaskAvailable (Some (pull_task_of a)) []))"

lemma claim_answer_sel [simp]:
  "sv_pullQueue (fst (claim_answer now w res s)) = sv_pullQueue s"
  "sv_workerActivity (fst (claim_answer now w res s)) = sv_workerActivity s"
  "sv_token (fst (claim_answer now w res s)) = sv_token s"
  "recorder_ok (sv_events s) \<Longrightarrow> recorder_ok (sv_events (fst (claim_answer now w res s)))"
  by (induction now w res s rule: claim_answer.induct) (simp_all add: events_ok)

lemma handlePullClaim_eq:
  assumes inv: "server_inv s" and c: "r_Method r = ''POST''" "claim_call r = Some c"
  shows "\<exists>w n q2 res s2. c = ClaimCall w \<and> ValidateWorkerID w = None \<and>
    n = 2 + n_expired (clk 1) (sv_pullQueue s) \<and>
    Claim w (clk n) i (expired_queue (clk 1) (sv_pullQueue s)) = Some (q2, res) \<and> queue_inv q2 \<and>
    sv_pullQueue s2 = q2 \<and> recorder_ok (sv_events s2) \<and> gm_wf (sv_workerActivity s2) \<and>
    sv_token s2 = sv_token s \<and> handlePullClaim clk i r s = Some (claim_answer (clk (n + 1)) w res s2)"
proof -
  obtain req where req: "decodeJSONRequest fields_PullClaimRequest zero_PullClaimRequest (r_Body r) MaxWorkerRequestBytes = Some req"
    and v: "ValidateWorkerID (cq_WorkerID req) = None" and cc: "c = ClaimCall (cq_WorkerID req)"
    using c(2) by (auto simp: claim_call_def split: option.splits if_splits)
  let ?q = "sv_pullQueue s" and ?w = "cq_WorkerID req"
  let ?q1 = "expired_queue (clk 1) ?q" and ?s1 = "recordWorkerActivity (cq_WorkerID req) (clk 0) s"
  have qi: "queue_inv ?q" and ev: "recorder_ok (sv_events s)" and wf: "gm_wf (sv_workerActivity s)"
    using inv by (simp_all add: server_inv_def)
  obtain n s2 where l: "log_expired clk 2 (filter (expires (clk 1) ?q) (order ?q)) (?s1\<lparr>sv_pullQueue := ?q1\<rparr>) = (n, s2)"
    by (meson surj_pair)
  note l1 = arg_cong [OF l, of fst] and l2 = arg_cong [OF l, of snd]
  have n: "n = 2 + n_expired (clk 1) ?q" using l1 by (simp add: n_expired_def)
  have s2: "sv_pullQueue s2 = ?q1" "recorder_ok (sv_events s2)" "gm_wf (sv_workerActivity s2)" "sv_token s2 = sv_token s"
    using ev wf by (simp_all add: events_ok flip: l2 [simplified])
  obtain q2 res where cl: "Claim ?w (clk n) i ?q1 = Some (q2, res)" and q2: "queue_inv q2"
    using Claim_safe [OF expired_queue_inv [OF qi]] by blast
  have "handlePullClaim clk i r s = Some (claim_answer (clk (n + 1)) ?w res (s2\<lparr>sv_pullQueue := q2\<rparr>))"
    using cl c(1) req v s2
    by (simp add: handlePullClaim_def requeue_expired_eq [OF qi] l Let_def del: One_nat_def
        split: sum.splits option.splits)
  with cc v n cl q2 s2 show ?thesis
    by (intro exI [of _ ?w] exI [of _ n] exI [of _ q2] exI [of _ res] exI [of _ "s2\<lparr>sv_pullQueue := q2\<rparr>"]) simp
qed

lemma handlePullClaim_served:
  assumes inv: "server_inv s" and c: "r_Method r = ''POST''" "claim_call r = Some c"
  shows "served (queue_calls clk i c (sv_pullQueue s)) s (handlePullClaim clk i r s)"
proof -
  have qi: "queue_inv (sv_pullQueue s)" using inv by (simp add: server_inv_def)
  from handlePullClaim_eq [OF assms, of clk i] obtain w n q2 res s2 where
    "c = ClaimCall w" and n: "n = 2 + n_expired (clk 1) (sv_pullQueue s)"
    and "Claim w (clk n) i (expired_queue (clk 1) (sv_pullQueue s)) = Some (q2, res)" and "queue_inv q2"
    and "sv_pullQueue s2 = q2" "recorder_ok (sv_events s2)" "gm_wf (sv_workerActivity s2)" "sv_token s2 = sv_token s"
    and "handlePullClaim clk i r s = Some (claim_answer (clk (n + 1)) w res s2)" by blast
  then show ?thesis
    by (simp add: served_def server_inv_def case_prod_unfold requeue_expired_eq [OF qi] del: One_nat_def add_2_eq_Suc)
qed

lemma handlePullClaim_rejected:
  "r_Method r \<noteq> ''POST'' \<or> claim_call r = None \<Longrightarrow> rejected s (handlePullClaim clk i r s)"
  by (auto simp: handlePullClaim_def claim_call_def rejected_def methodNotAllowed_def writeJSONStatus_def
      split: option.splits if_splits)

lemma handlePullRenew_served:
  assumes inv: "server_inv s" and c: "r_Method r = ''POST''" "renew_call r = Some c"
  shows "served (queue_calls clk i c (sv_pullQueue s)) s (handlePullRenew clk r s)"
proof -
  obtain req where req: "decodeJSONRequest fields_PullRenewRequest zero_PullRenewRequest (r_Body r) MaxWorkerRequestBytes = Some req"
    and v: "validateLeaseRequest (rq_WorkerID req) (rq_TaskID req) (rq_LeaseID req) = None" and cc: "c = RenewCall req"
    using c(2) by (auto simp: renew_call_def split: option.splits if_splits)
  have qi: "queue_inv (sv_pullQueue s)" and ok: "recorder_ok (sv_events s)" "gm_wf (sv_workerActivity s)"
    using inv by (simp_all add: server_inv_def)
  obtain q2 res where cl: "Renew (rq_TaskID req) (rq_LeaseID req) (rq_WorkerID req) (clk 1) (sv_pullQueue s) = Some (q2, res)"
    and q2: "queue_inv q2"
    using Renew_safe [OF qi] by blast
  show ?thesis
    using ok q2 cl c(1) req v
    by (auto simp: handlePullRenew_def Let_def served_def cc server_inv_def events_ok split: sum.splits option.splits)
qed

lemma handlePullRenew_rejected:
  "r_Method r \<noteq> ''POST'' \<or> renew_call r = None \<Longrightarrow> rejected s (handlePullRenew clk r s)"
  by (auto simp: handlePullRenew_def renew_call_def rejected_def methodNotAllowed_def writeJSONStatus_def
      split: option.splits if_splits)

lemma handlePullResult_eq:
  assumes "r_Method r = ''POST''" and "result_call r = Some c"
  shows "\<exists>req. c = ResultCall req \<and> handlePullResult clk r s =
    (case Complete (uq_TaskID req) (uq_LeaseID req) (uq_WorkerID req) (lresult_of (uq_Result req)) (clk 1) (sv_pullQueue s) of
       (q1, Inl err) \<Rightarrow> Some ((recordWorkerActivity (uq_WorkerID req) (clk 0) s)\<lparr>sv_pullQueue := q1\<rparr>,
         writeJSONStatus (snd (pullErrorResponse err)) (result_reply (fst (pullErrorResponse err)) (lq_error_msg err)))
     | (q1, Inr out) \<Rightarrow> Some (result_outcome (clk 2) (uq_TaskID req) (uq_WorkerID req) out
         ((recordWorkerActivity (uq_WorkerID req) (clk 0) s)\<lparr>sv_pullQueue := q1\<rparr>)))"
proof -
  obtain req where req: "decodeJSONRequest fields_PullResultRequest zero_PullResultRequest (r_Body r) MaxWorkerRequestBytes = Some req"
    and v: "validateLeaseRequest (uq_WorkerID req) (uq_TaskID req) (uq_LeaseID req) = None"
      "\<not> (tr_TaskID (uq_Result req) \<noteq> [] \<and> tr_TaskID (uq_Result req) \<noteq> uq_TaskID req)"
      "ValidateResult (uq_Result req) = None" and cc: "c = ResultCall req"
    using assms(2) by (auto simp: result_call_def split: option.splits if_splits)
  then show ?thesis
    using assms(1)
    by (intro exI [of _ req]) (simp add: handlePullResult_def Let_def del: One_nat_def de_Morgan_conj split: sum.split)
qed

lemma handlePullResult_served:
  assumes inv: "server_inv s" and c: "r_Method r = ''POST''" "result_call r = Some c"
  shows "served (queue_calls clk i c (sv_pullQueue s)) s (handlePullResult clk r s)"
proof -
  from handlePullResult_eq [OF c, of clk s] obtain req where cc: "c = ResultCall req" and e: "handlePullResult clk r s =
    (case Complete (uq_TaskID req) (uq_LeaseID req) (uq_WorkerID req) (lresult_of (uq_Result req)) (clk 1) (sv_pullQueue s) of
       (q1, Inl err) \<Rightarrow> Some ((recordWorkerActivity (uq_WorkerID req) (clk 0) s)\<lparr>sv_pullQueue := q1\<rparr>,
         writeJSONStatus (snd (pullErrorResponse err)) (result_reply (fst (pullErrorResponse err)) (lq_error_msg err)))
     | (q1, Inr out) \<Rightarrow> Some (result_outcome (clk 2) (uq_TaskID req) (uq_WorkerID req) out
         ((recordWorkerActivity (uq_WorkerID req) (clk 0) s)\<lparr>sv_pullQueue := q1\<rparr>)))" by blast
  have qi: "queue_inv (sv_pullQueue s)" and ok: "recorder_ok (sv_events s)" "gm_wf (sv_workerActivity s)"
    using inv by (simp_all add: server_inv_def)
  obtain q2 res where cl: "Complete (uq_TaskID req) (uq_LeaseID req) (uq_WorkerID req) (lresult_of (uq_Result req))
      (clk 1) (sv_pullQueue s) = (q2, res)" by (meson surj_pair)
  then have q2: "queue_inv q2" using Complete_inv [OF qi] by (metis fst_conv)
  show ?thesis
    using ok q2 cl
    by (cases res) (simp_all add: e served_def cc server_inv_def events_ok case_prod_unfold del: One_nat_def)
qed

lemma handlePullResult_rejected:
  "r_Method r \<noteq> ''POST'' \<or> result_call r = None \<Longrightarrow> rejected s (handlePullResult clk r s)"
  by (auto simp: handlePullResult_def result_call_def rejected_def methodNotAllowed_def writeJSONStatus_def
      split: option.splits if_splits)

text \<open>The loop of \<open>handlePullSubmit\<close> performs its enqueue calls until one fails.\<close>

lemma submit_loop_run:
  "run_steps lq_step (enqueue_ops now jobID ty i ts q) q = Some (fst (submit_loop jobID ty i ts q))"
proof (induction ts arbitrary: i q)
  case (Cons t ts)
  show ?case
  proof (cases "Enqueue (submit_spec jobID ty i t) q")
    case (Inl e)
    then show ?thesis by (simp add: submit_spec_def)
  next
    case (Inr q1)
    with Cons.IH [of "i + 1" q1] show ?thesis
      by (simp add: submit_spec_def split: prod.splits sum.splits)
  qed
qed simp

lemma handlePullSubmit_eq:
  assumes "r_Method r = ''POST''" and "submit_call r = Some c"
  shows "\<exists>ty ts. c = SubmitCall ty ts \<and> (\<exists>req. submit_tasks req = Inr ts \<and> sq_TaskType req = ty) \<and> handlePullSubmit clk r s =
    (case submit_loop (job_id (clk 0)) ty 0 ts (sv_pullQueue s) of
       (q1, Inl e) \<Rightarrow> Some (s\<lparr>sv_pullQueue := q1\<rparr>, writeJSONStatus StatusInternalServerError (BSubmitError (QueueError e)))
     | (q1, Inr ids) \<Rightarrow> Some (recordEvent (clk 1) SeverityInfo ''job_queued'' ''Job queued''
          [(''job_id'', job_id (clk 0)), (''tasks'', show_nat (length ids))] (s\<lparr>sv_pullQueue := q1\<rparr>),
        writeJSON (BSubmit \<lparr>ss_JobID = job_id (clk 0), ss_TaskIDs = ids\<rparr>)))"
  using assms by (auto simp: submit_call_def handlePullSubmit_def Let_def split: option.splits sum.splits)

lemma handlePullSubmit_served:
  assumes inv: "server_inv s" and c: "r_Method r = ''POST''" "submit_call r = Some c"
  shows "served (queue_calls clk i c (sv_pullQueue s)) s (handlePullSubmit clk r s)"
proof -
  from handlePullSubmit_eq [OF c, of clk s] obtain ty ts where cc: "c = SubmitCall ty ts" and e: "handlePullSubmit clk r s =
    (case submit_loop (job_id (clk 0)) ty 0 ts (sv_pullQueue s) of
       (q1, Inl e) \<Rightarrow> Some (s\<lparr>sv_pullQueue := q1\<rparr>, writeJSONStatus StatusInternalServerError (BSubmitError (QueueError e)))
     | (q1, Inr ids) \<Rightarrow> Some (recordEvent (clk 1) SeverityInfo ''job_queued'' ''Job queued''
          [(''job_id'', job_id (clk 0)), (''tasks'', show_nat (length ids))] (s\<lparr>sv_pullQueue := q1\<rparr>),
        writeJSON (BSubmit \<lparr>ss_JobID = job_id (clk 0), ss_TaskIDs = ids\<rparr>)))" by blast
  have qi: "queue_inv (sv_pullQueue s)" and ok: "recorder_ok (sv_events s)" "gm_wf (sv_workerActivity s)"
    using inv by (simp_all add: server_inv_def)
  obtain q1 res where l: "submit_loop (job_id (clk 0)) ty 0 ts (sv_pullQueue s) = (q1, res)" by (meson surj_pair)
  note run = submit_loop_run [of "clk 0" "job_id (clk 0)" ty 0 ts "sv_pullQueue s", unfolded l fst_conv]
  have "queue_inv q1" by (rule lq.run_inv [OF qi run])
  with run ok show ?thesis
    by (cases res) (simp_all add: e l served_def cc server_inv_def events_ok del: One_nat_def)
qed

lemma handlePullSubmit_rejected:
  "r_Method r \<noteq> ''POST'' \<or> submit_call r = None \<Longrightarrow> rejected s (handlePullSubmit clk r s)"
  by (auto simp: handlePullSubmit_def submit_call_def rejected_def methodNotAllowed_def writeJSONStatus_def
      split: option.splits sum.splits)

text \<open>The two reading handlers: expiry, its events, and a reading of the queue.\<close>

lemma expired_events:
  assumes inv: "server_inv s"
  shows "\<exists>n s1. log_expired clk (Suc 0) (filter (expires (clk 0) (sv_pullQueue s)) (order (sv_pullQueue s)))
        (s\<lparr>sv_pullQueue := expired_queue (clk 0) (sv_pullQueue s)\<rparr>) = (n, s1) \<and>
      n = 1 + n_expired (clk 0) (sv_pullQueue s) \<and> sv_pullQueue s1 = expired_queue (clk 0) (sv_pullQueue s) \<and>
      server_inv s1 \<and> sv_token s1 = sv_token s \<and> sv_startTime s1 = sv_startTime s \<and>
      sv_workerActivity s1 = sv_workerActivity s"
proof -
  let ?q = "sv_pullQueue s"
  obtain n s1 where l: "log_expired clk (Suc 0) (filter (expires (clk 0) ?q) (order ?q)) (s\<lparr>sv_pullQueue := expired_queue (clk 0) ?q\<rparr>) = (n, s1)"
    by (meson surj_pair)
  note l1 = arg_cong [OF l, of fst] and l2 = arg_cong [OF l, of snd]
  have "n = 1 + n_expired (clk 0) ?q" using l1 by (simp add: n_expired_def)
  moreover have "sv_pullQueue s1 = expired_queue (clk 0) ?q \<and> recorder_ok (sv_events s1) \<and>
      sv_token s1 = sv_token s \<and> sv_startTime s1 = sv_startTime s \<and> sv_workerActivity s1 = sv_workerActivity s"
    using inv by (simp add: events_ok server_inv_def flip: l2 [simplified])
  ultimately show ?thesis using l inv expired_queue_inv [of ?q] by (simp add: server_inv_def)
qed

lemma handlePullJob_eq:
  assumes inv: "server_inv s" and c: "r_Method r = ''GET''" "r_QueryID r \<noteq> []"
  shows "\<exists>s1 q2 ts. JobTasks (r_QueryID r) (clk (1 + n_expired (clk 0) (sv_pullQueue s))) (expired_queue (clk 0) (sv_pullQueue s)) = Some (q2, ts) \<and>
    q2 = expired_queue (clk (1 + n_expired (clk 0) (sv_pullQueue s))) (expired_queue (clk 0) (sv_pullQueue s)) \<and>
    ts = filter (\<lambda>t. t_JobID t = r_QueryID r) (task_list q2) \<and>
    server_inv s1 \<and> sv_token s1 = sv_token s \<and> sv_pullQueue s1 = q2 \<and>
    handlePullJob clk r s = Some (s1, if ts = [] then writeJSONStatus StatusNotFound (BErrorText ''job not found'')
      else writeJSON (BJob \<lparr>jr_JobID = r_QueryID r, jr_State = job_state ts, jr_Tasks = map job_task_of ts\<rparr>))"
proof -
  let ?q = "sv_pullQueue s"
  let ?q1 = "expired_queue (clk 0) ?q"
  have qi: "queue_inv ?q" using inv by (simp add: server_inv_def)
  from expired_events [OF inv, of clk] obtain n s1 where
    l: "log_expired clk (Suc 0) (filter (expires (clk 0) ?q) (order ?q)) (s\<lparr>sv_pullQueue := ?q1\<rparr>) = (n, s1)"
      "n = 1 + n_expired (clk 0) ?q" and s1: "sv_pullQueue s1 = ?q1" "server_inv s1" "sv_token s1 = sv_token s" by blast
  note j = reading_eqs(3) [OF expired_queue_inv [OF qi]]
  let ?q2 = "expired_queue (clk n) ?q1"
  have "server_inv (s1\<lparr>sv_pullQueue := ?q2\<rparr>)"
    using s1(2) expired_queue_inv [OF expired_queue_inv [OF qi]] by (simp add: server_inv_def)
  then show ?thesis
    unfolding l(2) [symmetric] using c s1 j
    by (intro exI [of _ "s1\<lparr>sv_pullQueue := ?q2\<rparr>"] exI [of _ ?q2]
        exI [of _ "filter (\<lambda>t. t_JobID t = r_QueryID r) (task_list ?q2)"])
      (simp add: handlePullJob_def requeue_expired_eq [OF qi] l(1) Let_def)
qed

lemma handlePullStatus_eq:
  assumes inv: "server_inv s" and c: "r_Method r = ''GET''"
  shows "\<exists>n s1 activity recent. n = Suc (n_expired (clk 0) (sv_pullQueue s)) \<and>
    (let q2 = expired_queue (clk n) (expired_queue (clk 0) (sv_pullQueue s)); ts = task_list q2 in
      server_inv s1 \<and> sv_token s1 = sv_token s \<and> sv_pullQueue s1 = q2 \<and> sv_workerActivity s1 = activity \<and>
      (activity, recent) = recent_workers (time_Add (clk (n + 1)) (- recentWorkerWindow)) (sv_workerActivity s) (sv_workerActivity s) \<and>
      handlePullStatus clk r s = Some (s1, writeJSON (BStatus \<lparr>cr_QueuedTasks = sts_Queued (countTaskStates ts),
        cr_LeasedTasks = sts_Leased (countTaskStates ts), cr_CompletedTasks = sts_Completed (countTaskStates ts),
        cr_FailedTasks = sts_Failed (countTaskStates ts), cr_TotalTasks = sts_Total (countTaskStates ts),
        cr_TotalJobs = int (length (job_set ts)),
        cr_RecentWorkers = sort_key ws_WorkerID (map (\<lambda>(w, seen). \<lparr>ws_WorkerID = w, ws_LastActivity = seen,
          ws_ActiveLeases = (case gm_get (active_leases ts) w of None \<Rightarrow> 0 | Some n \<Rightarrow> n)\<rparr>) recent),
        cr_Uptime = time_Sub (clk (n + 2)) (sv_startTime s)\<rparr>)))"
proof -
  let ?q = "sv_pullQueue s"
  let ?q1 = "expired_queue (clk 0) ?q"
  have qi: "queue_inv ?q" using inv by (simp add: server_inv_def)
  from expired_events [OF inv, of clk] obtain n s1 where
    l: "log_expired clk (Suc 0) (filter (expires (clk 0) ?q) (order ?q)) (s\<lparr>sv_pullQueue := ?q1\<rparr>) = (n, s1)"
      "n = 1 + n_expired (clk 0) ?q" and s1: "sv_pullQueue s1 = ?q1" "server_inv s1" "sv_token s1 = sv_token s"
      "sv_startTime s1 = sv_startTime s" "sv_workerActivity s1 = sv_workerActivity s" by blast
  note j = reading_eqs(4) [OF expired_queue_inv [OF qi]]
  let ?q2 = "expired_queue (clk n) ?q1"
  obtain activity recent where a: "recent_workers (time_Add (clk (n + 1)) (- recentWorkerWindow))
      (sv_workerActivity s) (sv_workerActivity s) = (activity, recent)" by (meson surj_pair)
  have "gm_wf activity"
    using recent_workers_wf [of "sv_workerActivity s" "time_Add (clk (n + 1)) (- recentWorkerWindow)" "sv_workerActivity s"] a inv
    by (simp add: server_inv_def)
  then have "server_inv (s1\<lparr>sv_pullQueue := ?q2, sv_workerActivity := activity\<rparr>)"
    using s1(2) expired_queue_inv [OF expired_queue_inv [OF qi]] by (simp add: server_inv_def)
  then show ?thesis
    using c s1 j l(2) a
    by (intro exI [of _ n] exI [of _ "s1\<lparr>sv_pullQueue := ?q2, sv_workerActivity := activity\<rparr>"]
        exI [of _ activity] exI [of _ recent])
      (simp add: handlePullStatus_def requeue_expired_eq [OF qi] l(1) Let_def)
qed

lemma handlePullJob_served:
  assumes inv: "server_inv s" and c: "r_Method r = ''GET''" "r_QueryID r \<noteq> []"
  shows "served (queue_calls clk i (JobCall (r_QueryID r)) (sv_pullQueue s)) s (handlePullJob clk r s)"
proof -
  have qi: "queue_inv (sv_pullQueue s)" using inv by (simp add: server_inv_def)
  from handlePullJob_eq [OF inv c, of clk] show ?thesis
    by (auto simp: served_def requeue_expired_eq [OF qi])
qed

lemma handlePullJob_rejected:
  "r_Method r \<noteq> ''GET'' \<or> r_QueryID r = [] \<Longrightarrow> rejected s (handlePullJob clk r s)"
  by (auto simp: handlePullJob_def rejected_def methodNotAllowed_def writeJSONStatus_def)

lemma handlePullStatus_served:
  assumes inv: "server_inv s" and c: "r_Method r = ''GET''"
  shows "served (queue_calls clk i StatusCall (sv_pullQueue s)) s (handlePullStatus clk r s)"
proof -
  have qi: "queue_inv (sv_pullQueue s)" using inv by (simp add: server_inv_def)
  from handlePullStatus_eq [OF assms, of clk] show ?thesis
    by (auto simp: served_def requeue_expired_eq [OF qi] Let_def reading_eqs [OF expired_queue_inv [OF qi]])
qed

lemma handlePullStatus_rejected: "r_Method r \<noteq> ''GET'' \<Longrightarrow> rejected s (handlePullStatus clk r s)"
  by (simp add: handlePullStatus_def rejected_def methodNotAllowed_def)

text \<open>The six handlers together.\<close>

lemma dispatch_served:
  assumes inv: "server_inv s" and d: "dispatch clk i r = Some h"
  shows "served (request_calls clk i r (sv_pullQueue s)) s (h s) \<and> (call_of r = None \<longrightarrow> rejected s (h s))"
proof (cases "call_of r")
  case None
  then have "rejected s (h s)"
    using d by (auto simp: dispatch_def call_of_def handlePullClaim_rejected handlePullRenew_rejected
        handlePullResult_rejected handlePullSubmit_rejected handlePullJob_rejected handlePullStatus_rejected
        split: if_splits)
  with inv show ?thesis by (auto simp: request_calls_def None served_def rejected_def split: option.splits)
next
  case (Some c)
  then have "served (queue_calls clk i c (sv_pullQueue s)) s (h s)"
    using d handlePullClaim_served [OF inv] handlePullRenew_served [OF inv] handlePullResult_served [OF inv]
      handlePullSubmit_served [OF inv] handlePullJob_served [OF inv] handlePullStatus_served [OF inv]
    by (auto simp: dispatch_def call_of_def split: if_splits)
  then show ?thesis by (simp add: request_calls_def Some)
qed

section \<open>The guarded routes\<close>

text \<open>What the guard demands of a request's \<open>Authorization\<close> headers.\<close>

definition authorized :: "(string \<Rightarrow> string) \<Rightarrow> string \<Rightarrow> string list \<Rightarrow> bool" where
  "authorized sha256 expected headers =
     (case headers of [h] \<Rightarrow> (case bearerToken h of None \<Rightarrow> False | Some t \<Rightarrow> sha256 t = sha256 expected) | _ \<Rightarrow> False)"

definition auth_failure :: "Request \<Rightarrow> AuditEvent" where
  "auth_failure r = \<lparr>ae_Type = ''auth_failure'', ae_Source = r_RemoteAddr r, ae_Status = ''401'',
     ae_Msg = ''Authentication failed'', ae_Extra = [(''path'', r_Path r)]\<rparr>"

lemma WithBearerAuth_eq:
  "WithBearerAuth sha256 tok (r_Authorization r) (r_RemoteAddr r) (r_Path r) a =
     (if authorized sha256 tok (r_Authorization r) then (a, True) else (LogEvent (auth_failure r) a, False))"
  by (auto simp: WithBearerAuth_def authorized_def auth_failure_def tokensEqual_def Let_def split: list.splits option.splits)

lemma authorized_client:
  assumes "expected \<noteq> []" and "list_all (\<lambda>r. \<not> IsSpace r) (runes expected)"
  shows "authorized sha256 expected [clientHeader expected]"
proof -
  have "bearerToken (clientHeader expected) = Some expected"
    using assms bearerToken_clientHeader by blast
  then show ?thesis by (simp add: authorized_def)
qed

definition protected_path :: "string \<Rightarrow> bool" where
  "protected_path p = list_ex (\<lambda>x. x = p) [''/worker/claim'', ''/worker/renew'', ''/worker/result'',
     ''/pull/submit'', ''/pull/job'', ''/status'']"

lemma dispatch_protected: "dispatch clk i r = None \<longleftrightarrow> \<not> protected_path (r_Path r)"
  by (auto simp: dispatch_def protected_path_def)

lemma routes_handler:
  "authorized sha256 (sv_token s) (r_Authorization r) \<Longrightarrow> dispatch clk i r = Some h \<Longrightarrow>
   routes sha256 clk i r (a, s) = map_option (\<lambda>(s1, resp). ((a, s1), resp)) (h s)"
  by (simp add: routes_def WithBearerAuth_eq)

lemma routes_handlerD:
  assumes "authorized sha256 (sv_token s) (r_Authorization r)" and "dispatch clk i r = Some h"
    and "routes sha256 clk i r (a, s) = Some ((a', s'), resp)"
  shows "h s = Some (s', resp) \<and> a' = a"
  using assms(3) unfolding routes_handler [OF assms(1,2)] by auto

text \<open>The queue calls of a request that reaches its handler, and none otherwise.\<close>

definition server_calls :: "(string \<Rightarrow> string) \<Rightarrow> (nat \<Rightarrow> time) \<Rightarrow> string \<Rightarrow> Request \<Rightarrow> Server \<Rightarrow> (lq_op \<times> time) list" where
  "server_calls sha256 clk leaseID r s =
     (if authorized sha256 (sv_token s) (r_Authorization r) then request_calls clk leaseID r (sv_pullQueue s) else [])"

lemma call_of_protected: "call_of r = Some c \<Longrightarrow> protected_path (r_Path r)"
  by (auto simp: call_of_def protected_path_def split: if_splits)

lemma routes_served:
  assumes inv: "server_inv s"
  shows "\<exists>a' s' resp. routes sha256 clk i r (a, s) = Some ((a', s'), resp) \<and> server_inv s' \<and> sv_token s' = sv_token s \<and>
    run_steps lq_step (server_calls sha256 clk i r s) (sv_pullQueue s) = Some (sv_pullQueue s')"
proof (cases "dispatch clk i r")
  case None
  then have "call_of r = None" using call_of_protected dispatch_protected by (cases "call_of r") auto
  then show ?thesis using inv None by (simp add: routes_def server_calls_def request_calls_def)
next
  case (Some h)
  show ?thesis
  proof (cases "authorized sha256 (sv_token s) (r_Authorization r)")
    case True
    with dispatch_served [OF inv Some] Some show ?thesis
      by (auto simp: routes_def WithBearerAuth_eq server_calls_def served_def split: option.splits)
  next
    case False
    with inv Some show ?thesis by (simp add: routes_def WithBearerAuth_eq server_calls_def)
  qed
qed

text \<open>The server as a machine: a label is a request with its clock and the lease ID a claim would draw.\<close>

fun server_step :: "(string \<Rightarrow> string) \<Rightarrow> (nat \<Rightarrow> time) \<times> string \<times> Request \<Rightarrow> Audit \<times> Server \<Rightarrow> (Audit \<times> Server) option" where
  "server_step sha256 (clk, leaseID, r) st = map_option fst (routes sha256 clk leaseID r st)"

interpretation coordinator: invariant_machine "server_step sha256" "\<lambda>(a, s). server_inv s" for sha256
proof
  fix st l
  show "(case st of (a, s) \<Rightarrow> server_inv s) \<Longrightarrow>
      \<exists>s'. server_step sha256 l st = Some s' \<and> (case s' of (a, s) \<Rightarrow> server_inv s)"
    using routes_served [of "snd st" sha256 "fst l" "fst (snd l)" "snd (snd l)" "fst st"]
    by (cases l; cases st) auto
qed

lemma NewServer_inv: "NewServer cfg now = Inr s \<Longrightarrow> server_inv s"
  using New_inv by (auto simp: NewServer_def server_inv_def NewRecorder_ok split: sum.splits)

text \<open>The queue of a server that has handled any requests is a reachable queue.\<close>

definition queue_config :: "ServerConfig \<Rightarrow> Config" where
  "queue_config cfg = \<lparr>cfg_LeaseDuration = sc_LeaseDuration cfg, cfg_MaxAttempts = sc_MaxAttempts cfg\<rparr>"

inductive server_reach :: "(string \<Rightarrow> string) \<Rightarrow> ServerConfig \<Rightarrow> Server \<Rightarrow> bool" for sha256 cfg where
  created: "NewServer cfg now = Inr s \<Longrightarrow> server_reach sha256 cfg s"
| handled: "server_reach sha256 cfg s \<Longrightarrow> routes sha256 clk leaseID r (a, s) = Some ((a', s'), resp) \<Longrightarrow>
    server_reach sha256 cfg s'"

lemma server_reach_inv: "server_reach sha256 cfg s \<Longrightarrow> server_inv s"
proof (induction rule: server_reach.induct)
  case (created now s)
  then show ?case by (rule NewServer_inv)
next
  case (handled s clk leaseID r a a' s' resp)
  with routes_served [OF handled.IH, of sha256 clk leaseID r a] show ?case by auto
qed

lemma server_reach_queue: "server_reach sha256 cfg s \<Longrightarrow> lq_reach (queue_config cfg) (sv_pullQueue s)"
proof (induction rule: server_reach.induct)
  case (created now s)
  then show ?case
    by (auto simp: NewServer_def queue_config_def split: sum.splits intro: lq_reach.created)
next
  case (handled s clk leaseID r a a' s' resp)
  with routes_served [OF server_reach_inv [OF handled.hyps(1)], of sha256 clk leaseID r a] show ?case
    by (auto intro: lq_reach_run)
qed

lemma server_reach_token: "server_reach sha256 cfg s \<Longrightarrow> sv_token s = sc_Token cfg"
proof (induction rule: server_reach.induct)
  case (created now s)
  then show ?case by (auto simp: NewServer_def split: sum.splits)
next
  case (handled s clk leaseID r a a' s' resp)
  with routes_served [OF server_reach_inv [OF handled.hyps(1)], of sha256 clk leaseID r a] show ?case by auto
qed

lemma server_reach_run:
  "server_reach sha256 cfg s \<Longrightarrow> run_steps (server_step sha256) ls (a, s) = Some (a', s') \<Longrightarrow> server_reach sha256 cfg s'"
proof (induction ls arbitrary: a s)
  case (Cons l ls)
  obtain clk i r where l: "l = (clk, i, r)" by (cases l) auto
  obtain st resp where st: "routes sha256 clk i r (a, s) = Some (st, resp)"
      "run_steps (server_step sha256) ls st = Some (a', s')"
    using Cons.prems(2) by (auto simp: l split: option.splits)
  obtain a1 s1 where "st = (a1, s1)" by (cases st)
  with st Cons.IH [of s1 a1] server_reach.handled [OF Cons.prems(1), of clk i r a a1 s1 resp]
  show ?case by simp
qed simp

text \<open>Runs of requests as runs of queue calls.\<close>

fun server_ops :: "(string \<Rightarrow> string) \<Rightarrow> ((nat \<Rightarrow> time) \<times> string \<times> Request) list \<Rightarrow> Audit \<times> Server \<Rightarrow> (lq_op \<times> time) list" where
  "server_ops sha256 [] st = []"
| "server_ops sha256 ((clk, i, r) # ls) st = server_calls sha256 clk i r (snd st) @
     (case server_step sha256 (clk, i, r) st of None \<Rightarrow> [] | Some st1 \<Rightarrow> server_ops sha256 ls st1)"

lemma server_ops_run:
  "server_inv s \<Longrightarrow> run_steps (server_step sha256) ls (a, s) = Some (a', s') \<Longrightarrow>
   run_steps lq_step (server_ops sha256 ls (a, s)) (sv_pullQueue s) = Some (sv_pullQueue s')"
proof (induction ls arbitrary: a s)
  case (Cons l ls)
  obtain clk i r where l: "l = (clk, i, r)" by (cases l) auto
  from routes_served [OF Cons.prems(1), of sha256 clk i r a] obtain a1 s1 resp where
    s1: "routes sha256 clk i r (a, s) = Some ((a1, s1), resp)" "server_inv s1"
      "run_steps lq_step (server_calls sha256 clk i r s) (sv_pullQueue s) = Some (sv_pullQueue s1)" by blast
  with Cons.prems(2) have "run_steps (server_step sha256) ls (a1, s1) = Some (a', s')" by (simp add: l)
  from Cons.IH [OF s1(2) this] s1 show ?case by (simp add: l run_steps_append)
qed simp

end
