(* ===== verification/CoordinatorJobs.thy ===== *)
theory CoordinatorJobs
  imports CoordinatorInv
begin

text \<open>
  What \<open>/pull/submit\<close> does to the task table and what of it stays for ever: task IDs tell the
  job and the place of the task, a submission adds all of its tasks or none, and the payloads
  of a job never change afterwards.
\<close>

section \<open>Job and task IDs\<close>

lemma digits_append_inj:
  assumes "list_all is_digit xs" and "list_all is_digit ys" and "\<not> is_digit c"
    and "xs @ c # us = ys @ c # vs"
  shows "xs = ys \<and> us = vs"
proof -
  have "takeWhile is_digit (xs @ c # us) = xs" and "takeWhile is_digit (ys @ c # vs) = ys"
    using assms(1-3) by (auto simp: takeWhile_append2 list_all_iff)
  with assms(4) have "xs = ys" by metis
  with assms(4) show ?thesis by simp
qed

lemma show_int_dash_inj:
  assumes "show_int m @ CHR ''-'' # us = show_int n @ CHR ''-'' # vs"
  shows "m = n \<and> us = vs"
proof -
  have d: "show_nat a @ CHR ''-'' # us = show_nat b @ CHR ''-'' # vs \<Longrightarrow> a = b \<and> us = vs" for a b
    using digits_append_inj [OF show_nat_digits show_nat_digits minus_not_digit] show_nat_inj by blast
  have hd: "show_nat a @ xs \<noteq> CHR ''-'' # ys" for a xs ys
    using show_nat_digits [of a] minus_not_digit by (cases "show_nat a") auto
  consider "m < 0" "n < 0" | "\<not> m < 0" "\<not> n < 0" | "m < 0" "\<not> n < 0" | "\<not> m < 0" "n < 0" by blast
  then show ?thesis
  proof cases
    case 1
    then have "show_nat (nat (- m)) @ CHR ''-'' # us = show_nat (nat (- n)) @ CHR ''-'' # vs"
      using assms by (simp add: show_int_def)
    from d [OF this] 1 show ?thesis by (simp add: eq_nat_nat_iff)
  next
    case 2
    then have "show_nat (nat m) @ CHR ''-'' # us = show_nat (nat n) @ CHR ''-'' # vs"
      using assms by (simp add: show_int_def)
    from d [OF this] 2 show ?thesis by (simp add: eq_nat_nat_iff)
  next
    case 3
    then show ?thesis using assms hd [of "nat n"] by (simp add: show_int_def) metis
  next
    case 4
    then show ?thesis using assms hd [of "nat m"] by (simp add: show_int_def)
  qed
qed

lemma map_upt_Cons: "map f [i..<Suc (i + n)] = f i # map f [Suc i..<Suc (i + n)]"
  by (simp add: upt_conv_Cons del: upt_Suc)

definition is_job_id :: "string \<Rightarrow> bool" where
  "is_job_id j = (\<exists>n. minInt64 \<le> n \<and> n \<le> maxInt64 \<and> j = ''pull-job-'' @ show_int n)"

lemma job_id_is: "is_job_id (job_id now)"
  using wrap64_range by (auto simp: is_job_id_def job_id_def UnixNano_def)

lemma task_id_inj:
  assumes "is_job_id j" and "is_job_id k" and "task_id j m = task_id k n"
  shows "j = k \<and> m = n"
proof -
  obtain a b where j: "j = ''pull-job-'' @ show_int a" and k: "k = ''pull-job-'' @ show_int b"
    using assms(1,2) by (auto simp: is_job_id_def)
  have "show_int a @ CHR ''-'' # ''task-'' @ show_nat m = show_int b @ CHR ''-'' # ''task-'' @ show_nat n"
    using assms(3) by (simp add: j k task_id_def)
  from show_int_dash_inj [OF this] show ?thesis by (simp add: j k show_nat_inj)
qed

lemma task_id_valid:
  assumes "is_job_id j" and "i < 1000"
  shows "ValidateTaskID (task_id j i) = None"
proof -
  obtain n where n: "minInt64 \<le> n" "n \<le> maxInt64" and j: "j = ''pull-job-'' @ show_int n"
    using assms(1) by (auto simp: is_job_id_def)
  have "nat \<bar>n\<bar> < 10 ^ 19" using n by (simp add: minInt64_def maxInt64_def nat_less_iff)
  then have "length (show_nat (nat \<bar>n\<bar>)) \<le> 19" by (intro show_nat_length) auto
  then have "length (show_int n) \<le> 20" by (simp add: show_int_def abs_if split: if_splits)
  moreover have "length (show_nat i) \<le> 3" using assms(2) by (intro show_nat_length) auto
  ultimately show ?thesis
    by (simp add: ValidateTaskID_None j task_id_def all_safe_show_int all_safe_show_nat
        safe_byte_def safe_rune_def byte_def)
qed

section \<open>The payloads of the tasks\<close>

definition specs :: "Queue \<Rightarrow> TaskSpec list" where
  "specs q = map spec_of (task_list q)"

lemma map_get_order:
  "queue_inv q \<Longrightarrow> task_list q = map (\<lambda>tid. the (gm_get (tasks q) tid)) (order q)"
  using gm_in_set_get [OF queue_inv_wf] by (auto simp: task_list_def gm_keys_def simp flip: queue_invE(3))

lemma specs_IDs: "queue_inv q \<Longrightarrow> map ts_ID (specs q) = order q"
  using queue_inv_order queue_inv_task(1)
  by (fastforce simp: specs_def map_get_order spec_of_def intro!: map_idI)

lemma specs_same:
  assumes "queue_inv q" and "queue_inv q'" and "queue_le q q'" and "order q' = order q"
  shows "specs q' = specs q"
proof -
  have "spec_of (the (gm_get (tasks q') tid)) = spec_of (the (gm_get (tasks q) tid))" if tid: "tid \<in> set (order q)" for tid
  proof -
    obtain t where t: "gm_get (tasks q) tid = Some t" using queue_inv_order [OF assms(1) tid] by blast
    with assms(3) obtain t' where "gm_get (tasks q') tid = Some t'" "task_le (maxAttempts q) t t'"
      by (auto simp: queue_le_def)
    with t show ?thesis by (simp add: task_le_def same_payload_def)
  qed
  then show ?thesis by (simp add: specs_def map_get_order assms)
qed

fun enqueues :: "lq_op \<Rightarrow> bool" where
  "enqueues (OpEnqueue _) = True"
| "enqueues _ = False"

lemma active_order:
  "activeLeaseLocked t i w now q = (q1, r) \<Longrightarrow> order q1 = order q"
  by (auto simp: activeLeaseLocked_def expireTaskLocked_def split: option.splits if_splits)

lemma step_order:
  assumes inv: "queue_inv q" and s: "lq_step (opn, now) q = Some q'" and "\<not> enqueues opn"
  shows "order q' = order q"
proof (cases opn)
  case (OpClaim w i)
  then show ?thesis
  proof (cases "w = []")
    case True
    then show ?thesis using s OpClaim by (auto simp: Claim_def)
  next
    case False
    from Claim_cases [OF inv False, of now i] s show ?thesis by (auto simp: OpClaim claim_head_def)
  qed
next
  case (OpRenew t i w)
  obtain q1 r where a: "activeLeaseLocked t i w now q = (q1, r)" by (meson surj_pair)
  show ?thesis using s a active_order [OF a] by (auto simp: OpRenew Renew_def Let_def split: sum.splits option.splits)
next
  case (OpComplete t i w x)
  obtain q1 r where a: "activeLeaseLocked t i w now q = (q1, r)" by (meson surj_pair)
  show ?thesis using s a active_order [OF a] by (auto simp: OpComplete Complete_def split: sum.splits if_splits)
next
  case OpStats
  then show ?thesis using s by (auto simp: Queue_Stats_def expireLocked_eq [OF inv])
qed (use s assms(3) in \<open>auto simp: reading_eqs [OF inv]\<close>)

lemma run_specs:
  "queue_inv q \<Longrightarrow> list_all (\<lambda>(opn, now). \<not> enqueues opn) ops \<Longrightarrow> run_steps lq_step ops q = Some q' \<Longrightarrow>
   specs q' = specs q"
proof (induction ops arbitrary: q)
  case (Cons l ops)
  obtain opn now where l: "l = (opn, now)" by (cases l)
  obtain q1 where q1: "lq_step l q = Some q1" "queue_inv q1" using lq_step_safe [OF Cons.prems(1)] by blast
  have "specs q1 = specs q"
    using specs_same [OF Cons.prems(1) q1(2) lq_step_le [OF Cons.prems(1) q1(1)]] step_order [OF Cons.prems(1)]
      q1(1) Cons.prems(2) by (simp add: l)
  with q1 Cons show ?case by simp
qed simp

lemma calls_enqueue: "(\<forall>ty ts. c \<noteq> SubmitCall ty ts) \<Longrightarrow> list_all (\<lambda>(opn, now). \<not> enqueues opn) (queue_calls clk i c q)"
  by (cases c) simp_all

section \<open>A submission\<close>

definition job_specs :: "string \<Rightarrow> string \<Rightarrow> nat \<Rightarrow> WTask list \<Rightarrow> TaskSpec list" where
  "job_specs j ty i ts = map (\<lambda>(k, t). submit_spec j ty k t) (List.enumerate i ts)"

definition with_tasks :: "Queue \<Rightarrow> TaskSpec list \<Rightarrow> Queue" where
  "with_tasks q sps = q\<lparr>tasks := tasks q @ map (\<lambda>sp. (ts_ID sp, newTask sp)) sps,
     queued := queued q @ map ts_ID sps, order := order q @ map ts_ID sps\<rparr>"

lemma gm_set_new: "gm_get m k = None \<Longrightarrow> gm_set k v m = m @ [(k, v)]"
  by (induction m) (auto simp: gm_set_def gm_get_Cons split: if_splits)

lemma Enqueue_fresh:
  "ts_ID sp \<noteq> [] \<Longrightarrow> gm_get (tasks q) (ts_ID sp) = None \<Longrightarrow> Enqueue sp q = Inr (with_tasks q [sp])"
  by (simp add: Enqueue_def with_tasks_def gm_set_new)

lemma with_tasks_append: "with_tasks (with_tasks q xs) ys = with_tasks q (xs @ ys)"
  by (simp add: with_tasks_def)

lemma with_tasks_Nil [simp]: "with_tasks q [] = q"
  by (simp add: with_tasks_def)

lemma task_id_ne [simp]: "task_id j i \<noteq> []"
  by (simp add: task_id_def)

lemma submit_loop_fresh:
  "is_job_id j \<Longrightarrow> \<forall>k \<ge> i. gm_get (tasks q) (task_id j k) = None \<Longrightarrow>
   submit_loop j ty i ts q = (with_tasks q (job_specs j ty i ts), Inr (map (task_id j) [i..<i + length ts]))"
proof (induction ts arbitrary: i q)
  case Nil
  then show ?case by (simp add: job_specs_def)
next
  case (Cons t ts)
  let ?sp = "submit_spec j ty i t"
  let ?q = "with_tasks q [?sp]"
  have "gm_get (tasks ?q) (task_id j k) = None" if "Suc i \<le> k" for k
    using Cons.prems that task_id_inj [OF Cons.prems(1,1), of k i]
    by (auto simp: with_tasks_def gm_get_def submit_spec_def map_add_def)
  with Cons.IH [OF Cons.prems(1), of "Suc i" ?q] have
    IH: "submit_loop j ty (Suc i) ts ?q = (with_tasks ?q (job_specs j ty (Suc i) ts), Inr (map (task_id j) [Suc i..<Suc i + length ts]))"
    by simp
  have "Enqueue ?sp q = Inr ?q" using Cons.prems by (intro Enqueue_fresh) (simp_all add: submit_spec_def)
  with IH show ?case
    by (simp add: submit_spec_def [symmetric] with_tasks_append job_specs_def map_upt_Cons
        del: upt_Suc)
qed

text \<open>IDs name their job and position, and every job has a task at position 0.\<close>

definition ids_inv :: "Queue \<Rightarrow> bool" where
  "ids_inv q = (\<forall>sp \<in> set (specs q). is_job_id (ts_JobID sp) \<and> (\<exists>i < 1000. ts_ID sp = task_id (ts_JobID sp) i) \<and>
     task_id (ts_JobID sp) 0 \<in> set (map ts_ID (specs q)))"

lemma job_tasks_fresh:
  assumes inv: "queue_inv q" and ids: "ids_inv q" and j: "is_job_id j"
    and new: "task_id j 0 \<notin> set (order q)"
  shows "gm_get (tasks q) (task_id j k) = None"
proof (rule ccontr)
  assume "gm_get (tasks q) (task_id j k) \<noteq> None"
  then obtain t where t: "gm_get (tasks q) (task_id j k) = Some t" by blast
  then have "t \<in> set (task_list q)" using gm_get_in_set by (force simp: task_list_def)
  then have "spec_of t \<in> set (specs q)" by (simp add: specs_def)
  moreover have "ts_ID (spec_of t) = task_id j k" using queue_inv_task(1) [OF inv t] by (simp add: spec_of_def)
  ultimately obtain i where "is_job_id (ts_JobID (spec_of t))" "task_id j k = task_id (ts_JobID (spec_of t)) i"
      and "task_id (ts_JobID (spec_of t)) 0 \<in> set (order q)"
    using ids unfolding ids_inv_def specs_IDs [OF inv] by metis
  with task_id_inj [OF j] new show False by metis
qed

lemma spec_of_newTask [simp]: "spec_of (newTask sp) = sp"
  by (simp add: spec_of_def newTask_def)

lemma specs_with_tasks: "specs (with_tasks q sps) = specs q @ sps"
  by (simp add: specs_def task_list_def with_tasks_def comp_def)

lemma job_specs_sel:
  "sp \<in> set (job_specs j ty 0 ts) \<Longrightarrow> ts_JobID sp = j \<and> (\<exists>i < length ts. ts_ID sp = task_id j i)"
  by (auto simp: job_specs_def in_set_enumerate_eq submit_spec_def)

lemma job_specs_IDs: "map ts_ID (job_specs j ty i ts) = map (task_id j) [i..<i + length ts]"
  by (induction ts arbitrary: i)
    (simp_all add: job_specs_def submit_spec_def map_upt_Cons del: upt_Suc)

lemma job_specs_keys: "map ts_Key (job_specs j ty i ts) = map wt_Key ts"
  by (induction ts arbitrary: i) (simp_all add: job_specs_def submit_spec_def)

lemma ids_inv_submit:
  assumes "ids_inv q" and "is_job_id j" and "1 \<le> length ts" and "length ts \<le> 1000"
  shows "ids_inv (with_tasks q (job_specs j ty 0 ts))"
proof -
  let ?new = "job_specs j ty 0 ts"
  have zero: "task_id j 0 \<in> set (map ts_ID ?new)"
    unfolding job_specs_IDs using assms(3) by (auto simp: image_iff intro!: bexI [of _ 0])
  have "is_job_id (ts_JobID sp) \<and> (\<exists>i < 1000. ts_ID sp = task_id (ts_JobID sp) i) \<and>
     task_id (ts_JobID sp) 0 \<in> set (map ts_ID (specs q @ ?new))" if "sp \<in> set (specs q @ ?new)" for sp
  proof (cases "sp \<in> set (specs q)")
    case True
    then show ?thesis using assms(1) by (simp add: ids_inv_def)
  next
    case False
    then have "sp \<in> set ?new" using that by simp
    from job_specs_sel [OF this] obtain i where "ts_JobID sp = j" "i < length ts" "ts_ID sp = task_id j i" by blast
    moreover from this(2) assms(4) have "i < 1000" by simp
    ultimately show ?thesis using assms(2) zero by auto
  qed
  then show ?thesis by (simp add: ids_inv_def specs_with_tasks)
qed

lemma Enqueue_taken: "task_id j i \<in> set (order q) \<Longrightarrow> queue_inv q \<Longrightarrow>
    submit_loop j ty i (t # ts) q = (q, Inl ErrTaskExists)"
  using queue_inv_order [of q "task_id j i"] by (auto simp: Enqueue_def)

text \<open>All of the tasks or none: the second case is a job ID that is already in use.\<close>

lemma submit_loop_cases:
  assumes inv: "queue_inv q" and ids: "ids_inv q" and j: "is_job_id j" and ts: "1 \<le> length ts"
  shows "submit_loop j ty 0 ts q =
    (if task_id j 0 \<in> set (order q) then (q, Inl ErrTaskExists)
     else (with_tasks q (job_specs j ty 0 ts), Inr (map (task_id j) [0..<length ts])))"
proof (cases "task_id j 0 \<in> set (order q)")
  case True
  obtain t us where "ts = t # us" using ts by (cases ts) auto
  then show ?thesis using Enqueue_taken [OF True inv] True by (simp del: submit_loop.simps)
next
  case False
  then show ?thesis
    using submit_loop_fresh [OF j, of 0 q ty ts] job_tasks_fresh [OF inv ids j False] by simp
qed

lemma submit_tasks_length: "submit_tasks req = Inr ts \<Longrightarrow> 1 \<le> length ts \<and> length ts \<le> 1000"
  by (auto simp: submit_tasks_def ValidateTasks_None ValidateSimpleInputs_None Let_def
      split: option.splits if_splits)

section \<open>The payloads under requests\<close>

lemma submit_call_length: "call_of r = Some (SubmitCall ty ts) \<Longrightarrow> 1 \<le> length ts \<and> length ts \<le> 1000"
  using submit_tasks_length
  by (auto simp: call_of_def submit_call_def claim_call_def renew_call_def result_call_def
      split: if_splits option.splits sum.splits)

lemma routes_specs:
  assumes inv: "server_inv s" and ids: "ids_inv (sv_pullQueue s)"
    and r: "routes sha256 clk i r (a, s) = Some ((a', s'), resp)"
  shows "ids_inv (sv_pullQueue s') \<and> (specs (sv_pullQueue s') = specs (sv_pullQueue s) \<or>
    (\<exists>ty ts. specs (sv_pullQueue s') = specs (sv_pullQueue s) @ job_specs (job_id (clk 0)) ty 0 ts \<and>
      task_id (job_id (clk 0)) 0 \<notin> set (order (sv_pullQueue s))))"
proof -
  let ?q = "sv_pullQueue s" and ?q' = "sv_pullQueue s'"
  have qi: "queue_inv ?q" using inv by (simp add: server_inv_def)
  have run: "run_steps lq_step (server_calls sha256 clk i r s) ?q = Some ?q'"
    using routes_served [OF inv, of sha256 clk i r a] r by auto
  show ?thesis
  proof (cases "\<exists>ty ts. call_of r = Some (SubmitCall ty ts) \<and> authorized sha256 (sv_token s) (r_Authorization r)")
    case True
    then obtain ty ts where c: "call_of r = Some (SubmitCall ty ts)"
      and au: "authorized sha256 (sv_token s) (r_Authorization r)" by blast
    have q': "?q' = fst (submit_loop (job_id (clk 0)) ty 0 ts ?q)"
      using run submit_loop_run [of "clk 0" "job_id (clk 0)" ty 0 ts ?q]
      by (simp add: server_calls_def au request_calls_def c)
    have len: "1 \<le> length ts" "length ts \<le> 1000" using submit_call_length [OF c] by auto
    show ?thesis
      using submit_loop_cases [OF qi ids job_id_is len(1), of "clk 0" ty] ids
        ids_inv_submit [OF ids job_id_is len, of "clk 0" ty]
      by (auto simp: q' specs_with_tasks)
  next
    case False
    then have "list_all (\<lambda>(opn, now). \<not> enqueues opn) (server_calls sha256 clk i r s)"
      using calls_enqueue by (auto simp: server_calls_def request_calls_def split: option.splits)
    then have "specs ?q' = specs ?q" by (rule run_specs [OF qi _ run])
    with ids show ?thesis by (simp add: ids_inv_def)
  qed
qed

lemma server_reach_ids: "server_reach sha256 cfg s \<Longrightarrow> ids_inv (sv_pullQueue s)"
proof (induction rule: server_reach.induct)
  case (created now s)
  then show ?case
    by (auto simp: NewServer_def New_def ids_inv_def specs_def task_list_def split: sum.splits if_splits)
next
  case (handled s clk leaseID r a a' s' resp)
  with routes_specs [OF server_reach_inv [OF handled.hyps(1)] handled.IH handled.hyps(2)] show ?case by simp
qed

text \<open>The payloads of one job, in submission order; once there are any, they are frozen.\<close>

definition specs_of_job :: "string \<Rightarrow> Queue \<Rightarrow> TaskSpec list" where
  "specs_of_job j q = filter (\<lambda>sp. ts_JobID sp = j) (specs q)"

lemma specs_of_job_step:
  assumes s: "server_reach sha256 cfg s" and r: "routes sha256 clk i r (a, s) = Some ((a', s'), resp)"
    and j: "specs_of_job j (sv_pullQueue s) \<noteq> []"
  shows "specs_of_job j (sv_pullQueue s') = specs_of_job j (sv_pullQueue s)"
proof -
  let ?q = "sv_pullQueue s"
  note inv = server_reach_inv [OF s] and ids = server_reach_ids [OF s]
  have qi: "queue_inv ?q" using inv by (simp add: server_inv_def)
  obtain sp where "sp \<in> set (specs ?q)" and "ts_JobID sp = j"
    using j by (auto simp: specs_of_job_def filter_empty_conv)
  then have taken: "task_id j 0 \<in> set (order ?q)"
    using ids by (auto simp: ids_inv_def simp flip: specs_IDs [OF qi])
  from routes_specs [OF inv ids r] show ?thesis
  proof (elim conjE disjE exE)
    fix ty ts
    assume sp: "specs (sv_pullQueue s') = specs ?q @ job_specs (job_id (clk 0)) ty 0 ts"
      and "task_id (job_id (clk 0)) 0 \<notin> set (order ?q)"
    with taken have "job_id (clk 0) \<noteq> j" by blast
    then have "filter (\<lambda>sp. ts_JobID sp = j) (job_specs (job_id (clk 0)) ty 0 ts) = []"
      using job_specs_sel [of _ "job_id (clk 0)" ty ts] by (auto simp: filter_empty_conv)
    then show ?thesis by (simp add: specs_of_job_def sp)
  qed (simp add: specs_of_job_def)
qed

lemma specs_of_job_run:
  "server_reach sha256 cfg s \<Longrightarrow> specs_of_job j (sv_pullQueue s) \<noteq> [] \<Longrightarrow>
   run_steps (server_step sha256) ls (a, s) = Some (a', s') \<Longrightarrow>
   specs_of_job j (sv_pullQueue s') = specs_of_job j (sv_pullQueue s)"
proof (induction ls arbitrary: a s)
  case (Cons l ls)
  obtain clk i r where l: "l = (clk, i, r)" by (cases l) auto
  obtain a1 s1 resp where st: "routes sha256 clk i r (a, s) = Some ((a1, s1), resp)"
      "run_steps (server_step sha256) ls (a1, s1) = Some (a', s')"
    using Cons.prems(3) by (auto simp: l split: option.splits)
  from Cons.IH [OF server_reach.handled [OF Cons.prems(1) st(1)] _ st(2)]
    specs_of_job_step [OF Cons.prems(1) st(1) Cons.prems(2)] Cons.prems(2) show ?case by simp
qed simp

text \<open>The tasks of a job carry its payloads.\<close>

lemma job_tasks_specs: "map spec_of (filter (\<lambda>t. t_JobID t = j) (task_list q)) = specs_of_job j q"
  by (induction "task_list q" arbitrary: q) (simp_all add: specs_of_job_def specs_def filter_map comp_def spec_of_def)

section \<open>Finished tasks and held leases under requests\<close>

definition finished :: "Task \<Rightarrow> bool" where
  "finished t = (t_State t = StateCompleted \<or> t_State t = StateFailed)"

lemma active_finished:
  assumes "activeLeaseLocked k i w now q = (q1, r)" and "queue_inv q"
    and "gm_get (tasks q) tid = Some t" and "finished t"
  shows "gm_get (tasks q1) tid = Some t \<and> (k = tid \<longrightarrow> (\<exists>e. r = Inl e))"
proof (cases "k = tid")
  case True
  with assms show ?thesis by (auto simp: activeLeaseLocked_def finished_def)
next
  case False
  from activeLease_cases [OF assms(1)] show ?thesis
    using False assms(3) expireTaskLocked_eq queue_inv_task(1) [OF assms(2)] by auto
qed

lemma finished_step:
  assumes inv: "queue_inv q" and t: "gm_get (tasks q) tid = Some t" and f: "finished t"
    and s: "lq_step (opn, now) q = Some q'"
  shows "gm_get (tasks q') tid = Some t"
proof -
  have exp: "gm_get (tasks (expired_queue now q)) tid = Some t"
    using t f by (auto simp: expire_task_def lease_expired_def finished_def)
  show ?thesis
  proof (cases opn)
    case (OpEnqueue spec)
    then show ?thesis using s t by (auto simp: Enqueue_def split: sum.splits if_splits)
  next
    case (OpClaim w i)
    show ?thesis
    proof (cases "w = []")
      case True
      then show ?thesis using s t OpClaim by (auto simp: Claim_def)
    next
      case False
      from Claim_cases [OF inv False, of now i] s exp f show ?thesis
        by (auto simp: OpClaim claim_head_def finished_def simp del: gm_get_expired)
    qed
  next
    case (OpRenew k i w)
    obtain q1 r where a: "activeLeaseLocked k i w now q = (q1, r)" by (meson surj_pair)
    from active_finished [OF a inv t f] s a OpRenew show ?thesis
      by (auto simp: Renew_def Let_def split: sum.splits option.splits)
  next
    case (OpComplete k i w r)
    obtain q1 x where a: "activeLeaseLocked k i w now q = (q1, x)" by (meson surj_pair)
    from active_finished [OF a inv t f] s a OpComplete show ?thesis
      by (auto simp: Complete_def split: sum.splits if_splits)
  next
    case OpStats
    then show ?thesis using s exp by (auto simp: Queue_Stats_def expireLocked_eq [OF inv])
  qed (use s t exp in \<open>auto simp: reading_eqs [OF inv]\<close>)
qed

lemma finished_run:
  "queue_inv q \<Longrightarrow> gm_get (tasks q) tid = Some t \<Longrightarrow> finished t \<Longrightarrow> run_steps lq_step ops q = Some q' \<Longrightarrow>
   gm_get (tasks q') tid = Some t"
proof (induction ops arbitrary: q)
  case (Cons l ops)
  obtain opn now where l: "l = (opn, now)" by (cases l)
  obtain q1 where q1: "lq_step l q = Some q1" "queue_inv q1" using lq_step_safe [OF Cons.prems(1)] by blast
  with finished_step [OF Cons.prems(1-3)] have "gm_get (tasks q1) tid = Some t" by (simp add: l)
  with Cons q1 show ?case by simp
qed simp

text \<open>A request that neither uses the lease \<open>(tid, leaseID)\<close> nor reads the clock at or after \<open>e\<close>.\<close>

definition leaves_lease :: "string \<Rightarrow> string \<Rightarrow> time \<Rightarrow> (nat \<Rightarrow> time) \<times> string \<times> Request \<Rightarrow> bool" where
  "leaves_lease tid leaseID e = (\<lambda>(clk, i, r). (\<forall>n. clk n < e) \<and>
     (case call_of r of
        Some (RenewCall req) \<Rightarrow> \<not> (rq_TaskID req = tid \<and> rq_LeaseID req = leaseID)
      | Some (ResultCall req) \<Rightarrow> \<not> (uq_TaskID req = tid \<and> uq_LeaseID req = leaseID)
      | _ \<Rightarrow> True))"

lemma enqueue_ops_leave:
  "now < e \<Longrightarrow> list_all (\<lambda>(opn, now). now < e \<and> \<not> acts_on tid leaseID opn) (enqueue_ops now j ty i ts q)"
  by (induction now j ty i ts q rule: enqueue_ops.induct) (auto split: sum.splits)

lemma server_calls_leave:
  "leaves_lease tid leaseID e (clk, i, r) \<Longrightarrow>
   list_all (\<lambda>(opn, now). now < e \<and> \<not> acts_on tid leaseID opn) (server_calls sha256 clk i r s)"
  by (auto simp: leaves_lease_def server_calls_def request_calls_def enqueue_ops_leave split: option.splits call.splits)

lemma lease_kept_by_requests:
  "server_inv s \<Longrightarrow> gm_get (tasks (sv_pullQueue s)) tid = Some t \<Longrightarrow> t_State t = StateLeased \<Longrightarrow> t_Lease t = Some l \<Longrightarrow>
   list_all (leaves_lease tid (l_ID l) (l_ExpiresAt l)) ls \<Longrightarrow>
   run_steps (server_step sha256) ls (a, s) = Some (a', s') \<Longrightarrow>
   gm_get (tasks (sv_pullQueue s')) tid = Some t"
proof (induction ls arbitrary: a s)
  case (Cons x ls)
  obtain clk i r where x: "x = (clk, i, r)" by (cases x) auto
  have qi: "queue_inv (sv_pullQueue s)" using Cons.prems(1) by (simp add: server_inv_def)
  from routes_served [OF Cons.prems(1), of sha256 clk i r a] obtain a1 s1 resp where
    s1: "routes sha256 clk i r (a, s) = Some ((a1, s1), resp)" "server_inv s1"
      "run_steps lq_step (server_calls sha256 clk i r s) (sv_pullQueue s) = Some (sv_pullQueue s1)" by blast
  have "list_all (\<lambda>(opn, now). now < l_ExpiresAt l \<and> \<not> acts_on tid (l_ID l) opn) (server_calls sha256 clk i r s)"
    using Cons.prems(5) by (intro server_calls_leave) (simp add: x)
  from held_lease_run [OF qi Cons.prems(2-4) this s1(3)] Cons s1 show ?case by (simp add: x)
qed simp

section \<open>The report on a job\<close>

lemma job_flags_eq:
  "job_flags ts (allTerminal, anyFailed, started) =
     (allTerminal \<and> list_all finished ts, anyFailed \<or> list_ex (\<lambda>t. t_State t = StateFailed) ts,
      started \<or> list_ex (\<lambda>t. t_Attempts t > 0) ts)"
  by (induction ts arbitrary: allTerminal anyFailed started) (auto simp: finished_def)

lemma job_state_eq:
  "job_state ts =
     (if list_all finished ts then (if list_ex (\<lambda>t. t_State t = StateFailed) ts then PullJobFailed else PullJobCompleted)
      else if list_ex (\<lambda>t. t_Attempts t > 0) ts then PullJobRunning else PullJobQueued)"
  by (simp add: job_state_def job_flags_eq)

lemma job_tasks_by_ID:
  assumes "queue_inv q"
  shows "filter (\<lambda>t. t_JobID t = j) (task_list q) = map (\<lambda>sp. the (gm_get (tasks q) (ts_ID sp))) (specs_of_job j q)"
proof -
  have "the (gm_get (tasks q) (ts_ID (spec_of t))) = t" if "t \<in> set (task_list q)" for t
  proof -
    have "t \<in> snd ` set (tasks q)" using that by (simp add: task_list_def)
    then obtain p where "t = snd p" and "p \<in> set (tasks q)" by (rule imageE)
    then have "(fst p, t) \<in> set (tasks q)" by simp
    then obtain tid where "(tid, t) \<in> set (tasks q)" ..
    then have "gm_get (tasks q) tid = Some t" by (rule gm_in_set_get [OF queue_inv_wf [OF assms]])
    with queue_inv_task(1) [OF assms this] show ?thesis by (simp add: spec_of_def)
  qed
  then have "map (\<lambda>sp. the (gm_get (tasks q) (ts_ID sp))) (map spec_of (filter (\<lambda>t. t_JobID t = j) (task_list q)))
      = filter (\<lambda>t. t_JobID t = j) (task_list q)"
    by (auto intro!: map_idI)
  then show ?thesis by (simp only: job_tasks_specs)
qed

lemma job_specs_of_job:
  assumes "queue_inv q" and "ids_inv q" and "task_id j 0 \<notin> set (order q)"
  shows "specs_of_job j (with_tasks q (job_specs j ty 0 ts)) = job_specs j ty 0 ts"
proof -
  have "filter (\<lambda>sp. ts_JobID sp = j) (specs q) = []"
    using assms by (auto simp: filter_empty_conv ids_inv_def simp flip: specs_IDs)
  moreover have "filter (\<lambda>sp. ts_JobID sp = j) (job_specs j ty 0 ts) = job_specs j ty 0 ts"
    using job_specs_sel by (auto simp: filter_id_conv)
  ultimately show ?thesis by (simp add: specs_of_job_def specs_with_tasks)
qed

text \<open>What a report on a job is made of, at any reachable state.\<close>

lemma job_request_eq:
  assumes "server_reach sha256 cfg s" and "authorized sha256 (sv_token s) (r_Authorization r)"
    and "r_Path r = ''/pull/job''" and "r_Method r = ''GET''" and "r_QueryID r = j" and "j \<noteq> []"
    and "routes sha256 clk i r (a, s) = Some ((a', s'), resp)"
  shows "let ts = filter (\<lambda>t. t_JobID t = j) (task_list (sv_pullQueue s')) in
    server_reach sha256 cfg s' \<and> resp = (if ts = [] then writeJSONStatus StatusNotFound (BErrorText ''job not found'')
      else writeJSON (BJob \<lparr>jr_JobID = j, jr_State = job_state ts, jr_Tasks = map job_task_of ts\<rparr>))"
proof -
  have "dispatch clk i r = Some (handlePullJob clk r)" using assms(3) by (simp add: dispatch_def)
  from routes_handlerD [OF assms(2) this assms(7)] have h: "handlePullJob clk r s = Some (s', resp)" ..
  from handlePullJob_eq [OF server_reach_inv [OF assms(1)] assms(4), of clk] assms(5,6) h
  have "resp = (let ts = filter (\<lambda>t. t_JobID t = j) (task_list (sv_pullQueue s')) in
    if ts = [] then writeJSONStatus StatusNotFound (BErrorText ''job not found'')
      else writeJSON (BJob \<lparr>jr_JobID = j, jr_State = job_state ts, jr_Tasks = map job_task_of ts\<rparr>))"
    by (auto simp: Let_def)
  with server_reach.handled [OF assms(1,7)] show ?thesis by (simp add: Let_def)
qed

end
