(* ===== verification/CoordinatorMonitor.thy ===== *)
theory CoordinatorMonitor
  imports CoordinatorJobs
begin

text \<open>
  \<open>MonitorSnapshot\<close> (\<open>internal/coordinator/monitor.go\<close>): the view of the coordinator that the
  terminal shows. It reads the queue with \<open>Observe\<close>, so it expires nothing, and prunes the
  worker table as \<open>/status\<close> does.
\<close>

section \<open>One task\<close>

definition observed_progress :: "time \<Rightarrow> Task \<Rightarrow> TaskProgress" where
  "observed_progress now task =
     (let p0 = \<lparr>tp_TaskID = t_ID task, tp_Key = t_Key task, tp_State = TaskState_str (t_State task),
            tp_WorkerID = t_WorkerID task, tp_Attempt = t_Attempts task, tp_StartedAt = 0, tp_Duration = 0,
            tp_Output = [], tp_Error = []\<rparr>;
          p1 = (if t_State task = StateLeased then
                  (case t_Lease task of None \<Rightarrow> p0
                   | Some l \<Rightarrow> p0\<lparr>tp_StartedAt := l_IssuedAt l, tp_Duration := time_Sub now (l_IssuedAt l)\<rparr>)
                else p0)
      in case t_Result task of None \<Rightarrow> p1
         | Some r \<Rightarrow> p1\<lparr>tp_Duration := res_Duration r, tp_Output := res_Output r, tp_Error := res_Error r\<rparr>)"

fun observed_counts :: "TaskState \<Rightarrow> TaskCounts \<Rightarrow> TaskCounts" where
  "observed_counts StateQueued c = c\<lparr>tc_Queued := tc_Queued c + 1\<rparr>"
| "observed_counts StateLeased c = c\<lparr>tc_Running := tc_Running c + 1\<rparr>"
| "observed_counts StateCompleted c = c\<lparr>tc_Completed := tc_Completed c + 1\<rparr>"
| "observed_counts StateFailed c = c\<lparr>tc_Failed := tc_Failed c + 1\<rparr>"

text \<open>The branch of the switch that also keeps the earliest start of the job's leases.\<close>

fun observed_job :: "TaskState \<Rightarrow> Lease option \<Rightarrow> JobProgress \<Rightarrow> JobProgress" where
  "observed_job StateQueued lease job = job\<lparr>jp_Queued := jp_Queued job + 1\<rparr>"
| "observed_job StateLeased lease job =
     (let job1 = job\<lparr>jp_Running := jp_Running job + 1\<rparr>
      in case lease of None \<Rightarrow> job1
         | Some l \<Rightarrow> if time_IsZero (jp_StartedAt job1) \<or> l_IssuedAt l < jp_StartedAt job1
             then job1\<lparr>jp_StartedAt := l_IssuedAt l\<rparr> else job1)"
| "observed_job StateCompleted lease job = job\<lparr>jp_Completed := jp_Completed job + 1\<rparr>"
| "observed_job StateFailed lease job = job\<lparr>jp_Failed := jp_Failed job + 1\<rparr>"

definition observe_in_job :: "time \<Rightarrow> Task \<Rightarrow> JobProgress \<Rightarrow> JobProgress" where
  "observe_in_job now task job =
     (let job1 = observed_job (t_State task) (t_Lease task) (job\<lparr>jp_Total := jp_Total job + 1\<rparr>)
      in job1\<lparr>jp_Tasks := jp_Tasks job1 @ [observed_progress now task]\<rparr>)"

section \<open>The loops\<close>

text \<open>The loop over the tasks: the counts, the jobs by ID and \<open>jobOrder\<close>.\<close>

definition observe_task :: "time \<Rightarrow> Task \<Rightarrow> TaskCounts \<times> (string, JobProgress) gomap \<times> string list \<Rightarrow>
    TaskCounts \<times> (string, JobProgress) gomap \<times> string list" where
  "observe_task now task = (\<lambda>(counts, jobs, jobOrder).
     case gm_get jobs (t_JobID task) of
       None \<Rightarrow> (observed_counts (t_State task) counts,
           gm_set (t_JobID task) (observe_in_job now task (empty_JobProgress\<lparr>jp_JobID := t_JobID task\<rparr>)) jobs,
           jobOrder @ [t_JobID task])
     | Some job \<Rightarrow> (observed_counts (t_State task) counts,
           gm_set (t_JobID task) (observe_in_job now task job) jobs, jobOrder))"

definition observed_state :: "JobProgress \<Rightarrow> string" where
  "observed_state job =
     (if jp_Failed job > 0 \<and> jp_Completed job + jp_Failed job = jp_Total job then ''failed''
      else if jp_Completed job = jp_Total job then ''completed''
      else if jp_Running job > 0 \<or> jp_Completed job > 0 \<or> jp_Failed job > 0 then ''running''
      else ''queued'')"

definition finish_job :: "time \<Rightarrow> JobProgress \<Rightarrow> JobProgress" where
  "finish_job now job =
     (let job1 = job\<lparr>jp_State := observed_state job\<rparr>
      in if \<not> time_IsZero (jp_StartedAt job1) then job1\<lparr>jp_Elapsed := time_Sub now (jp_StartedAt job1)\<rparr> else job1)"

text \<open>The loop over \<open>jobOrder\<close>; a missing entry would be a nil pointer.\<close>

fun current_job :: "time \<Rightarrow> (string, JobProgress) gomap \<Rightarrow> string list \<Rightarrow> JobProgress option \<Rightarrow> JobProgress option option" where
  "current_job now jobs [] cur = Some cur"
| "current_job now jobs (jobID # rest) cur =
     (case gm_get jobs jobID of
        None \<Rightarrow> None
      | Some job \<Rightarrow>
          let job1 = finish_job now job
          in current_job now (gm_set jobID job1 jobs) rest
               (if jp_State job1 = ''queued'' \<or> jp_State job1 = ''running'' then Some job1 else cur))"

definition worker_active :: "string \<Rightarrow> Task list \<Rightarrow> int" where
  "worker_active w ts = int (length (filter (\<lambda>task. t_State task = StateLeased \<and>
     (case t_Lease task of None \<Rightarrow> False | Some l \<Rightarrow> l_WorkerID l = w)) ts))"

definition MonitorSnapshot :: "time \<Rightarrow> string list \<Rightarrow> string \<Rightarrow> Server \<Rightarrow> (Server \<times> CoordinatorSnapshot) option" where
  "MonitorSnapshot now addresses fingerprint s =
     (case Observe (sv_pullQueue s) of
        None \<Rightarrow> None
      | Some ts \<Rightarrow>
        let counts0 = \<lparr>tc_Queued = 0, tc_Running = 0, tc_Completed = 0, tc_Failed = 0, tc_Total = int (length ts)\<rparr>;
            (counts, jobs, jobOrder) = fold (observe_task now) ts (counts0, [], []);
            (activity, recent) = recent_workers (time_Add now (- recentWorkerWindow))
              (sv_workerActivity s) (sv_workerActivity s);
            workers = map (\<lambda>(w, seen). \<lparr>wm_WorkerID = w, wm_LastActivity = seen, wm_Active = worker_active w ts\<rparr>) recent
        in map_option (\<lambda>cur. (s\<lparr>sv_workerActivity := activity\<rparr>,
             \<lparr>co_ObservedAt = now, co_Online = True, co_Addresses = addresses, co_Fingerprint = fingerprint,
              co_Uptime = time_Sub now (sv_startTime s), co_Tasks = counts, co_Jobs = int (length jobs),
              co_Workers = sort_key wm_WorkerID workers, co_CurrentJob = cur,
              co_Events = Recorder_Snapshot (sv_events s)\<rparr>))
             (current_job now jobs jobOrder None))"

section \<open>What the loops compute\<close>

definition count_state :: "TaskState \<Rightarrow> Task list \<Rightarrow> int" where
  "count_state st ts = int (length (filter (\<lambda>t. t_State t = st) ts))"

lemma count_state_simps [simp]:
  "count_state st [] = 0"
  "count_state st (t # ts) = (if t_State t = st then 1 else 0) + count_state st ts"
  "count_state st (ts @ us) = count_state st ts + count_state st us"
  by (simp_all add: count_state_def)

lemma count_state_nonneg [simp]: "0 \<le> count_state st ts"
  by (simp add: count_state_def)

lemma count_states_sum: "(\<Sum>st \<in> UNIV. count_state st ts) = int (length ts)"
  by (induction ts) (simp_all add: sum.distrib)

lemma count_states_total:
  "count_state StateQueued ts + count_state StateLeased ts + count_state StateCompleted ts + count_state StateFailed ts
     = int (length ts)"
  using count_states_sum [of ts] by (simp add: UNIV_enum enum_TaskState_def)

definition counts_of :: "TaskCounts \<Rightarrow> Task list \<Rightarrow> TaskCounts" where
  "counts_of c ts = \<lparr>tc_Queued = tc_Queued c + count_state StateQueued ts, tc_Running = tc_Running c + count_state StateLeased ts,
     tc_Completed = tc_Completed c + count_state StateCompleted ts, tc_Failed = tc_Failed c + count_state StateFailed ts,
     tc_Total = tc_Total c\<rparr>"

text \<open>The record the loop keeps for a job describes exactly the job's tasks so far.\<close>

definition describes :: "time \<Rightarrow> Task list \<Rightarrow> JobProgress \<Rightarrow> bool" where
  "describes now ts job = (jp_Total job = int (length ts) \<and> jp_Queued job = count_state StateQueued ts \<and>
     jp_Running job = count_state StateLeased ts \<and> jp_Completed job = count_state StateCompleted ts \<and>
     jp_Failed job = count_state StateFailed ts \<and> jp_Tasks job = map (observed_progress now) ts)"

lemma describes_snoc:
  assumes "describes now ts job"
  shows "describes now (ts @ [t]) (observe_in_job now t job)"
    and "jp_JobID (observe_in_job now t job) = jp_JobID job"
  using assms by (cases "t_State t"; auto simp: describes_def observe_in_job_def Let_def split: option.splits)+

definition tasks_of :: "string \<Rightarrow> Task list \<Rightarrow> Task list" where
  "tasks_of j ts = filter (\<lambda>t. t_JobID t = j) ts"

text \<open>The jobs in the order of their first tasks.\<close>

definition job_order :: "Task list \<Rightarrow> string list" where
  "job_order ts = rev (remdups (rev (map t_JobID ts)))"

lemma job_order_snoc:
  "job_order (ts @ [t]) = (if t_JobID t \<in> t_JobID ` set ts then job_order ts else job_order ts @ [t_JobID t])"
  by (simp add: job_order_def)

lemma set_job_order [simp]: "set (job_order ts) = t_JobID ` set ts"
  by (simp add: job_order_def)

definition jobs_ok :: "time \<Rightarrow> Task list \<Rightarrow> (string, JobProgress) gomap \<Rightarrow> string list \<Rightarrow> bool" where
  "jobs_ok now ts jobs jobOrder = (gm_keys jobs = jobOrder \<and> distinct jobOrder \<and> jobOrder = job_order ts \<and>
     (\<forall>j job. gm_get jobs j = Some job \<longrightarrow> jp_JobID job = j \<and> describes now (tasks_of j ts) job))"

lemma observe_task_ok:
  assumes "jobs_ok now ts jobs jobOrder" and "observe_task now t (c, jobs, jobOrder) = (c', jobs', jobOrder')"
  shows "jobs_ok now (ts @ [t]) jobs' jobOrder' \<and> c' = observed_counts (t_State t) c"
proof (cases "gm_get jobs (t_JobID t)")
  case None
  then have new: "t_JobID t \<notin> set (gm_keys jobs)" by (simp add: gm_get_None_iff)
  have e: "tasks_of (t_JobID t) ts = []"
    using new assms(1) by (auto simp: jobs_ok_def tasks_of_def filter_empty_conv intro: rev_image_eqI)
  have "describes now [] (empty_JobProgress\<lparr>jp_JobID := t_JobID t\<rparr>)"
    by (simp add: describes_def empty_JobProgress_def)
  note d = describes_snoc [OF this, of t]
  show ?thesis
    using assms None new e d
    by (auto simp: observe_task_def jobs_ok_def tasks_of_def gm_keys_set_new empty_JobProgress_def job_order_snoc
        split: if_splits)
next
  case (Some job)
  then have old: "t_JobID t \<in> set (gm_keys jobs)" by (rule gm_get_Some_keys)
  from Some assms(1) have d: "describes now (tasks_of (t_JobID t) ts) job" "jp_JobID job = t_JobID t"
    by (auto simp: jobs_ok_def)
  show ?thesis
    using assms Some old d(2) describes_snoc [OF d(1), of t]
    by (auto simp: observe_task_def jobs_ok_def tasks_of_def gm_keys_set_old job_order_snoc split: if_splits)
qed

lemma counts_of_snoc: "observed_counts (t_State t) (counts_of c ts) = counts_of c (ts @ [t])"
  by (cases "t_State t") (simp_all add: counts_of_def)

lemma observe_tasks_ok:
  assumes "fold (observe_task now) ts (c, [], []) = (c', jobs, jobOrder)"
  shows "jobs_ok now ts jobs jobOrder \<and> c' = counts_of c ts"
  using assms
proof (induction ts arbitrary: c' jobs jobOrder rule: rev_induct)
  case Nil
  then show ?case by (simp add: jobs_ok_def counts_of_def job_order_def)
next
  case (snoc t ts)
  obtain c1 jobs1 order1 where f: "fold (observe_task now) ts (c, [], []) = (c1, jobs1, order1)" by (metis prod.exhaust)
  from snoc.IH [OF f] have IH: "jobs_ok now ts jobs1 order1" "c1 = counts_of c ts" by auto
  have "observe_task now t (c1, jobs1, order1) = (c', jobs, jobOrder)" using snoc.prems f by simp
  from observe_task_ok [OF IH(1) this] IH(2) show ?case by (simp add: counts_of_snoc)
qed

text \<open>The job shown is the last one in submission order that is not finished.\<close>

definition unfinished :: "JobProgress \<Rightarrow> bool" where
  "unfinished job = (observed_state job = ''queued'' \<or> observed_state job = ''running'')"

lemma finish_job_sel [simp]: "jp_State (finish_job now job) = observed_state job" "jp_JobID (finish_job now job) = jp_JobID job"
  "jp_Tasks (finish_job now job) = jp_Tasks job" "jp_Total (finish_job now job) = jp_Total job"
  by (simp_all add: finish_job_def Let_def)

lemma fold_last:
  "fold (\<lambda>x c. if P x then Some (f x) else c) xs c = (if filter P xs = [] then c else Some (f (last (filter P xs))))"
  by (induction xs arbitrary: c) auto

lemma current_job_fold:
  "distinct ids \<Longrightarrow> set ids \<subseteq> set (gm_keys jobs) \<Longrightarrow>
   current_job now jobs ids cur = Some (fold (\<lambda>j c. if unfinished (the (gm_get jobs j))
     then Some (finish_job now (the (gm_get jobs j))) else c) ids cur)"
proof (induction ids arbitrary: jobs cur)
  case (Cons j ids)
  obtain job where job: "gm_get jobs j = Some job" using Cons.prems(2) gm_keys_get by fastforce
  let ?jobs = "gm_set j (finish_job now job) jobs"
  let ?f = "\<lambda>jobs j c. if unfinished (the (gm_get jobs j)) then Some (finish_job now (the (gm_get jobs j))) else c"
  have "fold (?f ?jobs) ids c = fold (?f jobs) ids c" for c
    using Cons.prems(1) by (intro fold_cong) auto
  moreover have "current_job now ?jobs ids c = Some (fold (?f ?jobs) ids c)" for c
    using Cons.prems by (intro Cons.IH) (auto simp: gm_keys_set)
  ultimately show ?case
    using job by (simp add: unfinished_def Let_def)
qed simp

lemma current_job_eq:
  assumes "distinct ids" and "set ids \<subseteq> set (gm_keys jobs)"
  shows "current_job now jobs ids None = Some
    (let xs = filter (\<lambda>j. unfinished (the (gm_get jobs j))) ids
     in if xs = [] then None else Some (finish_job now (the (gm_get jobs (last xs)))))"
  unfolding current_job_fold [OF assms] fold_last Let_def ..

lemma list_all_finished: "list_all finished ts \<longleftrightarrow> count_state StateCompleted ts + count_state StateFailed ts = int (length ts)"
  using count_states_total [of ts]
proof (induction ts)
  case (Cons t ts)
  have "count_state StateCompleted ts + count_state StateFailed ts \<le> int (length ts)"
    using count_states_total [of ts] count_state_nonneg [of StateQueued ts] count_state_nonneg [of StateLeased ts] by linarith
  with Cons count_states_total [of ts] show ?case by (cases "t_State t") (auto simp: finished_def)
qed simp

lemma unfinished_iff:
  assumes "describes now ts job"
  shows "unfinished job \<longleftrightarrow> \<not> list_all finished ts"
proof -
  obtain q r c f where e: "count_state StateQueued ts = q" "count_state StateLeased ts = r"
    "count_state StateCompleted ts = c" "count_state StateFailed ts = f" by blast
  have "0 \<le> q" "0 \<le> r" "0 \<le> c" "0 \<le> f" "q + r + c + f = int (length ts)"
    using count_states_total [of ts] count_state_nonneg [of _ ts] by (simp_all flip: e)
  with assms show ?thesis
    by (auto simp: unfinished_def observed_state_def describes_def list_all_finished e)
qed

text \<open>The last element of a list that satisfies a test.\<close>

lemma last_filter_split:
  "filter P xs \<noteq> [] \<Longrightarrow> \<exists>ys zs. xs = ys @ last (filter P xs) # zs \<and> P (last (filter P xs)) \<and> list_all (\<lambda>z. \<not> P z) zs"
proof (induction xs rule: rev_induct)
  case (snoc x xs)
  show ?case
  proof (cases "P x")
    case False
    with snoc obtain ys zs where "xs = ys @ last (filter P xs) # zs" "P (last (filter P xs))" "list_all (\<lambda>z. \<not> P z) zs"
      by auto
    with False show ?thesis by (intro exI [of _ ys] exI [of _ "zs @ [x]"]) simp
  next
    case True
    then show ?thesis by (intro exI [of _ xs] exI [of _ "[]"]) simp
  qed
qed simp

end
