(* ===== verification/CoordinatorTheorems.thy ===== *)
theory CoordinatorTheorems
  imports CoordinatorMonitor
begin

text \<open>
  The properties of the coordinator, each with a concrete instance. The example server has
  lease duration 10 and two attempts; a client submits two inputs, then a worker claims the
  first task.
\<close>

section \<open>An example\<close>

definition ex_scfg :: ServerConfig where
  "ex_scfg = \<lparr>sc_Port = 7443, sc_Token = ''tok'', sc_LeaseDuration = 10, sc_MaxAttempts = 2\<rparr>"

definition ex_server0 :: Server where
  "ex_server0 = (case NewServer ex_scfg unixEpoch of Inr s \<Rightarrow> s | Inl _ \<Rightarrow> undefined)"

definition ex_audit :: Audit where
  "ex_audit = \<lparr>au_file = None, au_logger = False, au_disk = (\<lambda>_. [])\<rparr>"

definition ex_request :: "string \<Rightarrow> string \<Rightarrow> string \<Rightarrow> (string \<times> json) list \<Rightarrow> Request" where
  "ex_request meth path query kvs = \<lparr>r_Method = meth, r_Path = path, r_Authorization = [clientHeader ''tok''],
     r_RemoteAddr = ''peer'', r_QueryID = query, r_Body = \<lparr>doc_len = 100, doc_vals = [Some (JObject kvs)]\<rparr>\<rparr>"

definition ex_submit :: Request where
  "ex_submit = ex_request ''POST'' ''/pull/submit'' []
     [(''task_type'', JString ''diagnostic_sleep''), (''inputs'', JArray [JString ''1s'', JString ''2s''])]"

definition ex_claim :: Request where
  "ex_claim = ex_request ''POST'' ''/worker/claim'' [] [(''worker_id'', JString ''w'')]"

definition ex_report :: Request where
  "ex_report = ex_request ''POST'' ''/worker/result'' []
     [(''worker_id'', JString ''w''), (''task_id'', JString ''pull-job-5-task-0''), (''lease_id'', JString ''L1''),
      (''result'', JObject [(''task_id'', JString ''pull-job-5-task-0''), (''output'', JString ''ok'')])]"

definition ex_job :: Request where
  "ex_job = ex_request ''GET'' ''/pull/job'' ''pull-job-5'' []"

definition ex_clock :: "int \<Rightarrow> nat \<Rightarrow> time" where
  "ex_clock t n = unixEpoch + t"

definition ex_requests :: "((nat \<Rightarrow> time) \<times> string \<times> Request) list" where
  "ex_requests = [(ex_clock 5, [], ex_submit), (ex_clock 6, ''L1'', ex_claim)]"

lemma ex_server0: "NewServer ex_scfg unixEpoch = Inr ex_server0"
  by (simp add: ex_server0_def NewServer_def New_def ex_scfg_def)

lemma ex_reach0: "server_reach sha256 ex_scfg ex_server0"
  by (rule server_reach.created [OF ex_server0])

lemma ex_token: "server_reach sha256 ex_scfg s \<Longrightarrow> sv_token s = ''tok''"
  by (simp add: server_reach_token ex_scfg_def)

text \<open>The server after some requests, with SHA-256 replaced by the identity.\<close>

definition ex_after :: "((nat \<Rightarrow> time) \<times> string \<times> Request) list \<Rightarrow> Server" where
  "ex_after ls = (case run_steps (server_step (\<lambda>x. x)) ls (ex_audit, ex_server0) of
     None \<Rightarrow> ex_server0 | Some (_, s) \<Rightarrow> s)"

definition ex_server :: "nat \<Rightarrow> Server" where
  "ex_server n = ex_after (take n ex_requests)"

lemma ex_reach_after: "server_reach (\<lambda>x. x) ex_scfg (ex_after ls)"
proof -
  obtain a s where r: "run_steps (server_step (\<lambda>x. x)) ls (ex_audit, ex_server0) = Some (a, s)"
    using coordinator.run_safe [of "(ex_audit, ex_server0)"] server_reach_inv [OF ex_reach0] by fastforce
  from server_reach_run [OF ex_reach0 r] r show ?thesis by (simp add: ex_after_def)
qed

lemma exs_reach: "server_reach (\<lambda>x. x) ex_scfg (ex_server n)"
  unfolding ex_server_def by (rule ex_reach_after)

text \<open>A job of one task, claimed and completed.\<close>

definition ex_finished :: Server where
  "ex_finished = ex_after
     [(ex_clock 5, [], ex_request ''POST'' ''/pull/submit'' []
         [(''task_type'', JString ''diagnostic_sleep''), (''inputs'', JArray [JString ''1s''])]),
      (ex_clock 6, ''L1'', ex_claim), (ex_clock 8, [], ex_report)]"

lemma ex_reach_finished: "server_reach (\<lambda>x. x) ex_scfg ex_finished"
  unfolding ex_finished_def by (rule ex_reach_after)

section \<open>Safety\<close>

text \<open>
  From every state the server can reach, every sequence of requests, whatever their
  bodies, headers and clock readings, is answered without a panic and keeps the server's
  invariant: the invariant of the lease queue, the bound of the event history and a worker
  table with one entry for each worker.
\<close>

theorem requests_never_panic:
  assumes "server_reach sha256 cfg s"
  shows "\<exists>a' s'. run_steps (server_step sha256) ls (a, s) = Some (a', s') \<and> server_inv s'"
  using coordinator.run_safe [of "(a, s)" sha256 ls] server_reach_inv [OF assms] by auto

theorem requests_never_panic_witness:
  "\<exists>a' s'. run_steps (server_step (\<lambda>x. x)) [(ex_clock 99, ''L2'', ex_claim), (ex_clock 7, [], ex_report)]
     (ex_audit, ex_server 2) = Some (a', s') \<and> server_inv s'"
  by (rule requests_never_panic [OF exs_reach])

lemma pullErrorResponse_status: "snd (pullErrorResponse e) \<in> {400, 404, 409}"
  by (cases e) simp_all

lemma handler_status:
  assumes "dispatch clk i r = Some h" and "h s = Some (s', resp)"
  shows "rsp_Status resp \<noteq> 401"
proof -
  have e: "snd (pullErrorResponse err) \<noteq> 401" for err using pullErrorResponse_status [of err] by auto
  have o: "rsp_Status (snd (result_outcome now t w out s)) \<noteq> 401" for now t w out s
    by (cases out) (simp_all add: writeJSON_def)
  have o': "x = (s', resp) \<Longrightarrow> rsp_Status (snd x) \<noteq> 401 \<Longrightarrow> rsp_Status resp \<noteq> 401" for x :: "Server \<times> Response"
    by simp
  have cl: "handlePullClaim clk i r s = Some (s', resp) \<Longrightarrow> rsp_Status resp \<noteq> 401"
    and rn: "handlePullRenew clk r s = Some (s', resp) \<Longrightarrow> rsp_Status resp \<noteq> 401"
    and sb: "handlePullSubmit clk r s = Some (s', resp) \<Longrightarrow> rsp_Status resp \<noteq> 401"
    and jb: "handlePullJob clk r s = Some (s', resp) \<Longrightarrow> rsp_Status resp \<noteq> 401"
    and st: "handlePullStatus clk r s = Some (s', resp) \<Longrightarrow> rsp_Status resp \<noteq> 401"
    by (auto simp: handlePullClaim_def handlePullRenew_def handlePullSubmit_def handlePullJob_def handlePullStatus_def
        methodNotAllowed_def writeJSON_def writeJSONStatus_def Let_def e
        split: if_splits option.splits sum.splits prod.splits)
  have rs: "handlePullResult clk r s = Some (s', resp) \<Longrightarrow> rsp_Status resp \<noteq> 401"
    by (auto simp: handlePullResult_def methodNotAllowed_def writeJSONStatus_def Let_def e o
        split: if_splits option.splits sum.splits prod.splits dest!: o')
  show ?thesis using assms cl rn rs sb jb st by (auto simp: dispatch_def split: if_splits)
qed

text \<open>
  C13. The guard in front of all six routes: unless two tokens collide under SHA-256, the
  answer is 401 exactly when the request does not carry a single \<open>Authorization\<close> header made
  of the scheme \<open>Bearer\<close> (in any case) and the server's token; then the server is untouched
  and the failure is in the audit log. With that header the handler's answer goes through and
  the audit log is untouched.
\<close>

theorem only_token_holders_reach_handlers:
  assumes "\<forall>x. sha256 x = sha256 (sv_token s) \<longrightarrow> x = sv_token s" and "protected_path (r_Path r)"
    and "routes sha256 clk i r (a, s) = Some ((a', s'), resp)"
  shows "(rsp_Status resp = 401) =
      (\<not> (\<exists>h scheme. r_Authorization r = [h] \<and> Fields h = [scheme, sv_token s] \<and>
            map lower_ascii scheme = ''bearer'' \<and> sv_token s \<noteq> [])) \<and>
    (if rsp_Status resp = 401 then s' = s \<and> a' = LogEvent (auth_failure r) a
     else a' = a \<and> (\<exists>h. dispatch clk i r = Some h \<and> h s = Some (s', resp)))"
proof -
  obtain h where h: "dispatch clk i r = Some h"
    using assms(2) dispatch_protected [of clk i r] by auto
  have au: "authorized sha256 (sv_token s) (r_Authorization r) \<longleftrightarrow>
      (\<exists>h scheme. r_Authorization r = [h] \<and> Fields h = [scheme, sv_token s] \<and>
         map lower_ascii scheme = ''bearer'' \<and> sv_token s \<noteq> [])"
    using assms(1)
    by (auto simp: authorized_def bearerToken_def equalFoldBearer_def split: list.splits option.splits if_splits)
  show ?thesis
  proof (cases "authorized sha256 (sv_token s) (r_Authorization r)")
    case True
    then have "h s = Some (s', resp)" and "a' = a"
      using assms(3) h by (auto simp: routes_def WithBearerAuth_eq split: option.splits)
    with handler_status [OF h this(1)] True h show ?thesis unfolding au [symmetric] by simp
  next
    case False
    then show ?thesis unfolding au [symmetric] using assms(3) h by (auto simp: routes_def WithBearerAuth_eq)
  qed
qed

theorem only_token_holders_reach_handlers_witness:
  "\<exists>a' s' resp. routes (\<lambda>x. x) (ex_clock 9) [] (ex_job\<lparr>r_Authorization := [''Bearer nope'']\<rparr>) (ex_audit, ex_server 2)
       = Some ((a', s'), resp) \<and> rsp_Status resp = 401 \<and> s' = ex_server 2"
proof -
  let ?r = "ex_job\<lparr>r_Authorization := [''Bearer nope'']\<rparr>"
  obtain a' s' resp where r: "routes (\<lambda>x. x) (ex_clock 9) [] ?r (ex_audit, ex_server 2) = Some ((a', s'), resp)"
    using routes_served [OF server_reach_inv [OF exs_reach]] by blast
  have p: "protected_path (r_Path ?r)" by (simp add: protected_path_def ex_job_def ex_request_def)
  have f: "Fields ''Bearer nope'' = [''Bearer'', ''nope'']" by code_simp
  have t: "sv_token (ex_server 2) = ''tok''" by (rule ex_token [OF exs_reach])
  from only_token_holders_reach_handlers [OF _ p r] f t
  have "rsp_Status resp = 401 \<and> s' = ex_server 2" by (auto split: if_splits)
  with r show ?thesis by blast
qed

text \<open>
  C14. Every client of the program sends \<open>Bearer\<close>, a space and its token; the server lets this
  header through exactly when the token is not empty and contains no white space.
\<close>

theorem client_header_accepted:
  assumes "\<forall>x. sha256 x = sha256 tok \<longrightarrow> x = tok"
  shows "snd (WithBearerAuth sha256 tok [clientHeader tok] addr path a)
    \<longleftrightarrow> tok \<noteq> [] \<and> list_all (\<lambda>r. \<not> IsSpace r) (runes tok)"
proof -
  have "snd (WithBearerAuth sha256 tok [clientHeader tok] addr path a) \<longleftrightarrow> bearerToken (clientHeader tok) = Some tok"
    using assms by (auto simp: WithBearerAuth_def tokensEqual_def Let_def split: option.splits)
  then show ?thesis by (simp add: bearerToken_clientHeader)
qed

theorem client_header_accepted_witness:
  "\<not> snd (WithBearerAuth (\<lambda>x. x) ''a b'' [clientHeader ''a b''] ''peer'' ''/status'' ex_audit)"
proof -
  have "\<not> list_all (\<lambda>r. \<not> IsSpace r) (runes ''a b'')" by code_simp
  with client_header_accepted [of "\<lambda>x. x" "''a b''" "''peer''" "''/status''" ex_audit] show ?thesis by simp
qed

text \<open>What a body must be for the decoder of its route: one JSON value within the limit and known keys only.\<close>

definition body_limit :: "string \<Rightarrow> int" where
  "body_limit path = (if path = ''/pull/submit'' then MaxManifestBytes else MaxWorkerRequestBytes)"

definition known_key :: "string \<Rightarrow> string \<Rightarrow> bool" where
  "known_key path k =
     (if path = ''/worker/claim'' then find_field fields_PullClaimRequest k \<noteq> None
      else if path = ''/worker/renew'' then find_field fields_PullRenewRequest k \<noteq> None
      else if path = ''/worker/result'' then find_field fields_PullResultRequest k \<noteq> None
      else find_field fields_PullSubmitRequest k \<noteq> None)"

definition body_ok :: "string \<Rightarrow> json_doc \<Rightarrow> bool" where
  "body_ok path doc = (doc_len doc \<le> body_limit path \<and>
     (case doc_vals doc of
        [Some (JObject kvs)] \<Rightarrow> list_all (\<lambda>(k, v). known_key path k) kvs
      | [Some JNull] \<Rightarrow> True
      | _ \<Rightarrow> False))"

lemma decodeJSONRequest_Some:
  assumes "decodeJSONRequest fs zero doc limit = Some x"
  shows "doc_len doc \<le> limit \<and> (doc_vals doc = [Some JNull] \<or>
    (\<exists>kvs. doc_vals doc = [Some (JObject kvs)] \<and> list_all (\<lambda>(k, v). find_field fs k \<noteq> None) kvs))"
proof -
  have len: "doc_len doc \<le> limit" and "\<exists>v. doc_vals doc = [Some v] \<and> decode_struct fs v zero = Some x"
    using assms by (auto simp: decodeJSONRequest_def split: if_splits list.splits option.splits)
  then obtain v where v: "doc_vals doc = [Some v]" "decode_struct fs v zero = Some x" by blast
  show ?thesis
  proof (cases v)
    case (JObject kvs)
    have "find_field fs k \<noteq> None" if "(k, w) \<in> set kvs" for k w
      using decode_struct_unknown [of k kvs fs zero] v(2) that JObject by (force simp: image_iff)
    with JObject len v(1) show ?thesis by (auto simp: list_all_iff)
  qed (use len v in auto)
qed

text \<open>
  C15. A body on one of the four \<open>POST\<close> routes that is over the route's limit, is not valid
  JSON, is not an object (or \<open>null\<close>), is followed by anything or has a key that the request
  type does not have (up to letter case) is answered with 400 and changes nothing.
\<close>

theorem malformed_bodies_rejected:
  assumes "authorized sha256 (sv_token s) (r_Authorization r)" and "r_Method r = ''POST''"
    and "r_Path r \<in> {''/worker/claim'', ''/worker/renew'', ''/worker/result'', ''/pull/submit''}"
    and "\<not> body_ok (r_Path r) (r_Body r)"
  shows "\<exists>resp. routes sha256 clk i r (a, s) = Some ((a, s), resp) \<and> rsp_Status resp = 400"
proof -
  have "\<exists>h resp. dispatch clk i r = Some h \<and> h s = Some (s, resp) \<and> rsp_Status resp = 400"
  proof (cases "decodeJSONRequest fields_PullClaimRequest zero_PullClaimRequest (r_Body r) MaxWorkerRequestBytes = None \<or> r_Path r \<noteq> ''/worker/claim''")
    case False
    then show ?thesis using assms(4) decodeJSONRequest_Some
      by (fastforce simp: body_ok_def body_limit_def known_key_def split: list.splits option.splits json.splits)
  next
    case cl: True
    have rn: "decodeJSONRequest fields_PullRenewRequest zero_PullRenewRequest (r_Body r) MaxWorkerRequestBytes = None \<or> r_Path r \<noteq> ''/worker/renew''"
      using assms(4) decodeJSONRequest_Some [of fields_PullRenewRequest zero_PullRenewRequest "r_Body r" MaxWorkerRequestBytes]
      by (cases "decodeJSONRequest fields_PullRenewRequest zero_PullRenewRequest (r_Body r) MaxWorkerRequestBytes")
        (auto simp: body_ok_def body_limit_def known_key_def)
    have rs: "decodeJSONRequest fields_PullResultRequest zero_PullResultRequest (r_Body r) MaxWorkerRequestBytes = None \<or> r_Path r \<noteq> ''/worker/result''"
      using assms(4) decodeJSONRequest_Some [of fields_PullResultRequest zero_PullResultRequest "r_Body r" MaxWorkerRequestBytes]
      by (cases "decodeJSONRequest fields_PullResultRequest zero_PullResultRequest (r_Body r) MaxWorkerRequestBytes")
        (auto simp: body_ok_def body_limit_def known_key_def)
    have sb: "decodeJSONRequest fields_PullSubmitRequest zero_PullSubmitRequest (r_Body r) MaxManifestBytes = None \<or> r_Path r \<noteq> ''/pull/submit''"
      using assms(4) decodeJSONRequest_Some [of fields_PullSubmitRequest zero_PullSubmitRequest "r_Body r" MaxManifestBytes]
      by (cases "decodeJSONRequest fields_PullSubmitRequest zero_PullSubmitRequest (r_Body r) MaxManifestBytes")
        (auto simp: body_ok_def body_limit_def known_key_def)
    show ?thesis
      using assms(2,3) cl rn rs sb
      by (auto simp: dispatch_def handlePullClaim_def handlePullRenew_def handlePullResult_def handlePullSubmit_def
          writeJSONStatus_def)
  qed
  with assms(1) show ?thesis by (auto simp: routes_def WithBearerAuth_eq)
qed

lemma ex_authorized: "authorized sha256 ''tok'' [clientHeader ''tok'']"
proof (rule authorized_client)
  show "list_all (\<lambda>r. \<not> IsSpace r) (runes ''tok'')" by code_simp
qed simp

theorem malformed_bodies_rejected_witness:
  "\<exists>resp. routes (\<lambda>x. x) (ex_clock 9) [] (ex_request ''POST'' ''/worker/claim'' [] [(''worker'', JString ''w'')])
       (ex_audit, ex_server 1) = Some ((ex_audit, ex_server 1), resp) \<and> rsp_Status resp = 400"
proof -
  have "\<not> body_ok ''/worker/claim'' (r_Body (ex_request ''POST'' ''/worker/claim'' [] [(''worker'', JString ''w'')]))"
    by code_simp
  then show ?thesis
    using ex_authorized ex_token [OF exs_reach]
    by (intro malformed_bodies_rejected) (simp_all add: ex_request_def)
qed

section \<open>Refinement\<close>

text \<open>
  C16. The server refines the lease queue: a request performs exactly the queue calls that
  \<open>server_calls\<close> names (none when the guard or the checks turn it away; an expiry sweep before
  a claim or a report; one \<open>Enqueue\<close> for each task of a submission until one fails), with the
  clock reading each call is given, so every queue the server ever holds is a reachable queue.
\<close>

theorem requests_are_queue_calls:
  assumes "server_reach sha256 cfg s" and "routes sha256 clk i r (a, s) = Some ((a', s'), resp)"
  shows "run_steps lq_step (server_calls sha256 clk i r s) (sv_pullQueue s) = Some (sv_pullQueue s') \<and>
    lq_reach (queue_config cfg) (sv_pullQueue s')"
proof -
  from routes_served [OF server_reach_inv [OF assms(1)], of sha256 clk i r a] assms(2)
  have run: "run_steps lq_step (server_calls sha256 clk i r s) (sv_pullQueue s) = Some (sv_pullQueue s')" by auto
  with lq_reach_run [OF server_reach_queue [OF assms(1)] run] show ?thesis by simp
qed

theorem requests_are_queue_calls_witness:
  "\<exists>a' s' resp. routes (\<lambda>x. x) (ex_clock 6) ''L1'' ex_claim (ex_audit, ex_server 1) = Some ((a', s'), resp) \<and>
     run_steps lq_step [(OpRequeueExpired, unixEpoch + 6), (OpClaim ''w'' ''L1'', unixEpoch + 6)] (sv_pullQueue (ex_server 1))
       = Some (sv_pullQueue s')"
proof -
  obtain a' s' resp where r: "routes (\<lambda>x. x) (ex_clock 6) ''L1'' ex_claim (ex_audit, ex_server 1) = Some ((a', s'), resp)"
    using routes_served [OF server_reach_inv [OF exs_reach]] by blast
  have "server_calls (\<lambda>x. x) (ex_clock 6) ''L1'' ex_claim (ex_server 1)
      = [(OpRequeueExpired, unixEpoch + 6), (OpClaim ''w'' ''L1'', unixEpoch + 6)]"
    by code_simp
  with requests_are_queue_calls [OF exs_reach r] r show ?thesis by auto
qed

section \<open>The life of a claimed task\<close>

text \<open>A report on the task and lease of an assignment, as the worker sends it.\<close>

definition reports :: "Request \<Rightarrow> string \<Rightarrow> PullTask \<Rightarrow> TResult \<Rightarrow> bool" where
  "reports r w pt res = (r_Path r = ''/worker/result'' \<and> r_Method r = ''POST'' \<and>
     decodeJSONRequest fields_PullResultRequest zero_PullResultRequest (r_Body r) MaxWorkerRequestBytes
       = Some \<lparr>uq_WorkerID = w, uq_TaskID = pt_TaskID pt, uq_LeaseID = pt_LeaseID pt, uq_Result = res\<rparr> \<and>
     tr_TaskID res = pt_TaskID pt \<and> ValidateResult res = None)"

lemma Claim_granted:
  assumes inv: "queue_inv q" and w: "w \<noteq> []" and c: "Claim w now i q = Some (q2, Inr (Some as))"
  shows "\<exists>t. gm_get (tasks q2) (ts_ID (a_Task as)) = Some t \<and> t_State t = StateLeased \<and>
    t_Lease t = Some (a_Lease as) \<and> l_ID (a_Lease as) = i \<and> l_WorkerID (a_Lease as) = w \<and>
    spec_of t = a_Task as \<and> l_Attempt (a_Lease as) = t_Attempts t \<and>
    (\<exists>t0. gm_get (tasks q) (ts_ID (a_Task as)) = Some t0 \<and> t_Attempts t = t_Attempts t0 + 1 \<and> 0 \<le> t_Attempts t0)"
proof -
  from Claim_cases [OF inv w, of now i] c obtain tid rest t where
    t: "gm_get (tasks (expired_queue now q)) tid = Some t"
    and q2: "q2 = claim_head w now i tid rest t (expired_queue now q)"
    and as: "as = \<lparr>a_Task = spec_of t, a_Lease = new_lease w now i (leaseDuration q) t\<rparr>"
    by (auto simp del: gm_get_expired)
  have "t_ID t = tid" using queue_inv_task(1) [OF expired_queue_inv [OF inv] t] .
  moreover have "\<exists>t0. gm_get (tasks q) tid = Some t0 \<and> t_Attempts t = t_Attempts t0 \<and> 0 \<le> t_Attempts t0"
    using t queue_inv_task(2) [OF inv] by (fastforce simp: task_wf_def)
  ultimately show ?thesis by (auto simp: as q2 spec_of_def new_lease_def claim_head_def claimed_task_def)
qed

lemma claimed_queue:
  assumes inv: "server_inv s" and c: "r_Path r = ''/worker/claim''" "r_Method r = ''POST''"
    and au: "authorized sha256 (sv_token s) (r_Authorization r)"
    and r: "routes sha256 clk i r (a, s) = Some ((a', s'), resp)" and b: "rsp_Body resp = BClaim cs" "cs_Task cs = Some pt"
  shows "\<exists>w t l. claim_call r = Some (ClaimCall w) \<and> ValidateWorkerID w = None \<and>
    gm_get (tasks (sv_pullQueue s')) (pt_TaskID pt) = Some t \<and> t_State t = StateLeased \<and> t_Lease t = Some l \<and>
    l_ID l = i \<and> l_WorkerID l = w \<and> l_ExpiresAt l = pt_LeaseExpiresAt pt \<and> pt_LeaseID pt = i \<and>
    pt_Attempt pt = t_Attempts t \<and> pt_Type pt = t_Type t \<and> pt_Input pt = t_Input t \<and>
    (\<exists>t0. gm_get (tasks (sv_pullQueue s)) (pt_TaskID pt) = Some t0 \<and> t_Attempts t = t_Attempts t0 + 1 \<and> 0 \<le> t_Attempts t0)"
proof -
  have h: "handlePullClaim clk i r s = Some (s', resp)"
    using r c by (auto simp: routes_handler [OF au, of clk i "handlePullClaim clk i r"] dispatch_def)
  show ?thesis
  proof (cases "claim_call r")
    case None
    then show ?thesis using h b c by (auto simp: handlePullClaim_def claim_call_def writeJSONStatus_def claim_reply_def
        split: option.splits if_splits)
  next
    case (Some d)
    from handlePullClaim_eq [OF inv c(2) Some, of clk i] obtain w n q2 res s2 where
      d: "d = ClaimCall w" and v: "ValidateWorkerID w = None"
      and cl: "Claim w (clk n) i (expired_queue (clk 1) (sv_pullQueue s)) = Some (q2, res)" and "queue_inv q2"
      and s2: "sv_pullQueue s2 = q2" and e: "handlePullClaim clk i r s = Some (claim_answer (clk (n + 1)) w res s2)" by blast
    from e h b obtain as where res: "res = Inr (Some as)" and pt: "pt = pull_task_of as" and s': "sv_pullQueue s' = q2"
      using s2 by (induction "clk (n + 1)" w res s2 rule: claim_answer.induct)
        (auto simp: writeJSON_def writeJSONStatus_def claim_reply_def)
    have w: "w \<noteq> []" using v by (auto simp: ValidateWorkerID_None)
    have qi: "queue_inv (expired_queue (clk 1) (sv_pullQueue s))"
      using inv expired_queue_inv by (simp add: server_inv_def)
    from Claim_granted [OF qi w cl [unfolded res]] obtain t t0 where
      t: "gm_get (tasks q2) (ts_ID (a_Task as)) = Some t" "t_State t = StateLeased" "t_Lease t = Some (a_Lease as)"
        "l_ID (a_Lease as) = i" "l_WorkerID (a_Lease as) = w" "spec_of t = a_Task as" "l_Attempt (a_Lease as) = t_Attempts t"
      and t0: "gm_get (tasks (expired_queue (clk 1) (sv_pullQueue s))) (ts_ID (a_Task as)) = Some t0"
        "t_Attempts t = t_Attempts t0 + 1" "0 \<le> t_Attempts t0" by blast
    from t(6) [symmetric] t0 have "ts_Type (a_Task as) = t_Type t" "ts_Input (a_Task as) = t_Input t"
      "\<exists>t0. gm_get (tasks (sv_pullQueue s)) (ts_ID (a_Task as)) = Some t0 \<and> t_Attempts t = t_Attempts t0 + 1 \<and> 0 \<le> t_Attempts t0"
      by (auto simp: spec_of_def)
    with t Some d v s' show ?thesis by (auto simp: pt pull_task_of_def)
  qed
qed

lemma reach_task_id_valid:
  assumes "server_reach sha256 cfg s" and t: "gm_get (tasks (sv_pullQueue s)) tid = Some t"
  shows "ValidateTaskID tid = None"
proof -
  have "queue_inv (sv_pullQueue s)" using server_reach_inv [OF assms(1)] by (simp add: server_inv_def)
  moreover have "spec_of t \<in> set (specs (sv_pullQueue s))"
    using gm_get_in_set [OF t] by (force simp: specs_def task_list_def)
  then obtain k where "is_job_id (t_JobID t)" "k < 1000" "t_ID t = task_id (t_JobID t) k"
    using server_reach_ids [OF assms(1)] by (auto simp: ids_inv_def spec_of_def)
  ultimately show ?thesis using task_id_valid [of "t_JobID t" k] queue_inv_task(1) [OF _ t] by simp
qed

lemma claim_then_report:
  assumes "server_reach sha256 cfg s" and "r_Path r = ''/worker/claim''" and "r_Method r = ''POST''"
    and "authorized sha256 (sv_token s) (r_Authorization r)"
    and "routes sha256 clk i r (a, s) = Some ((a1, s1), resp)" and "rsp_Body resp = BClaim cs"
    and "cs_Task cs = Some pt" and "claim_call r = Some (ClaimCall w)" and "ValidateLeaseID i = None"
    and "list_all (leaves_lease (pt_TaskID pt) (pt_LeaseID pt) (pt_LeaseExpiresAt pt)) ls"
    and "run_steps (server_step sha256) ls (a1, s1) = Some (a2, s2)"
    and "reports r' w pt res" and "authorized sha256 (sv_token s2) (r_Authorization r')"
    and "clk' 1 < pt_LeaseExpiresAt pt"
  shows "\<exists>s3 resp' us t m. routes sha256 clk' j r' (a2, s2) = Some ((a2, s3), resp') \<and> rsp_Status resp' = 200 \<and>
    rsp_Body resp' = BResult us \<and>
    us_Status us \<in> (if tr_Error res = [] then {PullTaskCompleted} else {PullTaskRequeued, PullTaskFailed}) \<and>
    gm_get (tasks (sv_pullQueue s3)) (pt_TaskID pt) = Some (completed_task m (lresult_of res) t)"
proof -
  note inv = server_reach_inv [OF assms(1)]
  from claimed_queue [OF inv assms(2-7)] assms(8) obtain t l where
    v: "ValidateWorkerID w = None" and t: "gm_get (tasks (sv_pullQueue s1)) (pt_TaskID pt) = Some t" and st: "t_State t = StateLeased" and l: "t_Lease t = Some l"
    and li: "l_ID l = i" "l_WorkerID l = w" "l_ExpiresAt l = pt_LeaseExpiresAt pt" "pt_LeaseID pt = i" by auto
  have reach1: "server_reach sha256 cfg s1" by (rule server_reach.handled [OF assms(1,5)])
  have reach2: "server_reach sha256 cfg s2" by (rule server_reach_run [OF reach1 assms(11)])
  have q1: "queue_inv (sv_pullQueue s1)" and q2: "queue_inv (sv_pullQueue s2)"
    using server_reach_inv [OF reach1] server_reach_inv [OF reach2] by (simp_all add: server_inv_def)
  have t2: "gm_get (tasks (sv_pullQueue s2)) (pt_TaskID pt) = Some t"
    using assms(10) li by (intro lease_kept_by_requests [OF server_reach_inv [OF reach1] t st l _ assms(11)]) simp
  then have hl: "holds_lease i w (clk' 1) t l" using st l li assms(14) by (simp add: holds_lease_def)
  let ?req = "\<lparr>uq_WorkerID = w, uq_TaskID = pt_TaskID pt, uq_LeaseID = pt_LeaseID pt, uq_Result = res\<rparr>"
  have "ValidateTaskID (pt_TaskID pt) = None" by (rule reach_task_id_valid [OF reach1 t])
  then have c: "result_call r' = Some (ResultCall ?req)"
    using assms(9,12) v li(4) by (simp add: result_call_def reports_def validateLeaseRequest_def)
  have r': "r_Method r' = ''POST''" "r_Path r' = ''/worker/result''" using assms(12) by (simp_all add: reports_def)
  let ?m = "maxAttempts (sv_pullQueue s2)"
  define out where "out = outcome_of ?m (lresult_of res) t"
  define q3 where "q3 = fst (Complete (pt_TaskID pt) i w (lresult_of res) (clk' 1) (sv_pullQueue s2))"
  note co = Complete_ok [OF q2 t2 hl, of "lresult_of res"]
  have h: "handlePullResult clk' r' s2 = Some (result_outcome (clk' 2) (pt_TaskID pt) w out
      ((recordWorkerActivity w (clk' 0) s2)\<lparr>sv_pullQueue := q3\<rparr>))"
    using handlePullResult_eq [OF r'(1) c, of clk' s2] by (simp add: li(4) co q3_def out_def del: One_nat_def)
  have q3: "gm_get (tasks q3) (pt_TaskID pt) = Some (completed_task ?m (lresult_of res) t)" by (simp add: q3_def co del: One_nat_def)
  have "dispatch clk' j r' = Some (handlePullResult clk' r')" using r'(2) by (simp add: dispatch_def)
  from routes_handler [OF assms(13) this, of a2] h q3 show ?thesis
    by (cases out) (auto simp: out_def outcome_of_def lresult_of_def writeJSON_def result_reply_def split: if_splits)
qed

text \<open>
  C17. A claim that is answered with a task leads to an accepted report: if nobody else uses
  the task's lease ID, then whatever other requests come in between, a report with the
  identifiers of the assignment that arrives before the expiry of the lease passes every
  check, is answered with 200 and settles the task: completed when the error is empty,
  requeued or failed otherwise. In particular the task IDs that the server makes up always
  pass its own validation.
\<close>

theorem claimed_task_can_be_reported:
  assumes "server_reach sha256 cfg s" and "r_Path r = ''/worker/claim''" and "r_Method r = ''POST''"
    and "authorized sha256 (sv_token s) (r_Authorization r)"
    and "routes sha256 clk i r (a, s) = Some ((a1, s1), resp)" and "rsp_Body resp = BClaim cs"
    and "cs_Task cs = Some pt" and "claim_call r = Some (ClaimCall w)" and "ValidateLeaseID i = None"
    and "list_all (leaves_lease (pt_TaskID pt) (pt_LeaseID pt) (pt_LeaseExpiresAt pt)) ls"
    and "run_steps (server_step sha256) ls (a1, s1) = Some (a2, s2)"
    and "reports r' w pt res" and "authorized sha256 (sv_token s2) (r_Authorization r')"
    and "clk' 1 < pt_LeaseExpiresAt pt"
  shows "\<exists>s3 resp' us. routes sha256 clk' j r' (a2, s2) = Some ((a2, s3), resp') \<and> rsp_Status resp' = 200 \<and>
    rsp_Body resp' = BResult us \<and>
    us_Status us \<in> (if tr_Error res = [] then {PullTaskCompleted} else {PullTaskRequeued, PullTaskFailed})"
  using claim_then_report [OF assms(1-13), where clk' = clk', OF assms(14)] by blast

definition ex_task :: PullTask where
  "ex_task = \<lparr>pt_TaskID = ''pull-job-5-task-0'', pt_JobID = ''pull-job-5'', pt_Type = ''diagnostic_sleep'', pt_Input = ''1s'',
     pt_LeaseID = ''L1'', pt_Attempt = 1, pt_LeaseExpiresAt = unixEpoch + 16\<rparr>"

definition ex_tresult :: TResult where
  "ex_tresult = \<lparr>tr_TaskID = ''pull-job-5-task-0'', tr_Output = ''ok'', tr_Duration = 0, tr_DurationStr = [], tr_Error = []\<rparr>"

theorem claimed_task_can_be_reported_witness:
  "\<exists>a1 s1 resp a2 s2 s3 resp'. routes (\<lambda>x. x) (ex_clock 6) ''L1'' ex_claim (ex_audit, ex_server 1) = Some ((a1, s1), resp) \<and>
     run_steps (server_step (\<lambda>x. x)) [(ex_clock 7, ''L2'', ex_claim), (ex_clock 9, [], ex_job)] (a1, s1) = Some (a2, s2) \<and>
     routes (\<lambda>x. x) (ex_clock 15) [] ex_report (a2, s2) = Some ((a2, s3), resp') \<and> rsp_Status resp' = 200"
proof -
  let ?ls = "[(ex_clock 7, ''L2'', ex_claim), (ex_clock 9, [], ex_job)]"
  obtain a1 s1 resp where r: "routes (\<lambda>x. x) (ex_clock 6) ''L1'' ex_claim (ex_audit, ex_server 1) = Some ((a1, s1), resp)"
    using routes_served [OF server_reach_inv [OF exs_reach]] by blast
  have "map_option (\<lambda>(_, resp). rsp_Body resp) (routes (\<lambda>x. x) (ex_clock 6) ''L1'' ex_claim (ex_audit, ex_server 1))
      = Some (claim_reply PullTaskAvailable (Some ex_task) [])" by code_simp
  with r have b: "rsp_Body resp = BClaim \<lparr>cs_Status = PullTaskAvailable, cs_Task = Some ex_task, cs_Message = []\<rparr>"
    by (simp add: claim_reply_def)
  note reach1 = server_reach.handled [OF exs_reach r]
  obtain a2 s2 where ls: "run_steps (server_step (\<lambda>x. x)) ?ls (a1, s1) = Some (a2, s2)"
    using coordinator.run_safe [of "(a1, s1)" "\<lambda>x. x" ?ls] server_reach_inv [OF reach1] by auto
  have t2: "sv_token s2 = ''tok''" by (rule ex_token [OF server_reach_run [OF reach1 ls]])
  have au: "authorized (\<lambda>x. x) ''tok'' (r_Authorization (ex_request m p q k))" for m p q k
    by (simp add: ex_request_def ex_authorized)
  have "call_of ex_claim = Some (ClaimCall ''w'')" by code_simp
  moreover have "call_of ex_job = Some (JobCall ''pull-job-5'')" by code_simp
  ultimately have lv: "list_all (leaves_lease (pt_TaskID ex_task) (pt_LeaseID ex_task) (pt_LeaseExpiresAt ex_task)) ?ls"
    by (simp add: leaves_lease_def ex_clock_def ex_task_def)
  have rp: "reports ex_report ''w'' ex_task ex_tresult" by code_simp
  have c: "claim_call ex_claim = Some (ClaimCall ''w'')" by code_simp
  have ct: "cs_Task \<lparr>cs_Status = PullTaskAvailable, cs_Task = Some ex_task, cs_Message = []\<rparr> = Some ex_task" by simp
  have v: "ValidateLeaseID ''L1'' = None" by code_simp
  have now: "ex_clock 15 1 < pt_LeaseExpiresAt ex_task" by (simp add: ex_clock_def ex_task_def)
  have "authorized (\<lambda>x. x) (sv_token (ex_server 1)) (r_Authorization ex_claim)"
    and "authorized (\<lambda>x. x) (sv_token s2) (r_Authorization ex_report)"
    and "r_Path ex_claim = ''/worker/claim''" and "r_Method ex_claim = ''POST''"
    using au t2 ex_token [OF exs_reach, of 1] by (simp_all add: ex_claim_def ex_report_def) (simp_all add: ex_request_def)
  note prems = this(3,4,1) r b ct c v lv ls rp this(2) now
  have "\<exists>s3 resp' us. routes (\<lambda>x. x) (ex_clock 15) [] ex_report (a2, s2) = Some ((a2, s3), resp') \<and> rsp_Status resp' = 200 \<and>
      rsp_Body resp' = BResult us \<and>
      us_Status us \<in> (if tr_Error ex_tresult = [] then {PullTaskCompleted} else {PullTaskRequeued, PullTaskFailed})"
    by (rule claimed_task_can_be_reported [OF exs_reach prems(1-12), where clk' = "ex_clock 15", OF prems(13)])
  with r ls show ?thesis by blast
qed

section \<open>Jobs\<close>

lemma submission_lemma:
  assumes "server_reach sha256 cfg s" and "authorized sha256 (sv_token s) (r_Authorization r)"
    and "call_of r = Some (SubmitCall ty ts)" and "routes sha256 clk i r (a, s) = Some ((a', s'), resp)"
  shows "(if task_id (job_id (clk 0)) 0 \<in> set (order (sv_pullQueue s))
     then rsp_Status resp = 500 \<and> s' = s
     else rsp_Status resp = 200 \<and>
       rsp_Body resp = BSubmit \<lparr>ss_JobID = job_id (clk 0), ss_TaskIDs = map (task_id (job_id (clk 0))) [0..<length ts]\<rparr> \<and>
       sv_pullQueue s' = with_tasks (sv_pullQueue s) (job_specs (job_id (clk 0)) ty 0 ts)) \<and>
     1 \<le> length ts \<and> length ts \<le> 1000"
proof -
  have len: "1 \<le> length ts" "length ts \<le> 1000" using submit_call_length [OF assms(3)] by auto
  have qi: "queue_inv (sv_pullQueue s)" using server_reach_inv [OF assms(1)] by (simp add: server_inv_def)
  have p: "r_Path r = ''/pull/submit''" "r_Method r = ''POST''" "submit_call r = Some (SubmitCall ty ts)"
    using assms(3) by (auto simp: call_of_def claim_call_def renew_call_def result_call_def split: if_splits option.splits)
  have "dispatch clk i r = Some (handlePullSubmit clk r)" using p(1) by (simp add: dispatch_def)
  from routes_handlerD [OF assms(2) this assms(4)] have h: "handlePullSubmit clk r s = Some (s', resp)" ..
  note l = submit_loop_cases [OF qi server_reach_ids [OF assms(1)] job_id_is len(1), of "clk 0" ty]
  from handlePullSubmit_eq [OF p(2,3), of clk s] l h len show ?thesis
    by (auto simp: writeJSON_def writeJSONStatus_def split: if_splits)
qed

text \<open>
  C18. A submission is all or nothing. If no earlier job has the ID made from the clock, the
  answer is 200 with the IDs \<open><job>-task-0\<close>, \<open>-1\<close>, ... and exactly these tasks, in the order of
  the request, are appended to the task table, to \<open>order\<close> and to the waiting tasks; otherwise
  the answer is 500 and the queue is untouched. There are between 1 and 1000 tasks.
\<close>

theorem submission_all_or_nothing:
  assumes "server_reach sha256 cfg s" and "authorized sha256 (sv_token s) (r_Authorization r)"
    and "call_of r = Some (SubmitCall ty ts)" and "routes sha256 clk i r (a, s) = Some ((a', s'), resp)"
  shows "(if task_id (job_id (clk 0)) 0 \<in> set (order (sv_pullQueue s))
     then rsp_Status resp = 500 \<and> s' = s
     else rsp_Status resp = 200 \<and>
       rsp_Body resp = BSubmit \<lparr>ss_JobID = job_id (clk 0), ss_TaskIDs = map (task_id (job_id (clk 0))) [0..<length ts]\<rparr> \<and>
       sv_pullQueue s' = with_tasks (sv_pullQueue s) (job_specs (job_id (clk 0)) ty 0 ts)) \<and>
     1 \<le> length ts \<and> length ts \<le> 1000"
  using submission_lemma [OF assms] .

theorem submission_all_or_nothing_witness:
  "\<exists>a' s' resp. routes (\<lambda>x. x) (ex_clock 5) [] ex_submit (ex_audit, ex_server 1) = Some ((a', s'), resp) \<and>
     rsp_Status resp = 500 \<and> s' = ex_server 1"
proof -
  obtain a' s' resp where r: "routes (\<lambda>x. x) (ex_clock 5) [] ex_submit (ex_audit, ex_server 1) = Some ((a', s'), resp)"
    using routes_served [OF server_reach_inv [OF exs_reach]] by blast
  have au: "authorized (\<lambda>x. x) (sv_token (ex_server 1)) (r_Authorization ex_submit)"
    by (simp add: ex_token [OF exs_reach] ex_submit_def ex_request_def ex_authorized)
  have c: "call_of ex_submit = Some (SubmitCall ''diagnostic_sleep'' [\<lparr>wt_Key = [], wt_Input = ''1s''\<rparr>, \<lparr>wt_Key = [], wt_Input = ''2s''\<rparr>])"
    by code_simp
  have "task_id (job_id (ex_clock 5 0)) 0 \<in> set (order (sv_pullQueue (ex_server 1)))" by code_simp
  with submission_all_or_nothing [OF exs_reach au c r] r show ?thesis by auto
qed

lemma submitted_specs:
  assumes "server_reach sha256 cfg s" and "authorized sha256 (sv_token s) (r_Authorization r)"
    and "call_of r = Some (SubmitCall ty ts)" and "routes sha256 clk i r (a, s) = Some ((a1, s1), resp)"
    and "rsp_Status resp = 200" and "run_steps (server_step sha256) ls (a1, s1) = Some (a2, s2)"
  shows "specs_of_job (job_id (clk 0)) (sv_pullQueue s2) = job_specs (job_id (clk 0)) ty 0 ts" and "job_specs (job_id (clk 0)) ty 0 ts \<noteq> []"
proof -
  let ?j = "job_id (clk 0)"
  have qi: "queue_inv (sv_pullQueue s)" using server_reach_inv [OF assms(1)] by (simp add: server_inv_def)
  from submission_lemma [OF assms(1-4)] assms(5) have
    new: "task_id ?j 0 \<notin> set (order (sv_pullQueue s))" and len: "1 \<le> length ts"
    and q1: "sv_pullQueue s1 = with_tasks (sv_pullQueue s) (job_specs ?j ty 0 ts)" by (auto split: if_splits)
  have sp1: "specs_of_job ?j (sv_pullQueue s1) = job_specs ?j ty 0 ts"
    unfolding q1 by (rule job_specs_of_job [OF qi server_reach_ids [OF assms(1)] new])
  show ne: "job_specs ?j ty 0 ts \<noteq> []" using len by (cases ts) (simp_all add: job_specs_def)
  show "specs_of_job ?j (sv_pullQueue s2) = job_specs ?j ty 0 ts"
    using specs_of_job_run [OF server_reach.handled [OF assms(1,4)] _ assms(6), of ?j] sp1 ne by simp
qed

lemma report_lists_submission:
  assumes "server_reach sha256 cfg s" and "authorized sha256 (sv_token s) (r_Authorization r)"
    and "call_of r = Some (SubmitCall ty ts)" and "routes sha256 clk i r (a, s) = Some ((a1, s1), resp)"
    and "rsp_Status resp = 200" and "run_steps (server_step sha256) ls (a1, s1) = Some (a2, s2)"
    and "authorized sha256 (sv_token s2) (r_Authorization r')"
    and "r_Path r' = ''/pull/job''" and "r_Method r' = ''GET''" and "r_QueryID r' = job_id (clk 0)"
    and "routes sha256 clk' i' r' (a2, s2) = Some ((a3, s3), resp')"
  shows "\<exists>jr. rsp_Status resp' = 200 \<and> rsp_Body resp' = BJob jr \<and> jr_JobID jr = job_id (clk 0) \<and>
    map jt_TaskID (jr_Tasks jr) = map (task_id (job_id (clk 0))) [0..<length ts] \<and>
    map jt_Key (jr_Tasks jr) = map wt_Key ts"
proof -
  let ?j = "job_id (clk 0)"
  note reach2 = server_reach_run [OF server_reach.handled [OF assms(1,4)] assms(6)]
  note sp2 = submitted_specs [OF assms(1-6)]
  have ne: "job_specs ?j ty 0 ts \<noteq> []" by (rule sp2(2))
  have sp3: "specs_of_job ?j (sv_pullQueue s3) = job_specs ?j ty 0 ts"
    using specs_of_job_step [OF reach2 assms(11), of ?j] sp2 by simp
  let ?ts = "filter (\<lambda>t. t_JobID t = ?j) (task_list (sv_pullQueue s3))"
  have sp: "map spec_of ?ts = job_specs ?j ty 0 ts" by (simp add: job_tasks_specs sp3)
  then have "?ts \<noteq> []" using ne by auto
  moreover have "?j \<noteq> []" by (simp add: job_id_def)
  moreover have "map (jt_TaskID \<circ> job_task_of) ?ts = map ts_ID (map spec_of ?ts)"
    and "map (jt_Key \<circ> job_task_of) ?ts = map ts_Key (map spec_of ?ts)"
    by (simp_all add: job_task_of_def spec_of_def)
  ultimately show ?thesis
    using job_request_eq [OF reach2 assms(7-10) _ assms(11)] sp
    by (simp add: writeJSON_def Let_def job_specs_IDs job_specs_keys)
qed

text \<open>
  C19. The client gets back what it submitted: after a successful submission, whatever requests
  follow, a report on the job is answered with 200 and lists exactly the submitted tasks, with
  their IDs and keys, in the order of the submission.
\<close>

theorem job_report_lists_submission:
  assumes "server_reach sha256 cfg s" and "authorized sha256 (sv_token s) (r_Authorization r)"
    and "call_of r = Some (SubmitCall ty ts)" and "routes sha256 clk i r (a, s) = Some ((a1, s1), resp)"
    and "rsp_Status resp = 200" and "run_steps (server_step sha256) ls (a1, s1) = Some (a2, s2)"
    and "authorized sha256 (sv_token s2) (r_Authorization r')"
    and "r_Path r' = ''/pull/job''" and "r_Method r' = ''GET''" and "r_QueryID r' = job_id (clk 0)"
    and "routes sha256 clk' i' r' (a2, s2) = Some ((a3, s3), resp')"
  shows "\<exists>jr. rsp_Status resp' = 200 \<and> rsp_Body resp' = BJob jr \<and> jr_JobID jr = job_id (clk 0) \<and>
    map jt_TaskID (jr_Tasks jr) = map (task_id (job_id (clk 0))) [0..<length ts] \<and>
    map jt_Key (jr_Tasks jr) = map wt_Key ts"
  using report_lists_submission [OF assms] .

theorem job_report_lists_submission_witness:
  "\<exists>a1 s1 a2 s2 a3 s3 resp resp' jr. routes (\<lambda>x. x) (ex_clock 5) [] ex_submit (ex_audit, ex_server 0) = Some ((a1, s1), resp) \<and>
     run_steps (server_step (\<lambda>x. x)) [(ex_clock 6, ''L1'', ex_claim), (ex_clock 7, [], ex_submit)] (a1, s1) = Some (a2, s2) \<and>
     routes (\<lambda>x. x) (ex_clock 9) [] ex_job (a2, s2) = Some ((a3, s3), resp') \<and> rsp_Body resp' = BJob jr \<and>
     map jt_TaskID (jr_Tasks jr) = [''pull-job-5-task-0'', ''pull-job-5-task-1'']"
proof -
  let ?ls = "[(ex_clock 6, ''L1'', ex_claim), (ex_clock 7, [], ex_submit)]"
  let ?ts = "[\<lparr>wt_Key = [], wt_Input = ''1s''\<rparr>, \<lparr>wt_Key = [], wt_Input = ''2s''\<rparr>]"
  obtain a1 s1 resp where r: "routes (\<lambda>x. x) (ex_clock 5) [] ex_submit (ex_audit, ex_server 0) = Some ((a1, s1), resp)"
    using routes_served [OF server_reach_inv [OF exs_reach]] by blast
  note reach1 = server_reach.handled [OF exs_reach r]
  obtain a2 s2 where ls: "run_steps (server_step (\<lambda>x. x)) ?ls (a1, s1) = Some (a2, s2)"
    using coordinator.run_safe [of "(a1, s1)" "\<lambda>x. x" ?ls] server_reach_inv [OF reach1] by auto
  note reach2 = server_reach_run [OF reach1 ls]
  obtain a3 s3 resp' where r': "routes (\<lambda>x. x) (ex_clock 9) [] ex_job (a2, s2) = Some ((a3, s3), resp')"
    using routes_served [OF server_reach_inv [OF reach2]] by blast
  have au: "authorized (\<lambda>x. x) (sv_token (ex_server 0)) (r_Authorization ex_submit)"
    and au': "authorized (\<lambda>x. x) (sv_token s2) (r_Authorization ex_job)"
    using ex_token [OF exs_reach] ex_token [OF reach2]
    by (simp_all add: ex_submit_def ex_job_def) (simp_all add: ex_request_def ex_authorized)
  have c: "call_of ex_submit = Some (SubmitCall ''diagnostic_sleep'' ?ts)" by code_simp
  have "map_option (\<lambda>(_, resp). rsp_Status resp) (routes (\<lambda>x. x) (ex_clock 5) [] ex_submit (ex_audit, ex_server 0)) = Some 200"
    by code_simp
  with r have ok: "rsp_Status resp = 200" by simp
  have j: "r_Path ex_job = ''/pull/job''" "r_Method ex_job = ''GET''" "r_QueryID ex_job = job_id (ex_clock 5 0)"
    by code_simp+
  have ids: "map (task_id (job_id (ex_clock 5 0))) [0..<length ?ts] = [''pull-job-5-task-0'', ''pull-job-5-task-1'']"
    by code_simp
  from job_report_lists_submission [OF exs_reach au c r ok ls au' j r'] ids obtain jr where
    "rsp_Body resp' = BJob jr" "map jt_TaskID (jr_Tasks jr) = [''pull-job-5-task-0'', ''pull-job-5-task-1'']" by metis
  with r ls r' show ?thesis by (intro exI conjI)
qed

text \<open>The tasks of a job whose tasks are all finished stay as they are.\<close>

lemma finished_tasks_kept:
  assumes reach: "server_reach sha256 cfg s" and run: "run_steps (server_step sha256) ls (a, s) = Some (a', s')"
    and ne: "filter (\<lambda>t. t_JobID t = j) (task_list (sv_pullQueue s)) \<noteq> []"
    and fin: "list_all finished (filter (\<lambda>t. t_JobID t = j) (task_list (sv_pullQueue s)))"
  shows "filter (\<lambda>t. t_JobID t = j) (task_list (sv_pullQueue s')) = filter (\<lambda>t. t_JobID t = j) (task_list (sv_pullQueue s))"
proof -
  let ?q = "sv_pullQueue s" and ?q' = "sv_pullQueue s'" and ?ts = "filter (\<lambda>t. t_JobID t = j) (task_list (sv_pullQueue s))"
  have q: "queue_inv ?q" and q': "queue_inv ?q'"
    using server_reach_inv [OF reach] server_reach_inv [OF server_reach_run [OF reach run]] by (simp_all add: server_inv_def)
  have sp: "map spec_of ?ts = specs_of_job j ?q" by (rule job_tasks_specs)
  then have "specs_of_job j ?q \<noteq> []" using ne by auto
  from specs_of_job_run [OF reach this run] have same: "specs_of_job j ?q' = specs_of_job j ?q" .
  note ops = server_ops_run [OF server_reach_inv [OF reach] run]
  have "the (gm_get (tasks ?q') (ts_ID x)) = the (gm_get (tasks ?q) (ts_ID x))" if "x \<in> set (specs_of_job j ?q)" for x
  proof -
    have "x \<in> spec_of ` set ?ts" using that by (simp flip: sp)
    then obtain t where t: "x = spec_of t" "t \<in> set ?ts" by (rule imageE)
    then obtain tid where "(tid, t) \<in> set (tasks ?q)" by (auto simp: task_list_def)
    then have g: "gm_get (tasks ?q) tid = Some t" by (rule gm_in_set_get [OF queue_inv_wf [OF q]])
    have "finished t" using fin t(2) by (simp add: list_all_iff)
    from finished_run [OF q g this ops] g queue_inv_task(1) [OF q g] show ?thesis by (simp add: t(1) spec_of_def)
  qed
  then show ?thesis
    unfolding job_tasks_by_ID [OF q] job_tasks_by_ID [OF q'] same by (intro map_cong) auto
qed

text \<open>
  C20. A finished job is finished for good: once a report says that a job has completed or
  failed, every later report on it, after any further requests, is the same to the last
  field, so a client that reads it late reads the same results.
\<close>

theorem finished_jobs_are_stable:
  assumes "server_reach sha256 cfg s" and "authorized sha256 (sv_token s) (r_Authorization r)"
    and "r_Path r = ''/pull/job''" and "r_Method r = ''GET''" and "r_QueryID r = j" and "j \<noteq> []"
    and "routes sha256 clk i r (a, s) = Some ((a1, s1), resp)" and "rsp_Body resp = BJob jr"
    and "jr_State jr = PullJobCompleted \<or> jr_State jr = PullJobFailed"
    and "run_steps (server_step sha256) ls (a1, s1) = Some (a2, s2)"
    and "authorized sha256 (sv_token s2) (r_Authorization r')"
    and "r_Path r' = ''/pull/job''" and "r_Method r' = ''GET''" and "r_QueryID r' = j"
    and "routes sha256 clk' i' r' (a2, s2) = Some ((a3, s3), resp')"
  shows "resp' = resp"
proof -
  define tsof where "tsof s = filter (\<lambda>t. t_JobID t = j) (task_list (sv_pullQueue s))" for s :: Server
  from job_request_eq [OF assms(1-7)] assms(8,9) have reach1: "server_reach sha256 cfg s1"
    and ne: "tsof s1 \<noteq> []" and fin: "list_all finished (tsof s1)"
    and resp: "resp = writeJSON (BJob \<lparr>jr_JobID = j, jr_State = job_state (tsof s1), jr_Tasks = map job_task_of (tsof s1)\<rparr>)"
    by (auto simp: Let_def tsof_def writeJSON_def writeJSONStatus_def job_state_eq split: if_splits)
  note reach2 = server_reach_run [OF reach1 assms(10)]
  from job_request_eq [OF reach2 assms(11-14,6,15)] have reach3: "server_reach sha256 cfg s3"
    and resp': "resp' = (if tsof s3 = [] then writeJSONStatus StatusNotFound (BErrorText ''job not found'')
      else writeJSON (BJob \<lparr>jr_JobID = j, jr_State = job_state (tsof s3), jr_Tasks = map job_task_of (tsof s3)\<rparr>))"
    by (auto simp: Let_def tsof_def)
  have run: "run_steps (server_step sha256) (ls @ [(clk', i', r')]) (a1, s1) = Some (a3, s3)"
    using assms(10,15) by (simp add: run_steps_append)
  have "tsof s3 = tsof s1"
    using finished_tasks_kept [OF reach1 run, of j] ne fin by (simp add: tsof_def)
  with ne resp resp' show ?thesis by simp
qed

theorem finished_jobs_are_stable_witness:
  "\<exists>a1 s1 resp a2 s2 a3 s3. routes (\<lambda>x. x) (ex_clock 9) [] ex_job (ex_audit, ex_finished) = Some ((a1, s1), resp) \<and>
     run_steps (server_step (\<lambda>x. x)) [(ex_clock 12, ''L9'', ex_claim), (ex_clock 13, [], ex_report)] (a1, s1) = Some (a2, s2) \<and>
     routes (\<lambda>x. x) (ex_clock 40) [] ex_job (a2, s2) = Some ((a3, s3), resp)"
proof -
  let ?ls = "[(ex_clock 12, ''L9'', ex_claim), (ex_clock 13, [], ex_report)]"
  obtain a1 s1 resp where r: "routes (\<lambda>x. x) (ex_clock 9) [] ex_job (ex_audit, ex_finished) = Some ((a1, s1), resp)"
    using routes_served [OF server_reach_inv [OF ex_reach_finished]] by blast
  note reach1 = server_reach.handled [OF ex_reach_finished r]
  obtain a2 s2 where ls: "run_steps (server_step (\<lambda>x. x)) ?ls (a1, s1) = Some (a2, s2)"
    using coordinator.run_safe [of "(a1, s1)" "\<lambda>x. x" ?ls] server_reach_inv [OF reach1] by auto
  note reach2 = server_reach_run [OF reach1 ls]
  obtain a3 s3 resp' where r': "routes (\<lambda>x. x) (ex_clock 40) [] ex_job (a2, s2) = Some ((a3, s3), resp')"
    using routes_served [OF server_reach_inv [OF reach2]] by blast
  have au: "authorized (\<lambda>x. x) (sv_token ex_finished) (r_Authorization ex_job)"
    and au': "authorized (\<lambda>x. x) (sv_token s2) (r_Authorization ex_job)"
    using ex_token [OF ex_reach_finished] ex_token [OF reach2] by (simp_all add: ex_job_def ex_request_def ex_authorized)
  have j: "r_Path ex_job = ''/pull/job''" "r_Method ex_job = ''GET''" "r_QueryID ex_job = ''pull-job-5''"
    by (simp_all add: ex_job_def ex_request_def)
  have "map_option (\<lambda>(_, resp). case rsp_Body resp of BJob jr \<Rightarrow> jr_State jr = PullJobCompleted | _ \<Rightarrow> False)
      (routes (\<lambda>x. x) (ex_clock 9) [] ex_job (ex_audit, ex_finished)) = Some True" by code_simp
  with r obtain jr where jr: "rsp_Body resp = BJob jr" "jr_State jr = PullJobCompleted" by (auto split: Body.splits)
  have "resp' = resp"
    by (rule finished_jobs_are_stable [OF ex_reach_finished au j _ r jr(1) _ ls au' j r']) (simp_all add: jr(2))
  with r ls r' show ?thesis by (intro exI conjI) simp_all
qed

text \<open>
  C21. A report on a job is consistent: its state is \<open>failed\<close> or \<open>completed\<close> exactly when every
  listed task is finished (with or without a failed one), \<open>running\<close> exactly when it is not
  finished and some listed task has been attempted, else \<open>queued\<close>; a task carries a result
  exactly when it is finished, without an error when it completed and with one when it failed.
\<close>

theorem job_report_consistent:
  assumes "server_reach sha256 cfg s" and "authorized sha256 (sv_token s) (r_Authorization r)"
    and "r_Path r = ''/pull/job''" and "r_Method r = ''GET''" and "r_QueryID r \<noteq> []"
    and "routes sha256 clk i r (a, s) = Some ((a', s'), resp)" and "rsp_Body resp = BJob jr"
  shows "jr_State jr =
      (if \<forall>t \<in> set (jr_Tasks jr). jt_State t \<in> {''completed'', ''failed''}
       then (if \<exists>t \<in> set (jr_Tasks jr). jt_State t = ''failed'' then PullJobFailed else PullJobCompleted)
       else if \<exists>t \<in> set (jr_Tasks jr). jt_Attempts t > 0 then PullJobRunning else PullJobQueued) \<and>
    (\<forall>t \<in> set (jr_Tasks jr). case jt_Result t of
        None \<Rightarrow> jt_State t \<in> {''queued'', ''leased''}
      | Some res \<Rightarrow> jt_State t = (if tr_Error res = [] then ''completed'' else ''failed'') \<and>
          tr_DurationStr res = Duration_String (tr_Duration res))"
proof -
  let ?ts = "filter (\<lambda>t. t_JobID t = r_QueryID r) (task_list (sv_pullQueue s'))"
  from job_request_eq [OF assms(1-4) refl assms(5,6)] assms(7) have reach: "server_reach sha256 cfg s'"
    and jr: "jr = \<lparr>jr_JobID = r_QueryID r, jr_State = job_state ?ts, jr_Tasks = map job_task_of ?ts\<rparr>"
    by (auto simp: Let_def writeJSON_def writeJSONStatus_def split: if_splits)
  have qi: "queue_inv (sv_pullQueue s')" using server_reach_inv [OF reach] by (simp add: server_inv_def)
  have st: "jt_State (job_task_of t) \<in> {''completed'', ''failed''} \<longleftrightarrow> finished t"
    "jt_State (job_task_of t) = ''failed'' \<longleftrightarrow> t_State t = StateFailed" for t
    by (cases "t_State t"; simp add: job_task_of_def finished_def)+
  have wf: "task_wf (maxAttempts (sv_pullQueue s')) t" if "t \<in> set ?ts" for t
    using that qi by (auto simp: queue_inv_def list_all_iff task_list_def)
  have res: "case jt_Result (job_task_of t) of None \<Rightarrow> jt_State (job_task_of t) \<in> {''queued'', ''leased''}
      | Some res \<Rightarrow> jt_State (job_task_of t) = (if tr_Error res = [] then ''completed'' else ''failed'') \<and>
          tr_DurationStr res = Duration_String (tr_Duration res)" if "t \<in> set ?ts" for t
    using wf [OF that] by (cases "t_State t") (auto simp: job_task_of_def task_wf_def split: option.splits)
  have at: "jt_Attempts (job_task_of t) = t_Attempts t" for t by (simp add: job_task_of_def)
  show ?thesis
    using res by (auto simp: jr job_state_eq st at list_all_iff list_ex_iff simp del: insert_iff)
qed

theorem job_report_consistent_witness:
  "\<exists>a' s' resp jr. routes (\<lambda>x. x) (ex_clock 9) [] ex_job (ex_audit, ex_server 2) = Some ((a', s'), resp) \<and>
     rsp_Body resp = BJob jr \<and> jr_State jr = PullJobRunning \<and>
     \<not> (\<forall>t \<in> set (jr_Tasks jr). jt_State t \<in> {''completed'', ''failed''})"
proof -
  obtain a' s' resp where r: "routes (\<lambda>x. x) (ex_clock 9) [] ex_job (ex_audit, ex_server 2) = Some ((a', s'), resp)"
    using routes_served [OF server_reach_inv [OF exs_reach]] by blast
  have "map_option (\<lambda>(_, resp). case rsp_Body resp of BJob jr \<Rightarrow> jr_State jr = PullJobRunning | _ \<Rightarrow> False)
      (routes (\<lambda>x. x) (ex_clock 9) [] ex_job (ex_audit, ex_server 2)) = Some True" by code_simp
  with r obtain jr where jr: "rsp_Body resp = BJob jr" "jr_State jr = PullJobRunning" by (auto split: Body.splits)
  have au: "authorized (\<lambda>x. x) (sv_token (ex_server 2)) (r_Authorization ex_job)"
    by (simp add: ex_token [OF exs_reach] ex_job_def ex_request_def ex_authorized)
  have j: "r_Path ex_job = ''/pull/job''" "r_Method ex_job = ''GET''" "r_QueryID ex_job \<noteq> []"
    by (simp_all add: ex_job_def ex_request_def)
  from job_report_consistent [OF exs_reach au j r jr(1)] jr r show ?thesis
    by (auto split: if_splits)
qed

end
