(* ===== verification/ViewTheorems.thy ===== *)
theory ViewTheorems
  imports CoordinatorTheorems QueueTheorems
begin

text \<open>
  The properties of the views: the status report, the coordinator's monitor snapshot, the
  event history and the client's job progress.
\<close>

section \<open>Status\<close>

lemma fold_count_task:
  "fold (\<lambda>task. count_task (t_State task)) ts st =
     st\<lparr>sts_Queued := sts_Queued st + count_state StateQueued ts, sts_Leased := sts_Leased st + count_state StateLeased ts,
        sts_Completed := sts_Completed st + count_state StateCompleted ts, sts_Failed := sts_Failed st + count_state StateFailed ts\<rparr>"
proof (induction ts arbitrary: st)
  case (Cons t ts)
  then show ?case by (cases "t_State t") simp_all
qed simp

lemma countTaskStates_eq:
  "countTaskStates ts = \<lparr>sts_Queued = count_state StateQueued ts, sts_Leased = count_state StateLeased ts,
     sts_Completed = count_state StateCompleted ts, sts_Failed = count_state StateFailed ts, sts_Total = int (length ts)\<rparr>"
  by (simp add: countTaskStates_def fold_count_task stats_zero_def)

lemma gm_wf_fold_set: "gm_wf m \<Longrightarrow> gm_wf (fold (\<lambda>x. gm_set (f x) v) xs m)"
  by (induction xs arbitrary: m) auto

lemma keys_fold_set: "set (gm_keys (fold (\<lambda>x. gm_set (f x) v) xs m)) = set (gm_keys m) \<union> f ` set xs"
  by (induction xs arbitrary: m) (auto simp: gm_keys_set)

lemma job_set_length: "length (job_set ts) = card (t_JobID ` set ts)"
proof -
  have "gm_wf (job_set ts)" and "set (gm_keys (job_set ts)) = t_JobID ` set ts"
    using gm_wf_fold_set [of "[]" t_JobID "()" ts] keys_fold_set [of t_JobID "()" ts "[]"]
    by (simp_all add: job_set_def gm_keys_def)
  then show ?thesis by (metis distinct_card gm_keys_def gm_wf_def length_map)
qed

lemma recent_workers_eq:
  "snd (recent_workers cutoff ws m) = filter (\<lambda>(w, seen). \<not> seen < cutoff) ws"
  by (induction cutoff ws m rule: recent_workers.induct) (auto split: prod.splits)

lemma recent_workers_get:
  "gm_get (fst (recent_workers cutoff ws m)) k =
     (if \<exists>seen. (k, seen) \<in> set ws \<and> seen < cutoff then None else gm_get m k)"
  by (induction cutoff ws m rule: recent_workers.induct) (auto split: prod.splits)

lemma active_leases_get:
  "(case gm_get (active_leases ts) w of None \<Rightarrow> 0 | Some n \<Rightarrow> n) = worker_active w ts"
proof -
  let ?f = "\<lambda>task m. if t_State task = StateLeased then (case t_Lease task of None \<Rightarrow> m
        | Some l \<Rightarrow> gm_set (l_WorkerID l) (case gm_get m (l_WorkerID l) of None \<Rightarrow> 1 | Some n \<Rightarrow> n + 1) m) else m"
  have "(case gm_get (fold ?f ts m) w of None \<Rightarrow> 0 | Some n \<Rightarrow> n)
      = (case gm_get m w of None \<Rightarrow> 0 | Some n \<Rightarrow> n) + worker_active w ts" for m
    by (induction ts arbitrary: m) (auto simp: worker_active_def split: option.splits)
  from this [of "[]"] show ?thesis by (simp add: active_leases_def)
qed

lemma recent_workers_shown:
  assumes wf: "gm_wf m" and rw: "(activity, recent) = recent_workers cutoff m m"
  shows "distinct (map fst recent)"
    and "w \<in> fst ` set recent \<longleftrightarrow> (\<exists>t. gm_get m w = Some t \<and> cutoff \<le> t)"
    and "gm_get activity w \<noteq> None \<longleftrightarrow> (\<exists>t. gm_get m w = Some t \<and> cutoff \<le> t)"
proof -
  have recent: "recent = filter (\<lambda>(w, seen). \<not> seen < cutoff) m"
    using arg_cong [OF rw, of snd] by (simp add: recent_workers_eq)
  have seen: "(w, t) \<in> set m \<longleftrightarrow> gm_get m w = Some t" for w t
    using gm_in_set_get [OF wf] gm_get_in_set by metis
  show "distinct (map fst recent)"
    using wf unfolding recent gm_wf_def gm_keys_def by (rule distinct_map_filter)
  show "w \<in> fst ` set recent \<longleftrightarrow> (\<exists>t. gm_get m w = Some t \<and> cutoff \<le> t)"
    by (auto simp: recent seen image_iff not_less)
  show "gm_get activity w \<noteq> None \<longleftrightarrow> (\<exists>t. gm_get m w = Some t \<and> cutoff \<le> t)"
    using arg_cong [OF rw, of "\<lambda>x. gm_get (fst x) w"] by (auto simp: recent_workers_get seen not_less)
qed

lemma task_list_length: "queue_inv q \<Longrightarrow> length (task_list q) = length (order q)"
  using queue_invE(3) by (metis gm_keys_def length_map task_list_def)

lemma map_fst_insort: "map f (insort_key f x xs) = insort (f x) (map f xs)"
  by (induction xs) auto

lemma map_sort_key: "map f (sort_key f xs) = sort (map f xs)"
  by (induction xs) (simp_all add: map_fst_insort)

text \<open>
  C22. The status report adds up. The four counts are the numbers of tasks in each state and
  sum to the total, the number of jobs is the number of distinct job IDs, and the workers
  listed are exactly those seen within the last 30 seconds, each once, sorted by ID, with the
  number of tasks it holds under lease; older entries leave the table.
\<close>

theorem status_adds_up:
  assumes "server_reach sha256 cfg s" and "authorized sha256 (sv_token s) (r_Authorization r)"
    and "r_Path r = ''/status''" and "r_Method r = ''GET''"
    and "routes sha256 clk i r (a, s) = Some ((a', s'), resp)"
  shows "\<exists>st n. rsp_Status resp = 200 \<and> rsp_Body resp = BStatus st \<and>
    (let ts = task_list (sv_pullQueue s'); seen_since = \<lambda>w. \<exists>t. gm_get (sv_workerActivity s) w = Some t \<and> clk n - 30 * Second \<le> t in
      cr_QueuedTasks st = count_state StateQueued ts \<and> cr_LeasedTasks st = count_state StateLeased ts \<and>
      cr_CompletedTasks st = count_state StateCompleted ts \<and> cr_FailedTasks st = count_state StateFailed ts \<and>
      cr_QueuedTasks st + cr_LeasedTasks st + cr_CompletedTasks st + cr_FailedTasks st = cr_TotalTasks st \<and>
      cr_TotalTasks st = int (length (order (sv_pullQueue s'))) \<and>
      cr_TotalJobs st = int (card (t_JobID ` set ts)) \<and>
      sorted (map ws_WorkerID (cr_RecentWorkers st)) \<and> distinct (map ws_WorkerID (cr_RecentWorkers st)) \<and>
      (\<forall>w. w \<in> ws_WorkerID ` set (cr_RecentWorkers st) \<longleftrightarrow> seen_since w) \<and>
      (\<forall>x \<in> set (cr_RecentWorkers st). ws_ActiveLeases x = worker_active (ws_WorkerID x) ts) \<and>
      (\<forall>w. gm_get (sv_workerActivity s') w \<noteq> None \<longleftrightarrow> seen_since w))"
proof -
  note inv = server_reach_inv [OF assms(1)]
  have "dispatch clk i r = Some (handlePullStatus clk r)" using assms(3) by (simp add: dispatch_def)
  from routes_handlerD [OF assms(2) this assms(5)] have h: "handlePullStatus clk r s = Some (s', resp)" ..
  let ?m = "sv_workerActivity s"
  from handlePullStatus_eq [OF inv assms(4), of clk] h obtain n activity recent where
    s': "server_inv s'" "sv_workerActivity s' = activity"
    and rw: "(activity, recent) = recent_workers (time_Add (clk (n + 1)) (- recentWorkerWindow)) ?m ?m"
    and resp: "let ts = task_list (sv_pullQueue s') in resp = writeJSON (BStatus \<lparr>cr_QueuedTasks = sts_Queued (countTaskStates ts),
        cr_LeasedTasks = sts_Leased (countTaskStates ts), cr_CompletedTasks = sts_Completed (countTaskStates ts),
        cr_FailedTasks = sts_Failed (countTaskStates ts), cr_TotalTasks = sts_Total (countTaskStates ts),
        cr_TotalJobs = int (length (job_set ts)),
        cr_RecentWorkers = sort_key ws_WorkerID (map (\<lambda>(w, seen). \<lparr>ws_WorkerID = w, ws_LastActivity = seen,
          ws_ActiveLeases = (case gm_get (active_leases ts) w of None \<Rightarrow> 0 | Some n \<Rightarrow> n)\<rparr>) recent),
        cr_Uptime = time_Sub (clk (n + 2)) (sv_startTime s)\<rparr>)"
    by (auto simp: Let_def)
  let ?cut = "clk (n + 1) - 30 * Second" and ?ts = "task_list (sv_pullQueue s')"
  have wf: "gm_wf ?m" using inv by (simp add: server_inv_def)
  note shown = recent_workers_shown [OF wf rw, simplified time_Add_def recentWorkerWindow_def, simplified]
  have len: "length ?ts = length (order (sv_pullQueue s'))"
    using s'(1) task_list_length by (simp add: server_inv_def)
  define ws where "ws = map (\<lambda>(w, seen). \<lparr>ws_WorkerID = w, ws_LastActivity = seen, ws_ActiveLeases = worker_active w ?ts\<rparr>) recent"
  define st where "st = \<lparr>cr_QueuedTasks = count_state StateQueued ?ts, cr_LeasedTasks = count_state StateLeased ?ts,
    cr_CompletedTasks = count_state StateCompleted ?ts, cr_FailedTasks = count_state StateFailed ?ts,
    cr_TotalTasks = int (length ?ts), cr_TotalJobs = int (length (job_set ?ts)),
    cr_RecentWorkers = sort_key ws_WorkerID ws, cr_Uptime = time_Sub (clk (n + 2)) (sv_startTime s)\<rparr>"
  have resp': "resp = writeJSON (BStatus st)"
    using resp by (simp add: Let_def countTaskStates_eq active_leases_get st_def ws_def)
  have IDs: "map ws_WorkerID ws = map fst recent"
    by (simp add: ws_def comp_def case_prod_unfold)
  have ws_set: "w \<in> ws_WorkerID ` set ws \<longleftrightarrow> (\<exists>t. gm_get ?m w = Some t \<and> ?cut \<le> t)" for w
    using arg_cong [OF IDs, of set] shown(2) by simp
  have leases: "\<forall>x \<in> set ws. ws_ActiveLeases x = worker_active (ws_WorkerID x) ?ts"
    by (auto simp: ws_def)
  show ?thesis
    using resp' IDs shown(1,3) len count_states_total [of ?ts] ws_set leases s'(2)
    by (intro exI [of _ st] exI [of _ "n + 1"])
      (simp add: Let_def st_def writeJSON_def job_set_length map_sort_key)
qed

theorem status_adds_up_witness:
  "\<exists>a' s' resp st. routes (\<lambda>x. x) (ex_clock 9) [] (ex_request ''GET'' ''/status'' [] []) (ex_audit, ex_server 2)
       = Some ((a', s'), resp) \<and> rsp_Body resp = BStatus st \<and> cr_TotalTasks st = int (length (order (sv_pullQueue s')))"
proof -
  let ?r = "ex_request ''GET'' ''/status'' [] []"
  obtain a' s' resp where r: "routes (\<lambda>x. x) (ex_clock 9) [] ?r (ex_audit, ex_server 2) = Some ((a', s'), resp)"
    using routes_served [OF server_reach_inv [OF exs_reach]] by blast
  have au: "authorized (\<lambda>x. x) (sv_token (ex_server 2)) (r_Authorization ?r)"
    by (simp add: ex_token [OF exs_reach] ex_request_def ex_authorized)
  have j: "r_Path ?r = ''/status''" "r_Method ?r = ''GET''" by (simp_all add: ex_request_def)
  from status_adds_up [OF exs_reach au j r] r show ?thesis by (auto simp: Let_def)
qed

section \<open>The monitor snapshot of the coordinator\<close>

lemma current_job_described:
  assumes ok: "jobs_ok now ts jobs jo"
  shows "\<exists>cur. current_job now jobs jo None = Some cur \<and>
    (case cur of None \<Rightarrow> list_all finished ts
     | Some job \<Rightarrow> \<exists>xs ys. job_order ts = xs @ jp_JobID job # ys \<and>
         describes now (tasks_of (jp_JobID job) ts) job \<and> \<not> list_all finished (tasks_of (jp_JobID job) ts) \<and>
         list_all (\<lambda>j. list_all finished (tasks_of j ts)) ys)"
proof -
  have job: "\<exists>job. gm_get jobs j = Some job \<and> jp_JobID job = j \<and> describes now (tasks_of j ts) job" if "j \<in> set jo" for j
    using that ok gm_keys_get [of j jobs] by (auto simp: jobs_ok_def)
  then have un: "unfinished (the (gm_get jobs j)) \<longleftrightarrow> \<not> list_all finished (tasks_of j ts)" if "j \<in> set jo" for j
    using that unfinished_iff by fastforce
  define xs where "xs = filter (\<lambda>j. unfinished (the (gm_get jobs j))) jo"
  define cur where "cur = (if xs = [] then None else Some (finish_job now (the (gm_get jobs (last xs)))))"
  have cj: "current_job now jobs jo None = Some cur"
    unfolding cur_def xs_def
    by (rule current_job_eq [unfolded Let_def]) (use ok in \<open>auto simp: jobs_ok_def\<close>)
  have cur: "case cur of None \<Rightarrow> list_all finished ts
       | Some job \<Rightarrow> \<exists>xs ys. job_order ts = xs @ jp_JobID job # ys \<and>
           describes now (tasks_of (jp_JobID job) ts) job \<and> \<not> list_all finished (tasks_of (jp_JobID job) ts) \<and>
           list_all (\<lambda>j. list_all finished (tasks_of j ts)) ys"
  proof (cases "xs = []")
    case True
    then have "\<forall>j \<in> t_JobID ` set ts. list_all finished (tasks_of j ts)"
      using un ok by (auto simp: xs_def filter_empty_conv jobs_ok_def)
    then have "list_all finished ts" by (auto simp: list_all_iff tasks_of_def)
    with True show ?thesis by (simp add: cur_def)
  next
    case False
    from last_filter_split [OF False [unfolded xs_def]] obtain ys zs where
      sp: "jo = ys @ last xs # zs" "unfinished (the (gm_get jobs (last xs)))" "list_all (\<lambda>z. \<not> unfinished (the (gm_get jobs z))) zs"
      by (auto simp: xs_def)
    then have l: "last xs \<in> set jo" by simp
    from job [OF l] obtain jb where jb: "gm_get jobs (last xs) = Some jb" "jp_JobID jb = last xs"
      "describes now (tasks_of (last xs) ts) jb" by blast
    have d: "describes now (tasks_of (last xs) ts) (finish_job now jb)"
      using jb(3) by (simp add: describes_def finish_job_def Let_def)
    have "list_all (\<lambda>j. list_all finished (tasks_of j ts)) zs"
      using sp(1,3) un by (auto simp: list_all_iff)
    moreover have "job_order ts = ys @ last xs # zs" using sp(1) ok by (simp add: jobs_ok_def)
    ultimately show ?thesis
      using sp(2) un [OF l] jb d False by (simp add: cur_def) blast
  qed
  with cj show ?thesis by blast
qed

text \<open>
  C23. The view for the terminal never panics, leaves the queue alone and describes it: the
  counts are those of the task table and sum to the total, the number of jobs is the number
  of distinct job IDs, there is no current job exactly when every task is finished, and
  otherwise the current job is the most recently submitted one with an unfinished task, with
  its tasks in submission order and their counts.
\<close>

theorem monitor_snapshot_describes_queue:
  assumes "server_reach sha256 cfg s"
  shows "\<exists>s' v. MonitorSnapshot now addrs fp s = Some (s', v) \<and> server_inv s' \<and> sv_pullQueue s' = sv_pullQueue s \<and>
    (let ts = task_list (sv_pullQueue s) in
      co_Tasks v = \<lparr>tc_Queued = count_state StateQueued ts, tc_Running = count_state StateLeased ts,
        tc_Completed = count_state StateCompleted ts, tc_Failed = count_state StateFailed ts, tc_Total = int (length ts)\<rparr> \<and>
      co_Jobs v = int (card (t_JobID ` set ts)) \<and>
      (case co_CurrentJob v of
         None \<Rightarrow> list_all finished ts
       | Some job \<Rightarrow> \<exists>xs ys. job_order ts = xs @ jp_JobID job # ys \<and>
           describes now (tasks_of (jp_JobID job) ts) job \<and> \<not> list_all finished (tasks_of (jp_JobID job) ts) \<and>
           list_all (\<lambda>j. list_all finished (tasks_of j ts)) ys))"
proof -
  let ?ts = "task_list (sv_pullQueue s)"
  have inv: "server_inv s" by (rule server_reach_inv [OF assms])
  then have qi: "queue_inv (sv_pullQueue s)" and wf: "gm_wf (sv_workerActivity s)" by (simp_all add: server_inv_def)
  let ?c0 = "\<lparr>tc_Queued = 0, tc_Running = 0, tc_Completed = 0, tc_Failed = 0, tc_Total = int (length ?ts)\<rparr>"
  obtain c jobs jo where f: "fold (observe_task now) ?ts (?c0, [], []) = (c, jobs, jo)" by (metis prod.exhaust)
  from observe_tasks_ok [OF f] have ok: "jobs_ok now ?ts jobs jo" and c: "c = counts_of ?c0 ?ts" by auto
  obtain act rec where rw: "recent_workers (time_Add now (- recentWorkerWindow)) (sv_workerActivity s) (sv_workerActivity s) = (act, rec)"
    by (meson surj_pair)
  have wf': "gm_wf act" using recent_workers_wf [OF wf] rw by (metis fst_conv)
  from current_job_described [OF ok] obtain cur where cj: "current_job now jobs jo None = Some cur"
    and cur: "case cur of None \<Rightarrow> list_all finished ?ts
       | Some job \<Rightarrow> \<exists>xs ys. job_order ?ts = xs @ jp_JobID job # ys \<and>
           describes now (tasks_of (jp_JobID job) ?ts) job \<and> \<not> list_all finished (tasks_of (jp_JobID job) ?ts) \<and>
           list_all (\<lambda>j. list_all finished (tasks_of j ?ts)) ys" by blast
  have "length jobs = card (t_JobID ` set ?ts)"
    using ok by (metis distinct_card gm_keys_def jobs_ok_def length_map set_job_order)
  with cur c wf' inv show ?thesis
    by (simp add: MonitorSnapshot_def reading_eqs [OF qi] f rw cj Let_def counts_of_def server_inv_def)
qed

theorem monitor_snapshot_describes_queue_witness:
  "\<exists>s' v job. MonitorSnapshot (unixEpoch + 9) [''10.0.0.1:7443''] ''ab'' (ex_server 2) = Some (s', v) \<and>
     co_CurrentJob v = Some job \<and> describes (unixEpoch + 9) (tasks_of (jp_JobID job) (task_list (sv_pullQueue (ex_server 2)))) job"
proof -
  have "\<not> list_all finished (task_list (sv_pullQueue (ex_server 2)))" by code_simp
  with monitor_snapshot_describes_queue [OF exs_reach [of 2], of "unixEpoch + 9" "[''10.0.0.1:7443'']" "''ab''"]
  show ?thesis by (auto simp: Let_def split: option.splits)
qed

text \<open>
  C24. Where the two views of a job differ: the state that the monitor shows for the tasks of
  a job is the state that \<open>/pull/job\<close> reports, except that a job all of whose tasks wait in
  the queue, one of them after a failed or expired attempt, is \<open>queued\<close> for the monitor and
  \<open>running\<close> for the API.
\<close>

theorem monitor_and_api_states:
  assumes "lq_reach cfg q" and "ts = tasks_of j (task_list q)" and "ts \<noteq> []" and "describes now ts job"
  shows "observed_state job =
    (if (\<forall>t \<in> set ts. t_State t = StateQueued) \<and> (\<exists>t \<in> set ts. t_Attempts t > 0)
     then ''queued'' else PullJobState_str (job_state ts)) \<and>
    ((\<forall>t \<in> set ts. t_State t = StateQueued) \<and> (\<exists>t \<in> set ts. t_Attempts t > 0) \<longrightarrow> job_state ts = PullJobRunning)"
proof -
  have wf: "task_wf (maxAttempts q) t" if "t \<in> set ts" for t
    using that lq_reach_inv [OF assms(1)] by (auto simp: assms(2) tasks_of_def task_list_def queue_inv_def list_all_iff)
  have pos: "t_Attempts t > 0" if "t \<in> set ts" "t_State t \<noteq> StateQueued" for t
    using wf [OF that(1)] that(2) lq_reach_inv [OF assms(1)] by (cases "t_State t") (auto simp: task_wf_def queue_inv_def)
  have z: "count_state st ts = 0 \<longleftrightarrow> (\<forall>t \<in> set ts. t_State t \<noteq> st)" for st
    by (auto simp: count_state_def filter_empty_conv)
  obtain t0 where t0: "t0 \<in> set ts" using assms(3) by (cases ts) auto
  obtain n r c f where e: "count_state StateQueued ts = n" "count_state StateLeased ts = r"
    "count_state StateCompleted ts = c" "count_state StateFailed ts = f" by blast
  have sum: "0 \<le> n" "0 \<le> r" "0 \<le> c" "0 \<le> f" "n + r + c + f = int (length ts)" "0 < int (length ts)"
    using count_states_total [of ts] count_state_nonneg [of _ ts] assms(3) by (simp_all flip: e)
  have fin: "list_all finished ts \<longleftrightarrow> c + f = int (length ts)" by (simp add: list_all_finished e)
  have fl: "list_ex (\<lambda>t. t_State t = StateFailed) ts \<longleftrightarrow> f \<noteq> 0"
    using z [of StateFailed] by (auto simp: e list_ex_iff)
  have qd: "(\<forall>t \<in> set ts. t_State t = StateQueued) \<longleftrightarrow> r = 0 \<and> c = 0 \<and> f = 0"
    using z [of StateLeased] z [of StateCompleted] z [of StateFailed] by (metis TaskState.distinct(1,3,5) TaskState.exhaust e(2-4))
  have st: "(\<exists>t \<in> set ts. t_Attempts t > 0)" if "\<not> (r = 0 \<and> c = 0 \<and> f = 0)"
    using that qd pos by blast
  show ?thesis
    using assms(4) sum st fin fl unfolding qd
    by (auto simp: describes_def observed_state_def job_state_eq e list_ex_iff)
qed

definition ex_requeued :: Queue where
  "ex_requeued = the (run_steps lq_step [(OpEnqueue (ex_spec ''a''), 1), (OpClaim ''w'' ''L1'', 3), (OpRequeueExpired, 13)] ex_new)"

theorem monitor_and_api_states_witness:
  "\<exists>job. jp_Queued job = 1 \<and> observed_state job = ''queued'' \<and> job_state (tasks_of ''j'' (task_list ex_requeued)) = PullJobRunning"
proof -
  let ?ts = "tasks_of ''j'' (task_list ex_requeued)"
  let ?job = "\<lparr>jp_JobID = ''j'', jp_State = [], jp_Total = 1, jp_Queued = 1, jp_Running = 0, jp_Completed = 0, jp_Failed = 0,
    jp_StartedAt = 0, jp_Elapsed = 0, jp_Tasks = map (observed_progress 20) ?ts, jp_Workers = []\<rparr>"
  obtain q where q: "run_steps lq_step [(OpEnqueue (ex_spec ''a''), 1), (OpClaim ''w'' ''L1'', 3), (OpRequeueExpired, 13)] ex_new = Some q"
    using lq.run_safe [OF New_inv [OF ex_New]] by blast
  then have reach: "lq_reach ex_cfg ex_requeued"
    using lq_reach_run [OF lq_reach.created [OF ex_New] q] by (simp add: ex_requeued_def)
  have "map t_State ?ts = [StateQueued]" and "map t_Attempts ?ts = [1]" by code_simp+
  then obtain t where ts: "?ts = [t]" "t_State t = StateQueued" "t_Attempts t = 1" by auto
  have d: "describes 20 ?ts ?job" by (simp add: describes_def ts(1)) (simp add: ts(2))
  from monitor_and_api_states [OF reach refl _ d] ts show ?thesis by (intro exI [of _ ?job]) simp
qed

section \<open>Event history\<close>

text \<open>
  The event history is the end of what happened: after any events, recorded at any times,
  a new recorder shows the last \<open>limit\<close> of them in order (100 when the limit is not positive),
  each with its own time or, if it has none, the time of recording.
\<close>

theorem history_is_the_end:
  "Recorder_Snapshot (fold (\<lambda>(now, e). Record now e) es (NewRecorder limit))
     = takeLast (if limit \<le> 0 then 100 else nat limit) (map (\<lambda>(now, e). stamp now e) es)"
  using recorder.shown_history [OF NewRecorder_ok, of es limit]
  by (simp add: NewRecorder_def defaultEventLimit_def Recorder_Snapshot_def)

section \<open>Job progress of the client\<close>

definition tasks_in :: "string \<Rightarrow> PullJobTask list \<Rightarrow> int" where
  "tasks_in st ts = int (length (filter (\<lambda>t. jt_State t = st) ts))"

definition tasks_by :: "string \<Rightarrow> string \<Rightarrow> PullJobTask list \<Rightarrow> int" where
  "tasks_by w st ts = int (length (filter (\<lambda>t. jt_WorkerID t = w \<and> jt_State t = st) ts))"

definition contributions_ok :: "PullJobTask list \<Rightarrow> (string, WorkerContribution) gomap \<Rightarrow> bool" where
  "contributions_ok ts m = (gm_wf m \<and> set (gm_keys m) = {w. w \<noteq> [] \<and> w \<in> jt_WorkerID ` set ts} \<and>
     (\<forall>w c. gm_get m w = Some c \<longrightarrow> c = \<lparr>wc_WorkerID = w, wc_Active = tasks_by w ''leased'' ts,
        wc_Completed = tasks_by w ''completed'' ts, wc_Failed = tasks_by w ''failed'' ts\<rparr>))"

lemma tasks_by_snoc: "tasks_by w st (ts @ [t]) = tasks_by w st ts + (if jt_WorkerID t = w \<and> jt_State t = st then 1 else 0)"
  by (simp add: tasks_by_def)

lemma tasks_by_none: "w \<notin> jt_WorkerID ` set ts \<Longrightarrow> tasks_by w st ts = 0"
  by (auto simp: tasks_by_def filter_empty_conv)

lemma contributions_step:
  assumes "contributions_ok ts m" and "job_loop_step t (job, m) = (job', m')"
  shows "contributions_ok (ts @ [t]) m'"
proof (cases "jt_WorkerID t = []")
  case True
  then show ?thesis using assms by (auto simp: job_loop_step_def Let_def contributions_ok_def tasks_by_snoc gm_get_Some_keys
      dest!: gm_get_Some_keys)
next
  case False
  let ?w = "jt_WorkerID t"
  define c where "c = (case gm_get m ?w of None \<Rightarrow> \<lparr>wc_WorkerID = ?w, wc_Active = 0, wc_Completed = 0, wc_Failed = 0\<rparr> | Some c \<Rightarrow> c)"
  have m': "m' = gm_set ?w (count_contribution (jt_State t) c) m"
    using assms(2) False by (simp add: job_loop_step_def Let_def c_def)
  have "c = \<lparr>wc_WorkerID = ?w, wc_Active = tasks_by ?w ''leased'' ts,
        wc_Completed = tasks_by ?w ''completed'' ts, wc_Failed = tasks_by ?w ''failed'' ts\<rparr>"
  proof (cases "gm_get m ?w")
    case None
    then have "?w \<notin> jt_WorkerID ` set ts"
      using assms(1) False by (auto simp: contributions_ok_def gm_get_None_iff)
    with None show ?thesis by (simp add: c_def tasks_by_none)
  next
    case (Some d)
    then show ?thesis using assms(1) by (auto simp: c_def contributions_ok_def)
  qed
  then have "count_contribution (jt_State t) c = \<lparr>wc_WorkerID = ?w, wc_Active = tasks_by ?w ''leased'' (ts @ [t]),
        wc_Completed = tasks_by ?w ''completed'' (ts @ [t]), wc_Failed = tasks_by ?w ''failed'' (ts @ [t])\<rparr>"
    by (simp add: count_contribution_def tasks_by_snoc)
  then show ?thesis
    using assms(1) False by (auto simp: contributions_ok_def m' gm_keys_set gm_wf_set tasks_by_snoc split: if_splits)
qed

lemma job_loop_eq:
  "\<exists>m. fold job_loop_step ts (job, []) = (job\<lparr>jp_Queued := jp_Queued job + tasks_in ''queued'' ts,
      jp_Running := jp_Running job + tasks_in ''leased'' ts, jp_Completed := jp_Completed job + tasks_in ''completed'' ts,
      jp_Failed := jp_Failed job + tasks_in ''failed'' ts, jp_Tasks := jp_Tasks job @ map progress_of ts\<rparr>, m) \<and>
    contributions_ok ts m"
proof (induction ts rule: rev_induct)
  case Nil
  then show ?case by (simp add: contributions_ok_def tasks_in_def)
next
  case (snoc t ts)
  then obtain m where f: "fold job_loop_step ts (job, []) = (job\<lparr>jp_Queued := jp_Queued job + tasks_in ''queued'' ts,
      jp_Running := jp_Running job + tasks_in ''leased'' ts, jp_Completed := jp_Completed job + tasks_in ''completed'' ts,
      jp_Failed := jp_Failed job + tasks_in ''failed'' ts, jp_Tasks := jp_Tasks job @ map progress_of ts\<rparr>, m)"
    and ok: "contributions_ok ts m" by blast
  obtain job' m' where st: "fold job_loop_step (ts @ [t]) (job, []) = (job', m')" by (meson surj_pair)
  then have s: "job_loop_step t (fold job_loop_step ts (job, [])) = (job', m')" by simp
  have "job' = job\<lparr>jp_Queued := jp_Queued job + tasks_in ''queued'' (ts @ [t]),
      jp_Running := jp_Running job + tasks_in ''leased'' (ts @ [t]), jp_Completed := jp_Completed job + tasks_in ''completed'' (ts @ [t]),
      jp_Failed := jp_Failed job + tasks_in ''failed'' (ts @ [t]), jp_Tasks := jp_Tasks job @ map progress_of (ts @ [t])\<rparr>"
    using s unfolding f by (auto simp: job_loop_step_def Let_def count_job_state_def tasks_in_def split: if_splits)
  with st contributions_step [OF ok s [unfolded f]] show ?case by auto
qed

text \<open>
  The client's view of a job is the response, counted: the counters are the numbers of
  tasks in each state, the tasks are listed in the order of the response with their results,
  and the workers are exactly those that hold or have held a task, each once, sorted by ID,
  with the numbers of tasks they are running, have completed and have failed.
\<close>

theorem job_progress_counts_response:
  fixes response :: PullJobResponse and startedAt observedAt :: time
  defines "ts \<equiv> jr_Tasks response" and "job \<equiv> JobFromResponse response startedAt observedAt"
  shows "jp_JobID job = jr_JobID response \<and> jp_Total job = int (length ts) \<and> jp_Queued job = tasks_in ''queued'' ts \<and>
    jp_Running job = tasks_in ''leased'' ts \<and> jp_Completed job = tasks_in ''completed'' ts \<and>
    jp_Failed job = tasks_in ''failed'' ts \<and> jp_Tasks job = map progress_of ts \<and>
    sorted (map wc_WorkerID (jp_Workers job)) \<and> distinct (map wc_WorkerID (jp_Workers job)) \<and>
    set (jp_Workers job) = {\<lparr>wc_WorkerID = w, wc_Active = tasks_by w ''leased'' ts,
      wc_Completed = tasks_by w ''completed'' ts, wc_Failed = tasks_by w ''failed'' ts\<rparr> | w. w \<noteq> [] \<and> w \<in> jt_WorkerID ` set ts}"
proof -
  define job0 where "job0 = empty_JobProgress\<lparr>jp_JobID := jr_JobID response,
    jp_State := PullJobState_str (jr_State response), jp_Total := int (length ts), jp_StartedAt := startedAt,
    jp_Elapsed := (if time_IsZero startedAt then 0 else time_Sub observedAt startedAt)\<rparr>"
  from job_loop_eq [of ts job0] obtain m where f: "fold job_loop_step ts (job0, []) = (job0\<lparr>jp_Queued := jp_Queued job0 + tasks_in ''queued'' ts,
      jp_Running := jp_Running job0 + tasks_in ''leased'' ts, jp_Completed := jp_Completed job0 + tasks_in ''completed'' ts,
      jp_Failed := jp_Failed job0 + tasks_in ''failed'' ts, jp_Tasks := jp_Tasks job0 @ map progress_of ts\<rparr>, m)"
    and ok: "contributions_ok ts m" by blast
  let ?c = "\<lambda>w. \<lparr>wc_WorkerID = w, wc_Active = tasks_by w ''leased'' ts,
      wc_Completed = tasks_by w ''completed'' ts, wc_Failed = tasks_by w ''failed'' ts\<rparr>"
  have wf: "gm_wf m" and keys: "set (gm_keys m) = {w. w \<noteq> [] \<and> w \<in> jt_WorkerID ` set ts}"
    using ok by (simp_all add: contributions_ok_def)
  have m: "c = ?c w" if "(w, c) \<in> set m" for w c
    using gm_in_set_get [OF wf that] ok by (auto simp: contributions_ok_def)
  then have snd_m: "map snd m = map ?c (gm_keys m)" by (auto simp: gm_keys_def)
  have ws: "map wc_WorkerID (map snd m) = gm_keys m" unfolding snd_m by (simp add: comp_def)
  have set: "set (map snd m) = ?c ` set (gm_keys m)" unfolding snd_m by simp
  have job: "job = (fst (fold job_loop_step ts (job0, [])))\<lparr>jp_Workers := sort_key wc_WorkerID (map snd m)\<rparr>"
    unfolding job_def JobFromResponse_def Let_def ts_def [symmetric] job0_def [symmetric] f by simp
  have w: "jp_Workers job = sort_key wc_WorkerID (map snd m)" by (simp add: job)
  have rest: "jp_JobID job = jr_JobID response" "jp_Total job = int (length ts)" "jp_Queued job = tasks_in ''queued'' ts"
    "jp_Running job = tasks_in ''leased'' ts" "jp_Completed job = tasks_in ''completed'' ts"
    "jp_Failed job = tasks_in ''failed'' ts" "jp_Tasks job = map progress_of ts"
    unfolding job f by (simp_all add: job0_def empty_JobProgress_def)
  have "map wc_WorkerID (jp_Workers job) = sort (gm_keys m)" unfolding w map_sort_key ws ..
  then have "sorted (map wc_WorkerID (jp_Workers job))" and "distinct (map wc_WorkerID (jp_Workers job))"
    using wf by (simp_all add: gm_wf_def)
  moreover have "set (jp_Workers job) = {?c w | w. w \<noteq> [] \<and> w \<in> jt_WorkerID ` set ts}"
    unfolding w set_sort set keys by (rule setcompr_eq_image [symmetric])
  ultimately show ?thesis using rest by simp
qed

end
