(* ===== verification/InputTheorems.thy ===== *)
theory InputTheorems
  imports Workload
begin

text \<open>
  The properties of the inputs a user hands to the program: which task lists and manifests are
  accepted.
\<close>

text \<open>
  A list of keyed tasks is accepted exactly when it has 1 to 1000 tasks, every key is not
  blank, at most 128 bytes and used once, and every input has 1 to 4096 bytes. So no two
  results of a job can be confused by their keys.
\<close>

theorem keyed_tasks_accepted_iff:
  "ValidateTasks ts = None \<longleftrightarrow> 1 \<le> length ts \<and> length ts \<le> 1000 \<and> distinct (map wt_Key ts) \<and>
     list_all (\<lambda>t. TrimSpace (wt_Key t) \<noteq> [] \<and> length (wt_Key t) \<le> 128 \<and>
       1 \<le> length (wt_Input t) \<and> length (wt_Input t) \<le> 4096) ts"
proof -
  have "list_all task_ok ts \<longleftrightarrow> list_all (\<lambda>t. TrimSpace (wt_Key t) \<noteq> [] \<and> length (wt_Key t) \<le> 128 \<and>
       1 \<le> length (wt_Input t) \<and> length (wt_Input t) \<le> 4096) ts"
    by (rule list.pred_cong) (auto simp: task_ok_def Suc_le_eq)
  then show ?thesis by (auto simp: ValidateTasks_None)
qed

text \<open>
  A manifest is loaded exactly when the path is not blank and the file can be read, is at
  most 5 MiB, holds one JSON value and nothing else, decodes without unknown keys, and the
  decoded value has version 1, the task type \<open>http_probe\<close> and an accepted task list; the
  result is the decoded value.
\<close>

theorem manifest_loaded_iff:
  "LoadManifest path file = Inr m \<longleftrightarrow> TrimSpace path \<noteq> [] \<and>
     (\<exists>doc v. file = Contents doc \<and> doc_len doc \<le> 5242880 \<and> doc_vals doc = [Some v] \<and>
        decode_struct fields_Manifest v zero_Manifest = Some m \<and>
        mf_Version m = 1 \<and> mf_Type m = ''http_probe'' \<and> ValidateTasks (mf_Tasks m) = None)"
  by (simp add: LoadManifest_Inr ValidateManifest_None MaxManifestBytes_def HTTPProbeType_def)

end
