(* ===== verification/Files.thy ===== *)
theory Files
  imports GoStrings
begin

text \<open>
  Paths and files: the part of \<open>path/filepath\<close> and \<open>os\<close> that the program uses, and
  \<open>internal/appconfig\<close>, which fixes where the persistent state lives. Paths are those of Unix.
\<close>

section \<open>Paths\<close>

text \<open>
  \<open>filepath.Clean\<close>: the elements of the path, without empty ones and \<open>.\<close>, each \<open>..\<close> taken
  together with the element before it. \<open>clean_elems\<close> has the elements so far in reverse.
\<close>

fun clean_elems :: "bool \<Rightarrow> string list \<Rightarrow> string list \<Rightarrow> string list" where
  "clean_elems rooted [] acc = rev acc"
| "clean_elems rooted (e # es) acc =
     (if e = [] \<or> e = ''.'' then clean_elems rooted es acc
      else if e = ''..'' then
        (case acc of
           [] \<Rightarrow> if rooted then clean_elems rooted es [] else clean_elems rooted es [e]
         | a # as \<Rightarrow> if a = ''..'' then clean_elems rooted es (e # acc) else clean_elems rooted es as)
      else clean_elems rooted es (e # acc))"

definition is_rooted :: "string \<Rightarrow> bool" where
  "is_rooted p = (case p of [] \<Rightarrow> False | c # _ \<Rightarrow> c = CHR ''/'')"

definition render_path :: "bool \<Rightarrow> string list \<Rightarrow> string" where
  "render_path rooted es =
     (if rooted then CHR ''/'' # join_with ''/'' es else if es = [] then ''.'' else join_with ''/'' es)"

definition filepath_Clean :: "string \<Rightarrow> string" where
  "filepath_Clean p = render_path (is_rooted p) (clean_elems (is_rooted p) (split_on CHR ''/'' p) [])"

definition filepath_Dir :: "string \<Rightarrow> string" where
  "filepath_Dir p = filepath_Clean (rev (dropWhile (\<lambda>c. c \<noteq> CHR ''/'') (rev p)))"

definition filepath_Base :: "string \<Rightarrow> string" where
  "filepath_Base p =
     (if p = [] then ''.''
      else let q = rev (takeWhile (\<lambda>c. c \<noteq> CHR ''/'') (dropWhile (\<lambda>c. c = CHR ''/'') (rev p)))
           in if q = [] then ''/'' else q)"

definition filepath_Join :: "string list \<Rightarrow> string" where
  "filepath_Join elems =
     (let es = filter (\<lambda>e. e \<noteq> []) elems in if es = [] then [] else filepath_Clean (join_with ''/'' es))"

section \<open>Files\<close>

text \<open>
  A file system maps paths to files and directories; \<open>.\<close> and \<open>/\<close> are always there. A call can
  also fail for reasons of its own (permissions, a full disk): \<open>fs_fault\<close> gives the error of each
  call on each path. A write that fails leaves the first \<open>fs_partial\<close> bytes in the file.
\<close>

datatype fnode = Directory | RegularFile nat string

datatype fcall = CallStat | CallRead | CallMkdirAll | CallOpen | CallChmod | CallWrite | CallSync | CallClose
  | CallRename | CallRemove

record FS =
  fs_node :: "string \<Rightarrow> fnode option"
  fs_fault :: "fcall \<Rightarrow> string \<Rightarrow> string option"
  fs_partial :: "string \<Rightarrow> nat"

datatype os_error = ErrNotExist | ErrExist | ErrIsDir | ErrNotDir | ErrOther string

definition fs_put :: "string \<Rightarrow> fnode \<Rightarrow> FS \<Rightarrow> FS" where
  "fs_put path n fs = fs\<lparr>fs_node := (fs_node fs)(path \<mapsto> n)\<rparr>"

definition node_at :: "FS \<Rightarrow> string \<Rightarrow> fnode option" where
  "node_at fs path = (if path = ''.'' \<or> path = ''/'' then Some Directory else fs_node fs path)"

definition os_Stat :: "FS \<Rightarrow> string \<Rightarrow> os_error + fnode" where
  "os_Stat fs path = (case fs_fault fs CallStat path of
       Some e \<Rightarrow> Inl (ErrOther e)
     | None \<Rightarrow> (case node_at fs path of None \<Rightarrow> Inl ErrNotExist | Some n \<Rightarrow> Inr n))"

definition os_ReadFile :: "FS \<Rightarrow> string \<Rightarrow> os_error + string" where
  "os_ReadFile fs path = (case fs_fault fs CallRead path of
       Some e \<Rightarrow> Inl (ErrOther e)
     | None \<Rightarrow> (case node_at fs path of
           None \<Rightarrow> Inl ErrNotExist
         | Some Directory \<Rightarrow> Inl ErrIsDir
         | Some (RegularFile mode contents) \<Rightarrow> Inr contents))"

text \<open>\<open>os.MkdirAll\<close> makes the directories on the way that are missing.\<close>

definition path_prefixes :: "string \<Rightarrow> string list" where
  "path_prefixes dir = (let es = split_on CHR ''/'' dir in
     filter (\<lambda>p. p \<noteq> []) (map (\<lambda>n. join_with ''/'' (take n es)) [1 ..< Suc (length es)]))"

definition make_dir :: "string \<Rightarrow> FS \<Rightarrow> FS" where
  "make_dir p fs = (if node_at fs p = None then fs_put p Directory fs else fs)"

definition os_MkdirAll :: "string \<Rightarrow> FS \<Rightarrow> FS \<times> os_error option" where
  "os_MkdirAll dir fs =
     (case fs_fault fs CallMkdirAll dir of
        Some e \<Rightarrow> (fs, Some (ErrOther e))
      | None \<Rightarrow>
          if list_ex (\<lambda>p. node_at fs p \<noteq> None \<and> node_at fs p \<noteq> Some Directory) (path_prefixes dir)
          then (fs, Some ErrNotDir)
          else (fold make_dir (path_prefixes dir) fs, None))"

text \<open>\<open>os.OpenFile\<close> with \<open>O_WRONLY|O_CREATE\<close> and either \<open>O_EXCL\<close> or \<open>O_TRUNC\<close>.\<close>

definition open_exclusive :: "string \<Rightarrow> nat \<Rightarrow> FS \<Rightarrow> FS \<times> os_error option" where
  "open_exclusive path mode fs =
     (case fs_fault fs CallOpen path of
        Some e \<Rightarrow> (fs, Some (ErrOther e))
      | None \<Rightarrow>
          if node_at fs path \<noteq> None then (fs, Some ErrExist)
          else if node_at fs (filepath_Dir path) \<noteq> Some Directory then (fs, Some ErrNotExist)
          else (fs_put path (RegularFile mode []) fs, None))"

definition open_truncate :: "string \<Rightarrow> nat \<Rightarrow> FS \<Rightarrow> FS \<times> os_error option" where
  "open_truncate path mode fs =
     (case fs_fault fs CallOpen path of
        Some e \<Rightarrow> (fs, Some (ErrOther e))
      | None \<Rightarrow>
          (case node_at fs path of
             Some Directory \<Rightarrow> (fs, Some ErrIsDir)
           | Some (RegularFile mode' contents) \<Rightarrow> (fs_put path (RegularFile mode' []) fs, None)
           | None \<Rightarrow>
               if node_at fs (filepath_Dir path) \<noteq> Some Directory then (fs, Some ErrNotExist)
               else (fs_put path (RegularFile mode []) fs, None)))"

definition file_append :: "string \<Rightarrow> string \<Rightarrow> FS \<Rightarrow> FS" where
  "file_append path text fs = (case fs_node fs path of
       Some (RegularFile mode contents) \<Rightarrow> fs_put path (RegularFile mode (contents @ text)) fs
     | _ \<Rightarrow> fs)"

definition file_Write :: "string \<Rightarrow> string \<Rightarrow> FS \<Rightarrow> FS \<times> os_error option" where
  "file_Write path text fs = (case fs_fault fs CallWrite path of
       Some e \<Rightarrow> (file_append path (take (fs_partial fs path) text) fs, Some (ErrOther e))
     | None \<Rightarrow> (file_append path text fs, None))"

definition file_Chmod :: "string \<Rightarrow> nat \<Rightarrow> FS \<Rightarrow> FS \<times> os_error option" where
  "file_Chmod path mode fs = (case fs_fault fs CallChmod path of
       Some e \<Rightarrow> (fs, Some (ErrOther e))
     | None \<Rightarrow> (case fs_node fs path of
           Some (RegularFile _ contents) \<Rightarrow> (fs_put path (RegularFile mode contents) fs, None)
         | _ \<Rightarrow> (fs, None)))"

text \<open>\<open>Sync\<close> and \<open>Close\<close> only report.\<close>

definition file_call :: "fcall \<Rightarrow> string \<Rightarrow> FS \<Rightarrow> os_error option" where
  "file_call c path fs = map_option ErrOther (fs_fault fs c path)"

definition os_Remove :: "string \<Rightarrow> FS \<Rightarrow> FS" where
  "os_Remove path fs = (if fs_fault fs CallRemove path = None then fs\<lparr>fs_node := (fs_node fs)(path := None)\<rparr> else fs)"

text \<open>\<open>os.Rename\<close> of a file replaces a file that is there, and is refused for a directory.\<close>

definition os_Rename :: "string \<Rightarrow> string \<Rightarrow> FS \<Rightarrow> FS \<times> os_error option" where
  "os_Rename old new fs = (case fs_fault fs CallRename old of
       Some e \<Rightarrow> (fs, Some (ErrOther e))
     | None \<Rightarrow>
         (case fs_node fs old of
            None \<Rightarrow> (fs, Some ErrNotExist)
          | Some n \<Rightarrow>
              if node_at fs new = Some Directory then (fs, Some ErrIsDir)
              else if node_at fs (filepath_Dir new) \<noteq> Some Directory then (fs, Some ErrNotExist)
              else (fs\<lparr>fs_node := (fs_node fs)(old := None, new \<mapsto> n)\<rparr>, None)))"

section \<open>The configuration directory\<close>

definition CoordinatorCertName :: string where "CoordinatorCertName = ''coordinator-cert.pem''"
definition CoordinatorKeyName :: string where "CoordinatorKeyName = ''coordinator-key.pem''"
definition TrustRecordName :: string where "TrustRecordName = ''trusted-coordinator''"

record Paths =
  pa_Dir :: string
  pa_CoordinatorCert :: string
  pa_CoordinatorKey :: string
  pa_TrustedCoordinator :: string

definition applicationDirectoryName :: "string \<Rightarrow> string" where
  "applicationDirectoryName goos = (if goos = ''darwin'' \<or> goos = ''windows'' then ''Inoculum'' else ''inoculum'')"

definition PathsAt :: "string \<Rightarrow> string \<Rightarrow> Paths" where
  "PathsAt root goos =
     (let dir = filepath_Join [root, applicationDirectoryName goos] in
      \<lparr>pa_Dir = dir,
       pa_CoordinatorCert = filepath_Join [dir, CoordinatorCertName],
       pa_CoordinatorKey = filepath_Join [dir, CoordinatorKeyName],
       pa_TrustedCoordinator = filepath_Join [dir, TrustRecordName]\<rparr>)"

text \<open>\<open>userConfigDir\<close> is the answer of \<open>os.UserConfigDir\<close>.\<close>

definition DefaultPaths :: "string + string \<Rightarrow> string \<Rightarrow> string + Paths" where
  "DefaultPaths userConfigDir goos = (case userConfigDir of
       Inl e \<Rightarrow> Inl (''determine user configuration directory: '' @ e)
     | Inr root \<Rightarrow> Inr (PathsAt root goos))"

end
