(* ===== verification/Crypto.thy ===== *)
theory Crypto
  imports Files
begin

text \<open>
  \<open>internal/crypto/tls.go\<close>: certificate fingerprints, the trust record of a client, the check of
  the coordinator's certificate on every connection, and the identity files of the coordinator.
  The X.509 library is an argument: \<open>sha256\<close>, \<open>keyPair\<close> (the leaf certificates of a PEM pair),
  \<open>parse\<close> (whether a certificate parses) and a generated pair.
\<close>

section \<open>Fingerprints\<close>

definition formatFingerprint :: "string \<Rightarrow> string" where
  "formatFingerprint hexString =
     join_with '':'' (map (\<lambda>i. take 2 (drop (2 * i) hexString)) [0 ..< (length hexString + 1) div 2])"

definition Fingerprint :: "(string \<Rightarrow> string) \<Rightarrow> string \<Rightarrow> string" where
  "Fingerprint sha256 rawCertificate = formatFingerprint (ToUpper (hex_encode (sha256 rawCertificate)))"

definition is_hex :: "char \<Rightarrow> bool" where
  "is_hex c = (is_digit c \<or> (97 \<le> byte c \<and> byte c \<le> 102) \<or> (65 \<le> byte c \<and> byte c \<le> 70))"

datatype crypto_error =
    PathsRequired
  | InspectFailed string os_error
  | PartialIdentity string string
  | LegacyPartial string string
  | ReadFailed string os_error
  | KeyPairFailed string
  | NoLeaf
  | ParseFailed string
  | LegacyUnsafe crypto_error
  | GenerateFailed string
  | DifferentDirectories
  | MkdirFailed string os_error
  | CreateFailed string os_error
  | WriteFailed string os_error
  | CloseFailed string os_error
  | MigrateFailed crypto_error
  | PersistFailed crypto_error
  | LoadNewFailed crypto_error
  | TrustFileRequired
  | InvalidFingerprint
  | InvalidExplicit
  | InvalidTrustRecord string
  | NoTrustedCoordinatorError string
  | NoPeerCertificate
  | IdentityMismatchError string string
  | SaveTrustFailed crypto_error
  | ChmodFailed string os_error
  | SyncFailed string os_error

text \<open>The two messages about a malformed fingerprint are one constructor.\<close>

definition normalizeFingerprint :: "string \<Rightarrow> crypto_error + string" where
  "normalizeFingerprint value =
     (if value = [] then Inr []
      else let normalized = ToUpper (filter (\<lambda>c. c \<noteq> CHR '':'') (TrimSpace value))
           in if length normalized \<noteq> 64 then Inl InvalidFingerprint
              else if \<not> list_all is_hex normalized then Inl InvalidFingerprint
              else Inr normalized)"

section \<open>The trust record\<close>

text \<open>File modes are numbers: 384 is 0600, 420 is 0644.\<close>

definition readTrustRecord :: "FS \<Rightarrow> string \<Rightarrow> crypto_error + string" where
  "readTrustRecord fs path = (case os_ReadFile fs path of
       Inl ErrNotExist \<Rightarrow> Inr []
     | Inl e \<Rightarrow> Inl (ReadFailed path e)
     | Inr contents \<Rightarrow>
         (case normalizeFingerprint (TrimSpace contents) of
            Inl e \<Rightarrow> Inl (InvalidTrustRecord path)
          | Inr fingerprint \<Rightarrow> if fingerprint = [] then Inl (InvalidTrustRecord path) else Inr fingerprint))"

definition writeTrustRecord :: "string \<Rightarrow> string \<Rightarrow> FS \<Rightarrow> FS \<times> crypto_error option" where
  "writeTrustRecord path fingerprint fs =
     (case os_MkdirAll (filepath_Dir path) fs of
        (fs1, Some e) \<Rightarrow> (fs1, Some (MkdirFailed (filepath_Dir path) e))
      | (fs1, None) \<Rightarrow>
          (case open_truncate path 384 fs1 of
             (fs2, Some e) \<Rightarrow> (fs2, Some (CreateFailed path e))
           | (fs2, None) \<Rightarrow>
               (case file_Chmod path 384 fs2 of
                  (fs3, Some e) \<Rightarrow> (fs3, Some (ChmodFailed path e))
                | (fs3, None) \<Rightarrow>
                    (case file_Write path (fingerprint @ [CHR 0x0A]) fs3 of
                       (fs4, Some e) \<Rightarrow> (fs4, Some (WriteFailed path e))
                     | (fs4, None) \<Rightarrow>
                         (case file_call CallSync path fs4 of
                            Some e \<Rightarrow> (fs4, Some (SyncFailed path e))
                          | None \<Rightarrow> (fs4, map_option (CloseFailed path) (file_call CallClose path fs4)))))))"

section \<open>Clients\<close>

record trustVerifier =
  tv_trustFile :: string
  tv_trusted :: string
  tv_explicit :: string
  tv_needsUpdate :: bool

text \<open>The TLS configuration of a client is its verifier: the library's own checks are off.\<close>

definition NewCoordinatorClientConfig :: "FS \<Rightarrow> string \<Rightarrow> string \<Rightarrow> crypto_error + trustVerifier" where
  "NewCoordinatorClientConfig fs trustFile explicitFingerprint =
     (if trustFile = [] then Inl TrustFileRequired
      else case normalizeFingerprint explicitFingerprint of
        Inl e \<Rightarrow> Inl InvalidExplicit
      | Inr explicit \<Rightarrow>
          (case readTrustRecord fs trustFile of
             Inl readErr \<Rightarrow>
               if explicit = [] then Inl readErr
               else Inr \<lparr>tv_trustFile = trustFile, tv_trusted = explicit, tv_explicit = explicit, tv_needsUpdate = True\<rparr>
           | Inr stored \<Rightarrow>
               if explicit = [] \<and> stored = [] then Inl (NoTrustedCoordinatorError trustFile)
               else Inr \<lparr>tv_trustFile = trustFile, tv_trusted = (if explicit \<noteq> [] then explicit else stored),
                      tv_explicit = explicit, tv_needsUpdate = explicit \<noteq> [] \<and> stored \<noteq> explicit\<rparr>))"

text \<open>
  \<open>presentedNormalized, _ :=\<close> drops the error, so the empty string stands for a fingerprint that
  does not normalise.
\<close>

definition verifyConnection ::
  "(string \<Rightarrow> string) \<Rightarrow> string list \<Rightarrow> FS \<Rightarrow> trustVerifier \<Rightarrow> FS \<times> trustVerifier \<times> crypto_error option" where
  "verifyConnection sha256 peerCertificates fs v =
     (case peerCertificates of
        [] \<Rightarrow> (fs, v, Some NoPeerCertificate)
      | raw # _ \<Rightarrow>
          (let presented = Fingerprint sha256 raw;
               presentedNormalized = (case normalizeFingerprint presented of Inl _ \<Rightarrow> [] | Inr n \<Rightarrow> n)
           in if presentedNormalized \<noteq> tv_trusted v
              then (fs, v, Some (IdentityMismatchError (formatFingerprint (tv_trusted v)) presented))
              else if tv_needsUpdate v then
                (case writeTrustRecord (tv_trustFile v) (formatFingerprint (tv_trusted v)) fs of
                   (fs1, Some e) \<Rightarrow> (fs1, v, Some (SaveTrustFailed e))
                 | (fs1, None) \<Rightarrow> (fs1, v\<lparr>tv_needsUpdate := False\<rparr>, None))
              else (fs, v, None)))"

text \<open>Successive connections, each given by the certificates that the peer presents.\<close>

fun connections :: "(string \<Rightarrow> string) \<Rightarrow> string list list \<Rightarrow> FS \<Rightarrow> trustVerifier \<Rightarrow> FS \<times> trustVerifier" where
  "connections sha256 [] fs v = (fs, v)"
| "connections sha256 (c # cs) fs v =
     (case verifyConnection sha256 c fs v of (fs', v', _) \<Rightarrow> connections sha256 cs fs' v')"

section \<open>The identity of the coordinator\<close>

record IdentityOptions =
  io_CertFile :: string
  io_KeyFile :: string
  io_LegacyCertFile :: string
  io_LegacyKeyFile :: string

text \<open>The certificates of the TLS key pair, leaf first, stand for the key pair itself.\<close>

record CoordinatorIdentity =
  ci_Certificate :: "string list"
  ci_Fingerprint :: string
  ci_CertFile :: string
  ci_KeyFile :: string
  ci_Created :: bool
  ci_Migrated :: bool

record x509 =
  x_sha256 :: "string \<Rightarrow> string"
  x_keyPair :: "string \<Rightarrow> string \<Rightarrow> string + string list"
  x_parse :: "string \<Rightarrow> string option"

definition fileExists :: "FS \<Rightarrow> string \<Rightarrow> os_error + bool" where
  "fileExists fs path = (case os_Stat fs path of
       Inr _ \<Rightarrow> Inr True | Inl ErrNotExist \<Rightarrow> Inr False | Inl e \<Rightarrow> Inl e)"

definition optionalFileExists :: "FS \<Rightarrow> string \<Rightarrow> os_error + bool" where
  "optionalFileExists fs path = (if path = [] then Inr False else fileExists fs path)"

definition writeExclusive :: "string \<Rightarrow> string \<Rightarrow> nat \<Rightarrow> FS \<Rightarrow> FS \<times> crypto_error option" where
  "writeExclusive path contents mode fs =
     (case open_exclusive path mode fs of
        (fs1, Some e) \<Rightarrow> (fs1, Some (CreateFailed path e))
      | (fs1, None) \<Rightarrow>
          (case file_Write path contents fs1 of
             (fs2, Some e) \<Rightarrow> (fs2, Some (WriteFailed path e))
           | (fs2, None) \<Rightarrow> (fs2, map_option (CloseFailed path) (file_call CallClose path fs2))))"

definition persistIdentity :: "string \<Rightarrow> string \<Rightarrow> string \<Rightarrow> string \<Rightarrow> FS \<Rightarrow> FS \<times> crypto_error option" where
  "persistIdentity certFile keyFile certPEM keyPEM fs =
     (if filepath_Dir certFile \<noteq> filepath_Dir keyFile then (fs, Some DifferentDirectories)
      else case os_MkdirAll (filepath_Dir certFile) fs of
        (fs1, Some e) \<Rightarrow> (fs1, Some (MkdirFailed (filepath_Dir certFile) e))
      | (fs1, None) \<Rightarrow>
          (case writeExclusive keyFile keyPEM 384 fs1 of
             (fs2, Some e) \<Rightarrow> (fs2, Some e)
           | (fs2, None) \<Rightarrow> writeExclusive certFile certPEM 420 fs2))"

definition loadIdentity :: "x509 \<Rightarrow> FS \<Rightarrow> string \<Rightarrow> string \<Rightarrow> crypto_error + CoordinatorIdentity" where
  "loadIdentity lib fs certFile keyFile =
     (case os_ReadFile fs certFile of
        Inl e \<Rightarrow> Inl (ReadFailed certFile e)
      | Inr certPEM \<Rightarrow>
          (case os_ReadFile fs keyFile of
             Inl e \<Rightarrow> Inl (ReadFailed keyFile e)
           | Inr keyPEM \<Rightarrow>
               (case x_keyPair lib certPEM keyPEM of
                  Inl e \<Rightarrow> Inl (KeyPairFailed e)
                | Inr [] \<Rightarrow> Inl NoLeaf
                | Inr (leaf # chain) \<Rightarrow>
                    (case x_parse lib leaf of
                       Some e \<Rightarrow> Inl (ParseFailed e)
                     | None \<Rightarrow> Inr \<lparr>ci_Certificate = leaf # chain, ci_Fingerprint = Fingerprint (x_sha256 lib) leaf,
                         ci_CertFile = certFile, ci_KeyFile = keyFile, ci_Created = False, ci_Migrated = False\<rparr>))))"

definition migrate_legacy :: "x509 \<Rightarrow> IdentityOptions \<Rightarrow> FS \<Rightarrow> FS \<times> (crypto_error + CoordinatorIdentity)" where
  "migrate_legacy lib opts fs =
     (case loadIdentity lib fs (io_LegacyCertFile opts) (io_LegacyKeyFile opts) of
        Inl e \<Rightarrow> (fs, Inl (LegacyUnsafe e))
      | Inr legacy \<Rightarrow>
          (case os_ReadFile fs (io_LegacyCertFile opts) of
             Inl e \<Rightarrow> (fs, Inl (ReadFailed (io_LegacyCertFile opts) e))
           | Inr certPEM \<Rightarrow>
               (case os_ReadFile fs (io_LegacyKeyFile opts) of
                  Inl e \<Rightarrow> (fs, Inl (ReadFailed (io_LegacyKeyFile opts) e))
                | Inr keyPEM \<Rightarrow>
                    (case persistIdentity (io_CertFile opts) (io_KeyFile opts) certPEM keyPEM fs of
                       (fs1, Some e) \<Rightarrow> (fs1, Inl (MigrateFailed e))
                     | (fs1, None) \<Rightarrow> (fs1, Inr (legacy\<lparr>ci_CertFile := io_CertFile opts, ci_KeyFile := io_KeyFile opts,
                         ci_Migrated := True\<rparr>))))))"

text \<open>\<open>generated\<close> is the answer of \<open>generateIdentityPEM\<close>: the two PEM texts or an error.\<close>

definition create_identity :: "x509 \<Rightarrow> string + string \<times> string \<Rightarrow> IdentityOptions \<Rightarrow> FS \<Rightarrow>
    FS \<times> (crypto_error + CoordinatorIdentity)" where
  "create_identity lib generated opts fs =
     (case generated of
        Inl e \<Rightarrow> (fs, Inl (GenerateFailed e))
      | Inr (certPEM, keyPEM) \<Rightarrow>
          (case persistIdentity (io_CertFile opts) (io_KeyFile opts) certPEM keyPEM fs of
             (fs1, Some e) \<Rightarrow> (fs1, Inl (PersistFailed e))
           | (fs1, None) \<Rightarrow>
               (case loadIdentity lib fs1 (io_CertFile opts) (io_KeyFile opts) of
                  Inl e \<Rightarrow> (fs1, Inl (LoadNewFailed e))
                | Inr identity \<Rightarrow> (fs1, Inr (identity\<lparr>ci_Created := True\<rparr>)))))"

definition LoadOrCreateCoordinatorIdentity :: "x509 \<Rightarrow> string + string \<times> string \<Rightarrow> IdentityOptions \<Rightarrow> FS \<Rightarrow>
    FS \<times> (crypto_error + CoordinatorIdentity)" where
  "LoadOrCreateCoordinatorIdentity lib generated opts fs =
     (if io_CertFile opts = [] \<or> io_KeyFile opts = [] then (fs, Inl PathsRequired)
      else case fileExists fs (io_CertFile opts) of
        Inl e \<Rightarrow> (fs, Inl (InspectFailed (io_CertFile opts) e))
      | Inr certExists \<Rightarrow>
          (case fileExists fs (io_KeyFile opts) of
             Inl e \<Rightarrow> (fs, Inl (InspectFailed (io_KeyFile opts) e))
           | Inr keyExists \<Rightarrow>
               if certExists \<noteq> keyExists then (fs, Inl (PartialIdentity (io_CertFile opts) (io_KeyFile opts)))
               else if certExists then (fs, loadIdentity lib fs (io_CertFile opts) (io_KeyFile opts))
               else (case optionalFileExists fs (io_LegacyCertFile opts) of
                   Inl e \<Rightarrow> (fs, Inl (InspectFailed (io_LegacyCertFile opts) e))
                 | Inr legacyCertExists \<Rightarrow>
                     (case optionalFileExists fs (io_LegacyKeyFile opts) of
                        Inl e \<Rightarrow> (fs, Inl (InspectFailed (io_LegacyKeyFile opts) e))
                      | Inr legacyKeyExists \<Rightarrow>
                          if legacyCertExists \<noteq> legacyKeyExists
                          then (fs, Inl (LegacyPartial (io_LegacyCertFile opts) (io_LegacyKeyFile opts)))
                          else if legacyCertExists then migrate_legacy lib opts fs
                          else create_identity lib generated opts fs))))"

end
