(* ===== verification/Worker.thy ===== *)
theory Worker
  imports Types Monitor Auth Crypto
begin

text \<open>
  \<open>internal/worker/pull.go\<close>: the worker that asks the coordinator for tasks. A goroutine is a
  function of what its environment does: the outcome of every HTTP call, whether the context is
  done where the code looks, the successive readings of the clock (\<open>clk 0\<close>, \<open>clk 1\<close>, ...). The loops take the list of what happens in
  each round; running out of it means that the loop is still running.
\<close>

section \<open>Configuration and state\<close>

definition defaultClaimInterval :: duration where "defaultClaimInterval = 500 * Millisecond"
definition defaultMinBackoff :: duration where "defaultMinBackoff = 500 * Millisecond"
definition defaultMaxBackoff :: duration where "defaultMaxBackoff = 8 * Second"

record PullConfig =
  pc_CoordinatorAddr :: string
  pc_WorkerID :: string
  pc_Token :: string
  pc_Fingerprint :: string
  pc_TrustFile :: string
  pc_Concurrency :: int

record connectionState =
  cn_everConnected :: bool
  cn_unavailable :: bool

record PullWorker =
  pw_config :: PullConfig
  pw_tls :: trustVerifier
  pw_state :: connectionState
  pw_monitor :: WorkerTracker

datatype worker_error =
    CoordinatorAddressRequired
  | WorkerIDInvalid string
  | WorkerTokenRequired
  | ConcurrencyNotPositive
  | PathsFailed string
  | ClientConfigFailed crypto_error

text \<open>
  The trust record is read from the file system; of the HTTP client only its TLS verifier is kept.
  \<open>userConfigDir\<close> and \<open>goos\<close> are what \<open>appconfig.DefaultPaths\<close> asks the platform.
\<close>

definition NewPullWorker :: "string + string \<Rightarrow> string \<Rightarrow> FS \<Rightarrow> PullConfig \<Rightarrow> worker_error + PullWorker" where
  "NewPullWorker userConfigDir goos fs config =
     (if pc_CoordinatorAddr config = [] then Inl CoordinatorAddressRequired
      else case ValidateWorkerID (pc_WorkerID config) of
        Some e \<Rightarrow> Inl (WorkerIDInvalid e)
      | None \<Rightarrow>
          if pc_Token config = [] then Inl WorkerTokenRequired
          else if pc_Concurrency config \<le> 0 then Inl ConcurrencyNotPositive
          else case (if pc_TrustFile config \<noteq> [] then Inr (pc_TrustFile config)
                     else map_sum id pa_TrustedCoordinator (DefaultPaths userConfigDir goos)) of
              Inl e \<Rightarrow> Inl (PathsFailed e)
            | Inr trustFile \<Rightarrow>
                (case NewCoordinatorClientConfig fs trustFile (pc_Fingerprint config) of
                   Inl e \<Rightarrow> Inl (ClientConfigFailed e)
                 | Inr tlsConfig \<Rightarrow> Inr \<lparr>pw_config = config, pw_tls = tlsConfig,
                     pw_state = \<lparr>cn_everConnected = False, cn_unavailable = False\<rparr>,
                     pw_monitor = NewWorkerTracker (pc_WorkerID config) (pc_CoordinatorAddr config) (pc_Concurrency config)\<rparr>))"

section \<open>Connection state\<close>

definition worker_event :: "Severity \<Rightarrow> string \<Rightarrow> string \<Rightarrow> (string, string) gomap option \<Rightarrow> SystemEvent" where
  "worker_event severity kind message flds = \<lparr>ev_Time = 0, ev_Severity = severity, ev_Component = ''worker'',
     ev_Kind = kind, ev_Message = message, ev_Fields = flds\<rparr>"

definition pw_record :: "time \<Rightarrow> SystemEvent \<Rightarrow> PullWorker \<Rightarrow> PullWorker" where
  "pw_record now e w = w\<lparr>pw_monitor := wt_Record now e (pw_monitor w)\<rparr>"

definition markUnavailable :: "(nat \<Rightarrow> time) \<Rightarrow> string \<Rightarrow> int \<Rightarrow> duration \<Rightarrow> PullWorker \<Rightarrow> PullWorker" where
  "markUnavailable clk err retryAttempt retryDelay w =
     (let now = clk 0;
          w1 = w\<lparr>pw_monitor := wt_Unavailable now (Some err) retryAttempt (time_Add now retryDelay) (pw_monitor w)\<rparr>
      in if cn_unavailable (pw_state w1) then w1
         else pw_record (clk 1) (worker_event SeverityWarning ''coordinator_unavailable'' ''Coordinator unavailable''
                (Some [(''error'', err)])) (w1\<lparr>pw_state := (pw_state w1)\<lparr>cn_unavailable := True\<rparr>\<rparr>))"

definition markConnected :: "(nat \<Rightarrow> time) \<Rightarrow> PullWorker \<Rightarrow> PullWorker" where
  "markConnected clk w =
     (let now = clk 0 in
      if \<not> cn_everConnected (pw_state w) then
        let w1 = w\<lparr>pw_state := \<lparr>cn_everConnected = True, cn_unavailable = False\<rparr>,
                   pw_monitor := wt_Connected now (pw_monitor w)\<rparr>
        in pw_record (clk 1) (worker_event SeverityInfo ''connected'' ''Connected to coordinator'' None) w1
      else if cn_unavailable (pw_state w) then
        let w1 = w\<lparr>pw_state := (pw_state w)\<lparr>cn_unavailable := False\<rparr>,
                   pw_monitor := wt_Connected now (pw_monitor w)\<rparr>
        in pw_record (clk 1) (worker_event SeverityInfo ''connection_restored'' ''Coordinator connection restored'' None) w1
      else w\<lparr>pw_monitor := wt_Connected now (pw_monitor w)\<rparr>)"

section \<open>Calls\<close>

text \<open>
  What \<open>client.Do\<close> and the decoder give: an error, or a status code and the decoded body
  (or the decoder's error).
\<close>

datatype 'r http_outcome = DoFails string | Responds int "string + 'r"

definition post :: "'r http_outcome \<Rightarrow> string + int \<times> 'r" where
  "post outcome = (case outcome of
       DoFails e \<Rightarrow> Inl e
     | Responds status body \<Rightarrow>
         if status = 401 then Inl ''authentication rejected by coordinator''
         else (case body of Inl e \<Rightarrow> Inl (''decode response: '' @ e) | Inr r \<Rightarrow> Inr (status, r)))"

text \<open>A status arrives as a string, which need not be one of those the coordinator sends.\<close>

record ClaimReply =
  cl_Status :: string
  cl_Task :: "PullTask option"

definition claim :: "ClaimReply http_outcome \<Rightarrow> string + PullTask option \<times> string" where
  "claim outcome = (case post outcome of
       Inl e \<Rightarrow> Inl e
     | Inr (status, response) \<Rightarrow>
         if status \<noteq> 200 then Inl (''claim returned HTTP '' @ show_int status @ '' ('' @ cl_Status response @ '')'')
         else Inr (cl_Task response, cl_Status response))"

text \<open>The check for 401 after \<open>post\<close> never succeeds, as \<open>post\<close> has already failed then.\<close>

definition renew :: "string http_outcome \<Rightarrow> string + string" where
  "renew outcome = (case post outcome of
       Inl e \<Rightarrow> Inl e
     | Inr (status, response) \<Rightarrow> if status = 401 then Inl ''renew authentication failed'' else Inr response)"

definition submitResult :: "string http_outcome \<Rightarrow> string + string" where
  "submitResult outcome = (case post outcome of
       Inl e \<Rightarrow> Inl e
     | Inr (status, response) \<Rightarrow> if status = 401 then Inl ''result authentication failed'' else Inr response)"

definition renew_request :: "PullWorker \<Rightarrow> PullTask \<Rightarrow> PullRenewRequest" where
  "renew_request w task = \<lparr>rq_WorkerID = pc_WorkerID (pw_config w), rq_TaskID = pt_TaskID task, rq_LeaseID = pt_LeaseID task\<rparr>"

definition result_request :: "PullWorker \<Rightarrow> PullTask \<Rightarrow> TResult \<Rightarrow> PullResultRequest" where
  "result_request w task result = \<lparr>uq_WorkerID = pc_WorkerID (pw_config w), uq_TaskID = pt_TaskID task,
     uq_LeaseID = pt_LeaseID task, uq_Result = result\<rparr>"

definition nextBackoff :: "duration \<Rightarrow> duration" where
  "nextBackoff current =
     (let next = wrap64 (current * 2) in if next > defaultMaxBackoff then defaultMaxBackoff else next)"

text \<open>
  A wait of \<open>delay\<close>: its result is that of the \<open>select\<close> between the timer and the context, which the
  environment decides knowing the delay.
\<close>

definition waitContext :: "(duration \<Rightarrow> bool) \<Rightarrow> duration \<Rightarrow> bool" where
  "waitContext timerFirst delay = timerFirst delay"

section \<open>Delivery of a result\<close>

text \<open>
  One round of \<open>submitResultUntilResolved\<close>: whether the context is done at the head of the
  loop, the call, whether it is done after a failed call, and which delays \<open>waitContext\<close> would wait
  to their end, in the situation of that round, before it sees the context done.
\<close>

record SubmitRound =
  sr_ctxDone :: bool
  sr_outcome :: "string http_outcome"
  sr_ctxDoneAfter :: bool
  sr_waited :: "duration \<Rightarrow> bool"
  sr_clk :: "nat \<Rightarrow> time"

definition record_resolution :: "time \<Rightarrow> string \<Rightarrow> string \<Rightarrow> PullWorker \<Rightarrow> PullWorker" where
  "record_resolution now taskID status w =
     (if status = ''task_completed'' then
        pw_record now (worker_event SeverityInfo ''task_completed'' ''Task completed'' (Some [(''task_id'', taskID)])) w
      else if status = ''task_requeued'' then
        pw_record now (worker_event SeverityWarning ''task_requeued'' ''Task failed and was requeued'' (Some [(''task_id'', taskID)])) w
      else if status = ''task_failed'' then
        pw_record now (worker_event SeverityError ''task_failed'' ''Task failed permanently'' (Some [(''task_id'', taskID)])) w
      else w)"

text \<open>\<open>None\<close>: still trying after these rounds. \<open>Some status\<close>: returned (\<open>[]\<close> when the context ended).\<close>

datatype round_result = Again duration int | Returned string

definition submit_round :: "PullTask \<Rightarrow> SubmitRound \<Rightarrow> duration \<Rightarrow> int \<Rightarrow> PullWorker \<Rightarrow> PullWorker \<times> round_result" where
  "submit_round task r backoff retryAttempt w =
     (if sr_ctxDone r then (w, Returned [])
      else case submitResult (sr_outcome r) of
        Inl err \<Rightarrow>
          if sr_ctxDoneAfter r then (w, Returned [])
          else let w1 = markUnavailable (sr_clk r) err (retryAttempt + 1) backoff w
               in (w1, if \<not> waitContext (sr_waited r) backoff then Returned [] else Again (nextBackoff backoff) (retryAttempt + 1))
      | Inr status \<Rightarrow>
          (record_resolution (sr_clk r 2) (pt_TaskID task) status (markConnected (sr_clk r) w), Returned status))"

fun submit_rounds :: "PullTask \<Rightarrow> SubmitRound list \<Rightarrow> duration \<Rightarrow> int \<Rightarrow> PullWorker \<Rightarrow> PullWorker \<times> string option" where
  "submit_rounds task [] backoff retryAttempt w = (w, None)"
| "submit_rounds task (r # rs) backoff retryAttempt w =
     (case submit_round task r backoff retryAttempt w of
        (w1, Returned status) \<Rightarrow> (w1, Some status)
      | (w1, Again b n) \<Rightarrow> submit_rounds task rs b n w1)"

definition submitResultUntilResolved :: "PullTask \<Rightarrow> SubmitRound list \<Rightarrow> PullWorker \<Rightarrow> PullWorker \<times> string option" where
  "submitResultUntilResolved task rs w = submit_rounds task rs defaultMinBackoff 0 w"

section \<open>Renewal\<close>

definition time_Until :: "time \<Rightarrow> time \<Rightarrow> duration" where
  "time_Until t now = time_Sub t now"

text \<open>Division of durations truncates towards zero; the operands here make that \<open>quot3\<close>.\<close>

definition quot3 :: "int \<Rightarrow> int" where
  "quot3 x = (if x < 0 then - (- x div 3) else x div 3)"

definition renew_interval :: "time \<Rightarrow> PullTask \<Rightarrow> duration" where
  "renew_interval now task =
     (let leaseLength = time_Until (pt_LeaseExpiresAt task) now;
          interval = quot3 leaseLength;
          interval1 = (if interval < 500 * Millisecond then 500 * Millisecond else interval)
      in if interval1 > 5 * Second then 5 * Second else interval1)"

text \<open>What the \<open>select\<close> of \<open>renewLoop\<close> meets: the end of the context, or a tick and its renewal.\<close>

datatype RenewRound = RenewDone | RenewTick "string http_outcome" bool "nat \<Rightarrow> time"

fun renew_round :: "duration \<Rightarrow> RenewRound \<Rightarrow> PullWorker \<Rightarrow> PullWorker \<times> bool" where
  "renew_round interval RenewDone w = (w, False)"
| "renew_round interval (RenewTick outcome ctxDoneAfter clk) w =
     (case renew outcome of
        Inl err \<Rightarrow> if ctxDoneAfter then (w, False) else (markUnavailable clk err 1 interval w, True)
      | Inr status \<Rightarrow> (markConnected clk w, status = ''lease_renewed''))"

text \<open>The whole loop; the flag tells whether it is still running.\<close>

fun renewLoop :: "duration \<Rightarrow> RenewRound list \<Rightarrow> PullWorker \<Rightarrow> PullWorker \<times> bool" where
  "renewLoop interval [] w = (w, True)"
| "renewLoop interval (r # rs) w =
     (case renew_round interval r w of (w1, False) \<Rightarrow> (w1, False) | (w1, True) \<Rightarrow> renewLoop interval rs w1)"

section \<open>Execution of a claim\<close>

definition make_result :: "PullTask \<Rightarrow> string \<times> duration \<times> string option \<Rightarrow> TResult" where
  "make_result task = (\<lambda>(output, dur, execErr).
     \<lparr>tr_TaskID = pt_TaskID task, tr_Output = output, tr_Duration = dur, tr_DurationStr = Duration_String dur,
      tr_Error = (case execErr of None \<Rightarrow> [] | Some e \<Rightarrow> e)\<rparr>)"

text \<open>
  \<open>executeClaim\<close> runs the renewal loop beside the execution and the delivery, so it is a state
  machine over what happens next in either goroutine. The delivery starts when the executor has
  returned; when it is over, the renewals are cancelled and waited for, and the tracker is told.
  An event that cannot happen in the state changes nothing.
\<close>

datatype ClaimEvent =
    CRenew RenewRound
  | CExecuted string duration "string option"
  | CSubmit SubmitRound
  | CFinish

datatype delivery = Executing | Delivering TResult duration int | Delivered TResult string

record ClaimRun =
  xc_worker :: PullWorker
  xc_renewing :: bool
  xc_delivery :: delivery
  xc_finished :: bool

fun claim_event :: "duration \<Rightarrow> PullTask \<Rightarrow> ClaimEvent \<Rightarrow> ClaimRun \<Rightarrow> ClaimRun" where
  "claim_event interval task (CRenew r) x =
     (if xc_renewing x then
        (case renew_round interval r (xc_worker x) of (w, b) \<Rightarrow> x\<lparr>xc_worker := w, xc_renewing := b\<rparr>)
      else x)"
| "claim_event interval task (CExecuted output dur execErr) x =
     (case xc_delivery x of
        Executing \<Rightarrow> x\<lparr>xc_delivery := Delivering (make_result task (output, dur, execErr)) defaultMinBackoff 0\<rparr>
      | _ \<Rightarrow> x)"
| "claim_event interval task (CSubmit r) x =
     (case xc_delivery x of
        Delivering result backoff retryAttempt \<Rightarrow>
          (case submit_round task r backoff retryAttempt (xc_worker x) of
             (w, Returned status) \<Rightarrow> x\<lparr>xc_worker := w, xc_delivery := Delivered result status\<rparr>
           | (w, Again b n) \<Rightarrow> x\<lparr>xc_worker := w, xc_delivery := Delivering result b n\<rparr>)
      | _ \<Rightarrow> x)"
| "claim_event interval task CFinish x =
     (case xc_delivery x of
        Delivered result status \<Rightarrow>
          if xc_renewing x \<or> xc_finished x then x
          else x\<lparr>xc_finished := True, xc_worker := (xc_worker x)\<lparr>pw_monitor :=
                 wt_TaskFinished (pt_TaskID task) (status = ''task_completed'') (status = ''task_failed'')
                   (pw_monitor (xc_worker x))\<rparr>\<rparr>
      | _ \<Rightarrow> x)"

definition start_run :: "PullWorker \<Rightarrow> ClaimRun" where
  "start_run w = \<lparr>xc_worker = w, xc_renewing = True, xc_delivery = Executing, xc_finished = False\<rparr>"

definition executeClaim :: "PullTask \<Rightarrow> time \<Rightarrow> ClaimEvent list \<Rightarrow> PullWorker \<Rightarrow> ClaimRun" where
  "executeClaim task now evs w = fold (claim_event (renew_interval now task) task) evs (start_run w)"

text \<open>One round of \<open>runSlot\<close>.\<close>

record SlotRound =
  sl_ctxDone :: bool
  sl_claim :: "ClaimReply http_outcome"
  sl_ctxDoneAfter :: bool
  sl_waited :: "duration \<Rightarrow> bool"
  sl_clk :: "nat \<Rightarrow> time"
  sl_events :: "ClaimEvent list"

datatype slot_next = SlotReturns | SlotBusy | SlotContinues duration int

definition start_claim :: "time \<Rightarrow> time \<Rightarrow> PullTask \<Rightarrow> PullWorker \<Rightarrow> PullWorker" where
  "start_claim startedAt now task w =
     (let progress = \<lparr>tp_TaskID = pt_TaskID task, tp_Key = [], tp_State = ''running'',
            tp_WorkerID = pc_WorkerID (pw_config w), tp_Attempt = pt_Attempt task, tp_StartedAt = startedAt,
            tp_Duration = 0, tp_Output = [], tp_Error = []\<rparr>;
          w1 = w\<lparr>pw_monitor := wt_TaskStarted progress (pw_monitor w)\<rparr>
      in pw_record now (worker_event SeverityInfo ''task_started'' ''Task started''
           (Some [(''task_id'', pt_TaskID task), (''attempt'', show_int (pt_Attempt task))])) w1)"

text \<open>A round up to the point where a claimed task starts to be executed.\<close>

datatype claim_next = ClaimNext slot_next | ClaimedTask PullTask

definition slot_claim :: "SlotRound \<Rightarrow> duration \<Rightarrow> int \<Rightarrow> PullWorker \<Rightarrow> PullWorker \<times> claim_next" where
  "slot_claim r backoff retryAttempt w =
     (if sl_ctxDone r then (w, ClaimNext SlotReturns)
      else case claim (sl_claim r) of
        Inl err \<Rightarrow>
          if sl_ctxDoneAfter r then (w, ClaimNext SlotReturns)
          else let w1 = markUnavailable (sl_clk r) err (retryAttempt + 1) backoff w
               in if \<not> waitContext (sl_waited r) backoff then (w1, ClaimNext SlotReturns)
                  else (w1, ClaimNext (SlotContinues (nextBackoff backoff) (retryAttempt + 1)))
      | Inr (task, status) \<Rightarrow>
          (let w1 = markConnected (sl_clk r) w
           in if status = ''no_task_available'' \<or> task = None
              then (w1, ClaimNext (if waitContext (sl_waited r) defaultClaimInterval then SlotContinues defaultMinBackoff 0 else SlotReturns))
              else if status \<noteq> ''task_available''
              then (w1, ClaimNext (if waitContext (sl_waited r) defaultClaimInterval then SlotContinues defaultMinBackoff 0 else SlotReturns))
              else case task of
                  None \<Rightarrow> (w1, ClaimNext SlotReturns)
                | Some t \<Rightarrow> (start_claim (sl_clk r 2) (sl_clk r 3) t w1, ClaimedTask t)))"

definition slot_round :: "SlotRound \<Rightarrow> duration \<Rightarrow> int \<Rightarrow> PullWorker \<Rightarrow> PullWorker \<times> slot_next" where
  "slot_round r backoff retryAttempt w =
     (case slot_claim r backoff retryAttempt w of
        (w1, ClaimNext x) \<Rightarrow> (w1, x)
      | (w1, ClaimedTask t) \<Rightarrow>
          (let x = executeClaim t (sl_clk r 4) (sl_events r) w1
           in (xc_worker x, if xc_finished x then SlotContinues defaultMinBackoff 0 else SlotBusy)))"

fun runSlot :: "SlotRound list \<Rightarrow> duration \<Rightarrow> int \<Rightarrow> PullWorker \<Rightarrow> PullWorker \<times> slot_next" where
  "runSlot [] backoff retryAttempt w = (w, SlotContinues backoff retryAttempt)"
| "runSlot (r # rs) backoff retryAttempt w =
     (case slot_round r backoff retryAttempt w of
        (w1, SlotContinues b n) \<Rightarrow> runSlot rs b n w1
      | (w1, x) \<Rightarrow> (w1, x))"

section \<open>All slots\<close>

text \<open>
  \<open>Run\<close> starts one goroutine for each slot on the same worker, and marks the worker as stopping when
  the context ends. What happens next is an event in some slot, in any order; an event that cannot
  happen there changes nothing. \<open>Run\<close> returns when every slot has.
\<close>

datatype slot =
    SlotIdle duration int
  | SlotRunning PullTask duration bool delivery
  | SlotStopped

record Pool =
  pl_worker :: PullWorker
  pl_slots :: "slot list"
  pl_stopping :: bool

datatype pool_event = SlotClaims nat SlotRound | SlotEvent nat ClaimEvent | ContextDone

definition Run :: "PullWorker \<Rightarrow> Pool" where
  "Run w = \<lparr>pl_worker = w, pl_slots = replicate (nat (pc_Concurrency (pw_config w))) (SlotIdle defaultMinBackoff 0), pl_stopping = False\<rparr>"

definition slot_after :: "time \<Rightarrow> claim_next \<Rightarrow> slot" where
  "slot_after now x = (case x of
       ClaimNext (SlotContinues b n) \<Rightarrow> SlotIdle b n
     | ClaimNext _ \<Rightarrow> SlotStopped
     | ClaimedTask t \<Rightarrow> SlotRunning t (renew_interval now t) True Executing)"

fun pool_step :: "pool_event \<Rightarrow> Pool \<Rightarrow> Pool" where
  "pool_step (SlotClaims i r) p =
     (if i < length (pl_slots p) then
        (case pl_slots p ! i of
           SlotIdle b n \<Rightarrow>
             (case slot_claim r b n (pl_worker p) of
                (w, x) \<Rightarrow> p\<lparr>pl_worker := w, pl_slots := (pl_slots p)[i := slot_after (sl_clk r 4) x]\<rparr>)
         | _ \<Rightarrow> p)
      else p)"
| "pool_step (SlotEvent i ev) p =
     (if i < length (pl_slots p) then
        (case pl_slots p ! i of
           SlotRunning t interval renewing d \<Rightarrow>
             (let x = claim_event interval t ev \<lparr>xc_worker = pl_worker p, xc_renewing = renewing, xc_delivery = d, xc_finished = False\<rparr>
              in p\<lparr>pl_worker := xc_worker x, pl_slots := (pl_slots p)[i :=
                   if xc_finished x then SlotIdle defaultMinBackoff 0 else SlotRunning t interval (xc_renewing x) (xc_delivery x)]\<rparr>)
         | _ \<Rightarrow> p)
      else p)"
| "pool_step ContextDone p =
     (if pl_stopping p then p
      else p\<lparr>pl_stopping := True, pl_worker := (pl_worker p)\<lparr>pw_monitor := wt_Stopping (pw_monitor (pl_worker p))\<rparr>\<rparr>)"

definition run_over :: "Pool \<Rightarrow> bool" where
  "run_over p = (pl_stopping p \<and> list_all (\<lambda>s. s = SlotStopped) (pl_slots p))"

end
