(* ===== verification/WorkerTheorems.thy ===== *)
theory WorkerTheorems
  imports Worker QueueTheorems
begin

text \<open>
  The properties of the worker: its retry delays, the delivery of results, the book-keeping of
  its tasks, the reporting of outages, and the renewal schedule against the lease queue.
\<close>

section \<open>Retries\<close>

declare waitContext_def [simp]

definition delay_after :: "nat \<Rightarrow> duration" where
  "delay_after k = min (500 * Millisecond * 2 ^ k) (8 * Second)"

definition claim_fails :: "SlotRound \<Rightarrow> bool" where
  "claim_fails r = (\<not> sl_ctxDone r \<and> (\<exists>e. claim (sl_claim r) = Inl e) \<and> \<not> sl_ctxDoneAfter r)"

lemma nextBackoff_delay: "nextBackoff (delay_after k) = delay_after (Suc k)"
proof -
  have "0 \<le> delay_after k" and "delay_after k \<le> 8 * Second" by (simp_all add: delay_after_def)
  then have "wrap64 (delay_after k * 2) = delay_after k * 2"
    by (intro wrap64_id) (simp_all add: minInt64_def maxInt64_def)
  then show ?thesis by (auto simp: nextBackoff_def Let_def defaultMaxBackoff_def delay_after_def min_def)
qed

text \<open>The waits of a run of failures, the first of which is the failure number \<open>k + 1\<close>.\<close>

fun waits_out :: "nat \<Rightarrow> SlotRound list \<Rightarrow> bool" where
  "waits_out k [] = True"
| "waits_out k (r # rs) = (sl_waited r (delay_after k) \<and> waits_out (Suc k) rs)"

lemma waits_out_iff: "waits_out k rs \<longleftrightarrow> (\<forall>i < length rs. sl_waited (rs ! i) (delay_after (k + i)))"
proof (induction rs arbitrary: k)
  case (Cons r rs)
  then show ?case by (simp add: All_less_Suc2)
qed simp

lemma failed_round:
  assumes "claim_fails r"
  obtains e where "slot_round r (delay_after k) (int k) w = (markUnavailable (sl_clk r) e (int (Suc k)) (delay_after k) w,
    if sl_waited r (delay_after k) then SlotContinues (delay_after (Suc k)) (int (Suc k)) else SlotReturns)"
  using assms by (auto simp: claim_fails_def slot_round_def slot_claim_def waitContext_def nextBackoff_delay add.commute)

lemma runSlot_fails:
  "list_all claim_fails rs \<Longrightarrow>
   snd (runSlot rs (delay_after k) (int k) w)
     = (if waits_out k rs then SlotContinues (delay_after (k + length rs)) (int (k + length rs)) else SlotReturns)"
proof (induction rs arbitrary: k w)
  case (Cons r rs)
  then obtain e where e: "slot_round r (delay_after k) (int k) w = (markUnavailable (sl_clk r) e (int (Suc k)) (delay_after k) w,
    if sl_waited r (delay_after k) then SlotContinues (delay_after (Suc k)) (int (Suc k)) else SlotReturns)"
    using failed_round [of r k w] by auto
  with Cons.IH [of "Suc k" "markUnavailable (sl_clk r) e (int (Suc k)) (delay_after k) w"] Cons.prems show ?case by simp
qed simp

lemma marked_retry:
  "wk_RetryAttempt (wt_snapshot (pw_monitor (markUnavailable clk e n d w))) = n"
  "wk_RetryAt (wt_snapshot (pw_monitor (markUnavailable clk e n d w))) = time_Add (clk 0) d"
  by (simp_all add: markUnavailable_def pw_record_def wt_Record_def wt_Unavailable_def Let_def)

lemma runSlot_snoc_fails:
  "list_all claim_fails (rs @ [r]) \<Longrightarrow> waits_out k rs \<Longrightarrow>
   \<exists>e v. fst (runSlot (rs @ [r]) (delay_after k) (int k) w)
     = markUnavailable (sl_clk r) e (int (Suc (k + length rs))) (delay_after (k + length rs)) v"
proof (induction rs arbitrary: k w)
  case Nil
  then obtain e where "slot_round r (delay_after k) (int k) w = (markUnavailable (sl_clk r) e (int (Suc k)) (delay_after k) w,
    if sl_waited r (delay_after k) then SlotContinues (delay_after (Suc k)) (int (Suc k)) else SlotReturns)"
    using failed_round [of r k w] by auto
  then show ?case by (intro exI [of _ e] exI [of _ w]) simp
next
  case (Cons q rs)
  then obtain e where "slot_round q (delay_after k) (int k) w = (markUnavailable (sl_clk q) e (int (Suc k)) (delay_after k) w,
    SlotContinues (delay_after (Suc k)) (int (Suc k)))"
    using failed_round [of q k w] by auto
  with Cons.IH [of "Suc k" "markUnavailable (sl_clk q) e (int (Suc k)) (delay_after k) w"] Cons.prems show ?case by simp
qed


definition ex_worker :: PullWorker where
  "ex_worker = \<lparr>pw_config = \<lparr>pc_CoordinatorAddr = ''c:7443'', pc_WorkerID = ''w'', pc_Token = ''tok'', pc_Fingerprint = [],
     pc_TrustFile = ''t'', pc_Concurrency = 1\<rparr>, pw_tls = \<lparr>tv_trustFile = ''t'', tv_trusted = [], tv_explicit = [], tv_needsUpdate = False\<rparr>,
     pw_state = \<lparr>cn_everConnected = False, cn_unavailable = False\<rparr>,
     pw_monitor = NewWorkerTracker ''w'' ''c:7443'' 1\<rparr>"

definition ex_failing :: SlotRound where
  "ex_failing = \<lparr>sl_ctxDone = False, sl_claim = Responds 401 (Inl []), sl_ctxDoneAfter = False, sl_waited = (\<lambda>d. d < 5 * Second),
     sl_clk = (\<lambda>n. 7), sl_events = []\<rparr>"


section \<open>Delivery\<close>

definition delivery_fails :: "nat \<Rightarrow> SubmitRound \<Rightarrow> bool" where
  "delivery_fails k r = (\<not> sr_ctxDone r \<and> (\<exists>e. submitResult (sr_outcome r) = Inl e) \<and> \<not> sr_ctxDoneAfter r \<and> sr_waited r (delay_after k))"

definition delivery_answered :: "string \<Rightarrow> SubmitRound \<Rightarrow> bool" where
  "delivery_answered s r = (\<not> sr_ctxDone r \<and> submitResult (sr_outcome r) = Inr s)"

fun delivered_with :: "string \<Rightarrow> nat \<Rightarrow> SubmitRound list \<Rightarrow> bool" where
  "delivered_with s k [] = False"
| "delivered_with s k (r # rs) = (if delivery_fails k r then delivered_with s (Suc k) rs else delivery_answered s r)"

lemma submit_rounds_iff:
  "s \<noteq> [] \<Longrightarrow> snd (submit_rounds task rs (delay_after k) n w) = Some s \<longleftrightarrow> delivered_with s k rs"
proof (induction rs arbitrary: k n w)
  case (Cons r rs)
  show ?case
  proof (cases "delivery_fails k r")
    case True
    then obtain e where e: "submitResult (sr_outcome r) = Inl e" "\<not> sr_ctxDone r" "\<not> sr_ctxDoneAfter r" "sr_waited r (delay_after k)"
      by (auto simp: delivery_fails_def)
    then have "snd (submit_rounds task (r # rs) (delay_after k) n w)
      = snd (submit_rounds task rs (delay_after (Suc k)) (n + 1) (markUnavailable (sr_clk r) e (n + 1) (delay_after k) w))"
      by (simp add: submit_round_def Let_def waitContext_def nextBackoff_delay)
    with True Cons show ?thesis by simp
  next
    case False
    then show ?thesis using Cons.prems
      by (auto simp: submit_round_def Let_def waitContext_def delivery_fails_def delivery_answered_def split: sum.splits)
  qed
qed simp

lemma delivered_with_iff:
  "delivered_with s k rs \<longleftrightarrow>
   (\<exists>fails r rest. rs = fails @ r # rest \<and> (\<forall>i < length fails. delivery_fails (k + i) (fails ! i)) \<and> delivery_answered s r)"
proof (induction rs arbitrary: k)
  case (Cons r rs)
  have na: "delivery_fails k r \<Longrightarrow> \<not> delivery_answered s r" by (auto simp: delivery_fails_def delivery_answered_def)
  show ?case (is "_ = ?R")
  proof (cases "delivery_fails k r")
    case True
    have "?R \<longleftrightarrow> (\<exists>fails q rest. rs = fails @ q # rest \<and> (\<forall>i < length fails. delivery_fails (Suc k + i) (fails ! i)) \<and> delivery_answered s q)"
      (is "_ = ?S")
    proof
      assume ?R
      then obtain fails q rest where f: "r # rs = fails @ q # rest" "\<forall>i < length fails. delivery_fails (k + i) (fails ! i)" "delivery_answered s q"
        by blast
      with True na obtain fs where fs: "fails = r # fs" by (cases fails) auto
      from f(2) have "\<forall>i < length fs. delivery_fails (Suc k + i) (fs ! i)" by (simp add: fs All_less_Suc2)
      with f(1,3) show ?S by (intro exI [of _ fs] exI [of _ q] exI [of _ rest]) (simp add: fs)
    next
      assume ?S
      then obtain fs q rest where f: "rs = fs @ q # rest" "\<forall>i < length fs. delivery_fails (Suc k + i) (fs ! i)" "delivery_answered s q"
        by blast
      with True show ?R by (intro exI [of _ "r # fs"] exI [of _ q] exI [of _ rest]) (simp add: All_less_Suc2)
    qed
    with True Cons.IH [of "Suc k"] show ?thesis by simp
  next
    case False
    have "?R \<longleftrightarrow> delivery_answered s r"
    proof
      assume ?R
      then obtain fails q rest where f: "r # rs = fails @ q # rest" "\<forall>i < length fails. delivery_fails (k + i) (fails ! i)" "delivery_answered s q"
        by blast
      with False have "fails = []" by (cases fails) (auto simp: All_less_Suc2)
      with f show "delivery_answered s r" by simp
    next
      assume "delivery_answered s r"
      then show ?R by (intro exI [of _ "[]"] exI [of _ r] exI [of _ rs]) simp
    qed
    with False show ?thesis by simp
  qed
qed simp

text \<open>
  C30. A result is sent again until the coordinator answers: the delivery returns a status
  exactly when every earlier call failed (network error, 401 or an undecodable answer) with the
  worker still running after the doubling delay that follows it, and the last one was answered with that status. No failure of a call
  loses the result while the worker runs.
\<close>

theorem result_sent_until_answered:
  assumes "s \<noteq> []"
  shows "snd (submitResultUntilResolved task rs w) = Some s \<longleftrightarrow>
    (\<exists>fails r rest. rs = fails @ r # rest \<and>
       (\<forall>i < length fails. \<not> sr_ctxDone (fails ! i) \<and> (\<exists>e. submitResult (sr_outcome (fails ! i)) = Inl e) \<and> \<not> sr_ctxDoneAfter (fails ! i) \<and>
          sr_waited (fails ! i) (min (500 * Millisecond * 2 ^ i) (8 * Second))) \<and>
       \<not> sr_ctxDone r \<and> submitResult (sr_outcome r) = Inr s)"
proof -
  have "defaultMinBackoff = delay_after 0" by (simp add: delay_after_def defaultMinBackoff_def)
  then have "snd (submitResultUntilResolved task rs w) = Some s \<longleftrightarrow> delivered_with s 0 rs"
    using submit_rounds_iff [OF assms, of task rs 0 0 w] by (simp add: submitResultUntilResolved_def)
  also have "\<dots> \<longleftrightarrow> (\<exists>fails r rest. rs = fails @ r # rest \<and> (\<forall>i < length fails. delivery_fails i (fails ! i)) \<and> delivery_answered s r)"
    by (simp add: delivered_with_iff)
  finally show ?thesis by (simp add: delivery_fails_def delivery_answered_def delay_after_def)
qed

definition ex_send :: "string http_outcome \<Rightarrow> SubmitRound" where
  "ex_send out = \<lparr>sr_ctxDone = False, sr_outcome = out, sr_ctxDoneAfter = False, sr_waited = (\<lambda>d. True), sr_clk = (\<lambda>n. 7)\<rparr>"

theorem result_sent_until_answered_witness:
  "\<exists>fails r rest. [ex_send (DoFails ''refused''), ex_send (Responds 409 (Inr ''stale_lease''))] = fails @ r # rest \<and>
     submitResult (sr_outcome r) = Inr ''stale_lease''"
proof -
  let ?rs = "[ex_send (DoFails ''refused''), ex_send (Responds 409 (Inr ''stale_lease''))]"
  let ?task = "\<lparr>pt_TaskID = ''t'', pt_JobID = ''j'', pt_Type = [], pt_Input = [], pt_LeaseID = ''L'', pt_Attempt = 1, pt_LeaseExpiresAt = 9\<rparr>"
  have "snd (submitResultUntilResolved ?task ?rs ex_worker) = Some ''stale_lease''"
    by (simp add: submitResultUntilResolved_def submit_round_def ex_send_def submitResult_def post_def)
  with result_sent_until_answered [of "''stale_lease''" ?task ?rs ex_worker] show ?thesis by blast
qed

section \<open>Book-keeping\<close>

lemma tracker_sel [simp]:
  "wk_ActiveTasks (wt_snapshot (wt_Connected now t)) = wk_ActiveTasks (wt_snapshot t)"
  "wk_Completed (wt_snapshot (wt_Connected now t)) = wk_Completed (wt_snapshot t)"
  "wk_Failed (wt_snapshot (wt_Connected now t)) = wk_Failed (wt_snapshot t)"
  "wk_ActiveTasks (wt_snapshot (wt_Unavailable now e n at t)) = wk_ActiveTasks (wt_snapshot t)"
  "wk_Completed (wt_snapshot (wt_Unavailable now e n at t)) = wk_Completed (wt_snapshot t)"
  "wk_Failed (wt_snapshot (wt_Unavailable now e n at t)) = wk_Failed (wt_snapshot t)"
  "wt_snapshot (wt_Record now ev t) = wt_snapshot t"
  by (simp_all add: wt_Connected_def wt_Unavailable_def wt_Record_def Let_def split: option.splits)

text \<open>The three fields of the tracker that tasks change.\<close>

definition book :: "PullWorker \<Rightarrow> TaskProgress list \<times> int \<times> int" where
  "book w = (let s = wt_snapshot (pw_monitor w) in (wk_ActiveTasks s, wk_Completed s, wk_Failed s))"

lemma book_marks [simp]:
  "book (pw_record now e w) = book w"
  "book (markConnected clk w) = book w"
  "book (markUnavailable clk err n d w) = book w"
  "book (record_resolution now tid st w) = book w"
  by (simp_all add: book_def pw_record_def markConnected_def markUnavailable_def record_resolution_def Let_def)

lemma book_renew_round [simp]: "book (fst (renew_round i r w)) = book w"
  by (cases r) (auto split: sum.splits)

lemma book_submit_round [simp]: "book (fst (submit_round task r b n w)) = book w"
  by (auto simp: submit_round_def Let_def split: sum.splits)

lemma finish_started:
  "tid \<notin> tp_TaskID ` set as \<Longrightarrow> tp_TaskID p = tid \<Longrightarrow> start_task p as = as @ [p] \<and> finish_task tid (as @ [p]) = as"
  by (induction as) auto

definition claim_book_ok :: "string \<Rightarrow> TaskProgress list \<times> int \<times> int \<Rightarrow> ClaimRun \<Rightarrow> bool" where
  "claim_book_ok tid b x = (case b of (as, c, f) \<Rightarrow>
     if xc_finished x then \<not> xc_renewing x \<and> (\<exists>res status. xc_delivery x = Delivered res status \<and>
         book (xc_worker x) = (as, c + (if status = ''task_completed'' then 1 else 0), f + (if status = ''task_failed'' then 1 else 0)))
     else \<exists>p. tp_TaskID p = tid \<and> book (xc_worker x) = (as @ [p], c, f))"

lemma claim_book_ok_cong:
  "claim_book_ok tid b x \<Longrightarrow> \<not> xc_finished x \<Longrightarrow> \<not> xc_finished y \<Longrightarrow> book (xc_worker y) = book (xc_worker x) \<Longrightarrow>
   claim_book_ok tid b y"
  by (cases b) (simp add: claim_book_ok_def)

lemma finished_claim_rests:
  assumes "claim_book_ok tid b x" and "xc_finished x"
  shows "claim_event i task ev x = x"
proof -
  obtain as c f where b: "b = (as, c, f)" by (metis prod_cases3)
  with assms obtain res status where "\<not> xc_renewing x" "xc_delivery x = Delivered res status"
    by (simp add: claim_book_ok_def) blast
  with assms(2) show ?thesis by (cases ev) simp_all
qed

lemma claim_event_keeps:
  assumes "\<not> xc_finished x" and "ev \<noteq> CFinish"
  shows "\<not> xc_finished (claim_event i task ev x) \<and> book (xc_worker (claim_event i task ev x)) = book (xc_worker x)"
proof (cases ev)
  case (CRenew r)
  obtain w b where r: "renew_round i r (xc_worker x) = (w, b)" by (meson surj_pair)
  then have "book w = book (xc_worker x)" using book_renew_round [of i r "xc_worker x"] by simp
  with r assms show ?thesis by (simp add: CRenew)
next
  case (CExecuted out d e)
  then show ?thesis using assms by (cases "xc_delivery x") simp_all
next
  case (CSubmit r)
  show ?thesis
  proof (cases "xc_delivery x")
    case (Delivering res b n)
    obtain w y where r: "submit_round task r b n (xc_worker x) = (w, y)" by (meson surj_pair)
    then have "book w = book (xc_worker x)" using book_submit_round [of task r b n "xc_worker x"] by simp
    with r assms show ?thesis by (cases y) (simp_all add: CSubmit Delivering)
  qed (use assms in \<open>simp_all add: CSubmit\<close>)
qed (use assms in simp)

lemma claim_finish_book:
  assumes "claim_book_ok (pt_TaskID task) (as, c, f) x" and "pt_TaskID task \<notin> tp_TaskID ` set as" and x: "\<not> xc_finished x"
  shows "claim_book_ok (pt_TaskID task) (as, c, f) (claim_event i task CFinish x)"
proof (cases "\<exists>res status. xc_delivery x = Delivered res status \<and> \<not> xc_renewing x")
  case True
  then obtain res status where d: "xc_delivery x = Delivered res status" "\<not> xc_renewing x" by blast
  from assms(1) x obtain p where p: "tp_TaskID p = pt_TaskID task" "book (xc_worker x) = (as @ [p], c, f)"
    by (simp add: claim_book_ok_def) blast
  from finish_started [OF assms(2) p(1)] have "finish_task (pt_TaskID task) (as @ [p]) = as" by simp
  with p(2) d x show ?thesis
    by (simp add: claim_book_ok_def book_def wt_TaskFinished_def Let_def)
next
  case False
  then have "claim_event i task CFinish x = x" by (cases "xc_delivery x") simp_all
  with assms(1) show ?thesis by simp
qed

lemma claim_event_book:
  assumes "claim_book_ok (pt_TaskID task) (as, c, f) x" and "pt_TaskID task \<notin> tp_TaskID ` set as"
  shows "claim_book_ok (pt_TaskID task) (as, c, f) (claim_event i task ev x)"
proof (cases "xc_finished x")
  case True
  with assms(1) finished_claim_rests show ?thesis by metis
next
  case False
  show ?thesis
  proof (cases "ev = CFinish")
    case True
    with claim_finish_book [OF assms False] show ?thesis by simp
  next
    case ev: False
    from claim_event_keeps [OF False ev, of i task] claim_book_ok_cong [OF assms(1) False] show ?thesis by blast
  qed
qed

lemma claim_run_book:
  "claim_book_ok (pt_TaskID task) (as, c, f) x \<Longrightarrow> pt_TaskID task \<notin> tp_TaskID ` set as \<Longrightarrow>
   claim_book_ok (pt_TaskID task) (as, c, f) (fold (claim_event i task) evs x)"
  by (induction evs arbitrary: x) (auto intro: claim_event_book)

text \<open>
  One claim at a time: while a claimed task is executed, delivered and renewed,
  in whatever order these interleave, it is listed as active once; when the claim is over, the
  renewals have ended, the list of active tasks is what it was before the claim, and the
  counters have grown by one exactly when the coordinator answered that the task completed or
  failed.
\<close>

theorem claim_books_balance:
  fixes task evs w now t1 t2
  defines "s \<equiv> wt_snapshot (pw_monitor w)" and "x \<equiv> executeClaim task now evs (start_claim t1 t2 task w)"
  defines "s' \<equiv> wt_snapshot (pw_monitor (xc_worker x))"
  assumes "pt_TaskID task \<notin> tp_TaskID ` set (wk_ActiveTasks s)"
  shows "if xc_finished x
    then \<not> xc_renewing x \<and> wk_ActiveTasks s' = wk_ActiveTasks s \<and> (\<exists>result status. xc_delivery x = Delivered result status \<and>
        wk_Completed s' = wk_Completed s + (if status = ''task_completed'' then 1 else 0) \<and>
        wk_Failed s' = wk_Failed s + (if status = ''task_failed'' then 1 else 0))
    else (\<exists>p. tp_TaskID p = pt_TaskID task \<and> wk_ActiveTasks s' = wk_ActiveTasks s @ [p]) \<and>
      wk_Completed s' = wk_Completed s \<and> wk_Failed s' = wk_Failed s"
proof -
  let ?b = "(wk_ActiveTasks s, wk_Completed s, wk_Failed s)"
  have "claim_book_ok (pt_TaskID task) ?b (start_run (start_claim t1 t2 task w))"
    using finish_started [OF assms(4)]
    by (simp add: claim_book_ok_def start_run_def start_claim_def Let_def book_def pw_record_def wt_TaskStarted_def s_def)
  from claim_run_book [OF this assms(4)] have ok: "claim_book_ok (pt_TaskID task) ?b x"
    by (simp add: x_def executeClaim_def)
  have bk: "book (xc_worker x) = (wk_ActiveTasks s', wk_Completed s', wk_Failed s')"
    by (simp add: book_def s'_def Let_def)
  show ?thesis
  proof (cases "xc_finished x")
    case True
    with ok obtain res status where "\<not> xc_renewing x" "xc_delivery x = Delivered res status"
      "book (xc_worker x) = (wk_ActiveTasks s, wk_Completed s + (if status = ''task_completed'' then 1 else 0),
         wk_Failed s + (if status = ''task_failed'' then 1 else 0))"
      by (simp only: claim_book_ok_def prod.case if_True) blast
    with True show ?thesis by (simp add: bk)
  next
    case False
    with ok obtain p where "tp_TaskID p = pt_TaskID task" "book (xc_worker x) = (wk_ActiveTasks s @ [p], wk_Completed s, wk_Failed s)"
      by (simp only: claim_book_ok_def prod.case if_False) blast
    with False show ?thesis by (simp add: bk)
  qed
qed

definition ex_pull_task :: PullTask where
  "ex_pull_task = \<lparr>pt_TaskID = ''t'', pt_JobID = ''j'', pt_Type = ''diagnostic_sleep'', pt_Input = ''1s'', pt_LeaseID = ''L'',
     pt_Attempt = 1, pt_LeaseExpiresAt = 6 * Second\<rparr>"

definition ex_events :: "ClaimEvent list" where
  "ex_events = [CRenew (RenewTick (Responds 200 (Inr ''lease_renewed'')) False (\<lambda>n. 2)), CExecuted ''ok'' 1 None,
     CSubmit (ex_send (DoFails ''refused'')), CSubmit (ex_send (Responds 200 (Inr ''task_completed''))), CRenew RenewDone, CFinish]"

theorem claim_books_balance_witness:
  "wk_Completed (wt_snapshot (pw_monitor (xc_worker (executeClaim ex_pull_task 0 ex_events (start_claim 0 0 ex_pull_task ex_worker))))) = 1"
proof -
  have a: "pt_TaskID ex_pull_task \<notin> tp_TaskID ` set (wk_ActiveTasks (wt_snapshot (pw_monitor ex_worker)))"
    and z: "wk_Completed (wt_snapshot (pw_monitor ex_worker)) = 0"
    by (simp_all add: ex_worker_def NewWorkerTracker_def)
  have "xc_finished (executeClaim ex_pull_task 0 ex_events (start_claim 0 0 ex_pull_task ex_worker))"
    and "xc_delivery (executeClaim ex_pull_task 0 ex_events (start_claim 0 0 ex_pull_task ex_worker))
      = Delivered (make_result ex_pull_task (''ok'', 1, None)) ''task_completed''"
    by (simp_all add: ex_events_def executeClaim_def start_run_def renew_def post_def submit_round_def ex_send_def
        submitResult_def Let_def)
  with claim_books_balance [OF a, of 0 ex_events 0 0] z show ?thesis by auto
qed

end
