(* ===== verification/CryptoTheorems.thy ===== *)
theory CryptoTheorems
  imports Crypto
begin

text \<open>
  The properties of \<open>internal/crypto\<close>: clients accept the pinned coordinator only, the trust
  record brings the pin back, and the identity files are never replaced.
\<close>

section \<open>ASCII text\<close>

lemma utf8_chunks_all_ascii:
  "list_all (\<lambda>c. byte c < 128) s \<Longrightarrow> utf8_chunks s = map (\<lambda>c. (byte c, [c])) s"
  by (induction s) (simp_all add: utf8_chunks_ascii)

lemma TrimSpace_ascii:
  assumes "list_all (\<lambda>c. byte c < 128) s"
  shows "TrimSpace s = rev (dropWhile (\<lambda>c. IsSpace (byte c)) (rev (dropWhile (\<lambda>c. IsSpace (byte c)) s)))"
proof -
  have dw: "dropWhile (IsSpace \<circ> fst) (map (\<lambda>c. (byte c, [c])) xs) = map (\<lambda>c. (byte c, [c])) (dropWhile (\<lambda>c. IsSpace (byte c)) xs)" for xs
    by (simp add: dropWhile_map comp_def)
  have cat: "concat (map snd (map (\<lambda>c. (byte c, [c])) xs)) = xs" for xs
    by (induction xs) auto
  show ?thesis
    by (simp only: TrimSpace_def utf8_chunks_all_ascii [OF assms] dw rev_map cat)
qed

lemma dropWhile_none: "list_all (\<lambda>x. \<not> P x) xs \<Longrightarrow> dropWhile P xs = xs"
  by (cases xs) auto

definition plain_char :: "char \<Rightarrow> bool" where
  "plain_char c = (byte c < 128 \<and> \<not> IsSpace (byte c))"

lemma plain_ascii: "list_all plain_char s \<Longrightarrow> list_all (\<lambda>c. byte c < 128) s"
  by (simp add: list_all_iff plain_char_def)

lemma TrimSpace_plain:
  assumes "list_all plain_char s"
  shows "TrimSpace s = s" and "TrimSpace (s @ [CHR 0x0A]) = s"
proof -
  have n: "list_all (\<lambda>c. \<not> IsSpace (byte c)) s" "list_all (\<lambda>c. \<not> IsSpace (byte c)) (rev s)"
    using assms by (simp_all add: list_all_iff plain_char_def)
  show "TrimSpace s = s" using assms by (simp add: TrimSpace_ascii plain_ascii dropWhile_none n)
  have "list_all (\<lambda>c. byte c < 128) (s @ [CHR 0x0A])" and nl: "IsSpace (byte (CHR 0x0A))"
    using plain_ascii [OF assms] by (simp_all add: byte_def IsSpace_def)
  then show "TrimSpace (s @ [CHR 0x0A]) = s"
    using n by (cases s) (simp_all add: TrimSpace_ascii dropWhile_none)
qed

section \<open>Fingerprints\<close>

definition upper_hex :: "char \<Rightarrow> bool" where
  "upper_hex c = (is_digit c \<or> (65 \<le> byte c \<and> byte c \<le> 70))"

lemma upper_hex_facts:
  assumes "upper_hex c"
  shows "plain_char c" "upper_ascii c = c" "is_hex c" "c \<noteq> CHR '':''"
  using assms by (auto simp: upper_hex_def is_digit_def plain_char_def IsSpace_def upper_ascii_def is_hex_def byte_def)

lemma ToUpper_ascii:
  "list_all (\<lambda>c. byte c < 128) s \<Longrightarrow> ToUpper s = map upper_ascii s"
  by (induction s) (auto simp: ToUpper_def utf8_chunks_ascii)

lemma upper_hex_digit: "d < 16 \<Longrightarrow> upper_hex (upper_ascii (hex_digit d)) \<and> byte (hex_digit d) < 128"
  by (auto simp: upper_hex_def upper_ascii_def byte_hex_digit is_digit_def byte_char_of)

definition hex_of :: "string \<Rightarrow> string" where
  "hex_of s = ToUpper (hex_encode s)"

lemma hex_of_facts: "list_all upper_hex (hex_of s) \<and> length (hex_of s) = 2 * length s"
proof -
  have a: "list_all (\<lambda>c. byte c < 128 \<and> upper_hex (upper_ascii c)) (hex_encode s)"
    by (induction s) (use upper_hex_digit byte_less in \<open>simp_all add: hex_encode_def less_mult_imp_div_less\<close>)
  then have "hex_of s = map upper_ascii (hex_encode s)"
    by (simp add: hex_of_def ToUpper_ascii list_all_iff)
  with a show ?thesis by (simp add: list_all_iff)
qed

fun pairs :: "'a list \<Rightarrow> 'a list list" where
  "pairs (a # b # r) = [a, b] # pairs r"
| "pairs [a] = [[a]]"
| "pairs [] = []"

lemma formatFingerprint_pairs: "formatFingerprint h = join_with '':'' (pairs h)"
proof -
  have "map (\<lambda>i. take 2 (drop (2 * i) h)) [0 ..< (length h + 1) div 2] = pairs h" for h :: string
  proof (induction h rule: pairs.induct)
    case (1 a b r)
    have "[0 ..< (length (a # b # r) + 1) div 2] = 0 # map Suc [0 ..< (length r + 1) div 2]"
      by (simp add: upt_conv_Cons map_Suc_upt del: upt_Suc)
    then show ?case using 1 by (simp add: comp_def)
  qed (simp_all add: upt_conv_Cons)
  then show ?thesis by (simp add: formatFingerprint_def)
qed

lemma format_facts:
  assumes "list_all upper_hex h"
  shows "filter (\<lambda>c. c \<noteq> CHR '':'') (formatFingerprint h) = h" and "list_all plain_char (formatFingerprint h)"
proof -
  have j: "pairs h \<noteq> [] \<Longrightarrow> join_with sep (x # pairs h) = x @ sep @ join_with sep (pairs h)" for x sep and h :: string
    by (cases "pairs h") auto
  have col: "plain_char (CHR '':'')" by (simp add: plain_char_def IsSpace_def byte_def)
  have "list_all upper_hex h \<Longrightarrow> filter (\<lambda>c. c \<noteq> CHR '':'') (join_with '':'' (pairs h)) = h \<and> list_all plain_char (join_with '':'' (pairs h))"
  proof (induction h rule: pairs.induct)
    case (1 a b r)
    then show ?case
      by (cases "pairs r") (use col in \<open>simp_all add: upper_hex_facts\<close>)
  qed (simp_all add: upper_hex_facts)
  with assms show "filter (\<lambda>c. c \<noteq> CHR '':'') (formatFingerprint h) = h" and "list_all plain_char (formatFingerprint h)"
    by (simp_all add: formatFingerprint_pairs)
qed

lemma ToUpper_upper_hex: "list_all upper_hex h \<Longrightarrow> ToUpper h = h"
  by (simp add: ToUpper_ascii list_all_iff upper_hex_facts(1,2) plain_char_def [symmetric] map_idI
      upper_hex_facts(1) [unfolded plain_char_def])

lemma normalize_format:
  assumes "list_all upper_hex h" and "length h = 64"
  shows "normalizeFingerprint (formatFingerprint h) = Inr h" and "formatFingerprint h \<noteq> []"
proof -
  have f: "filter (\<lambda>c. c \<noteq> CHR '':'') (formatFingerprint h) = h" by (rule format_facts [OF assms(1)])
  with assms(2) show ne: "formatFingerprint h \<noteq> []" by auto
  have "list_all is_hex h" using assms(1) by (simp add: list_all_iff upper_hex_facts)
  then show "normalizeFingerprint (formatFingerprint h) = Inr h"
    using assms ne by (simp add: normalizeFingerprint_def Let_def f TrimSpace_plain format_facts ToUpper_upper_hex)
qed

section \<open>Pinning\<close>

definition pin_of :: "FS \<Rightarrow> string \<Rightarrow> string \<Rightarrow> crypto_error + string" where
  "pin_of fs trustFile explicitFingerprint =
     (if explicitFingerprint = [] then readTrustRecord fs trustFile else normalizeFingerprint explicitFingerprint)"

definition normal :: "string \<Rightarrow> bool" where
  "normal h = (list_all upper_hex h \<and> length h = 64)"

lemma upper_hex_cases: "is_hex c \<Longrightarrow> \<not> upper_hex c \<Longrightarrow> upper_ascii c \<noteq> c"
proof -
  assume "is_hex c" "\<not> upper_hex c"
  then have "97 \<le> byte c" "byte c \<le> 102" by (auto simp: is_hex_def upper_hex_def)
  then have "byte (upper_ascii c) = byte c - 32" by (simp add: upper_ascii_def byte_char_of)
  with \<open>97 \<le> byte c\<close> show "upper_ascii c \<noteq> c" by auto
qed

lemma upper_ascii_idem: "upper_ascii (upper_ascii c) = upper_ascii c"
  using byte_less [of c] by (auto simp: upper_ascii_def byte_char_of)

lemma ToUpper_no_lower: "list_all is_hex (ToUpper s) \<Longrightarrow> list_all upper_hex (ToUpper s)"
proof -
  have "c \<in> set (ToUpper s) \<Longrightarrow> upper_ascii c = c" for c
    by (auto simp: ToUpper_def upper_ascii_idem split: if_splits) (auto simp: upper_ascii_def byte_def)
  with upper_hex_cases show "list_all is_hex (ToUpper s) \<Longrightarrow> list_all upper_hex (ToUpper s)"
    unfolding list_all_iff by blast
qed

lemma normalize_normal: "normalizeFingerprint x = Inr h \<Longrightarrow> h = [] \<or> normal h"
  using ToUpper_no_lower by (auto simp: normalizeFingerprint_def Let_def normal_def split: if_splits)

lemma normalize_Nil: "normalizeFingerprint x = Inr [] \<Longrightarrow> x = []"
  by (auto simp: normalizeFingerprint_def Let_def split: if_splits)

lemma read_normal: "readTrustRecord fs p = Inr h \<Longrightarrow> h = [] \<or> normal h"
  using normalize_normal
  by (auto simp: readTrustRecord_def split: sum.splits os_error.splits if_splits)

lemma config_verifier:
  assumes "NewCoordinatorClientConfig fs tf ex = Inr v"
  shows "pin_of fs tf ex = Inr (tv_trusted v)" and "normal (tv_trusted v)" and "tv_trustFile v = tf"
    and "ex = [] \<Longrightarrow> \<not> tv_needsUpdate v"
    and "ex \<noteq> [] \<Longrightarrow> \<not> tv_needsUpdate v \<Longrightarrow> readTrustRecord fs tf = Inr (tv_trusted v)"
proof -
  obtain e where e: "normalizeFingerprint ex = Inr e" and tf: "tf \<noteq> []"
    using assms by (auto simp: NewCoordinatorClientConfig_def split: if_splits sum.splits)
  note v = assms [unfolded NewCoordinatorClientConfig_def e sum.case if_not_P [OF tf]]
  have "pin_of fs tf ex = Inr (tv_trusted v) \<and> normal (tv_trusted v) \<and> tv_trustFile v = tf \<and>
    (ex = [] \<longrightarrow> \<not> tv_needsUpdate v) \<and> (ex \<noteq> [] \<longrightarrow> \<not> tv_needsUpdate v \<longrightarrow> readTrustRecord fs tf = Inr (tv_trusted v))"
  proof (cases "ex = []")
    case True
    then have "e = []" using e by (simp add: normalizeFingerprint_def)
    with v obtain st where st: "readTrustRecord fs tf = Inr st" "st \<noteq> []"
      "v = \<lparr>tv_trustFile = tf, tv_trusted = st, tv_explicit = [], tv_needsUpdate = False\<rparr>"
      by (cases "readTrustRecord fs tf") (simp_all split: if_splits)
    with True read_normal [OF st(1)] show ?thesis by (simp add: pin_of_def)
  next
    case False
    then have ne: "e \<noteq> []" using e normalize_Nil by blast
    with normalize_normal [OF e] have "normal e" by blast
    with v e ne False show ?thesis
      by (cases "readTrustRecord fs tf") (auto simp: pin_of_def)
  qed
  then show "pin_of fs tf ex = Inr (tv_trusted v)" "normal (tv_trusted v)" "tv_trustFile v = tf"
    "ex = [] \<Longrightarrow> \<not> tv_needsUpdate v" "ex \<noteq> [] \<Longrightarrow> \<not> tv_needsUpdate v \<Longrightarrow> readTrustRecord fs tf = Inr (tv_trusted v)"
    by blast+
qed

lemma Fingerprint_normal:
  assumes "\<And>x. length (sha256 x) = 32"
  shows "normalizeFingerprint (Fingerprint sha256 raw) = Inr (hex_of (sha256 raw))"
  unfolding Fingerprint_def hex_of_def [symmetric]
  by (rule normalize_format) (use hex_of_facts [of "sha256 raw"] assms in simp_all)

text \<open>What a connection does to the verifier and the disk.\<close>

lemma verify_iff:
  assumes "\<And>x. length (sha256 x) = 32" and "verifyConnection sha256 peers fs v = (fs', v', r)"
  shows "r = None \<Longrightarrow> \<exists>raw rest. peers = raw # rest \<and> hex_of (sha256 raw) = tv_trusted v"
    and "peers = raw # rest \<Longrightarrow> hex_of (sha256 raw) = tv_trusted v \<Longrightarrow> \<not> tv_needsUpdate v \<Longrightarrow> r = None"
    and "tv_trusted v' = tv_trusted v" and "tv_trustFile v' = tv_trustFile v"
    and "fs' = fs \<or> (tv_needsUpdate v \<and> peers \<noteq> [] \<and> hex_of (sha256 (hd peers)) = tv_trusted v)"
  using assms(2) unfolding verifyConnection_def
  by (auto simp: Let_def Fingerprint_normal [OF assms(1)] split: list.splits if_splits prod.splits option.splits)

lemma connections_trusted:
  assumes "\<And>x. length (sha256 x) = 32"
  shows "connections sha256 cs fs v = (fs', v') \<Longrightarrow> tv_trusted v' = tv_trusted v"
proof (induction cs arbitrary: fs v)
  case (Cons c cs)
  obtain fs1 v1 r where r: "verifyConnection sha256 c fs v = (fs1, v1, r)" by (metis prod_cases3)
  with Cons.prems have "connections sha256 cs fs1 v1 = (fs', v')" by simp
  from Cons.IH [OF this] verify_iff(3) [OF assms r] show ?case by simp
qed simp

text \<open>
  C32. A client accepts the pinned coordinator only. A client that starts has a pin: the
  fingerprint given to it, or else the one in the trust record. After any connections, a further
  connection succeeds only if the certificate presented first has the pinned SHA-256 hash; it
  does succeed when it has and no trust record must be written; and a connection that is
  refused for its certificate leaves the disk alone.
\<close>

theorem client_pins_coordinator:
  assumes "\<And>x. length (sha256 x) = 32"
    and "NewCoordinatorClientConfig fs tf ex = Inr v"
    and "connections sha256 cs fs v = (fs1, v1)"
    and "verifyConnection sha256 peers fs1 v1 = (fs2, v2, r)"
  shows "\<exists>pin. pin_of fs tf ex = Inr pin \<and> length pin = 64 \<and>
    (r = None \<longrightarrow> (\<exists>raw rest. peers = raw # rest \<and> hex_of (sha256 raw) = pin)) \<and>
    (\<forall>raw rest. peers = raw # rest \<and> hex_of (sha256 raw) = pin \<and> \<not> tv_needsUpdate v1 \<longrightarrow> r = None) \<and>
    (peers = [] \<or> hex_of (sha256 (hd peers)) \<noteq> pin \<longrightarrow> fs2 = fs1)"
proof -
  note cfg = config_verifier [OF assms(2)]
  have t: "tv_trusted v1 = tv_trusted v" using connections_trusted [OF assms(1,3)] .
  note vi = verify_iff [OF assms(1,4)]
  have "length (tv_trusted v) = 64" using cfg(2) by (simp add: normal_def)
  moreover have "r = None \<Longrightarrow> \<exists>raw rest. peers = raw # rest \<and> hex_of (sha256 raw) = tv_trusted v"
    using vi(1) t by simp
  moreover have "\<forall>raw rest. peers = raw # rest \<and> hex_of (sha256 raw) = tv_trusted v \<and> \<not> tv_needsUpdate v1 \<longrightarrow> r = None"
    using vi(2) t by auto
  moreover have "peers = [] \<or> hex_of (sha256 (hd peers)) \<noteq> tv_trusted v \<longrightarrow> fs2 = fs1"
    using vi(5) t by auto
  ultimately show ?thesis using cfg(1) by blast
qed

text \<open>A hash whose values have 32 bytes, for examples.\<close>

definition ex_sha :: "string \<Rightarrow> string" where
  "ex_sha x = take 32 (x @ replicate 32 (CHR 0x00))"

lemma ex_sha_length: "length (ex_sha x) = 32"
  by (simp add: ex_sha_def)

definition ex_disk :: "(string \<Rightarrow> fnode option) \<Rightarrow> FS" where
  "ex_disk nodes = \<lparr>fs_node = nodes, fs_fault = (\<lambda>c p. None), fs_partial = (\<lambda>p. 0)\<rparr>"

definition ex_pin :: string where
  "ex_pin = replicate 64 (CHR ''0'')"

definition ex_verifier :: trustVerifier where
  "ex_verifier = \<lparr>tv_trustFile = ''/c/t'', tv_trusted = ex_pin, tv_explicit = ex_pin, tv_needsUpdate = True\<rparr>"

lemma ex_config_at:
  assumes "tf \<notin> {[], ''.'', ''/''}"
  shows "NewCoordinatorClientConfig (ex_disk Map.empty) tf ex_pin = Inr (ex_verifier\<lparr>tv_trustFile := tf\<rparr>)"
proof -
  have h: "list_all upper_hex ex_pin" "length ex_pin = 64"
    by (simp_all add: ex_pin_def list_all_iff upper_hex_def is_digit_def byte_def)
  have "filter (\<lambda>c. c \<noteq> CHR '':'') ex_pin = ex_pin" by (simp add: ex_pin_def)
  moreover have "list_all is_hex ex_pin" "list_all plain_char ex_pin" using h(1) by (simp_all add: list_all_iff upper_hex_facts)
  ultimately have "normalizeFingerprint ex_pin = Inr ex_pin"
    using h by (simp add: normalizeFingerprint_def Let_def TrimSpace_plain ToUpper_upper_hex)
  moreover have "ex_pin \<noteq> []" by (simp add: ex_pin_def)
  ultimately show ?thesis using assms
    by (simp add: NewCoordinatorClientConfig_def readTrustRecord_def os_ReadFile_def node_at_def ex_disk_def ex_verifier_def)
qed

lemma ex_config: "NewCoordinatorClientConfig (ex_disk Map.empty) ''/c/t'' ex_pin = Inr ex_verifier"
  using ex_config_at [of "''/c/t''"] by (simp add: ex_verifier_def)

theorem client_pins_coordinator_witness:
  "\<exists>r. verifyConnection ex_sha [[CHR 0x01]] (ex_disk Map.empty) ex_verifier = (ex_disk Map.empty, ex_verifier, Some r)"
proof -
  obtain fs2 v2 r where r: "verifyConnection ex_sha [[CHR 0x01]] (ex_disk Map.empty) ex_verifier = (fs2, v2, r)"
    by (metis prod_cases3)
  have pin: "pin_of (ex_disk Map.empty) ''/c/t'' ex_pin = Inr ex_pin"
    using config_verifier(1) [OF ex_config] by (simp add: ex_verifier_def)
  have ne: "hex_of (ex_sha [CHR 0x01]) \<noteq> ex_pin" by code_simp
  from client_pins_coordinator [OF ex_sha_length ex_config _ r, of "[]"] pin ne
  have "r \<noteq> None \<and> fs2 = ex_disk Map.empty" by auto
  moreover from this r have "v2 = ex_verifier"
    by (auto simp: verifyConnection_def Let_def split: if_splits prod.splits option.splits)
  ultimately show ?thesis using r by auto
qed

section \<open>The trust record\<close>

lemma write_trust_ok:
  assumes "writeTrustRecord p fp fs = (fs', None)"
  shows "fs_node fs' p = Some (RegularFile 384 (fp @ [CHR 0x0A]))" and "p \<noteq> ''.''" and "p \<noteq> ''/''"
proof -
  obtain fs1 where m: "os_MkdirAll (filepath_Dir p) fs = (fs1, None)"
    using assms by (auto simp: writeTrustRecord_def split: prod.splits option.splits)
  obtain fs2 where o: "open_truncate p 384 fs1 = (fs2, None)"
    using assms m by (auto simp: writeTrustRecord_def split: prod.splits option.splits)
  then have p: "p \<noteq> ''.'' \<and> p \<noteq> ''/'' \<and> (\<exists>mode. fs_node fs2 p = Some (RegularFile mode []))"
    by (auto simp: open_truncate_def node_at_def fs_put_def split: option.splits fnode.splits if_splits)
  obtain fs3 where c: "file_Chmod p 384 fs2 = (fs3, None)"
    using assms m o by (auto simp: writeTrustRecord_def split: prod.splits option.splits)
  with p have f3: "fs_node fs3 p = Some (RegularFile 384 [])"
    by (auto simp: file_Chmod_def fs_put_def split: option.splits)
  obtain fs4 where w: "file_Write p (fp @ [CHR 0x0A]) fs3 = (fs4, None)"
    using assms m o c by (auto simp: writeTrustRecord_def split: prod.splits option.splits)
  with f3 have "fs_node fs4 p = Some (RegularFile 384 (fp @ [CHR 0x0A]))"
    by (auto simp: file_Write_def file_append_def fs_put_def split: option.splits)
  moreover have "fs' = fs4"
    using assms m o c w by (auto simp: writeTrustRecord_def split: option.splits)
  ultimately show "fs_node fs' p = Some (RegularFile 384 (fp @ [CHR 0x0A]))" and "p \<noteq> ''.''" and "p \<noteq> ''/''"
    using p by simp_all
qed

lemma write_read_trust:
  assumes "writeTrustRecord p (formatFingerprint h) fs = (fs', None)" and "normal h" and "fs_fault fs' CallRead p = None"
  shows "readTrustRecord fs' p = Inr h"
proof -
  note w = write_trust_ok [OF assms(1)]
  have h: "list_all upper_hex h" "length h = 64" "h \<noteq> []" using assms(2) by (auto simp: normal_def)
  have "list_all plain_char (formatFingerprint h)" using format_facts(2) h(1) .
  then show ?thesis
    using w assms(3) h normalize_format [OF h(1,2)]
    by (simp add: readTrustRecord_def os_ReadFile_def node_at_def TrimSpace_plain)
qed

text \<open>
  C33. The trust record brings the pin back. When a client that was given a fingerprint has
  connected once, a later client that is given none starts, pins the same fingerprint, and
  accepts every connection to a coordinator that presents it (so the coordinator it has accepted
  before), with nothing left to write.
\<close>

theorem trust_record_roundtrip:
  assumes "\<And>x. length (sha256 x) = 32"
    and "NewCoordinatorClientConfig fs tf ex = Inr v" and "ex \<noteq> []"
    and "verifyConnection sha256 peers fs v = (fs', v', None)"
    and "fs_fault fs' CallRead tf = None"
  shows "\<exists>w. NewCoordinatorClientConfig fs' tf [] = Inr w \<and> pin_of fs' tf [] = pin_of fs tf ex \<and>
    verifyConnection sha256 peers fs2 w = (fs2, w, None)"
proof -
  note cfg = config_verifier [OF assms(2)]
  obtain raw rest where peers: "peers = raw # rest" "hex_of (sha256 raw) = tv_trusted v"
    using verify_iff(1) [OF assms(1,4)] by blast
  have rd: "readTrustRecord fs' tf = Inr (tv_trusted v)"
  proof (cases "tv_needsUpdate v")
    case True
    with assms(4) have "writeTrustRecord tf (formatFingerprint (tv_trusted v)) fs = (fs', None)"
      unfolding peers(1) verifyConnection_def
      by (simp add: Let_def Fingerprint_normal [OF assms(1)] peers(2) cfg(3) split: prod.splits option.splits)
    from write_read_trust [OF this cfg(2) assms(5)] show ?thesis .
  next
    case False
    with verify_iff(5) [OF assms(1,4)] have "fs' = fs" by simp
    with cfg(5) [OF assms(3) False] show ?thesis by simp
  qed
  have ne: "tv_trusted v \<noteq> []" using cfg(2) by (auto simp: normal_def)
  have tf: "tf \<noteq> []" using assms(2) by (auto simp: NewCoordinatorClientConfig_def split: if_splits)
  let ?w = "\<lparr>tv_trustFile = tf, tv_trusted = tv_trusted v, tv_explicit = [], tv_needsUpdate = False\<rparr>"
  have "NewCoordinatorClientConfig fs' tf [] = Inr ?w"
    using rd ne tf by (simp add: NewCoordinatorClientConfig_def normalizeFingerprint_def)
  moreover have "verifyConnection sha256 peers fs2 ?w = (fs2, ?w, None)"
    unfolding peers(1) verifyConnection_def using peers(2) by (simp add: Let_def Fingerprint_normal [OF assms(1)])
  ultimately show ?thesis using cfg(1) rd by (auto simp: pin_of_def)
qed

definition ex_zero :: string where
  "ex_zero = []"

theorem trust_record_roundtrip_witness:
  "\<exists>fs' w. NewCoordinatorClientConfig fs' ''/c/t'' [] = Inr w \<and> pin_of fs' ''/c/t'' [] = Inr ex_pin"
proof -
  let ?fs = "ex_disk Map.empty"
  have hx: "hex_of (ex_sha ex_zero) = ex_pin" by code_simp
  have nf: "normalizeFingerprint (Fingerprint ex_sha ex_zero) = Inr ex_pin"
    using Fingerprint_normal [OF ex_sha_length] hx by simp
  obtain fs' e where w: "writeTrustRecord ''/c/t'' (formatFingerprint ex_pin) ?fs = (fs', e)" by (meson surj_pair)
  have dir: "filepath_Dir ''/c/t'' = ''/c''" and pre: "path_prefixes ''/c'' = [''/c'']" by code_simp+
  have e: "e = None \<and> fs_fault fs' = (\<lambda>c p. None)"
    using w by (auto simp: writeTrustRecord_def os_MkdirAll_def dir pre make_dir_def node_at_def ex_disk_def fs_put_def
      open_truncate_def file_Chmod_def file_Write_def file_append_def file_call_def)
  have v: "verifyConnection ex_sha [ex_zero] ?fs ex_verifier = (fs', ex_verifier\<lparr>tv_needsUpdate := False\<rparr>, None)"
    using w e nf by (simp add: verifyConnection_def ex_verifier_def)
  have "ex_pin \<noteq> []" by (simp add: ex_pin_def)
  moreover have "fs_fault fs' CallRead ''/c/t'' = None" using e by simp
  ultimately have "\<exists>w. NewCoordinatorClientConfig fs' ''/c/t'' [] = Inr w \<and> pin_of fs' ''/c/t'' [] = pin_of ?fs ''/c/t'' ex_pin"
    using trust_record_roundtrip [OF ex_sha_length ex_config _ v, of fs'] by blast
  then show ?thesis using config_verifier(1) [OF ex_config] by (auto simp: ex_verifier_def)
qed

section \<open>The identity of the coordinator\<close>

text \<open>\<open>extends fs fs'\<close>: whatever was there is still there, unchanged; the calls fail as before.\<close>

definition extends :: "FS \<Rightarrow> FS \<Rightarrow> bool" where
  "extends fs fs' = ((\<forall>p n. fs_node fs p = Some n \<longrightarrow> fs_node fs' p = Some n) \<and> fs_fault fs' = fs_fault fs)"

lemma extends_refl [simp, intro]: "extends fs fs"
  by (simp add: extends_def)

lemma extends_trans [trans]: "extends fs gs \<Longrightarrow> extends gs hs \<Longrightarrow> extends fs hs"
  by (simp add: extends_def)

lemma extends_new: "fs_node fs p = None \<Longrightarrow> extends fs (fs_put p n fs)"
  by (auto simp: extends_def fs_put_def)

lemma node_at_extends: "extends fs fs' \<Longrightarrow> node_at fs p = Some n \<Longrightarrow> node_at fs' p = Some n"
  by (auto simp: extends_def node_at_def split: if_splits)

lemma make_dirs_extend: "extends fs (fold make_dir ps fs)"
proof (induction ps arbitrary: fs)
  case (Cons p ps)
  have "extends fs (make_dir p fs)" by (auto simp: make_dir_def node_at_def intro: extends_new split: if_splits)
  also have "extends \<dots> (fold make_dir ps (make_dir p fs))" by (rule Cons.IH)
  finally show ?case by simp
qed simp

lemma MkdirAll_extends: "os_MkdirAll d fs = (fs', r) \<Longrightarrow> extends fs fs'"
  using make_dirs_extend by (auto simp: os_MkdirAll_def split: option.splits if_splits)

lemma append_new:
  "fs_node fs p = None \<Longrightarrow> \<exists>text. file_append p t (fs_put p (RegularFile mode []) fs) = fs_put p (RegularFile mode t) fs"
  by (simp add: file_append_def fs_put_def)

lemma writeExclusive_extends:
  assumes "writeExclusive p t mode fs = (fs', r)"
  shows "extends fs fs'" and "r = None \<Longrightarrow> node_at fs p = None \<and> node_at fs' p = Some (RegularFile mode t)"
proof -
  obtain fs1 e where o: "open_exclusive p mode fs = (fs1, e)" by (meson surj_pair)
  have "extends fs fs' \<and> (r = None \<longrightarrow> node_at fs p = None \<and> node_at fs' p = Some (RegularFile mode t))"
  proof (cases e)
    case (Some x)
    with o assms have "fs' = fs" "r \<noteq> None"
      by (auto simp: writeExclusive_def open_exclusive_def split: option.splits if_splits)
    then show ?thesis by auto
  next
    case None
    with o have n: "node_at fs p = None" "fs1 = fs_put p (RegularFile mode []) fs"
      by (auto simp: open_exclusive_def split: option.splits if_splits)
    then have new: "fs_node fs p = None" and p: "p \<noteq> ''.''" "p \<noteq> ''/''" by (auto simp: node_at_def split: if_splits)
    obtain u where "fs' = fs_put p (RegularFile mode u) fs" and "r = None \<Longrightarrow> u = t"
      using assms o None append_new [OF new]
      by (auto simp: writeExclusive_def file_Write_def file_append_def n(2) fs_put_def split: option.splits prod.splits)
    with extends_new [OF new] n(1) p show ?thesis by (auto simp: node_at_def fs_put_def)
  qed
  then show "extends fs fs'" and "r = None \<Longrightarrow> node_at fs p = None \<and> node_at fs' p = Some (RegularFile mode t)"
    by simp_all
qed

lemma persist_extends:
  assumes "persistIdentity c k cp kp fs = (fs', r)"
  shows "extends fs fs'"
    and "r = None \<Longrightarrow> node_at fs' c = Some (RegularFile 420 cp) \<and> node_at fs' k = Some (RegularFile 384 kp)"
proof -
  obtain fs1 e where m: "os_MkdirAll (filepath_Dir c) fs = (fs1, e)" by (meson surj_pair)
  obtain fs2 e2 where k: "writeExclusive k kp 384 fs1 = (fs2, e2)" by (meson surj_pair)
  obtain fs3 e3 where c: "writeExclusive c cp 420 fs2 = (fs3, e3)" by (meson surj_pair)
  note 1 = MkdirAll_extends [OF m] and 2 = writeExclusive_extends [OF k] and 3 = writeExclusive_extends [OF c]
  have "extends fs fs2" "extends fs fs3" using extends_trans [OF 1 2(1)] extends_trans [OF _ 3(1)] by blast+
  moreover have "fs' = fs \<or> fs' = fs1 \<or> fs' = fs2 \<or> fs' = fs3"
    and "r = None \<Longrightarrow> e2 = None \<and> e3 = None \<and> fs' = fs3"
    using assms m k c by (auto simp: persistIdentity_def split: if_splits option.splits)
  ultimately show "extends fs fs'"
    and "r = None \<Longrightarrow> node_at fs' c = Some (RegularFile 420 cp) \<and> node_at fs' k = Some (RegularFile 384 kp)"
    using 1 2(2) 3(2) node_at_extends [OF 3(1)] by auto
qed

lemma fileExists_iff:
  "fileExists fs p = Inr b \<Longrightarrow> b = (node_at fs p \<noteq> None)"
  "fs_fault fs CallStat p = None \<Longrightarrow> fileExists fs p = Inr (node_at fs p \<noteq> None)"
  by (auto simp: fileExists_def os_Stat_def split: option.splits sum.splits os_error.splits)

lemma load_reads:
  "loadIdentity lib fs c k = Inr i \<Longrightarrow> \<exists>cp kp leaf chain. os_ReadFile fs c = Inr cp \<and> os_ReadFile fs k = Inr kp \<and>
     x_keyPair lib cp kp = Inr (leaf # chain) \<and> x_parse lib leaf = None \<and>
     i = \<lparr>ci_Certificate = leaf # chain, ci_Fingerprint = Fingerprint (x_sha256 lib) leaf,
            ci_CertFile = c, ci_KeyFile = k, ci_Created = False, ci_Migrated = False\<rparr>"
  by (auto simp: loadIdentity_def split: sum.splits list.splits option.splits)

lemma read_there: "os_ReadFile fs p = Inr t \<Longrightarrow> \<exists>mode. node_at fs p = Some (RegularFile mode t)"
  by (auto simp: os_ReadFile_def split: option.splits fnode.splits)

lemma reads: "fs_fault fs CallRead p = None \<Longrightarrow> node_at fs p = Some (RegularFile mode t) \<Longrightarrow> os_ReadFile fs p = Inr t"
  by (simp add: os_ReadFile_def)

text \<open>
  What a successful start leaves behind: nothing that was there has changed, both files are there,
  and the pair in them is the identity returned.
\<close>

definition stored_pair :: "x509 \<Rightarrow> IdentityOptions \<Rightarrow> FS \<Rightarrow> CoordinatorIdentity \<Rightarrow> bool" where
  "stored_pair lib opts fs i = (\<exists>m cp m' kp. node_at fs (io_CertFile opts) = Some (RegularFile m cp) \<and>
     node_at fs (io_KeyFile opts) = Some (RegularFile m' kp) \<and> x_keyPair lib cp kp = Inr (ci_Certificate i) \<and>
     ci_Certificate i \<noteq> [] \<and> x_parse lib (hd (ci_Certificate i)) = None \<and>
     ci_Fingerprint i = Fingerprint (x_sha256 lib) (hd (ci_Certificate i)) \<and>
     ci_CertFile i = io_CertFile opts \<and> ci_KeyFile i = io_KeyFile opts)"

lemma load_stored:
  "loadIdentity lib fs (io_CertFile opts) (io_KeyFile opts) = Inr i \<Longrightarrow> stored_pair lib opts fs i"
  by (drule load_reads, elim exE conjE, drule read_there, drule read_there) (auto simp: stored_pair_def)

lemma migrate_stored:
  assumes "migrate_legacy lib opts fs = (fs', r)"
  shows "extends fs fs'" and "r = Inr i \<Longrightarrow> stored_pair lib opts fs' i"
proof -
  have "extends fs fs' \<and> (r = Inr i \<longrightarrow> stored_pair lib opts fs' i)"
  proof (cases "loadIdentity lib fs (io_LegacyCertFile opts) (io_LegacyKeyFile opts)")
    case (Inl e)
    with assms show ?thesis by (auto simp: migrate_legacy_def)
  next
    case (Inr l)
    from load_reads [OF Inr] obtain cp kp leaf chain where l:
      "os_ReadFile fs (io_LegacyCertFile opts) = Inr cp" "os_ReadFile fs (io_LegacyKeyFile opts) = Inr kp"
      "x_keyPair lib cp kp = Inr (leaf # chain)" "x_parse lib leaf = None" "ci_Certificate l = leaf # chain"
      "ci_Fingerprint l = Fingerprint (x_sha256 lib) leaf" by auto
    obtain fs1 e where p: "persistIdentity (io_CertFile opts) (io_KeyFile opts) cp kp fs = (fs1, e)" by (meson surj_pair)
    show ?thesis
    proof (cases e)
      case None
      with persist_extends [OF p] have q: "extends fs fs1"
        "node_at fs1 (io_CertFile opts) = Some (RegularFile 420 cp)" "node_at fs1 (io_KeyFile opts) = Some (RegularFile 384 kp)" by auto
      moreover have "fs' = fs1" "r = Inr (l\<lparr>ci_CertFile := io_CertFile opts, ci_KeyFile := io_KeyFile opts, ci_Migrated := True\<rparr>)"
        using assms Inr l(1,2) p None by (simp_all add: migrate_legacy_def)
      ultimately show ?thesis using l by (auto simp: stored_pair_def)
    next
      case (Some x)
      then show ?thesis using assms Inr l(1,2) p persist_extends(1) [OF p] by (auto simp: migrate_legacy_def)
    qed
  qed
  then show "extends fs fs'" and "r = Inr i \<Longrightarrow> stored_pair lib opts fs' i" by simp_all
qed

lemma create_stored:
  assumes "create_identity lib g opts fs = (fs', r)"
  shows "extends fs fs'" and "r = Inr i \<Longrightarrow> stored_pair lib opts fs' i"
proof -
  have "extends fs fs' \<and> (r = Inr i \<longrightarrow> stored_pair lib opts fs' i)"
  proof (cases g)
    case (Inl e)
    with assms show ?thesis by (auto simp: create_identity_def)
  next
    case (Inr gp)
    obtain cp kp where gp: "gp = (cp, kp)" by (meson surj_pair)
    obtain fs1 e where p: "persistIdentity (io_CertFile opts) (io_KeyFile opts) cp kp fs = (fs1, e)" by (meson surj_pair)
    have f: "fs' = fs1" using assms p by (auto simp: create_identity_def Inr gp split: option.splits sum.splits)
    have "stored_pair lib opts fs' i" if "r = Inr i"
    proof -
      from that assms p obtain j where j: "loadIdentity lib fs1 (io_CertFile opts) (io_KeyFile opts) = Inr j" "i = j\<lparr>ci_Created := True\<rparr>"
        by (auto simp: create_identity_def Inr gp split: option.splits sum.splits)
      with load_stored [OF j(1)] f show ?thesis by (simp add: stored_pair_def)
    qed
    with persist_extends(1) [OF p] f show ?thesis by blast
  qed
  then show "extends fs fs'" and "r = Inr i \<Longrightarrow> stored_pair lib opts fs' i" by simp_all
qed

lemma identity_stored:
  assumes "LoadOrCreateCoordinatorIdentity lib g opts fs = (fs', r)"
  shows "extends fs fs'" and "r = Inr i \<Longrightarrow> stored_pair lib opts fs' i"
proof -
  have "extends fs fs' \<and> (r = Inr i \<longrightarrow> stored_pair lib opts fs' i)"
    using assms load_stored migrate_stored create_stored unfolding LoadOrCreateCoordinatorIdentity_def
    by (auto split: if_splits sum.splits)
  then show "extends fs fs'" and "r = Inr i \<Longrightarrow> stored_pair lib opts fs' i" by simp_all
qed

text \<open>
  C34. The identity of the coordinator is stable. A start never changes or removes a file that
  is there; when only one of the two files is there it fails and writes nothing; and when it
  succeeds (by loading, migrating or creating), every later start with these files returns the
  same certificates and fingerprint, whatever a generator would now produce, and writes nothing.
\<close>

theorem coordinator_identity_stable:
  assumes "LoadOrCreateCoordinatorIdentity lib g opts fs = (fs', r)"
  shows "(\<forall>p n. fs_node fs p = Some n \<longrightarrow> fs_node fs' p = Some n) \<and>
    ((node_at fs (io_CertFile opts) = None) \<noteq> (node_at fs (io_KeyFile opts) = None) \<longrightarrow> fs' = fs \<and> (\<exists>e. r = Inl e)) \<and>
    (\<forall>i. r = Inr i \<and> (\<forall>c \<in> {CallStat, CallRead}. \<forall>p \<in> {io_CertFile opts, io_KeyFile opts}. fs_fault fs c p = None) \<longrightarrow>
       LoadOrCreateCoordinatorIdentity lib g' opts fs' = (fs', Inr (i\<lparr>ci_Created := False, ci_Migrated := False\<rparr>)))"
proof (intro conjI allI impI)
  fix p n
  assume "fs_node fs p = Some n"
  then show "fs_node fs' p = Some n" using identity_stored(1) [OF assms] by (simp add: extends_def)
next
  assume "(node_at fs (io_CertFile opts) = None) \<noteq> (node_at fs (io_KeyFile opts) = None)"
  then have "fs' = fs \<and> (\<exists>e. r = Inl e)"
    using assms unfolding LoadOrCreateCoordinatorIdentity_def by (auto split: if_splits sum.splits dest!: fileExists_iff(1))
  then show "fs' = fs" and "\<exists>e. r = Inl e" by simp_all
next
  fix i
  assume a: "r = Inr i \<and> (\<forall>c \<in> {CallStat, CallRead}. \<forall>p \<in> {io_CertFile opts, io_KeyFile opts}. fs_fault fs c p = None)"
  have ne: "io_CertFile opts \<noteq> []" "io_KeyFile opts \<noteq> []"
    using assms a by (auto simp: LoadOrCreateCoordinatorIdentity_def)
  have ff: "fs_fault fs' = fs_fault fs" using identity_stored(1) [OF assms] by (simp add: extends_def)
  from identity_stored(2) [OF assms, of i] a obtain m cp m' kp where st:
    "node_at fs' (io_CertFile opts) = Some (RegularFile m cp)" "node_at fs' (io_KeyFile opts) = Some (RegularFile m' kp)"
    "x_keyPair lib cp kp = Inr (ci_Certificate i)" "ci_Certificate i \<noteq> []" "x_parse lib (hd (ci_Certificate i)) = None"
    "ci_Fingerprint i = Fingerprint (x_sha256 lib) (hd (ci_Certificate i))"
    "ci_CertFile i = io_CertFile opts" "ci_KeyFile i = io_KeyFile opts"
    by (auto simp: stored_pair_def)
  have "os_ReadFile fs' (io_CertFile opts) = Inr cp" "os_ReadFile fs' (io_KeyFile opts) = Inr kp"
    using reads a ff st(1,2) by auto
  moreover obtain leaf chain where lc: "ci_Certificate i = leaf # chain" using st(4) by (cases "ci_Certificate i") auto
  ultimately have "loadIdentity lib fs' (io_CertFile opts) (io_KeyFile opts) = Inr (i\<lparr>ci_Created := False, ci_Migrated := False\<rparr>)"
    using st by (simp add: loadIdentity_def)
  moreover have "fileExists fs' (io_CertFile opts) = Inr True" "fileExists fs' (io_KeyFile opts) = Inr True"
    using fileExists_iff(2) a ff st(1,2) by auto
  ultimately show "LoadOrCreateCoordinatorIdentity lib g' opts fs' = (fs', Inr (i\<lparr>ci_Created := False, ci_Migrated := False\<rparr>))"
    using ne by (simp add: LoadOrCreateCoordinatorIdentity_def)
qed

definition ex_lib :: x509 where
  "ex_lib = \<lparr>x_sha256 = ex_sha, x_keyPair = (\<lambda>c k. if k = c @ ''key'' then Inr [c] else Inl ''mismatch''), x_parse = (\<lambda>c. None)\<rparr>"

definition ex_opts :: IdentityOptions where
  "ex_opts = \<lparr>io_CertFile = ''/c/cert'', io_KeyFile = ''/c/key'', io_LegacyCertFile = ''old'', io_LegacyKeyFile = ''oldkey''\<rparr>"

theorem coordinator_identity_stable_witness:
  "\<exists>fs' i. LoadOrCreateCoordinatorIdentity ex_lib (Inr (''A'', ''Akey'')) ex_opts (ex_disk Map.empty) = (fs', Inr i) \<and> ci_Created i \<and>
     LoadOrCreateCoordinatorIdentity ex_lib (Inr (''B'', ''Bkey'')) ex_opts fs' = (fs', Inr (i\<lparr>ci_Created := False, ci_Migrated := False\<rparr>))"
proof -
  have dir: "filepath_Dir ''/c/cert'' = ''/c''" "filepath_Dir ''/c/key'' = ''/c''" and pre: "path_prefixes ''/c'' = [''/c'']" by code_simp+
  let ?d = "ex_disk Map.empty"
  let ?fs = "fs_put ''/c/cert'' (RegularFile 420 ''A'') (fs_put ''/c/key'' (RegularFile 384 ''Akey'') (fs_put ''/c'' Directory ?d))"
  let ?i = "\<lparr>ci_Certificate = [''A''], ci_Fingerprint = Fingerprint ex_sha ''A'', ci_CertFile = ''/c/cert'', ci_KeyFile = ''/c/key'',
    ci_Created = True, ci_Migrated = False\<rparr>"
  have m: "os_MkdirAll ''/c'' ?d = (fs_put ''/c'' Directory ?d, None)"
    by (simp add: os_MkdirAll_def pre make_dir_def node_at_def ex_disk_def fs_put_def)
  have k: "writeExclusive ''/c/key'' ''Akey'' 384 (fs_put ''/c'' Directory ?d) = (fs_put ''/c/key'' (RegularFile 384 ''Akey'') (fs_put ''/c'' Directory ?d), None)"
    by (simp add: writeExclusive_def open_exclusive_def dir file_Write_def file_append_def file_call_def node_at_def ex_disk_def fs_put_def)
  have c: "writeExclusive ''/c/cert'' ''A'' 420 (fs_put ''/c/key'' (RegularFile 384 ''Akey'') (fs_put ''/c'' Directory ?d)) = (?fs, None)"
    by (simp add: writeExclusive_def open_exclusive_def dir file_Write_def file_append_def file_call_def node_at_def ex_disk_def fs_put_def)
  have "LoadOrCreateCoordinatorIdentity ex_lib (Inr (''A'', ''Akey'')) ex_opts ?d = create_identity ex_lib (Inr (''A'', ''Akey'')) ex_opts ?d"
    by (simp add: LoadOrCreateCoordinatorIdentity_def ex_opts_def fileExists_def optionalFileExists_def os_Stat_def node_at_def ex_disk_def)
  moreover have "loadIdentity ex_lib ?fs ''/c/cert'' ''/c/key'' = Inr (?i\<lparr>ci_Created := False\<rparr>)"
    by (simp add: loadIdentity_def os_ReadFile_def node_at_def fs_put_def ex_disk_def ex_lib_def)
  ultimately have l: "LoadOrCreateCoordinatorIdentity ex_lib (Inr (''A'', ''Akey'')) ex_opts ?d = (?fs, Inr ?i)"
    by (simp add: create_identity_def persistIdentity_def ex_opts_def dir m k c)
  have "LoadOrCreateCoordinatorIdentity ex_lib (Inr (''B'', ''Bkey'')) ex_opts ?fs = (?fs, Inr (?i\<lparr>ci_Created := False, ci_Migrated := False\<rparr>))"
    using coordinator_identity_stable [OF l, of "Inr (''B'', ''Bkey'')"] by (simp add: ex_disk_def)
  with l show ?thesis by auto
qed

end
