(* ===== verification/Executor.thy ===== *)
theory Executor
  imports JsonText Workload
begin

text \<open>
  \<open>internal/worker/executor.go\<close>: what a worker runs for a task. The parser of \<open>net/url\<close>, the
  answers of the servers that a probe meets and the clock are arguments; the redirect loop of
  \<open>http.Client\<close> and \<open>time.ParseDuration\<close> are written out.
\<close>

section \<open>Durations\<close>

text \<open>
  \<open>time.ParseDuration\<close>. \<open>leading_int\<close> and \<open>leading_fraction\<close> consume digits; the latter ignores
  digits that no longer fit and returns the value with its scale. The product of a fraction with
  its unit is done in floating point by the library: \<open>frac\<close> gives it, cut to an integer.
\<close>

fun leading_int :: "string \<Rightarrow> nat \<Rightarrow> (nat \<times> string) option" where
  "leading_int [] x = Some (x, [])"
| "leading_int (c # s) x =
     (if \<not> is_digit c then Some (x, c # s)
      else if x > 922337203685477580 then None
      else let y = x * 10 + (byte c - 48) in if y > 9223372036854775808 then None else leading_int s y)"

fun leading_fraction :: "string \<Rightarrow> nat \<Rightarrow> nat \<Rightarrow> bool \<Rightarrow> nat \<times> nat \<times> string" where
  "leading_fraction [] x scale overflow = (x, scale, [])"
| "leading_fraction (c # s) x scale overflow =
     (if \<not> is_digit c then (x, scale, c # s)
      else if overflow \<or> x > 922337203685477580 then leading_fraction s x scale True
      else let y = x * 10 + (byte c - 48)
           in if y > 9223372036854775808 then leading_fraction s x scale True
              else leading_fraction s y (scale * 10) False)"

definition unit_ns :: "string \<Rightarrow> nat option" where
  "unit_ns u =
     (if u = ''ns'' then Some 1
      else if u = ''us'' \<or> u = [CHR 0xC2, CHR 0xB5, CHR ''s''] \<or> u = [CHR 0xCE, CHR 0xBC, CHR ''s''] then Some 1000
      else if u = ''ms'' then Some 1000000
      else if u = ''s'' then Some 1000000000
      else if u = ''m'' then Some 60000000000
      else if u = ''h'' then Some 3600000000000
      else None)"

lemma leading_int_le: "leading_int s x = Some (y, r) \<Longrightarrow> length r \<le> length s"
  by (induction s x rule: leading_int.induct) (auto simp: Let_def split: if_splits)

lemma leading_fraction_le: "leading_fraction s x sc b = (y, sc', r) \<Longrightarrow> length r \<le> length s"
proof (induction s x sc b rule: leading_fraction.induct)
  case (2 c s x sc b)
  then show ?case by (auto simp: Let_def le_SucI split: if_splits)
qed simp

definition unit_char :: "char \<Rightarrow> bool" where
  "unit_char c = (c \<noteq> CHR ''.'' \<and> \<not> is_digit c)"

text \<open>One number with its unit: the nanoseconds and the rest of the text.\<close>

definition parse_part :: "(nat \<Rightarrow> nat \<Rightarrow> nat \<Rightarrow> nat) \<Rightarrow> string \<Rightarrow> (nat \<times> string) option" where
  "parse_part frac s =
     (if s = [] \<or> \<not> (hd s = CHR ''.'' \<or> is_digit (hd s)) then None
      else case leading_int s 0 of
        None \<Rightarrow> None
      | Some (v, s1) \<Rightarrow>
          (let pre = (length s1 \<noteq> length s);
               s2 = (case s1 of c # s' \<Rightarrow> if c = CHR ''.'' then Some s' else None | [] \<Rightarrow> None);
               (f, scale, s3) = (case s2 of Some s' \<Rightarrow> leading_fraction s' 0 1 False | None \<Rightarrow> (0, 1, s1));
               post = (case s2 of Some s' \<Rightarrow> length s3 \<noteq> length s' | None \<Rightarrow> False);
               u = takeWhile unit_char s3
           in if \<not> pre \<and> \<not> post then None
              else if u = [] then None
              else case unit_ns u of
                None \<Rightarrow> None
              | Some unit \<Rightarrow>
                  if v > 9223372036854775808 div unit then None
                  else let v1 = v * unit; v2 = (if f > 0 then v1 + frac f unit scale else v1)
                       in if f > 0 \<and> v2 > 9223372036854775808 then None else Some (v2, dropWhile unit_char s3)))"

lemma parse_part_shorter: "parse_part frac s = Some (v, r) \<Longrightarrow> length r < length s"
proof -
  assume a: "parse_part frac s = Some (v, r)"
  then obtain v0 s1 where s1: "leading_int s 0 = Some (v0, s1)"
    by (auto simp: parse_part_def split: if_splits option.splits)
  let ?s2 = "case s1 of c # s' \<Rightarrow> if c = CHR ''.'' then Some s' else None | [] \<Rightarrow> None"
  obtain f sc s3 where s3: "(case ?s2 of Some s' \<Rightarrow> leading_fraction s' 0 1 False | None \<Rightarrow> (0, 1, s1)) = (f, sc, s3)"
    by (metis prod_cases3)
  have "length s3 \<le> length s1"
    using s3 leading_fraction_le by (fastforce split: option.splits list.splits if_splits)
  then have le: "length s3 \<le> length s" using leading_int_le [OF s1] by simp
  from a s1 s3 have r: "takeWhile unit_char s3 \<noteq> []" "r = dropWhile unit_char s3"
    by (auto simp: parse_part_def Let_def split: if_splits option.splits)
  have "length (takeWhile unit_char s3) + length r = length s3"
    using r(2) by (metis length_append takeWhile_dropWhile_id)
  with r(1) le show "length r < length s" by (cases "takeWhile unit_char s3") auto
qed

function parse_parts :: "(nat \<Rightarrow> nat \<Rightarrow> nat \<Rightarrow> nat) \<Rightarrow> string \<Rightarrow> nat \<Rightarrow> nat option" where
  "parse_parts frac s d =
     (if s = [] then Some d
      else case parse_part frac s of
        None \<Rightarrow> None
      | Some (v, r) \<Rightarrow>
          let d1 = (d + v) mod 18446744073709551616
          in if d1 > 9223372036854775808 then None else parse_parts frac r d1)"
  by pat_completeness auto
termination
  by (relation "measure (\<lambda>(frac, s, d). length s)") (auto dest: parse_part_shorter)

declare parse_parts.simps [simp del]

definition ParseDuration :: "(nat \<Rightarrow> nat \<Rightarrow> nat \<Rightarrow> nat) \<Rightarrow> string \<Rightarrow> duration option" where
  "ParseDuration frac s =
     (let signed = (s \<noteq> [] \<and> (hd s = CHR ''-'' \<or> hd s = CHR ''+''));
          neg = (s \<noteq> [] \<and> hd s = CHR ''-'');
          s1 = (if signed then tl s else s)
      in if s1 = ''0'' then Some 0
         else if s1 = [] then None
         else case parse_parts frac s1 0 of
             None \<Rightarrow> None
           | Some d \<Rightarrow> if neg then Some (- int d) else if d > 9223372036854775807 then None else Some (int d))"

section \<open>The executor\<close>

definition defaultProbeTimeout :: duration where "defaultProbeTimeout = 10 * Second"
definition defaultProbeMaxRedirects :: int where "defaultProbeMaxRedirects = 5"

record HTTPProbeOutput =
  po_StatusCode :: int
  po_FinalURL :: string
  po_ElapsedMilliseconds :: int
  po_DeclaredContentLength :: "int option"
  po_TLSCertificateExpiry :: string
  po_ErrorCategory :: string
  po_ErrorMessage :: string

text \<open>\<open>json.Marshal\<close> on the structure, with its tags: every field but one is left out when empty.\<close>

definition probe_json :: "HTTPProbeOutput \<Rightarrow> json" where
  "probe_json p = JObject
     ((if po_StatusCode p = 0 then [] else [(''status_code'', JInt (po_StatusCode p))])
      @ (if po_FinalURL p = [] then [] else [(''final_url'', JString (po_FinalURL p))])
      @ [(''elapsed_ms'', JInt (po_ElapsedMilliseconds p))]
      @ (case po_DeclaredContentLength p of None \<Rightarrow> [] | Some n \<Rightarrow> [(''declared_content_length'', JInt n)])
      @ (if po_TLSCertificateExpiry p = [] then [] else [(''tls_certificate_expiry'', JString (po_TLSCertificateExpiry p))])
      @ (if po_ErrorCategory p = [] then [] else [(''error_category'', JString (po_ErrorCategory p))])
      @ (if po_ErrorMessage p = [] then [] else [(''error_message'', JString (po_ErrorMessage p))]))"

text \<open>What the program reads of a \<open>url.URL\<close>, with its text.\<close>

record URL =
  url_Scheme :: string
  url_Host :: string
  url_User :: "string option"
  url_text :: string

text \<open>
  A transport answers each request with an error, a redirect (to a URL already resolved) or a
  final response, within a timeout; it may remember the requests before.
\<close>

datatype probe_error =
    DeadlineExceeded | RedirectLimit | UnsupportedRedirect | CredentialsRedirect
  | DNSError | CertificateError | OpError | OtherError

record ProbeResponse =
  pr_StatusCode :: int
  pr_ContentLength :: int
  pr_TLSExpiry :: "string option"

datatype hop = HopFails probe_error | HopRedirect URL | HopResponse ProbeResponse

record ProbeExecutor =
  px_transport :: "duration \<Rightarrow> URL list \<Rightarrow> URL \<Rightarrow> hop"
  px_timeout :: duration
  px_maxRedirects :: int

text \<open>\<open>strings.ToLower\<close> of a scheme, which \<open>net/url\<close> admits in ASCII only.\<close>

definition validateProbeURL :: "(string \<Rightarrow> URL option) \<Rightarrow> string \<Rightarrow> string \<times> string + URL" where
  "validateProbeURL parseRequestURI input = (case parseRequestURI input of
       None \<Rightarrow> Inl (''invalid_url'', ''HTTP probe requires a valid absolute URL'')
     | Some target \<Rightarrow>
         if url_Host target = [] then Inl (''invalid_url'', ''HTTP probe requires a valid absolute URL'')
         else let target1 = target\<lparr>url_Scheme := ToLower (url_Scheme target)\<rparr>
              in if url_Scheme target1 \<noteq> ''http'' \<and> url_Scheme target1 \<noteq> ''https''
                 then Inl (''unsupported_scheme'', ''HTTP probe allows only http and https URLs'')
                 else if url_User target1 \<noteq> None
                 then Inl (''url_credentials'', ''HTTP probe URLs must not contain credentials'')
                 else Inr target1)"

definition checkRedirect :: "int \<Rightarrow> URL \<Rightarrow> URL list \<Rightarrow> probe_error option" where
  "checkRedirect maxRedirects u via =
     (let limit = (if maxRedirects \<le> 0 then defaultProbeMaxRedirects else maxRedirects)
      in if int (length via) > limit then Some RedirectLimit
         else if url_Scheme u \<noteq> ''http'' \<and> url_Scheme u \<noteq> ''https'' then Some UnsupportedRedirect
         else if url_User u \<noteq> None then Some CredentialsRedirect
         else None)"

text \<open>
  \<open>client.Do\<close>: send, and follow a redirect when \<open>CheckRedirect\<close> allows it. The result has the
  requests sent. The loop ends because the check counts them.
\<close>

function client_do :: "(URL list \<Rightarrow> URL \<Rightarrow> hop) \<Rightarrow> int \<Rightarrow> URL list \<Rightarrow> URL \<Rightarrow> URL list \<times> (probe_error + URL \<times> ProbeResponse)" where
  "client_do transport maxRedirects via u =
     (case transport via u of
        HopFails e \<Rightarrow> (via @ [u], Inl e)
      | HopResponse r \<Rightarrow> (via @ [u], Inr (u, r))
      | HopRedirect next \<Rightarrow>
          (case checkRedirect maxRedirects next (via @ [u]) of
             Some e \<Rightarrow> (via @ [u], Inl e)
           | None \<Rightarrow> client_do transport maxRedirects (via @ [u]) next))"
  by pat_completeness auto
termination
  by (relation "measure (\<lambda>(t, m, via, u). nat (max m defaultProbeMaxRedirects) - length via)")
    (auto simp: checkRedirect_def Let_def defaultProbeMaxRedirects_def split: if_splits)

declare client_do.simps [simp del]

definition classifyProbeError :: "probe_error \<Rightarrow> string \<times> string" where
  "classifyProbeError err = (case err of
       DeadlineExceeded \<Rightarrow> (''timeout'', ''HTTP probe timed out'')
     | RedirectLimit \<Rightarrow> (''redirect_limit'', ''HTTP probe exceeded the '' @ show_int defaultProbeMaxRedirects @ ''-redirect limit'')
     | DNSError \<Rightarrow> (''dns'', ''HTTP probe DNS lookup failed'')
     | CertificateError \<Rightarrow> (''tls'', ''HTTP probe TLS verification failed'')
     | OpError \<Rightarrow> (''connection'', ''HTTP probe connection failed'')
     | _ \<Rightarrow> (''request'', ''HTTP probe request failed''))"

definition duration_Milliseconds :: "duration \<Rightarrow> int" where
  "duration_Milliseconds d = (if d < 0 then - (- d div 1000000) else d div 1000000)"

text \<open>\<open>elapsed\<close> is what \<open>time.Since(startedAt)\<close> returns where it is called.\<close>

definition marshalProbeFailure :: "duration \<Rightarrow> string \<times> string \<Rightarrow> string \<times> string option" where
  "marshalProbeFailure elapsed = (\<lambda>(category, message).
     (json_text (probe_json \<lparr>po_StatusCode = 0, po_FinalURL = [], po_ElapsedMilliseconds = duration_Milliseconds elapsed,
        po_DeclaredContentLength = None, po_TLSCertificateExpiry = [], po_ErrorCategory = category, po_ErrorMessage = message\<rparr>),
      Some message))"

text \<open>
  The transport gets the timeout. Building the request from the text of a parsed URL
  parses it again, which \<open>reparse\<close> says may fail. The first component has the requests sent.
\<close>

definition executeHTTPProbe :: "ProbeExecutor \<Rightarrow> (string \<Rightarrow> URL option) \<Rightarrow> (URL \<Rightarrow> bool) \<Rightarrow> duration \<Rightarrow> string \<Rightarrow> URL list \<times> string \<times> string option" where
  "executeHTTPProbe e parseRequestURI reparse elapsed input =
     (case validateProbeURL parseRequestURI input of
        Inl failure \<Rightarrow> ([], marshalProbeFailure elapsed failure)
      | Inr target \<Rightarrow>
          if \<not> reparse target then ([], marshalProbeFailure elapsed (''invalid_url'', ''could not create HTTP probe request''))
          else case client_do (px_transport e (if px_timeout e \<le> 0 then defaultProbeTimeout else px_timeout e)) (px_maxRedirects e) [] target of
              (sent, Inl err) \<Rightarrow> (sent, marshalProbeFailure elapsed (classifyProbeError err))
            | (sent, Inr (final, response)) \<Rightarrow>
                (sent, json_text (probe_json \<lparr>po_StatusCode = pr_StatusCode response, po_FinalURL = url_text final,
                   po_ElapsedMilliseconds = duration_Milliseconds elapsed,
                   po_DeclaredContentLength = (if pr_ContentLength response \<ge> 0 then Some (pr_ContentLength response) else None),
                   po_TLSCertificateExpiry = (case pr_TLSExpiry response of None \<Rightarrow> [] | Some t \<Rightarrow> t),
                   po_ErrorCategory = [], po_ErrorMessage = []\<rparr>), None))"

definition executeDiagnosticSleep :: "(nat \<Rightarrow> nat \<Rightarrow> nat \<Rightarrow> nat) \<Rightarrow> string \<Rightarrow> duration \<times> string \<times> string option" where
  "executeDiagnosticSleep frac input = (case ParseDuration frac input of
       Some d \<Rightarrow>
         if d \<le> 0 \<or> d > 5 * Minute then (0, [], Some ''diagnostic_sleep requires a duration between 1ns and 5m'')
         else (d, ''slept for '' @ Duration_String d, None)
     | None \<Rightarrow> (0, [], Some ''diagnostic_sleep requires a duration between 1ns and 5m''))"

text \<open>
  \<open>Execute\<close>: the time slept, the requests sent, and what it returns: the output, the duration
  measured and the error.
\<close>

record Execution =
  xr_slept :: duration
  xr_sent :: "URL list"
  xr_output :: string
  xr_duration :: duration
  xr_error :: "string option"

definition Execute :: "ProbeExecutor \<Rightarrow> (nat \<Rightarrow> nat \<Rightarrow> nat \<Rightarrow> nat) \<Rightarrow> (string \<Rightarrow> URL option) \<Rightarrow> (URL \<Rightarrow> bool) \<Rightarrow>
    duration \<Rightarrow> duration \<Rightarrow> string \<Rightarrow> string \<Rightarrow> Execution" where
  "Execute e frac parseRequestURI reparse elapsed duration taskType input =
     (if taskType = ''diagnostic_sleep'' then
        (case executeDiagnosticSleep frac input of (slept, out, err) \<Rightarrow>
           \<lparr>xr_slept = slept, xr_sent = [], xr_output = out, xr_duration = duration, xr_error = err\<rparr>)
      else if taskType = HTTPProbeType then
        (case executeHTTPProbe e parseRequestURI reparse elapsed input of (sent, out, err) \<Rightarrow>
           \<lparr>xr_slept = 0, xr_sent = sent, xr_output = out, xr_duration = duration, xr_error = err\<rparr>)
      else \<lparr>xr_slept = 0, xr_sent = [], xr_output = [], xr_duration = duration,
             xr_error = Some (''unknown task type: '' @ taskType)\<rparr>)"

definition NewExecutor :: "(duration \<Rightarrow> URL list \<Rightarrow> URL \<Rightarrow> hop) \<Rightarrow> ProbeExecutor" where
  "NewExecutor defaultTransport = \<lparr>px_transport = defaultTransport, px_timeout = defaultProbeTimeout,
     px_maxRedirects = defaultProbeMaxRedirects\<rparr>"

end
