(* ===== verification/ExecutorTheorems.thy ===== *)
theory ExecutorTheorems
  imports Executor
begin

text \<open>The properties of the task executor.\<close>

definition redirect_limit :: "int \<Rightarrow> nat" where
  "redirect_limit m = nat (if m \<le> 0 then defaultProbeMaxRedirects else m)"

definition probe_target :: "URL \<Rightarrow> bool" where
  "probe_target u = ((url_Scheme u = ''http'' \<or> url_Scheme u = ''https'') \<and> url_User u = None)"

lemma checkRedirect_None:
  "checkRedirect m u via = None \<longleftrightarrow> length via \<le> redirect_limit m \<and> probe_target u"
  by (auto simp: checkRedirect_def Let_def redirect_limit_def probe_target_def defaultProbeMaxRedirects_def)

lemma client_do_confined:
  "length via \<le> redirect_limit m \<Longrightarrow> list_all probe_target via \<Longrightarrow> probe_target u \<Longrightarrow>
   client_do tr m via u = (sent, r) \<Longrightarrow>
   length sent \<le> Suc (redirect_limit m) \<and> list_all probe_target sent \<and> (\<exists>rest. sent = via @ u # rest)"
proof (induction tr m via u rule: client_do.induct)
  case (1 tr m via u)
  show ?case
  proof (cases "tr via u")
    case (HopRedirect v)
    show ?thesis
    proof (cases "checkRedirect m v (via @ [u])")
      case None
      with "1.prems" HopRedirect have r: "client_do tr m (via @ [u]) v = (sent, r)"
        by (subst (asm) client_do.simps) simp
      from None have "length (via @ [u]) \<le> redirect_limit m \<and> probe_target v" by (simp add: checkRedirect_None)
      with "1.IH" [OF HopRedirect None] r "1.prems"
      have "length sent \<le> Suc (redirect_limit m) \<and> list_all probe_target sent \<and> (\<exists>rest. sent = (via @ [u]) @ v # rest)" by simp
      then show ?thesis by auto
    next
      case (Some e)
      with "1.prems" HopRedirect have "sent = via @ [u]" by (subst (asm) client_do.simps) simp
      with "1.prems" show ?thesis by simp
    qed
  next
    case (HopFails e)
    with "1.prems" have "sent = via @ [u]" by (subst (asm) client_do.simps) simp
    with "1.prems" show ?thesis by simp
  next
    case (HopResponse e)
    with "1.prems" have "sent = via @ [u]" by (subst (asm) client_do.simps) simp
    with "1.prems" show ?thesis by simp
  qed
qed

lemma valid_probe_target: "validateProbeURL parse input = Inr u \<Longrightarrow> probe_target u"
  by (auto simp: validateProbeURL_def Let_def probe_target_def split: option.splits if_splits)

lemma probe_confined:
  assumes "executeHTTPProbe e parse reparse el input = (sent, out, err)"
  shows "sent = [] \<or> (\<exists>u rest. validateProbeURL parse input = Inr u \<and> sent = u # rest \<and>
    length sent \<le> Suc (redirect_limit (px_maxRedirects e)) \<and> list_all probe_target sent)"
proof (cases "validateProbeURL parse input")
  case (Inr u)
  let ?tr = "px_transport e (if px_timeout e \<le> 0 then defaultProbeTimeout else px_timeout e)"
  obtain s r where s: "client_do ?tr (px_maxRedirects e) [] u = (s, r)" by (meson surj_pair)
  from client_do_confined [OF _ _ valid_probe_target [OF Inr] s]
  have "length s \<le> Suc (redirect_limit (px_maxRedirects e)) \<and> list_all probe_target s \<and> (\<exists>rest. s = u # rest)" by simp
  moreover have "sent = [] \<or> sent = s"
    using assms Inr s by (auto simp: executeHTTPProbe_def split: if_splits sum.splits prod.splits)
  ultimately show ?thesis using Inr by auto
qed (use assms in \<open>auto simp: executeHTTPProbe_def\<close>)

text \<open>
  C35. What a task can make a worker do is confined. Whatever the type and the input of the task
  and whatever servers answer, the execution ends; it sleeps between 0 and five minutes, and only
  for \<open>diagnostic_sleep\<close>; it sends requests only for \<open>http_probe\<close>, the first of them to the URL of
  the input once validated, at most one more than the redirect limit, and every one of them to an
  http or https URL without credentials.
\<close>

theorem executor_confined:
  fixes e frac parse reparse elapsed dur ty input
  defines "x \<equiv> Execute e frac parse reparse elapsed dur ty input"
  shows "0 \<le> xr_slept x \<and> xr_slept x \<le> 5 * Minute \<and> (xr_slept x \<noteq> 0 \<longrightarrow> ty = ''diagnostic_sleep'') \<and>
    length (xr_sent x) \<le> Suc (redirect_limit (px_maxRedirects e)) \<and>
    (\<forall>u \<in> set (xr_sent x). (url_Scheme u = ''http'' \<or> url_Scheme u = ''https'') \<and> url_User u = None) \<and>
    (xr_sent x \<noteq> [] \<longrightarrow> ty = ''http_probe'' \<and> validateProbeURL parse input = Inr (hd (xr_sent x)))"
proof -
  obtain sl so se where sleep: "executeDiagnosticSleep frac input = (sl, so, se)" by (metis prod_cases3)
  then have sl: "0 \<le> sl \<and> sl \<le> 5 * Minute"
    by (auto simp: executeDiagnosticSleep_def split: option.splits if_splits)
  obtain sent po pe where p: "executeHTTPProbe e parse reparse elapsed input = (sent, po, pe)" by (metis prod_cases3)
  have pc: "length sent \<le> Suc (redirect_limit (px_maxRedirects e)) \<and> list_all probe_target sent \<and>
    (sent \<noteq> [] \<longrightarrow> validateProbeURL parse input = Inr (hd sent))"
    using probe_confined [OF p] by auto
  consider "ty = ''diagnostic_sleep''" | "ty = ''http_probe''" | "ty \<noteq> ''diagnostic_sleep''" "ty \<noteq> ''http_probe''" by blast
  then show ?thesis
  proof cases
    case 1
    with sl sleep show ?thesis by (simp add: x_def Execute_def)
  next
    case 2
    with pc p show ?thesis by (simp add: x_def Execute_def HTTPProbeType_def list_all_iff probe_target_def)
  next
    case 3
    then show ?thesis by (simp add: x_def Execute_def HTTPProbeType_def)
  qed
qed

definition ex_url :: "string \<Rightarrow> URL" where
  "ex_url s = \<lparr>url_Scheme = ''https'', url_Host = ''h'', url_User = None, url_text = s\<rparr>"

text \<open>A server that redirects for ever.\<close>

definition ex_executor :: ProbeExecutor where
  "ex_executor = NewExecutor (\<lambda>timeout via u. HopRedirect (ex_url ''next''))"

definition ex_probe :: Execution where
  "ex_probe = Execute ex_executor (\<lambda>f u s. 0) (\<lambda>s. Some (ex_url s)) (\<lambda>u. True) (3 * Millisecond) (4 * Millisecond) ''http_probe'' ''https://h''"

theorem executor_confined_witness:
  "xr_sent ex_probe \<noteq> [] \<and> validateProbeURL (\<lambda>s. Some (ex_url s)) ''https://h'' = Inr (hd (xr_sent ex_probe)) \<and>
   length (xr_sent ex_probe) = 6 \<and> xr_error ex_probe = Some ''HTTP probe exceeded the 5-redirect limit''"
proof -
  have "length (xr_sent ex_probe) = 6" and e: "xr_error ex_probe = Some ''HTTP probe exceeded the 5-redirect limit''"
    by code_simp+
  moreover from this have "xr_sent ex_probe \<noteq> []" by auto
  moreover from this have "validateProbeURL (\<lambda>s. Some (ex_url s)) ''https://h'' = Inr (hd (xr_sent ex_probe))"
    using executor_confined [of ex_executor "\<lambda>f u s. 0" "\<lambda>s. Some (ex_url s)" "\<lambda>u. True" "3 * Millisecond"
      "4 * Millisecond" "''http_probe''" "''https://h''"]
    unfolding ex_probe_def by blast
  ultimately show ?thesis by blast
qed

end
