(* ===== verification/Format.thy ===== *)
theory Format
  imports Files
begin

text \<open>
  \<open>internal/presentation\<close>: the text helpers (\<open>format.go\<close>), frames (\<open>frame.go\<close>), friendly errors
  (\<open>errors.go\<close>), output modes (\<open>mode.go\<close>), operational logging (\<open>logging.go\<close>) and the addresses
  shown by the coordinator (\<open>address.go\<close>). Widths are counted in runes; \<open>[]rune(s)\<close> is
  \<^const>\<open>runes\<close> and \<open>string(rs)\<close> is \<^const>\<open>string_of_runes\<close>.
\<close>

section \<open>Durations and padding\<close>

text \<open>\<open>Duration.Round\<close> for a duration that is not negative and a unit that is even.\<close>

definition duration_Round :: "duration \<Rightarrow> duration \<Rightarrow> duration" where
  "duration_Round d m =
     (let r = d mod m
      in if r + r < m then d - r
         else let d1 = wrap64 (d + m - r) in if d1 > d then d1 else maxInt64)"

definition CompactDuration :: "duration \<Rightarrow> string" where
  "CompactDuration duration =
     (let d0 = (if duration < 0 then 0 else duration);
          d = d0 - d0 mod Second
      in if d < Minute then show_int (d div Second) @ ''s''
         else if d < Hour then
           (let minutes = d div Minute; seconds = d mod Minute div Second
            in if seconds = 0 then show_int minutes @ ''m''
               else show_int minutes @ ''m'' @ show_int seconds @ ''s'')
         else Duration_String (duration_Round d Minute))"

definition spaces :: "int \<Rightarrow> string" where
  "spaces n = replicate (nat n) CHR '' ''"

text \<open>The verbs \<open>%-20s\<close> and \<open>%-6d\<close> of \<open>fmt\<close>: padding to a width counted in runes.\<close>

definition pad_right :: "int \<Rightarrow> string \<Rightarrow> string" where
  "pad_right n s = s @ spaces (n - int (length (runes s)))"

definition PadBetween :: "string \<Rightarrow> string \<Rightarrow> int \<Rightarrow> string" where
  "PadBetween left right width =
     (let space = width - int (length (runes left)) - int (length (runes right));
          space1 = (if space < 1 then 1 else space)
      in left @ spaces space1 @ right)"

definition SeenAgo :: "time \<Rightarrow> time \<Rightarrow> string" where
  "SeenAgo now thn =
     (if time_IsZero thn then ''never''
      else let age = time_Sub now thn
           in if age < 2 * Second then ''now'' else CompactDuration age @ '' ago'')"

section \<open>Untrusted text\<close>

text \<open>\<open>unicode.IsControl\<close>.\<close>

definition IsControl :: "rune \<Rightarrow> bool" where
  "IsControl r = (r < 32 \<or> (127 \<le> r \<and> r \<le> 159))"

text \<open>\<open>strconv.QuoteRune\<close> of a control rune, without its quotes.\<close>

definition quote_control :: "rune \<Rightarrow> string" where
  "quote_control r = CHR 0x5C #
     (if r = 7 then ''a'' else if r = 8 then ''b'' else if r = 12 then ''f'' else if r = 10 then ''n''
      else if r = 13 then ''r'' else if r = 9 then ''t'' else if r = 11 then ''v''
      else if r < 32 \<or> r = 127 then [CHR ''x'', hex_digit (r div 16 mod 16), hex_digit (r mod 16)]
      else [CHR ''u'', hex_digit (r div 4096 mod 16), hex_digit (r div 256 mod 16), hex_digit (r div 16 mod 16), hex_digit (r mod 16)])"

definition SafeText :: "string \<Rightarrow> string" where
  "SafeText s = concat (map (\<lambda>r. if \<not> IsControl r then encode_rune r else quote_control r) (runes s))"

definition ShortID :: "string \<Rightarrow> int \<Rightarrow> bool \<Rightarrow> string" where
  "ShortID ident width unicode =
     (if width \<le> 0 \<or> int (length (runes ident)) \<le> width then ident
      else let prefix = (if unicode then [CHR 0xE2, CHR 0x80, CHR 0xA6] else ''...'');
               keep = width - int (length (runes prefix))
           in if keep \<le> 0 then string_of_runes (take (nat width) (runes prefix))
              else prefix @ string_of_runes (drop (length (runes ident) - nat keep) (runes ident)))"

text \<open>Counts of tasks are far from the bounds of \<open>int\<close>, so the product does not overflow.\<close>

definition ProgressBar :: "int \<Rightarrow> int \<Rightarrow> int \<Rightarrow> bool \<Rightarrow> string" where
  "ProgressBar completed tot width unicode =
     (if width < 4 then []
      else let total1 = (if tot \<le> 0 then 1 else tot);
               d0 = (if completed < 0 then 0 else completed);
               d1 = (if d0 > total1 then total1 else d0);
               filled = d1 * width div total1;
               full = (if unicode then [CHR 0xE2, CHR 0x96, CHR 0x88] else ''#'');
               empty = (if unicode then [CHR 0xE2, CHR 0x96, CHR 0x91] else ''-'')
           in concat (replicate (nat filled) full) @ concat (replicate (nat (width - filled)) empty))"

definition Truncate :: "string \<Rightarrow> int \<Rightarrow> string" where
  "Truncate s width = (if width \<le> 0 then [] else string_of_runes (take (nat width) (runes s)))"

text \<open>The loop of \<open>Wrap\<close> ends because it is only entered with a positive width.\<close>

function wrap_loop :: "nat \<Rightarrow> rune list \<Rightarrow> string list" where
  "wrap_loop width rs =
     (if rs = [] \<or> width = 0 then []
      else string_of_runes (take (min width (length rs)) rs) # wrap_loop width (drop (min width (length rs)) rs))"
  by pat_completeness auto
termination
  by (relation "measure (\<lambda>(w, rs). length rs)") auto

declare wrap_loop.simps [simp del]

definition Wrap :: "string \<Rightarrow> int \<Rightarrow> string list" where
  "Wrap s width = (if width \<le> 0 \<or> s = [] then [] else wrap_loop (nat width) (runes s))"

section \<open>Frames\<close>

datatype Tone = ToneNormal | ToneMuted | ToneHealthy | ToneWaiting | ToneFailure | ToneHeading

record Span =
  sp_Text :: string
  sp_Tone :: Tone

type_synonym Line = "Span list"

record Frame =
  fr_Lines :: "Line list"

abbreviation span :: "string \<Rightarrow> Tone \<Rightarrow> Span" where
  "span t tone \<equiv> \<lparr>sp_Text = t, sp_Tone = tone\<rparr>"

fun add_spans :: "nat \<Rightarrow> Span list \<Rightarrow> Line" where
  "add_spans remaining [] = []"
| "add_spans remaining (s # ss) =
     (if remaining = 0 then []
      else let rs = take remaining (runes (SafeText (sp_Text s)))
           in if rs = [] then add_spans remaining ss
              else span (string_of_runes rs) (sp_Tone s) # add_spans (remaining - length rs) ss)"

definition Frame_Add :: "int \<Rightarrow> Span list \<Rightarrow> Frame \<Rightarrow> Frame" where
  "Frame_Add width spans f = (if width \<le> 0 then f else f\<lparr>fr_Lines := fr_Lines f @ [add_spans (nat width) spans]\<rparr>)"

definition Frame_Blank :: "int \<Rightarrow> Frame \<Rightarrow> Frame" where
  "Frame_Blank width f = Frame_Add width [span [] ToneNormal] f"

definition PlainLines :: "Frame \<Rightarrow> string list" where
  "PlainLines f = map (\<lambda>line. concat (map sp_Text line)) (fr_Lines f)"

definition FitHeight :: "int \<Rightarrow> Line \<Rightarrow> Frame \<Rightarrow> Frame" where
  "FitHeight height footer f =
     (if height \<le> 0 \<or> int (length (fr_Lines f)) \<le> height then f
      else if height = 1 then \<lparr>fr_Lines = [footer]\<rparr>
      else \<lparr>fr_Lines = take (nat (height - 1)) (fr_Lines f) @ [footer]\<rparr>)"

section \<open>Friendly errors\<close>

text \<open>The argument is the text of the error, \<open>None\<close> for nil.\<close>

definition friendly_cases :: "string \<Rightarrow> (string \<times> string) option" where
  "friendly_cases lower =
     (if Contains lower ''no coordinator identity is trusted'' then
        Some (''No coordinator identity is trusted yet.'',
          ''Copy the fingerprint from the coordinator and reconnect with:'' @ [CHR 0x0A] @ ''--coordinator-fingerprint <fingerprint>'')
      else if Contains lower ''http 401'' \<or> Contains lower ''authentication rejected'' then
        Some (''Authentication failed.'', ''The coordinator rejected the token. Check INOCULUM_TOKEN or -token.'')
      else if Contains lower ''fingerprint mismatch'' \<or> Contains lower ''certificate changed'' \<or> Contains lower ''coordinator identity mismatch'' then
        Some (''The coordinator identity does not match the trusted fingerprint.'', ''Connection refused. The stored trust was not bypassed.'')
      else if Contains lower ''coordinator identity could not be loaded safely'' then
        Some (''Coordinator identity could not be loaded safely.'',
          ''Check the certificate and key in the reported configuration path. Inoculum did not replace them.'')
      else if Contains lower ''connection refused'' \<or> Contains lower ''no such host'' then
        Some (''Coordinator unavailable.'', ''Check the coordinator address and confirm the coordinator is running.'')
      else None)"

definition FriendlyError :: "string option \<Rightarrow> bool \<Rightarrow> string" where
  "FriendlyError err verbose = (case err of
       None \<Rightarrow> []
     | Some e \<Rightarrow>
         (let message = SafeText e in
          case friendly_cases (ToLower message) of
            None \<Rightarrow> message
          | Some (summary, advice) \<Rightarrow>
              if verbose then summary @ [CHR 0x0A, CHR 0x0A] @ advice @ [CHR 0x0A, CHR 0x0A] @ ''Detail: '' @ message
              else summary @ [CHR 0x0A, CHR 0x0A] @ advice))"

section \<open>Modes, logging, addresses\<close>

record ModeOptions =
  mo_Plain :: bool
  mo_Verbose :: bool
  mo_NoColor :: bool
  mo_ASCII :: bool

record Capabilities =
  ca_Interactive :: bool
  ca_Verbose :: bool
  ca_Color :: bool
  ca_Unicode :: bool

definition detectCapabilities :: "ModeOptions \<Rightarrow> bool \<Rightarrow> bool \<Rightarrow> string \<Rightarrow> string \<Rightarrow> string \<Rightarrow> bool \<Rightarrow> Capabilities" where
  "detectCapabilities options stdinTTY stdoutTTY terminal ci noColor unicodeLocale =
     (let interactive = (\<not> mo_Plain options \<and> stdinTTY \<and> stdoutTTY \<and> terminal \<noteq> ''dumb'' \<and> ci = [])
      in \<lparr>ca_Interactive = interactive, ca_Verbose = mo_Verbose options,
          ca_Color = (interactive \<and> \<not> mo_NoColor options \<and> noColor = []),
          ca_Unicode = (\<not> mo_ASCII options \<and> unicodeLocale)\<rparr>)"

definition supportsUnicodeLocale :: "(string \<Rightarrow> string) \<Rightarrow> bool" where
  "supportsUnicodeLocale getenv =
     (let l0 = getenv ''LC_ALL'';
          l1 = (if l0 = [] then getenv ''LC_CTYPE'' else l0);
          l2 = (if l1 = [] then getenv ''LANG'' else l1)
      in if l2 = [] then True
         else Contains (ToUpper l2) ''UTF-8'' \<or> Contains (ToUpper l2) ''UTF8'')"

text \<open>\<open>Detect\<close>: whether the two streams are terminals is the answer of \<open>x/term\<close>.\<close>

definition Detect :: "(string \<Rightarrow> string) \<Rightarrow> ModeOptions \<Rightarrow> bool \<Rightarrow> bool \<Rightarrow> Capabilities" where
  "Detect getenv options stdinTTY stdoutTTY =
     detectCapabilities options stdinTTY stdoutTTY (getenv ''TERM'') (getenv ''CI'') (getenv ''NO_COLOR'') (supportsUnicodeLocale getenv)"

text \<open>Where the operational log goes: to stderr or to a file.\<close>

datatype log_target = LogStderr | LogFile string

text \<open>The result is the target and the error of opening the file; on an error the target stays.\<close>

definition ConfigureOperationalLogging :: "bool \<Rightarrow> string \<Rightarrow> string option \<Rightarrow> log_target \<Rightarrow> log_target \<times> string option" where
  "ConfigureOperationalLogging interactive path openErr target =
     (if \<not> interactive then (LogStderr, None)
      else case openErr of Some e \<Rightarrow> (target, Some e) | None \<Rightarrow> (LogFile path, None))"

text \<open>
  The interfaces of the machine: whether each is up and a loopback, and its addresses as
  \<open>net.ParseCIDR\<close> sees them (\<open>None\<close> when that fails): the text with the port, loopback,
  link-local.
\<close>

record net_address =
  na_host_port :: string
  na_loopback :: bool
  na_linklocal :: bool

record net_interface =
  ni_up :: bool
  ni_loopback :: bool
  ni_addrs :: "net_address option list option"

definition usable_addresses :: "net_interface list \<Rightarrow> string list" where
  "usable_addresses interfaces = concat (map (\<lambda>i.
     if \<not> ni_up i \<or> ni_loopback i then []
     else case ni_addrs i of
         None \<Rightarrow> []
       | Some as \<Rightarrow> concat (map (\<lambda>a. case a of
             None \<Rightarrow> []
           | Some n \<Rightarrow> if na_loopback n \<or> na_linklocal n then [] else [na_host_port n]) as)) interfaces)"

fun string_le :: "string \<Rightarrow> string \<Rightarrow> bool" where
  "string_le [] t = True"
| "string_le (c # s) [] = False"
| "string_le (c # s) (d # t) = (byte c < byte d \<or> (byte c = byte d \<and> string_le s t))"

fun insort_by :: "('a \<Rightarrow> 'a \<Rightarrow> bool) \<Rightarrow> 'a \<Rightarrow> 'a list \<Rightarrow> 'a list" where
  "insort_by le x [] = [x]"
| "insort_by le x (y # ys) = (if le x y then x # y # ys else y # insort_by le x ys)"

text \<open>A stable sort: an element goes before those that it is not above.\<close>

definition sort_by :: "('a \<Rightarrow> 'a \<Rightarrow> bool) \<Rightarrow> 'a list \<Rightarrow> 'a list" where
  "sort_by le xs = foldr (insort_by le) xs []"

definition ListenAddresses :: "net_interface list option \<Rightarrow> int \<Rightarrow> string list" where
  "ListenAddresses interfaces port = (case interfaces of
       None \<Rightarrow> ['':'' @ show_int port]
     | Some is \<Rightarrow>
         (let addresses = fold (\<lambda>a seen. if a \<in> set seen then seen else seen @ [a]) (usable_addresses is) []
          in if addresses = [] then ['':'' @ show_int port] else sort_by string_le addresses))"

end
