(* ===== verification/Layout.thy ===== *)
theory Layout
  imports Format Monitor
begin

text \<open>
  \<open>internal/presentation/layout.go\<close>: the frames of the three commands, built from the snapshots
  of \<open>internal/monitor\<close>; and \<open>tui/run.go\<close>: drawing a frame into the cells of the screen and the
  event loop. \<open>now0\<close> is the clock, read when a snapshot has no time of its own.
\<close>

section \<open>Words and symbols\<close>

definition utf_dot :: string where "utf_dot = [CHR 0xE2, CHR 0x97, CHR 0x8F]"
definition utf_circle :: string where "utf_circle = [CHR 0xE2, CHR 0x97, CHR 0x8B]"
definition utf_check :: string where "utf_check = [CHR 0xE2, CHR 0x9C, CHR 0x93]"
definition utf_cross :: string where "utf_cross = [CHR 0xE2, CHR 0x9C, CHR 0x97]"

definition successWord :: "Capabilities \<Rightarrow> string" where
  "successWord caps = (if ca_Unicode caps then utf_check else ''OK'')"

definition failureWord :: "Capabilities \<Rightarrow> string" where
  "failureWord caps = (if ca_Unicode caps then utf_cross else ''X'')"

definition failureTone :: "int \<Rightarrow> Tone" where
  "failureTone n = (if n > 0 then ToneFailure else ToneNormal)"

definition titleState :: "string \<Rightarrow> string" where
  "titleState state = (case runes state of
       [] \<Rightarrow> ''Unknown''
     | r # rs \<Rightarrow> string_of_runes ((if 97 \<le> r \<and> r \<le> 122 then r - 32 else r) # rs))"

definition workerConnection :: "ConnectionState \<Rightarrow> Capabilities \<Rightarrow> string \<times> string \<times> Tone" where
  "workerConnection state caps = (case state of
       ConnectionConnected \<Rightarrow> (''CONNECTED'', if ca_Unicode caps then utf_dot else ''*'', ToneHealthy)
     | ConnectionUnavailable \<Rightarrow> (''UNAVAILABLE'', if ca_Unicode caps then utf_circle else ''!'', ToneWaiting)
     | ConnectionAuthFailed \<Rightarrow> (''AUTH FAILED'', ''X'', ToneFailure)
     | ConnectionUntrusted \<Rightarrow> (''NO TRUST'', ''X'', ToneFailure)
     | ConnectionIdentity \<Rightarrow> (''IDENTITY ERROR'', ''X'', ToneFailure)
     | ConnectionStopping \<Rightarrow> (''STOPPING'', ''-'', ToneWaiting)
     | _ \<Rightarrow> (''CONNECTING'', ''-'', ToneWaiting))"

definition taskPriority :: "string \<Rightarrow> nat" where
  "taskPriority state = (if state = ''leased'' then 0 else if state = ''failed'' then 1 else if state = ''completed'' then 2 else 3)"

definition activeAndRecent :: "TaskProgress list \<Rightarrow> int \<Rightarrow> TaskProgress list" where
  "activeAndRecent ts limit =
     (let sorted = sort_by (\<lambda>a b. taskPriority (tp_State a) \<le> taskPriority (tp_State b)) ts
      in if int (length sorted) > limit then take (nat limit) sorted else sorted)"

section \<open>The frames\<close>

text \<open>A frame is built line by line; \<open>adds\<close> adds several lines.\<close>

definition adds :: "int \<Rightarrow> Span list list \<Rightarrow> Frame \<Rightarrow> Frame" where
  "adds width ls f = fold (Frame_Add width) ls f"

abbreviation normal_span :: "string \<Rightarrow> Span" where
  "normal_span t \<equiv> span t ToneNormal"

abbreviation empty_frame :: Frame where
  "empty_frame \<equiv> \<lparr>fr_Lines = []\<rparr>"

definition min_width :: "int \<Rightarrow> int" where
  "min_width width = (if width < 20 then 20 else width)"

definition footer_line :: "string \<Rightarrow> int \<Rightarrow> Line" where
  "footer_line t width = [span (Truncate t width) ToneMuted]"

text \<open>The end of a frame with a footer: a blank line, the footer, and the fit to the height.\<close>

definition close_frame :: "int \<Rightarrow> int \<Rightarrow> Line \<Rightarrow> Frame \<Rightarrow> Frame" where
  "close_frame width height footer f =
     (let f1 = Frame_Blank width f in FitHeight height footer (f1\<lparr>fr_Lines := fr_Lines f1 @ [footer]\<rparr>))"

definition bar_line :: "JobProgress \<Rightarrow> int \<Rightarrow> Capabilities \<Rightarrow> Span list" where
  "bar_line job width caps =
     (let barWidth = min (max (width - 14) 10) 40; finished = jp_Completed job + jp_Failed job
      in [normal_span (ProgressBar finished (jp_Total job) barWidth (ca_Unicode caps) @ ''  '' @ show_int finished @ '' / '' @ show_int (jp_Total job))])"

definition coordinator_head :: "CoordinatorSnapshot \<Rightarrow> string \<Rightarrow> int \<Rightarrow> Capabilities \<Rightarrow> Frame" where
  "coordinator_head snapshot statusSymbol width caps =
     (let f1 = Frame_Blank width (Frame_Add width [span (PadBetween ''INOCULUM'' (''ONLINE '' @ statusSymbol) width) ToneHeading] empty_frame);
          address = (if co_Addresses snapshot \<noteq> [] then join_with '', '' (co_Addresses snapshot) else ''listening'');
          f2 = adds width [[span ''Coordinator   '' ToneMuted, normal_span address],
                 [span ''Uptime        '' ToneMuted, normal_span (CompactDuration (co_Uptime snapshot))]] f1;
          f3 = (if co_Fingerprint snapshot \<noteq> [] \<and> (ca_Verbose caps \<or> co_Workers snapshot = [])
                then adds width ([span ''Fingerprint   '' ToneMuted]
                       # map (\<lambda>line. [span (''  '' @ line) ToneMuted]) (Wrap (co_Fingerprint snapshot) (max 12 (width - 2)))) f2
                else f2)
      in Frame_Blank width f3)"

definition coordinator_counts :: "TaskCounts \<Rightarrow> int \<Rightarrow> Frame \<Rightarrow> Frame" where
  "coordinator_counts c width f =
     Frame_Blank width
       (if width < 58 then
          adds width
            [[normal_span (''Tasks  '' @ show_int (tc_Queued c) @ '' queued  '' @ show_int (tc_Running c) @ '' running'')],
             [normal_span (''       '' @ show_int (tc_Completed c) @ '' done    '' @ show_int (tc_Failed c) @ '' failed'')]] f
        else
          adds width
            [[span ''TASKS'' ToneHeading],
             [normal_span (''Queued  '' @ pad_right 6 (show_int (tc_Queued c)) @ '' Running  '' @ pad_right 6 (show_int (tc_Running c))
                @ '' Completed  '' @ pad_right 6 (show_int (tc_Completed c)) @ '' Failed  '' @ show_int (tc_Failed c))]] f)"

definition worker_line :: "time \<Rightarrow> string \<Rightarrow> int \<Rightarrow> Capabilities \<Rightarrow> WorkerSummary \<Rightarrow> Span list" where
  "worker_line now statusSymbol width caps w =
     (let late = (time_Sub now (wm_LastActivity w) > 3 * Second);
          state = (if late then ''not responding''
                   else if wm_Active w > 0 then ''running  '' @ show_int (wm_Active w) @ '' active'' else ''idle'');
          tone = (if late then ToneWaiting else ToneHealthy)
      in if width < 58
         then [span (statusSymbol @ '' '' @ ShortID (wm_WorkerID w) 18 (ca_Unicode caps) @ ''  '') tone, normal_span state]
         else [span (PadBetween (statusSymbol @ '' '' @ ShortID (wm_WorkerID w) 24 (ca_Unicode caps))
                (pad_right 20 state @ '' seen '' @ SeenAgo now (wm_LastActivity w)) width) tone])"

definition coordinator_workers :: "CoordinatorSnapshot \<Rightarrow> time \<Rightarrow> string \<Rightarrow> int \<Rightarrow> Capabilities \<Rightarrow> Frame \<Rightarrow> Frame" where
  "coordinator_workers snapshot now statusSymbol width caps f =
     (let f1 = Frame_Add width [span ''WORKERS'' ToneHeading] f
      in if co_Workers snapshot = [] then
           adds width ([span ''No workers connected.'' ToneWaiting]
             # (if width \<ge> 48 then [[normal_span ''Start one with: inoculum worker --coordinator <address>'']] else [])) f1
         else adds width (map (worker_line now statusSymbol width caps) (co_Workers snapshot)) f1)"

definition task_line :: "Capabilities \<Rightarrow> TaskProgress \<Rightarrow> Span list" where
  "task_line caps task =
     (let (state, tone) =
            (if tp_State task = ''completed'' then (successWord caps, ToneHealthy)
             else if tp_State task = ''failed'' then (failureWord caps, ToneFailure)
             else (tp_State task, ToneNormal))
      in [span (pad_right 18 (ShortID (tp_WorkerID task) 16 (ca_Unicode caps)) @ '' ''
           @ pad_right 18 (ShortID (tp_TaskID task) 16 (ca_Unicode caps)) @ '' ''
           @ pad_right 10 state @ '' '' @ CompactDuration (tp_Duration task)) tone])"

definition coordinator_job :: "CoordinatorSnapshot \<Rightarrow> int \<Rightarrow> int \<Rightarrow> Capabilities \<Rightarrow> Frame \<Rightarrow> Frame" where
  "coordinator_job snapshot width height caps f =
     (case co_CurrentJob snapshot of
        Some job \<Rightarrow>
          (let f1 = adds width
                 [[span (PadBetween ''CURRENT JOB'' (ShortID (jp_JobID job) 20 (ca_Unicode caps)) width) ToneHeading], bar_line job width caps]
                 (Frame_Blank width f)
           in adds width (map (task_line caps) (activeAndRecent (jp_Tasks job) (max 1 (height - int (length (fr_Lines f1)) - 2)))) f1)
      | None \<Rightarrow>
          if tc_Total (co_Tasks snapshot) = 0
          then Frame_Add width [span ''No jobs yet.'' ToneMuted] (Frame_Blank width f)
          else f)"

definition CoordinatorFrame :: "time \<Rightarrow> CoordinatorSnapshot \<Rightarrow> int \<Rightarrow> int \<Rightarrow> Capabilities \<Rightarrow> Frame" where
  "CoordinatorFrame now0 snapshot width0 height caps =
     (let width = min_width width0;
          now = (if time_IsZero (co_ObservedAt snapshot) then now0 else co_ObservedAt snapshot);
          statusSymbol = (if ca_Unicode caps then utf_dot else ''*'')
      in close_frame width height (footer_line ''q quit    ? help'' width)
           (coordinator_job snapshot width height caps
             (coordinator_workers snapshot now statusSymbol width caps
               (coordinator_counts (co_Tasks snapshot) width
                 (coordinator_head snapshot statusSymbol width caps)))))"

definition connection_lines :: "ConnectionState \<Rightarrow> Tone \<Rightarrow> Span list list" where
  "connection_lines c tone = (case c of
       ConnectionAuthFailed \<Rightarrow>
         [[span ''Authentication failed.'' ToneFailure], [normal_span ''The coordinator rejected the token.''],
          [normal_span ''Check INOCULUM_TOKEN or -token.'']]
     | ConnectionUntrusted \<Rightarrow>
         [[span ''No coordinator identity is trusted yet.'' ToneFailure],
          [normal_span ''Copy the coordinator fingerprint and reconnect with:''], [normal_span ''--coordinator-fingerprint <fingerprint>'']]
     | ConnectionIdentity \<Rightarrow>
         [[span ''The coordinator identity does not match the trusted fingerprint.'' ToneFailure],
          [normal_span ''Connection refused. The stored trust was not bypassed.'']]
     | _ \<Rightarrow> [[span ''Coordinator unavailable.'' tone]])"

definition worker_trouble :: "WorkerSnapshot \<Rightarrow> time \<Rightarrow> Tone \<Rightarrow> int \<Rightarrow> Capabilities \<Rightarrow> Frame \<Rightarrow> Frame" where
  "worker_trouble snapshot now tone width caps f =
     (if wk_Connection snapshot = ConnectionUnavailable \<or> wk_Connection snapshot = ConnectionAuthFailed \<or>
         wk_Connection snapshot = ConnectionUntrusted \<or> wk_Connection snapshot = ConnectionIdentity
      then adds width
        (connection_lines (wk_Connection snapshot) tone
         @ (if \<not> time_IsZero (wk_UnavailableSince snapshot)
            then [[span ''Disconnected  '' ToneMuted, normal_span (CompactDuration (time_Sub now (wk_UnavailableSince snapshot)))]] else [])
         @ (if \<not> time_IsZero (wk_RetryAt snapshot)
            then [[span (''Retrying in '' @ CompactDuration (time_Sub (wk_RetryAt snapshot) now) @ '' (attempt '' @ show_int (wk_RetryAttempt snapshot) @ '')'') ToneWaiting]]
            else [])
         @ (if ca_Verbose caps \<and> wk_LastError snapshot \<noteq> []
            then [[span ''Detail        '' ToneMuted, normal_span (wk_LastError snapshot)]] else []))
        (Frame_Blank width f)
      else f)"

definition active_lines :: "WorkerSnapshot \<Rightarrow> time \<Rightarrow> Capabilities \<Rightarrow> Span list list" where
  "active_lines snapshot now caps =
     (if wk_ActiveTasks snapshot = [] then
        (if wk_Connection snapshot = ConnectionConnected then [[span ''Connected and waiting for work.'' ToneMuted]]
         else [[span ''No active tasks.'' ToneMuted]])
      else map (\<lambda>task. [normal_span (pad_right 22 (ShortID (tp_TaskID task) 20 (ca_Unicode caps)) @ '' running  ''
             @ CompactDuration (time_Sub now (tp_StartedAt task)))]) (wk_ActiveTasks snapshot))"

definition WorkerFrame :: "time \<Rightarrow> WorkerSnapshot \<Rightarrow> int \<Rightarrow> int \<Rightarrow> Capabilities \<Rightarrow> Frame" where
  "WorkerFrame now0 snapshot width0 height caps =
     (let width = min_width width0;
          now = (if time_IsZero (wk_ObservedAt snapshot) then now0 else wk_ObservedAt snapshot);
          (label, symbol, tone) = workerConnection (wk_Connection snapshot) caps;
          f1 = Frame_Blank width (Frame_Add width [span (PadBetween ''INOCULUM WORKER'' (label @ '' '' @ symbol) width) ToneHeading] empty_frame);
          f2 = Frame_Blank width (adds width
                 [[span ''Worker        '' ToneMuted, normal_span (wk_WorkerID snapshot)],
                  [span ''Coordinator   '' ToneMuted, normal_span (wk_Coordinator snapshot)],
                  [span ''Concurrency   '' ToneMuted, normal_span (show_int (wk_Concurrency snapshot))]] f1);
          f3 = adds width
                 [[span ''EXECUTION'' ToneHeading],
                  [normal_span (''Active  '' @ show_int (int (length (wk_ActiveTasks snapshot))) @ '' / '' @ show_int (wk_Concurrency snapshot)
                     @ ''    Completed  '' @ show_int (wk_Completed snapshot) @ ''    Failed  '' @ show_int (wk_Failed snapshot))]] f2;
          f4 = worker_trouble snapshot now tone width caps f3;
          f5 = adds width ([span ''ACTIVE TASKS'' ToneHeading] # active_lines snapshot now caps) (Frame_Blank width f4)
      in close_frame width height (footer_line ''q quit    ? help'' width) f5)"

definition submit_workers :: "JobProgress \<Rightarrow> int \<Rightarrow> Capabilities \<Rightarrow> Frame \<Rightarrow> Frame" where
  "submit_workers job width caps f =
     (if jp_Workers job \<noteq> [] \<and> width \<ge> 44 then
        adds width
          ([span ''WORKERS'' ToneHeading]
           # map (\<lambda>w. [normal_span (pad_right 22 (ShortID (wc_WorkerID w) 20 (ca_Unicode caps)) @ '' '' @ show_int (wc_Completed w)
                 @ '' completed  '' @ show_int (wc_Active w) @ '' active'')]) (jp_Workers job))
          (Frame_Blank width f)
      else f)"

definition SubmitFrame :: "SubmitSnapshot \<Rightarrow> int \<Rightarrow> int \<Rightarrow> Capabilities \<Rightarrow> Frame" where
  "SubmitFrame snapshot width0 height caps =
     (let width = min_width width0;
          f1 = Frame_Blank width (Frame_Add width [span ''INOCULUM SUBMIT'' ToneHeading] empty_frame)
      in if \<not> sn_Submitted snapshot
         then FitHeight height [] (Frame_Add width [span ''Submitting tasks...'' ToneWaiting] f1)
         else let job = sn_Job snapshot;
                  f2 = Frame_Blank width (adds width
                    [[span ''Job        '' ToneMuted, normal_span (ShortID (jp_JobID job) (max 8 (width - 11)) (ca_Unicode caps))],
                     [span ''State      '' ToneMuted, normal_span (titleState (jp_State job))],
                     [span ''Elapsed    '' ToneMuted, normal_span (CompactDuration (jp_Elapsed job))]] f1);
                  f3 = Frame_Blank width (Frame_Add width (bar_line job width caps) f2);
                  f4 = adds width
                    [[normal_span (''Queued     '' @ show_int (jp_Queued job))],
                     [normal_span (''Running    '' @ show_int (jp_Running job))],
                     [span (''Completed  '' @ show_int (jp_Completed job)) ToneHealthy],
                     [span (''Failed     '' @ show_int (jp_Failed job)) (failureTone (jp_Failed job))]] f3
              in close_frame width height (footer_line ''Ctrl+C stops waiting; the coordinator job continues.'' width)
                   (submit_workers job width caps f4))"

section \<open>The screen\<close>

definition helpFrame :: "int \<Rightarrow> int \<Rightarrow> Frame" where
  "helpFrame width height =
     FitHeight height []
       (Frame_Add width [span ''This view is read-only.'' ToneMuted]
         (Frame_Blank width
           (adds width [[normal_span ''q        quit''], [normal_span ''Ctrl+C   quit''], [normal_span ''? / Esc  close help'']]
             (Frame_Blank width (Frame_Add width [span ''INOCULUM HELP'' ToneHeading] empty_frame)))))"

datatype tcell_color = ColorDefault | ColorGray | ColorGreen | ColorYellow | ColorRed | ColorWhite

record Style =
  st_bold :: bool
  st_fg :: tcell_color

definition styleFor :: "Tone \<Rightarrow> bool \<Rightarrow> Style" where
  "styleFor tone color =
     \<lparr>st_bold = (tone = ToneHeading),
      st_fg = (if \<not> color then ColorDefault
        else case tone of ToneMuted \<Rightarrow> ColorGray | ToneHealthy \<Rightarrow> ColorGreen | ToneWaiting \<Rightarrow> ColorYellow
          | ToneFailure \<Rightarrow> ColorRed | ToneHeading \<Rightarrow> ColorWhite | _ \<Rightarrow> ColorDefault)\<rparr>"

text \<open>The calls of \<open>SetContent\<close>, in order: column, row, rune, style.\<close>

type_synonym cell_write = "int \<times> int \<times> rune \<times> Style"

definition clear_screen :: "int \<Rightarrow> int \<Rightarrow> cell_write list" where
  "clear_screen width height = concat (map (\<lambda>y. map (\<lambda>x. (int x, int y, 32, styleFor ToneNormal False)) [0 ..< nat width]) [0 ..< nat height])"

fun draw_runes :: "int \<Rightarrow> int \<Rightarrow> Style \<Rightarrow> rune list \<Rightarrow> int \<Rightarrow> cell_write list \<times> int" where
  "draw_runes width y style [] x = ([], x)"
| "draw_runes width y style (r # rs) x =
     (if x \<ge> width then ([], x)
      else (case draw_runes width y style rs (x + 1) of (ws, x') \<Rightarrow> ((x, y, r, style) # ws, x')))"

fun draw_line :: "int \<Rightarrow> int \<Rightarrow> bool \<Rightarrow> Line \<Rightarrow> int \<Rightarrow> cell_write list" where
  "draw_line width y color [] x = []"
| "draw_line width y color (s # ss) x =
     (case draw_runes width y (styleFor (sp_Tone s) color) (runes (sp_Text s)) x of
        (ws, x') \<Rightarrow> ws @ draw_line width y color ss x')"

fun draw_lines :: "int \<Rightarrow> int \<Rightarrow> bool \<Rightarrow> Line list \<Rightarrow> int \<Rightarrow> cell_write list" where
  "draw_lines width height color [] y = []"
| "draw_lines width height color (l # ls) y =
     (if y \<ge> height then [] else draw_line width y color l 0 @ draw_lines width height color ls (y + 1))"

definition drawFrame :: "int \<Rightarrow> int \<Rightarrow> Frame \<Rightarrow> Capabilities \<Rightarrow> cell_write list" where
  "drawFrame width height frame caps = clear_screen width height @ draw_lines width height (ca_Color caps) (fr_Lines frame) 0"

text \<open>
  The event loop: what each \<open>select\<close> meets, with the size of the screen and the frame the source
  gives when it draws. It returns when the context or the command is done (without an error) and
  when the user quits (\<open>ErrQuit\<close>).
\<close>

datatype tui_key = KeyCtrlC | KeyRune rune | KeyEscape | KeyOther
datatype tui_event = CtxDone | CommandDone | Tick | EventResize | EventKey tui_key | EventOther

datatype tui_result = ReturnsNil | ReturnsErrQuit

record Screen =
  sc_help :: bool
  sc_writes :: "cell_write list"

definition tui_draw :: "Capabilities \<Rightarrow> int \<times> int \<Rightarrow> (int \<Rightarrow> int \<Rightarrow> Frame) \<Rightarrow> bool \<Rightarrow> Screen \<Rightarrow> Screen" where
  "tui_draw caps dims source help s =
     (let (width, height) = dims;
          frame = (if help then helpFrame width height else source width height)
      in s\<lparr>sc_help := help, sc_writes := sc_writes s @ drawFrame width height frame caps\<rparr>)"

definition tui_step :: "Capabilities \<Rightarrow> int \<times> int \<Rightarrow> (int \<Rightarrow> int \<Rightarrow> Frame) \<Rightarrow> tui_event \<Rightarrow> Screen \<Rightarrow> tui_result + Screen" where
  "tui_step caps dims source e s = (case e of
       CtxDone \<Rightarrow> Inl ReturnsNil
     | CommandDone \<Rightarrow> Inl ReturnsNil
     | Tick \<Rightarrow> Inr (tui_draw caps dims source (sc_help s) s)
     | EventResize \<Rightarrow> Inr (tui_draw caps dims source (sc_help s) s)
     | EventKey KeyCtrlC \<Rightarrow> Inl ReturnsErrQuit
     | EventKey (KeyRune r) \<Rightarrow>
         if r = 113 \<or> r = 81 then Inl ReturnsErrQuit
         else if r = 63 then Inr (tui_draw caps dims source (\<not> sc_help s) s)
         else Inr s
     | EventKey KeyEscape \<Rightarrow> if sc_help s then Inr (tui_draw caps dims source False s) else Inr s
     | _ \<Rightarrow> Inr s)"

fun tui_loop :: "Capabilities \<Rightarrow> (tui_event \<times> (int \<times> int) \<times> (int \<Rightarrow> int \<Rightarrow> Frame)) list \<Rightarrow> Screen \<Rightarrow> Screen \<times> tui_result option" where
  "tui_loop caps [] s = (s, None)"
| "tui_loop caps ((e, dims, source) # es) s =
     (case tui_step caps dims source e s of Inl r \<Rightarrow> (s, Some r) | Inr s' \<Rightarrow> tui_loop caps es s')"

definition RunWithScreen :: "Capabilities \<Rightarrow> int \<times> int \<Rightarrow> (int \<Rightarrow> int \<Rightarrow> Frame) \<Rightarrow>
    (tui_event \<times> (int \<times> int) \<times> (int \<Rightarrow> int \<Rightarrow> Frame)) list \<Rightarrow> Screen \<times> tui_result option" where
  "RunWithScreen caps dims source es = tui_loop caps es (tui_draw caps dims source False \<lparr>sc_help = False, sc_writes = []\<rparr>)"

end
