(* ===== verification/Utf8.thy ===== *)
theory Utf8
  imports GoStrings
begin

text \<open>UTF-8 encoding and decoding are inverse on valid runes; what decoding gives is valid.\<close>

lemma decode2: "194 \<le> b0 \<Longrightarrow> b0 \<le> 223 \<Longrightarrow> is_cont b1 \<Longrightarrow> decode_rune (b0 # b1 # bs) = ((b0 - 192) * 64 + (b1 - 128), 2)"
  by (cases "b0 # b1 # bs" rule: decode_rune.cases) auto

lemma decode3:
  "224 \<le> b0 \<Longrightarrow> b0 \<le> 239 \<Longrightarrow> is_cont b1 \<Longrightarrow> (b0 = 224 \<longrightarrow> 160 \<le> b1) \<Longrightarrow> (b0 = 237 \<longrightarrow> b1 \<le> 159) \<Longrightarrow> is_cont b2 \<Longrightarrow>
   decode_rune (b0 # b1 # b2 # bs) = ((b0 - 224) * 4096 + (b1 - 128) * 64 + (b2 - 128), 3)"
  by (cases "b0 # b1 # b2 # bs" rule: decode_rune.cases) auto

lemma decode4:
  "240 \<le> b0 \<Longrightarrow> b0 \<le> 244 \<Longrightarrow> is_cont b1 \<Longrightarrow> (b0 = 240 \<longrightarrow> 144 \<le> b1) \<Longrightarrow> (b0 = 244 \<longrightarrow> b1 \<le> 143) \<Longrightarrow> is_cont b2 \<Longrightarrow> is_cont b3 \<Longrightarrow>
   decode_rune (b0 # b1 # b2 # b3 # bs) = ((b0 - 240) * 262144 + (b1 - 128) * 4096 + (b2 - 128) * 64 + (b3 - 128), 4)"
  by simp

lemma divmods:
  fixes r :: nat
  shows "r div 64 * 64 + r mod 64 = r"
    and "r div 4096 * 4096 + r div 64 mod 64 * 64 + r mod 64 = r"
    and "r div 262144 * 262144 + r div 4096 mod 64 * 4096 + r div 64 mod 64 * 64 + r mod 64 = r"
proof -
  have d: "r div 4096 = r div 64 div 64" "r div 262144 = r div 64 div 64 div 64" by (simp_all add: div_mult2_eq [symmetric])
  have m: "q div 64 * 64 + q mod 64 = q" for q :: nat by simp
  show "r div 64 * 64 + r mod 64 = r" by simp
  show "r div 4096 * 4096 + r div 64 mod 64 * 64 + r mod 64 = r"
    using m [of "r div 64"] m [of r] unfolding d by linarith
  show "r div 262144 * 262144 + r div 4096 mod 64 * 4096 + r div 64 mod 64 * 64 + r mod 64 = r"
    using m [of "r div 64 div 64"] m [of "r div 64"] m [of r] unfolding d by linarith
qed

definition encoded_bytes :: "rune \<Rightarrow> nat list" where
  "encoded_bytes r =
     (if r < 128 then [r]
      else if r < 2048 then [192 + r div 64, 128 + r mod 64]
      else if r < 65536 then [224 + r div 4096, 128 + r div 64 mod 64, 128 + r mod 64]
      else [240 + r div 262144, 128 + r div 4096 mod 64, 128 + r div 64 mod 64, 128 + r mod 64])"

lemma encode_bytes: "valid_rune r \<Longrightarrow> encode_rune r = map char_of (encoded_bytes r)"
proof -
  assume "valid_rune r"
  then have "\<not> (r > 1114111 \<or> (55296 \<le> r \<and> r \<le> 57343))" by (simp add: valid_rune_def)
  then show ?thesis by (simp only: encode_rune_def Let_def if_False encoded_bytes_def)
qed

lemma encoded_small: "valid_rune r \<Longrightarrow> list_all (\<lambda>b. b < 256) (encoded_bytes r)"
  by (auto simp: encoded_bytes_def valid_rune_def intro: less_trans [OF _ mod_less_divisor])

lemma cont_mod: "is_cont (128 + x mod 64)"
  using mod_less_divisor [of 64 x] by (simp add: is_cont_def)

lemma decode_encoded: "valid_rune r \<Longrightarrow> decode_rune (encoded_bytes r @ bs) = (r, length (encoded_bytes r))"
proof -
  assume v: "valid_rune r"
  consider "r < 128" | "128 \<le> r" "r < 2048" | "2048 \<le> r" "r < 65536" | "65536 \<le> r" "r \<le> 1114111"
    using v unfolding valid_rune_def by linarith
  then show ?thesis
  proof cases
    case 1
    then show ?thesis by (simp add: encoded_bytes_def decode_rune_ascii)
  next
    case 2
    then have "2 \<le> r div 64" "r div 64 \<le> 31" by linarith+
    then have "decode_rune ((192 + r div 64) # (128 + r mod 64) # bs) = (r div 64 * 64 + r mod 64, 2)"
      using decode2 [of "192 + r div 64" "128 + r mod 64" bs] cont_mod by simp
    with 2 show ?thesis by (simp add: encoded_bytes_def)
  next
    case 3
    let ?a = "r div 4096" and ?b = "r div 64 mod 64"
    have "?a \<le> 15" using 3 by linarith
    moreover have "?a = 0 \<longrightarrow> 32 \<le> ?b" "?a = 13 \<longrightarrow> ?b \<le> 31"
      using 3 v divmods(2) [of r] mod_less_divisor [of 64 r] unfolding valid_rune_def by linarith+
    ultimately have "decode_rune ((224 + ?a) # (128 + ?b) # (128 + r mod 64) # bs) = (?a * 4096 + ?b * 64 + r mod 64, 3)"
      using decode3 [of "224 + ?a" "128 + ?b" "128 + r mod 64" bs] cont_mod by simp
    with 3 show ?thesis by (simp add: encoded_bytes_def divmods(2))
  next
    case 4
    let ?a = "r div 262144" and ?b = "r div 4096 mod 64" and ?c = "r div 64 mod 64"
    have "?a \<le> 4" using 4 by linarith
    moreover have "?a = 0 \<longrightarrow> 16 \<le> ?b" "?a = 4 \<longrightarrow> ?b \<le> 15"
      using 4 divmods(3) [of r] mod_less_divisor [of 64 r] mod_less_divisor [of 64 "r div 64"] by linarith+
    ultimately have "decode_rune ((240 + ?a) # (128 + ?b) # (128 + ?c) # (128 + r mod 64) # bs) = (?a * 262144 + ?b * 4096 + ?c * 64 + r mod 64, 4)"
      using decode4 [of "240 + ?a" "128 + ?b" "128 + ?c" "128 + r mod 64" bs] cont_mod by simp
    with 4 show ?thesis by (simp add: encoded_bytes_def divmods(3))
  qed
qed

lemma chunks_encode: "valid_rune r \<Longrightarrow> utf8_chunks (encode_rune r @ s) = (r, encode_rune r) # utf8_chunks s"
proof -
  assume v: "valid_rune r"
  let ?e = "encode_rune r"
  have b: "map byte ?e = encoded_bytes r"
    using encoded_small [OF v] by (simp add: encode_bytes [OF v] comp_def byte_char_of list_all_iff map_idI)
  then have d: "decode_rune (map byte (?e @ s)) = (r, length ?e)"
    using decode_encoded [OF v, of "map byte s"] by (metis length_map map_append)
  have "encoded_bytes r \<noteq> []" by (simp add: encoded_bytes_def)
  then obtain c cs where e: "?e = c # cs" using b by (cases ?e) auto
  then have "utf8_chunks (c # (cs @ s)) = (r, take (length ?e) (c # (cs @ s))) # utf8_chunks (drop (length ?e - 1) (cs @ s))"
    using d by (simp add: utf8_chunks.simps(2) Let_def)
  then show ?thesis by (simp add: e)
qed

lemma runes_encode: "valid_rune r \<Longrightarrow> runes (encode_rune r @ s) = r # runes s"
  by (simp add: runes_def chunks_encode)

lemma runes_of_runes: "list_all valid_rune rs \<Longrightarrow> runes (string_of_runes rs) = rs"
  by (induction rs) (simp_all add: string_of_runes_def runes_encode)

lemma valid_small: "b < 55296 \<Longrightarrow> valid_rune b"
  by (simp add: valid_rune_def)

lemma valid2:
  assumes "194 \<le> b0 \<and> b0 \<le> 223 \<and> is_cont b1"
  shows "valid_rune ((b0 - 192) * 64 + (b1 - 128))"
  using assms unfolding is_cont_def by (intro valid_small) linarith

lemma valid3:
  assumes "224 \<le> b0 \<and> b0 \<le> 239 \<and> is_cont b1 \<and> (b0 = 224 \<longrightarrow> 160 \<le> b1) \<and> (b0 = 237 \<longrightarrow> b1 \<le> 159) \<and> is_cont b2"
  shows "valid_rune ((b0 - 224) * 4096 + (b1 - 128) * 64 + (b2 - 128))"
proof -
  define x y z where "x = b0 - 224" and "y = b1 - 128" and "z = b2 - 128"
  then have b: "x \<le> 15" "y \<le> 63" "z \<le> 63" "x = 13 \<longrightarrow> y \<le> 31" using assms unfolding is_cont_def by linarith+
  consider "x \<le> 12" | "x = 13" | "14 \<le> x" by linarith
  then show ?thesis
  proof cases
    case 3
    then have "57344 \<le> x * 4096 + y * 64 + z" "x * 4096 + y * 64 + z \<le> 1114111" using b by linarith+
    then show ?thesis by (simp add: valid_rune_def x_def y_def z_def)
  qed (use b in \<open>simp_all add: valid_small x_def [symmetric] y_def [symmetric] z_def [symmetric]\<close>)
qed

lemma valid4:
  assumes "240 \<le> b0 \<and> b0 \<le> 244 \<and> is_cont b1 \<and> (b0 = 240 \<longrightarrow> 144 \<le> b1) \<and> (b0 = 244 \<longrightarrow> b1 \<le> 143) \<and> is_cont b2 \<and> is_cont b3"
  shows "valid_rune ((b0 - 240) * 262144 + (b1 - 128) * 4096 + (b2 - 128) * 64 + (b3 - 128))"
proof -
  define x y z u where "x = b0 - 240" and "y = b1 - 128" and "z = b2 - 128" and "u = b3 - 128"
  then have b: "x \<le> 4" "y \<le> 63" "z \<le> 63" "u \<le> 63" "x = 4 \<longrightarrow> y \<le> 15" "x = 0 \<longrightarrow> 16 \<le> y"
    using assms unfolding is_cont_def by linarith+
  have "65536 \<le> x * 262144 + y * 4096 + z * 64 + u" using b by (cases "x = 0") linarith+
  moreover have "x * 262144 + y * 4096 + z * 64 + u \<le> 1114111" using b by (cases "x = 4") linarith+
  ultimately show ?thesis by (simp add: valid_rune_def x_def y_def z_def u_def)
qed

lemma valid_if:
  "(c \<Longrightarrow> valid_rune (fst x)) \<Longrightarrow> (\<not> c \<Longrightarrow> valid_rune (fst y)) \<Longrightarrow> valid_rune (fst (if c then x else y))"
  by simp

lemma valid_error: "valid_rune runeError"
  by (simp add: valid_rune_def runeError_def)

lemma decode_valid: "valid_rune (fst (decode_rune bs))"
proof -
  have a: "\<And>b. b < 128 \<Longrightarrow> valid_rune b" by (simp add: valid_small)
  show ?thesis
    by (cases bs rule: decode_rune.cases; simp only: decode_rune.simps;
      (intro valid_if)?; (unfold fst_conv); (rule valid_error | (erule a) | (erule valid2) | (erule valid3) | (erule valid4)))
qed

lemma runes_valid: "list_all valid_rune (runes s)"
proof (induction s rule: utf8_chunks.induct)
  case (2 c cs)
  show ?case using 2 [OF refl] decode_valid by (simp add: runes_def utf8_chunks.simps(2) Let_def)
qed simp

lemma encode_ascii: "byte c < 128 \<Longrightarrow> encode_rune (byte c) = [c]"
  by (simp add: encode_rune_def)

lemma runes_of_ascii: "list_all (\<lambda>c. byte c < 128) s \<Longrightarrow> runes s = map byte s \<and> string_of_runes (map byte s) = s"
  by (induction s) (auto simp: runes_ascii string_of_runes_def encode_ascii)

lemma string_of_append: "string_of_runes (a @ b) = string_of_runes a @ string_of_runes b"
  by (simp add: string_of_runes_def)

end
