(* ===== verification/FormatFacts.thy ===== *)
theory FormatFacts
  imports Format Utf8
begin

text \<open>
  Facts about the text helpers: safe text is free of control runes, wrapping loses nothing, every
  line of a frame fits its width and every frame its height.
\<close>

section \<open>Safe text\<close>

definition safe_runes :: "rune \<Rightarrow> rune list" where
  "safe_runes r = (if \<not> IsControl r then [r] else map byte (quote_control r))"

lemma hex_digit_ascii: "32 \<le> byte (hex_digit (k mod 16)) \<and> byte (hex_digit (k mod 16)) < 127"
proof -
  have "k mod 16 < 16" by simp
  then show ?thesis by (simp only: byte_hex_digit split: if_splits) linarith
qed

lemma quote_control_ascii: "list_all (\<lambda>c. 32 \<le> byte c \<and> byte c < 127) (quote_control r)"
  by (simp add: quote_control_def hex_digit_ascii) (simp add: byte_def)

lemma quote_control_runes: "string_of_runes (map byte (quote_control r)) = quote_control r"
  using quote_control_ascii [of r] by (intro conjunct2 [OF runes_of_ascii]) (auto simp: list_all_iff)

lemma SafeText_runes: "SafeText s = string_of_runes (concat (map safe_runes (runes s)))"
proof -
  have "string_of_runes (concat (map safe_runes rs)) = concat (map (\<lambda>r. if \<not> IsControl r then encode_rune r else quote_control r) rs)" for rs
  proof (induction rs)
    case (Cons r rs)
    then show ?case
      by (auto simp: safe_runes_def string_of_append quote_control_runes string_of_runes_def [of "r # _"] string_of_runes_def [symmetric])
  qed (simp add: string_of_runes_def)
  then show ?thesis by (simp add: SafeText_def)
qed

lemma safe_runes_ok: "valid_rune r \<Longrightarrow> list_all (\<lambda>r. valid_rune r \<and> \<not> IsControl r) (safe_runes r)"
  using quote_control_ascii [of r] by (auto simp: safe_runes_def list_all_iff IsControl_def valid_rune_def)

lemma safe_ok: "list_all (\<lambda>r. valid_rune r \<and> \<not> IsControl r) (concat (map safe_runes (runes s)))"
  using runes_valid [of s] safe_runes_ok unfolding list_all_iff by fastforce

lemma runes_SafeText: "runes (SafeText s) = concat (map safe_runes (runes s))"
  using safe_ok [of s] by (simp add: SafeText_runes runes_of_runes list_all_iff)

definition inert :: "string \<Rightarrow> bool" where
  "inert s = list_all (\<lambda>r. \<not> IsControl r) (runes s)"

lemma SafeText_inert: "inert (SafeText s)"
  using safe_ok [of s] by (simp add: inert_def runes_SafeText list_all_iff)

lemma inert_safe_runes: "list_all (\<lambda>r. \<not> IsControl r) rs \<Longrightarrow> concat (map safe_runes rs) = rs"
  by (induction rs) (simp_all add: safe_runes_def)

section \<open>Wrapping\<close>

lemma wrap_loop_Nil [simp]: "wrap_loop w [] = []"
  by (simp add: wrap_loop.simps)

lemma wrap_loop_step: "0 < w \<Longrightarrow> rs \<noteq> [] \<Longrightarrow> wrap_loop w rs = string_of_runes (take w rs) # wrap_loop w (drop w rs)"
  by (subst wrap_loop.simps) (auto simp: min_def)

lemma ceil_div_step: "0 < w \<Longrightarrow> 0 < n \<Longrightarrow> (n + w - 1) div w = Suc ((n - w + w - 1) div w)" for n w :: nat
proof -
  assume a: "0 < w" "0 < n"
  then have "n + w - 1 = (n - 1) + w" by linarith
  then have "(n + w - 1) div w = Suc ((n - 1) div w)" using a by (simp only: div_add_self2 [OF less_imp_neq [OF a(1), symmetric]])
  moreover have "(n - w + w - 1) div w = (n - 1) div w"
  proof (cases "n \<le> w")
    case True
    with a have "n - 1 < w" "n - w + w - 1 < w" by linarith+
    then show ?thesis by (simp only: div_less)
  qed simp
  ultimately show ?thesis by simp
qed

lemma wrap_loop_facts:
  assumes "0 < w" and "list_all valid_rune rs"
  shows "concat (map runes (wrap_loop w rs)) = rs \<and>
    list_all (\<lambda>l. 1 \<le> length (runes l) \<and> length (runes l) \<le> w) (wrap_loop w rs) \<and>
    length (wrap_loop w rs) = (length rs + w - 1) div w"
  using assms(2)
proof (induction "length rs" arbitrary: rs rule: less_induct)
  case less
  show ?case
  proof (cases "rs = []")
    case False
    have v: "list_all valid_rune (take w rs)" "list_all valid_rune (drop w rs)"
      using less.prems by (auto simp: list_all_iff dest: in_set_takeD in_set_dropD)
    have "length (drop w rs) < length rs" using False assms(1) by simp
    note IH = less.hyps [OF this v(2)]
    have "(length rs + w - 1) div w = Suc ((length rs - w + w - 1) div w)"
      using ceil_div_step [OF assms(1)] False by simp
    with IH v(1) False assms(1) show ?thesis by (simp add: wrap_loop_step runes_of_runes Suc_le_eq)
  qed (use assms in simp)
qed

section \<open>Frames\<close>

definition line_runes :: "Line \<Rightarrow> rune list" where
  "line_runes l = concat (map (\<lambda>s. runes (sp_Text s)) l)"

definition line_ok :: "int \<Rightarrow> Line \<Rightarrow> bool" where
  "line_ok w l = (int (length (line_runes l)) \<le> w \<and> list_all (\<lambda>r. \<not> IsControl r) (line_runes l))"

definition frame_ok :: "int \<Rightarrow> Frame \<Rightarrow> bool" where
  "frame_ok w f = list_all (line_ok w) (fr_Lines f)"

lemma take_valid: "list_all valid_rune rs \<Longrightarrow> list_all valid_rune (take n rs)"
  by (auto simp: list_all_iff dest: in_set_takeD)

lemma add_spans_ok:
  "length (line_runes (add_spans n ss)) \<le> n \<and> list_all (\<lambda>r. \<not> IsControl r) (line_runes (add_spans n ss))"
proof (induction n ss rule: add_spans.induct)
  case (2 n s ss)
  let ?rs = "take n (runes (SafeText (sp_Text s)))"
  have r: "runes (string_of_runes ?rs) = ?rs" by (rule runes_of_runes, rule take_valid, rule runes_valid)
  have i: "list_all (\<lambda>r. \<not> IsControl r) ?rs"
    using SafeText_inert [of "sp_Text s"] by (auto simp: inert_def list_all_iff dest: in_set_takeD)
  consider "n = 0" | "n \<noteq> 0" "?rs = []" | "n \<noteq> 0" "?rs \<noteq> []" by blast
  then show ?case
  proof cases
    case 3
    then have "line_runes (add_spans n (s # ss)) = ?rs @ line_runes (add_spans (n - length ?rs) ss)"
      using r by (simp add: line_runes_def Let_def)
    with 2(2) [OF 3(1) refl 3(2)] i show ?thesis by auto
  next
    case 2
    with "2.IH"(1) [OF 2(1) refl 2(2)] show ?thesis by (simp add: Let_def)
  qed (simp add: line_runes_def)
qed (simp add: line_runes_def)

lemma frame_ok_Add [simp]: "frame_ok w f \<Longrightarrow> frame_ok w (Frame_Add w ss f)"
  using add_spans_ok [of "nat w" ss] by (auto simp: frame_ok_def Frame_Add_def line_ok_def)

lemma frame_ok_Blank [simp]: "frame_ok w f \<Longrightarrow> frame_ok w (Frame_Blank w f)"
  by (simp add: Frame_Blank_def)

lemma frame_ok_empty [simp]: "frame_ok w \<lparr>fr_Lines = []\<rparr>"
  by (simp add: frame_ok_def)

lemma frame_ok_FitHeight: "frame_ok w f \<Longrightarrow> line_ok w footer \<Longrightarrow> frame_ok w (FitHeight h footer f)"
  by (auto simp: frame_ok_def FitHeight_def list_all_iff dest: in_set_takeD)

lemma FitHeight_height: "0 < h \<Longrightarrow> int (length (fr_Lines (FitHeight h footer f))) \<le> h"
  by (auto simp: FitHeight_def)

lemma line_ok_Truncate: "0 \<le> w \<Longrightarrow> inert t \<Longrightarrow> line_ok w [span (Truncate t w) tone]"
proof -
  assume a: "0 \<le> w" "inert t"
  have r: "runes (string_of_runes (take (nat w) (runes t))) = take (nat w) (runes t)"
    by (rule runes_of_runes, rule take_valid, rule runes_valid)
  have "list_all (\<lambda>r. \<not> IsControl r) (take (nat w) (runes t))"
    using a(2) by (auto simp: inert_def list_all_iff dest: in_set_takeD)
  with a r show ?thesis by (auto simp: line_ok_def line_runes_def Truncate_def min_def)
qed

end
