(* ===== verification/PresentationTheorems.thy ===== *)
theory PresentationTheorems
  imports Layout FormatFacts
begin

text \<open>
  The properties of the presentation: untrusted text is made inert, wrapping loses nothing, and
  whatever the snapshots hold, the frames fit the screen and draw no control rune.
\<close>

section \<open>Text\<close>

text \<open>
  C36. Safe text is inert: it decodes to valid runes none of which is a control rune, making it
  safe again changes nothing, and its runes are those of the original text exactly when that had
  no control rune.
\<close>

theorem safe_text_inert:
  "list_all (\<lambda>r. valid_rune r \<and> \<not> IsControl r) (runes (SafeText s)) \<and> SafeText (SafeText s) = SafeText s \<and>
   (runes (SafeText s) = runes s) = list_all (\<lambda>r. \<not> IsControl r) (runes s)"
proof -
  have ok: "list_all (\<lambda>r. valid_rune r \<and> \<not> IsControl r) (runes (SafeText s))"
    using safe_ok [of s] by (simp add: runes_SafeText)
  then have n: "list_all (\<lambda>r. \<not> IsControl r) (runes (SafeText s))" by (simp add: list_all_iff)
  have "SafeText (SafeText s) = string_of_runes (runes (SafeText s))"
    by (simp only: SafeText_runes [of "SafeText s"] inert_safe_runes [OF n])
  also have "\<dots> = SafeText s" by (subst runes_SafeText) (rule SafeText_runes [symmetric])
  finally have idem: "SafeText (SafeText s) = SafeText s" .
  have "(runes (SafeText s) = runes s) = list_all (\<lambda>r. \<not> IsControl r) (runes s)"
    using n inert_safe_runes by (metis runes_SafeText)
  with ok idem show ?thesis by blast
qed

text \<open>
  C37. Wrapping ends and loses nothing: the lines put together have the runes of the text, each
  line has at least one rune and at most \<open>width\<close>, and there are as few lines as that allows.
\<close>

theorem wrap_lossless:
  assumes "0 < width"
  shows "concat (map runes (Wrap s width)) = runes s \<and>
    list_all (\<lambda>l. 1 \<le> length (runes l) \<and> length (runes l) \<le> nat width) (Wrap s width) \<and>
    length (Wrap s width) = (length (runes s) + nat width - 1) div nat width"
proof (cases "s = []")
  case True
  then show ?thesis using assms by (simp add: Wrap_def)
next
  case False
  with wrap_loop_facts [of "nat width" "runes s"] runes_valid assms show ?thesis by (simp add: Wrap_def)
qed

theorem wrap_lossless_witness:
  "concat (map runes (Wrap ''AB:CD:EF'' 3)) = runes ''AB:CD:EF'' \<and> Wrap ''AB:CD:EF'' 3 = [''AB:'', ''CD:'', ''EF'']"
proof -
  have "Wrap ''AB:CD:EF'' 3 = [''AB:'', ''CD:'', ''EF'']" by code_simp
  with wrap_lossless [of 3 "''AB:CD:EF''"] show ?thesis by simp
qed

section \<open>Frames\<close>

lemma frame_ok_adds [simp]: "frame_ok w f \<Longrightarrow> frame_ok w (adds w ls f)"
  by (induction ls arbitrary: f) (simp_all add: adds_def)

lemma frame_ok_close: "frame_ok w f \<Longrightarrow> line_ok w footer \<Longrightarrow> frame_ok w (close_frame w h footer f)"
  using frame_ok_Blank [of w f] unfolding close_frame_def Let_def
  by (intro frame_ok_FitHeight) (simp_all add: frame_ok_def)

lemma min_width_pos [simp]: "0 \<le> min_width w" "0 < min_width w"
  by (simp_all add: min_width_def)

lemma footer_ok:
  "line_ok (min_width w) (footer_line ''q quit    ? help'' (min_width w))"
  "line_ok (min_width w) (footer_line ''Ctrl+C stops waiting; the coordinator job continues.'' (min_width w))"
proof -
  have a: "list_all (\<lambda>c. 32 \<le> byte c \<and> byte c < 127) s \<Longrightarrow> inert s" for s
  proof -
    assume s: "list_all (\<lambda>c. 32 \<le> byte c \<and> byte c < 127) s"
    then have "list_all (\<lambda>c. byte c < 128) s" by (auto simp: list_all_iff)
    with s runes_of_ascii [of s] show "inert s" by (auto simp: inert_def list_all_iff IsControl_def)
  qed
  show "line_ok (min_width w) (footer_line ''q quit    ? help'' (min_width w))"
    unfolding footer_line_def by (rule line_ok_Truncate, simp, rule a) (simp add: byte_def)
  show "line_ok (min_width w) (footer_line ''Ctrl+C stops waiting; the coordinator job continues.'' (min_width w))"
    unfolding footer_line_def by (rule line_ok_Truncate, simp, rule a) (simp add: byte_def)
qed

lemma line_ok_empty: "0 \<le> w \<Longrightarrow> line_ok w []"
  by (simp add: line_ok_def line_runes_def)

lemma coordinator_parts_ok:
  "frame_ok w (coordinator_head s sy w caps)"
  "frame_ok w f \<Longrightarrow> frame_ok w (coordinator_counts c w f)"
  "frame_ok w f \<Longrightarrow> frame_ok w (coordinator_workers s now sy w caps f)"
  "frame_ok w f \<Longrightarrow> frame_ok w (coordinator_job s w h caps f)"
proof -
  show "frame_ok w (coordinator_head s sy w caps)"
    unfolding coordinator_head_def Let_def by (cases "co_Fingerprint s \<noteq> [] \<and> (ca_Verbose caps \<or> co_Workers s = [])") simp_all
  show "frame_ok w f \<Longrightarrow> frame_ok w (coordinator_counts c w f)"
    unfolding coordinator_counts_def by (cases "w < 58") simp_all
  show "frame_ok w f \<Longrightarrow> frame_ok w (coordinator_workers s now sy w caps f)"
    unfolding coordinator_workers_def Let_def by (cases "co_Workers s = []") simp_all
  show "frame_ok w f \<Longrightarrow> frame_ok w (coordinator_job s w h caps f)"
    unfolding coordinator_job_def Let_def by (cases "co_CurrentJob s") simp_all
qed

lemma CoordinatorFrame_ok: "frame_ok (min_width w) (CoordinatorFrame now s w h caps)"
  unfolding CoordinatorFrame_def Let_def
  by (intro frame_ok_close footer_ok(1) coordinator_parts_ok)

lemma WorkerFrame_ok: "frame_ok (min_width w) (WorkerFrame now s w h caps)"
  unfolding WorkerFrame_def Let_def
  by (cases "workerConnection (wk_Connection s) caps", simp only: prod.case, rule frame_ok_close [OF _ footer_ok(1)])
    (simp add: worker_trouble_def)

lemma SubmitFrame_ok: "frame_ok (min_width w) (SubmitFrame s w h caps)"
proof -
  have "frame_ok (min_width w) (submit_workers job (min_width w) caps f)" if "frame_ok (min_width w) f" for job f
    using that by (simp add: submit_workers_def)
  then show ?thesis unfolding SubmitFrame_def Let_def
    using frame_ok_close [OF _ footer_ok(2)] frame_ok_FitHeight [OF _ line_ok_empty] by simp
qed

lemma helpFrame_ok: "0 \<le> w \<Longrightarrow> frame_ok w (helpFrame w h)"
  unfolding helpFrame_def by (rule frame_ok_FitHeight) (simp_all add: line_ok_empty)

lemma frame_ok_wider: "frame_ok w f \<Longrightarrow> w \<le> w' \<Longrightarrow> frame_ok w' f"
  by (auto simp: frame_ok_def line_ok_def list_all_iff)

lemma help_narrow: "w < 0 \<Longrightarrow> fr_Lines (helpFrame w h) = []"
  by (simp add: helpFrame_def FitHeight_def Frame_Blank_def Frame_Add_def adds_def) arith

lemma helpFrame_min: "frame_ok (min_width w) (helpFrame w h)"
proof (cases "0 \<le> w")
  case True
  from frame_ok_wider [OF helpFrame_ok [OF this]] show ?thesis by (simp add: min_width_def)
next
  case False
  then show ?thesis by (simp add: frame_ok_def help_narrow)
qed

lemma frames_height:
  assumes "0 < h"
  shows "int (length (fr_Lines (CoordinatorFrame now s w h caps))) \<le> h"
    "int (length (fr_Lines (WorkerFrame now s1 w h caps))) \<le> h"
    "int (length (fr_Lines (SubmitFrame s2 w h caps))) \<le> h"
    "int (length (fr_Lines (helpFrame w h))) \<le> h"
  using FitHeight_height [OF assms]
  by (simp_all add: CoordinatorFrame_def WorkerFrame_def SubmitFrame_def helpFrame_def close_frame_def Let_def split_beta)

section \<open>Drawing\<close>

definition write_ok :: "int \<Rightarrow> int \<Rightarrow> cell_write \<Rightarrow> bool" where
  "write_ok width height = (\<lambda>(x, y, r, style). 0 \<le> x \<and> x < width \<and> 0 \<le> y \<and> y < height \<and> \<not> IsControl r)"

lemma write_ok_iff: "write_ok width height (x, y, r, style) \<longleftrightarrow> 0 \<le> x \<and> x < width \<and> 0 \<le> y \<and> y < height \<and> \<not> IsControl r"
  by (simp add: write_ok_def)

lemma draw_runes_ok:
  "draw_runes width y st rs x = (ws, x') \<Longrightarrow> 0 \<le> x \<Longrightarrow> 0 \<le> y \<Longrightarrow> y < height \<Longrightarrow> list_all (\<lambda>r. \<not> IsControl r) rs \<Longrightarrow>
   list_all (write_ok width height) ws \<and> 0 \<le> x'"
proof (induction width y st rs x arbitrary: ws x' rule: draw_runes.induct)
  case (2 width y st r rs x)
  then show ?case by (cases "x \<ge> width") (auto simp: write_ok_iff split: prod.splits)
qed simp

lemma draw_line_ok:
  "0 \<le> x \<Longrightarrow> 0 \<le> y \<Longrightarrow> y < height \<Longrightarrow> list_all (\<lambda>r. \<not> IsControl r) (line_runes l) \<Longrightarrow>
   list_all (write_ok width height) (draw_line width y color l x)"
proof (induction l arbitrary: x)
  case (Cons s l)
  obtain ws x' where d: "draw_runes width y (styleFor (sp_Tone s) color) (runes (sp_Text s)) x = (ws, x')" by (meson surj_pair)
  from Cons.prems(4) have n: "list_all (\<lambda>r. \<not> IsControl r) (runes (sp_Text s))" "list_all (\<lambda>r. \<not> IsControl r) (line_runes l)"
    by (simp_all add: line_runes_def)
  from draw_runes_ok [OF d Cons.prems(1,2,3) n(1)] Cons.IH Cons.prems n(2) d show ?case by simp
qed simp

lemma draw_lines_ok:
  "0 \<le> y \<Longrightarrow> list_all (\<lambda>l. list_all (\<lambda>r. \<not> IsControl r) (line_runes l)) ls \<Longrightarrow>
   list_all (write_ok width height) (draw_lines width height color ls y)"
proof (induction ls arbitrary: y)
  case (Cons l ls)
  then show ?case using draw_line_ok [of 0 y height l width color] by auto
qed simp

lemma drawFrame_ok: "frame_ok w f \<Longrightarrow> list_all (write_ok width height) (drawFrame width height f caps)"
proof -
  assume "frame_ok w f"
  then have "list_all (\<lambda>l. list_all (\<lambda>r. \<not> IsControl r) (line_runes l)) (fr_Lines f)"
    by (simp add: frame_ok_def line_ok_def list_all_iff)
  moreover have "list_all (write_ok width height) (clear_screen width height)"
    by (auto simp: clear_screen_def list_all_iff write_ok_def IsControl_def)
  ultimately show ?thesis using draw_lines_ok [of 0] by (simp add: drawFrame_def)
qed

section \<open>The whole view\<close>

text \<open>What the three commands hand to the view: a frame of some snapshot at the size that is asked for.\<close>

definition view_source :: "Capabilities \<Rightarrow> (int \<Rightarrow> int \<Rightarrow> Frame) \<Rightarrow> bool" where
  "view_source caps source = ((\<exists>now s. source = (\<lambda>w h. CoordinatorFrame now s w h caps)) \<or> (\<exists>now s. source = (\<lambda>w h. WorkerFrame now s w h caps)) \<or>
     (\<exists>s. source = (\<lambda>w h. SubmitFrame s w h caps)))"

lemma view_source_ok: "view_source caps source \<Longrightarrow> frame_ok (min_width w) (source w h)"
  using CoordinatorFrame_ok WorkerFrame_ok SubmitFrame_ok by (auto simp: view_source_def)

lemma write_ok_wider: "write_ok w h x \<Longrightarrow> w \<le> w' \<Longrightarrow> h \<le> h' \<Longrightarrow> write_ok w' h' x"
  by (cases x) (auto simp: write_ok_iff)

lemma tui_draw_ok:
  assumes "list_all (write_ok W H) (sc_writes s)" and "view_source caps source" and "fst dims \<le> W" and "snd dims \<le> H"
  shows "list_all (write_ok W H) (sc_writes (tui_draw caps dims source help s))"
proof -
  obtain w h where d: "dims = (w, h)" by (cases dims)
  have "frame_ok (min_width w) (if help then helpFrame w h else source w h)"
    using helpFrame_min view_source_ok [OF assms(2)] by simp
  from drawFrame_ok [OF this, of w h caps]
  have "list_all (write_ok W H) (drawFrame w h (if help then helpFrame w h else source w h) caps)"
    using assms(3,4) d by (auto simp: list_all_iff intro: write_ok_wider)
  with assms(1) show ?thesis by (simp add: tui_draw_def d)
qed

lemma tui_step_ok:
  assumes "tui_step caps dims source e s = Inr s'"
    and "list_all (write_ok W H) (sc_writes s)" and "view_source caps source" and "fst dims \<le> W" and "snd dims \<le> H"
  shows "list_all (write_ok W H) (sc_writes s')"
  using assms(1) assms(2) tui_draw_ok [OF assms(2-5)] by (auto simp: tui_step_def split: tui_event.splits tui_key.splits if_splits)

lemma tui_loop_ok:
  "list_all (write_ok W H) (sc_writes s) \<Longrightarrow> list_all (\<lambda>(e, dims, source). view_source caps source \<and> fst dims \<le> W \<and> snd dims \<le> H) es \<Longrightarrow>
   list_all (write_ok W H) (sc_writes (fst (tui_loop caps es s)))"
proof (induction es arbitrary: s)
  case (Cons x es)
  obtain e dims source where x: "x = (e, dims, source)" by (cases x)
  show ?case
  proof (cases "tui_step caps dims source e s")
    case (Inr s')
    with Cons x tui_step_ok [OF Inr] show ?thesis by simp
  qed (use Cons.prems x in simp)
qed simp

text \<open>
  C38. The interactive view is confined. Whatever the snapshots hold (names and errors that came
  over the network included), the frames of the three commands and the help frame have at most as many
  lines as the screen, and lines of at most as many runes as the screen is wide or, on a screen narrower
  than 20, at most 20; and drawing any of them writes only inside the screen, cutting what is
  wider, and no control rune. So does the view as a whole, whatever keys, resizings and ticks
  there are, with the help on or off: everything that it ever writes lies within any
  bounds that the sizes of the screen keep.
\<close>

theorem frames_confined:
  assumes "0 < height"
    and "f \<in> {CoordinatorFrame now s width height caps, WorkerFrame now s1 width height caps, SubmitFrame s2 width height caps, helpFrame width height}"
    and "list_all (\<lambda>(e, dims, source). view_source caps source \<and> fst dims \<le> W \<and> snd dims \<le> H) ((EventResize, dims0, source0) # es)"
  shows "list_all (\<lambda>l. int (length (line_runes l)) \<le> max 20 width) (fr_Lines f) \<and>
    int (length (fr_Lines f)) \<le> height \<and>
    list_all (\<lambda>(x, y, r, style). 0 \<le> x \<and> x < w \<and> 0 \<le> y \<and> y < h \<and> \<not> IsControl r) (drawFrame w h f caps) \<and>
    list_all (\<lambda>(x, y, r, style). 0 \<le> x \<and> x < W \<and> 0 \<le> y \<and> y < H \<and> \<not> IsControl r)
      (sc_writes (fst (RunWithScreen caps dims0 source0 es)))"
proof -
  have ok: "frame_ok (min_width width) f"
    using assms(2) CoordinatorFrame_ok WorkerFrame_ok SubmitFrame_ok helpFrame_min by auto
  have "min_width width = max 20 width" by (simp add: min_width_def)
  with ok have "list_all (\<lambda>l. int (length (line_runes l)) \<le> max 20 width) (fr_Lines f)"
    by (simp add: frame_ok_def line_ok_def list_all_iff)
  moreover have "int (length (fr_Lines f)) \<le> height" using assms(2) frames_height [OF assms(1)] by auto
  moreover have "list_all (write_ok W H) (sc_writes (fst (RunWithScreen caps dims0 source0 es)))"
    unfolding RunWithScreen_def using assms(3) by (intro tui_loop_ok tui_draw_ok) simp_all
  ultimately show ?thesis using drawFrame_ok [OF ok, of w h caps] by (simp add: write_ok_def)
qed

definition ex_snapshot :: SubmitSnapshot where
  "ex_snapshot = \<lparr>sn_ObservedAt = 1, sn_Submitted = True, sn_Done = False, sn_TimedOut = False,
     sn_Job = \<lparr>jp_JobID = CHR 0x1B # ''[2J'', jp_State = ''running'', jp_Total = 1, jp_Queued = 0, jp_Running = 1, jp_Completed = 0, jp_Failed = 0,
       jp_StartedAt = 1, jp_Elapsed = Second, jp_Tasks = [], jp_Workers = []\<rparr>, sn_Error = []\<rparr>"

definition ex_caps :: Capabilities where
  "ex_caps = \<lparr>ca_Interactive = True, ca_Verbose = False, ca_Color = True, ca_Unicode = False\<rparr>"

text \<open>A narrow screen on which the help is opened and closed.\<close>

definition ex_view :: "(tui_event \<times> (int \<times> int) \<times> (int \<Rightarrow> int \<Rightarrow> Frame)) list" where
  "ex_view = map (\<lambda>e. (e, (10, 3), \<lambda>w h. SubmitFrame ex_snapshot w h ex_caps)) [Tick, EventKey (KeyRune 63), EventKey KeyEscape]"

theorem frames_confined_witness:
  "int (length (fr_Lines (helpFrame 10 3))) \<le> 3 \<and>
   list_all (\<lambda>(x, y, r, style). 0 \<le> x \<and> x < 10 \<and> 0 \<le> y \<and> y < 3 \<and> \<not> IsControl r)
     (sc_writes (fst (RunWithScreen ex_caps (10, 3) (\<lambda>w h. SubmitFrame ex_snapshot w h ex_caps) ex_view)))"
proof -
  have h: "0 < (3 :: int)" by simp
  have "view_source ex_caps (\<lambda>w h. SubmitFrame ex_snapshot w h ex_caps)" by (auto simp: view_source_def)
  then have v: "list_all (\<lambda>(e, dims, source). view_source ex_caps source \<and> fst dims \<le> 10 \<and> snd dims \<le> 3)
      ((EventResize, (10, 3), \<lambda>w h. SubmitFrame ex_snapshot w h ex_caps) # ex_view)" by (simp add: ex_view_def)
  from frames_confined [OF h _ v, of "helpFrame 10 3" _ _ 10 _ _] show ?thesis by blast
qed

end
