(* ===== verification/Results.thy ===== *)
theory Results
  imports Executor Files Monitor
begin

text \<open>
  \<open>internal/cli/results.go\<close>: the results file of a manifest job. \<open>json.Unmarshal\<close> into a probe
  output is an argument, and so is the random part of the name of the temporary file.
\<close>

record manifestTaskError =
  me_Category :: string
  me_Message :: string

record manifestTaskResult =
  mr_Key :: string
  mr_State :: string
  mr_Attempts :: int
  mr_Worker :: string
  mr_Output :: "HTTPProbeOutput option"
  mr_Error :: "manifestTaskError option"

record manifestResults =
  md_JobID :: string
  md_State :: string
  md_Tasks :: "manifestTaskResult list"

datatype results_error =
    OutputPathRequired
  | OutputIsDirectory string
  | OutputStatFailed os_error
  | OutputDirUnavailable string os_error
  | OutputParentNotDirectory string
  | DecodeOutputFailed string string
  | TempCreateFailed os_error
  | TempWriteFailed os_error
  | TempSyncFailed os_error
  | TempCloseFailed os_error
  | ReplaceFailed os_error

definition validateResultOutputPath :: "FS \<Rightarrow> string \<Rightarrow> results_error option" where
  "validateResultOutputPath fs path =
     (if TrimSpace path = [] then Some OutputPathRequired
      else let cleaned = filepath_Clean path;
               checked = (case os_Stat fs cleaned of
                   Inr Directory \<Rightarrow> Some (OutputIsDirectory path)
                 | Inr (RegularFile _ _) \<Rightarrow> None
                 | Inl ErrNotExist \<Rightarrow> None
                 | Inl e \<Rightarrow> Some (OutputStatFailed e));
               parent = filepath_Dir cleaned
           in if checked \<noteq> None then checked
              else case os_Stat fs parent of
                  Inl e \<Rightarrow> Some (OutputDirUnavailable parent e)
                | Inr Directory \<Rightarrow> None
                | Inr (RegularFile _ _) \<Rightarrow> Some (OutputParentNotDirectory parent))"

text \<open>One iteration of the loop of \<open>buildManifestResults\<close>.\<close>

definition task_result :: "(string \<Rightarrow> string + HTTPProbeOutput) \<Rightarrow> TaskProgress \<Rightarrow> results_error + manifestTaskResult" where
  "task_result unmarshal task =
     (let result = \<lparr>mr_Key = tp_Key task, mr_State = tp_State task, mr_Attempts = tp_Attempt task,
            mr_Worker = tp_WorkerID task, mr_Output = None, mr_Error = None\<rparr>;
          with_exec = (\<lambda>r. if tp_Error task \<noteq> [] \<and> mr_Error r = None
             then r\<lparr>mr_Error := Some \<lparr>me_Category = ''execution'', me_Message = tp_Error task\<rparr>\<rparr> else r)
      in if tp_Output task = [] then Inr (with_exec result)
         else case unmarshal (tp_Output task) of
             Inl e \<Rightarrow> Inl (DecodeOutputFailed (tp_Key task) e)
           | Inr probe \<Rightarrow>
               (if po_ErrorCategory probe \<noteq> [] \<or> po_ErrorMessage probe \<noteq> []
                then Inr (with_exec (result\<lparr>mr_Error := Some \<lparr>me_Category = po_ErrorCategory probe, me_Message = po_ErrorMessage probe\<rparr>,
                       mr_Output := Some (probe\<lparr>po_ErrorCategory := [], po_ErrorMessage := []\<rparr>)\<rparr>))
                else Inr (with_exec (result\<lparr>mr_Output := Some probe\<rparr>))))"

fun task_results :: "(string \<Rightarrow> string + HTTPProbeOutput) \<Rightarrow> TaskProgress list \<Rightarrow> results_error + manifestTaskResult list" where
  "task_results unmarshal [] = Inr []"
| "task_results unmarshal (t # ts) =
     (case task_result unmarshal t of
        Inl e \<Rightarrow> Inl e
      | Inr r \<Rightarrow> (case task_results unmarshal ts of Inl e \<Rightarrow> Inl e | Inr rs \<Rightarrow> Inr (r # rs)))"

definition buildManifestResults :: "(string \<Rightarrow> string + HTTPProbeOutput) \<Rightarrow> JobProgress \<Rightarrow> results_error + manifestResults" where
  "buildManifestResults unmarshal job = (case task_results unmarshal (jp_Tasks job) of
       Inl e \<Rightarrow> Inl e
     | Inr rs \<Rightarrow> Inr \<lparr>md_JobID = jp_JobID job, md_State = jp_State job, md_Tasks = rs\<rparr>)"

section \<open>The text of the file\<close>

text \<open>\<open>json.MarshalIndent\<close> with two blanks.\<close>

fun json_indent :: "nat \<Rightarrow> json \<Rightarrow> string" where
  "json_indent k (JArray vs) =
     (if vs = [] then ''[]''
      else CHR ''['' # join_with '','' (map (\<lambda>v. CHR 0x0A # replicate (k + 2) CHR '' '' @ json_indent (k + 2) v) vs)
        @ CHR 0x0A # replicate k CHR '' '' @ '']'')"
| "json_indent k (JObject kvs) =
     (if kvs = [] then CHR 0x7B # [CHR 0x7D]
      else CHR 0x7B # join_with '','' (map (\<lambda>kv. CHR 0x0A # replicate (k + 2) CHR '' '' @ json_quote (fst kv) @ '': '' @ json_indent (k + 2) (snd kv)) kvs)
        @ CHR 0x0A # replicate k CHR '' '' @ [CHR 0x7D])"
| "json_indent k v = json_text v"

definition task_result_json :: "manifestTaskResult \<Rightarrow> json" where
  "task_result_json r = JObject
     ([(''key'', JString (mr_Key r)), (''state'', JString (mr_State r)), (''attempts'', JInt (mr_Attempts r))]
      @ (if mr_Worker r = [] then [] else [(''worker'', JString (mr_Worker r))])
      @ (case mr_Output r of None \<Rightarrow> [] | Some p \<Rightarrow> [(''output'', probe_json p)])
      @ (case mr_Error r of None \<Rightarrow> []
         | Some e \<Rightarrow> [(''error'', JObject [(''category'', JString (me_Category e)), (''message'', JString (me_Message e))])]))"

definition results_json :: "manifestResults \<Rightarrow> json" where
  "results_json d = JObject [(''job_id'', JString (md_JobID d)), (''state'', JString (md_State d)),
     (''tasks'', JArray (map task_result_json (md_Tasks d)))]"

definition results_text :: "manifestResults \<Rightarrow> string" where
  "results_text d = json_indent 0 (results_json d) @ [CHR 0x0A]"

section \<open>Writing the file\<close>

text \<open>
  The document goes to a temporary file beside the target, which then replaces it. \<open>random\<close>
  stands for the star of the pattern.
\<close>

definition temp_path :: "string \<Rightarrow> string \<Rightarrow> string" where
  "temp_path cleaned random = filepath_Join [filepath_Dir cleaned, ''.'' @ filepath_Base cleaned @ ''-'' @ random]"

definition writeManifestResults :: "(string \<Rightarrow> string + HTTPProbeOutput) \<Rightarrow> string \<Rightarrow> string \<Rightarrow> JobProgress \<Rightarrow> FS \<Rightarrow> FS \<times> results_error option" where
  "writeManifestResults unmarshal random path job fs =
     (case validateResultOutputPath fs path of
        Some e \<Rightarrow> (fs, Some e)
      | None \<Rightarrow>
          (case buildManifestResults unmarshal job of
             Inl e \<Rightarrow> (fs, Some e)
           | Inr document \<Rightarrow>
               (let contents = results_text document;
                    cleaned = filepath_Clean path;
                    temporary = temp_path cleaned random
                in case open_exclusive temporary 384 fs of
                     (fs1, Some e) \<Rightarrow> (fs1, Some (TempCreateFailed e))
                   | (fs1, None) \<Rightarrow>
                       (case file_Write temporary contents fs1 of
                          (fs2, Some e) \<Rightarrow> (os_Remove temporary fs2, Some (TempWriteFailed e))
                        | (fs2, None) \<Rightarrow>
                            (case file_call CallSync temporary fs2 of
                               Some e \<Rightarrow> (os_Remove temporary fs2, Some (TempSyncFailed e))
                             | None \<Rightarrow>
                                 (case file_call CallClose temporary fs2 of
                                    Some e \<Rightarrow> (os_Remove temporary fs2, Some (TempCloseFailed e))
                                  | None \<Rightarrow>
                                      (case os_Rename temporary cleaned fs2 of
                                         (fs3, Some e) \<Rightarrow> (os_Remove temporary fs3, Some (ReplaceFailed e))
                                       | (fs3, None) \<Rightarrow> (os_Remove temporary fs3, None))))))))"

end
