(* ===== verification/ResultsTheorems.thy ===== *)
theory ResultsTheorems
  imports Results
begin

text \<open>The results file of a manifest job is complete or untouched.\<close>

section \<open>Path of the temporary file\<close>

definition ordinary :: "string \<Rightarrow> bool" where
  "ordinary n = (n \<noteq> [] \<and> n \<noteq> ''.'' \<and> n \<noteq> ''..'' \<and> CHR ''/'' \<notin> set n)"

lemma clean_elems_snoc: "ordinary n \<Longrightarrow> clean_elems rooted (es @ [n]) acc = clean_elems rooted es acc @ [n]"
  by (induction rooted es acc rule: clean_elems.induct) (auto simp: ordinary_def split: list.splits)

lemma render_snoc:
  "\<exists>pre. render_path rooted (es @ [n]) = pre @ n \<and> (pre = [] \<or> last pre = CHR ''/'')"
proof (cases "es = []")
  case True
  then show ?thesis by (cases rooted) (auto simp: render_path_def intro: exI [of _ "''/''"])
next
  case False
  have j: "join_with ''/'' (es @ [n]) = (join_with ''/'' es @ ''/'') @ n" using False by (simp add: join_with_snoc)
  show ?thesis
  proof (cases rooted)
    case True
    then show ?thesis
      by (intro exI [of _ "CHR ''/'' # join_with ''/'' es @ ''/''"]) (simp add: render_path_def j)
  next
    case False
    then show ?thesis
      by (intro exI [of _ "join_with ''/'' es @ ''/''"]) (simp add: render_path_def j)
  qed
qed

lemma Base_of: "ordinary n \<Longrightarrow> pre = [] \<or> last pre = CHR ''/'' \<Longrightarrow> filepath_Base (pre @ n) = n"
proof -
  assume n: "ordinary n" and pre: "pre = [] \<or> last pre = CHR ''/''"
  then obtain c m where m: "rev n = c # m" "c \<noteq> CHR ''/''" by (cases "rev n") (auto simp: ordinary_def)
  have "takeWhile (\<lambda>c. c \<noteq> CHR ''/'') (rev pre) = []"
    using pre by (cases pre rule: rev_cases) auto
  moreover have "\<forall>x \<in> set (rev n). x \<noteq> CHR ''/''" using n by (auto simp: ordinary_def)
  ultimately have "takeWhile (\<lambda>c. c \<noteq> CHR ''/'') (rev n @ rev pre) = rev n" by (subst takeWhile_append2) auto
  moreover have "dropWhile (\<lambda>c. c = CHR ''/'') (rev n @ rev pre) = rev n @ rev pre" using m by simp
  ultimately show ?thesis using n by (simp add: filepath_Base_def ordinary_def)
qed

lemma Base_slash_free: "filepath_Base p = ''/'' \<or> CHR ''/'' \<notin> set (filepath_Base p)"
  by (auto simp: filepath_Base_def Let_def dest: set_takeWhileD)

lemma Base_slash: "filepath_Base p = ''/'' \<Longrightarrow> list_all (\<lambda>c. c = CHR ''/'') p"
proof -
  assume b: "filepath_Base p = ''/''"
  let ?d = "dropWhile (\<lambda>c. c = CHR ''/'') (rev p)"
  have "?d = []"
  proof (rule ccontr)
    assume "?d \<noteq> []"
    then obtain c d where d1: "?d = c # d" by (cases ?d) simp_all
    with \<open>?d \<noteq> []\<close> hd_dropWhile [of "\<lambda>c. c = CHR ''/''" "rev p"] have d2: "c \<noteq> CHR ''/''" by simp
    note d = d1 d2
    then have "p \<noteq> []" by auto
    with d have "filepath_Base p = rev (takeWhile (\<lambda>c. c \<noteq> CHR ''/'') d) @ [c]" by (simp add: filepath_Base_def Let_def)
    then have "last (filepath_Base p) = c" by simp
    with b d(2) show False by simp
  qed
  then show ?thesis by (simp add: dropWhile_eq_Nil_conv list_all_iff)
qed

lemma temp_differs:
  assumes "CHR ''/'' \<notin> set random" and "\<not> list_all (\<lambda>c. c = CHR ''/'') cleaned"
  shows "temp_path cleaned random \<noteq> cleaned"
proof -
  let ?n = "''.'' @ filepath_Base cleaned @ ''-'' @ random"
  have "CHR ''/'' \<notin> set (filepath_Base cleaned)" using Base_slash_free Base_slash assms(2) by blast
  moreover have "?n \<noteq> ''..''" by (cases "filepath_Base cleaned" rule: rev_cases) auto
  ultimately have n: "ordinary ?n" using assms(1) by (simp add: ordinary_def)
  have sn: "split_on CHR ''/'' ?n = [?n]" using n by (intro split_on_plain) (simp add: ordinary_def)
  have "\<exists>q es. temp_path cleaned random = filepath_Clean q \<and> split_on CHR ''/'' q = es @ [?n]"
  proof (cases "filepath_Dir cleaned = []")
    case True
    then show ?thesis using sn by (intro exI [of _ ?n] exI [of _ "[]"]) (simp add: temp_path_def filepath_Join_def)
  next
    case False
    have "split_on CHR ''/'' (filepath_Dir cleaned @ CHR ''/'' # ?n) = split_on CHR ''/'' (filepath_Dir cleaned) @ [?n]"
      by (simp only: split_on_sep sn)
    moreover have "temp_path cleaned random = filepath_Clean (filepath_Dir cleaned @ CHR ''/'' # ?n)"
      using False by (simp add: temp_path_def filepath_Join_def)
    ultimately show ?thesis by blast
  qed
  then obtain q es where q: "temp_path cleaned random = filepath_Clean q" "split_on CHR ''/'' q = es @ [?n]" by blast
  have "filepath_Clean q = render_path (is_rooted q) (clean_elems (is_rooted q) es [] @ [?n])"
    by (simp only: filepath_Clean_def q(2) clean_elems_snoc [OF n])
  then obtain pre where "temp_path cleaned random = pre @ ?n" "pre = [] \<or> last pre = CHR ''/''"
    using render_snoc q(1) by metis
  with Base_of [OF n] have "filepath_Base (temp_path cleaned random) = ?n" by metis
  then have "length (filepath_Base (temp_path cleaned random)) = Suc (Suc (length (filepath_Base cleaned) + length random))"
    by simp
  then show ?thesis by auto
qed

lemma clean_elems_solid:
  "list_all (\<lambda>e. CHR ''/'' \<notin> set e) es \<Longrightarrow> list_all (\<lambda>e. e \<noteq> [] \<and> CHR ''/'' \<notin> set e) acc \<Longrightarrow>
   list_all (\<lambda>e. e \<noteq> [] \<and> CHR ''/'' \<notin> set e) (clean_elems rooted es acc)"
  by (induction rooted es acc rule: clean_elems.induct) (auto split: list.splits)

lemma Clean_not_slashes: "list_all (\<lambda>c. c = CHR ''/'') (filepath_Clean p) \<Longrightarrow> filepath_Clean p = ''/''"
proof -
  assume a: "list_all (\<lambda>c. c = CHR ''/'') (filepath_Clean p)"
  let ?r = "is_rooted p" and ?es = "clean_elems (is_rooted p) (split_on CHR ''/'' p) []"
  have solid: "list_all (\<lambda>e. e \<noteq> [] \<and> CHR ''/'' \<notin> set e) ?es" using clean_elems_solid split_on_parts by simp
  show ?thesis
  proof (cases "?es = []")
    case True
    then show ?thesis using a by (cases ?r) (simp_all add: filepath_Clean_def render_path_def)
  next
    case False
    then obtain e es where e: "?es = e # es" by (cases ?es) auto
    with solid obtain c e' where c: "e = c # e'" "c \<noteq> CHR ''/''" by (cases e) auto
    have "c \<in> set (join_with ''/'' (e # es))" using c(1) by (cases es) auto
    then have "c \<in> set (filepath_Clean p)" using e by (auto simp: filepath_Clean_def render_path_def)
    with a c(2) show ?thesis by (auto simp: list_all_iff)
  qed
qed

section \<open>The file\<close>

lemma Remove_node: "p \<noteq> t \<Longrightarrow> fs_node (os_Remove t fs) p = fs_node fs p"
  by (simp add: os_Remove_def)

lemma exclusive_node:
  "open_exclusive t m fs = (fs', r) \<Longrightarrow> (\<forall>p. p \<noteq> t \<longrightarrow> fs_node fs' p = fs_node fs p) \<and>
     (r = None \<longrightarrow> fs_node fs' t = Some (RegularFile m []) \<and> t \<noteq> ''.'' \<and> t \<noteq> ''/'')"
  by (auto simp: open_exclusive_def fs_put_def node_at_def split: option.splits if_splits)

lemma write_node:
  "file_Write t x fs = (fs', r) \<Longrightarrow> fs_node fs t = Some (RegularFile m []) \<Longrightarrow>
   (\<forall>p. p \<noteq> t \<longrightarrow> fs_node fs' p = fs_node fs p) \<and> (r = None \<longrightarrow> fs_node fs' t = Some (RegularFile m x))"
  by (auto simp: file_Write_def file_append_def fs_put_def split: option.splits)

lemma rename_node:
  "os_Rename t c fs = (fs', r) \<Longrightarrow> t \<noteq> c \<Longrightarrow> (\<forall>p. p \<noteq> t \<and> p \<noteq> c \<longrightarrow> fs_node fs' p = fs_node fs p) \<and>
     (if r = None then fs_node fs' c = fs_node fs t else fs_node fs' c = fs_node fs c)"
  by (auto simp: os_Rename_def split: option.splits if_splits)

lemma write_results_refused:
  assumes "\<not> (validateResultOutputPath fs path = None \<and> (\<exists>d. buildManifestResults unmarshal job = Inr d))"
    and "writeManifestResults unmarshal random path job fs = (fs', r)"
  shows "fs' = fs \<and> r \<noteq> None"
proof (cases "validateResultOutputPath fs path")
  case None
  with assms(1) obtain e where "buildManifestResults unmarshal job = Inl e" by (cases "buildManifestResults unmarshal job") auto
  with None assms(2) show ?thesis by (auto simp: writeManifestResults_def)
next
  case (Some e)
  with assms(2) have "(fs', r) = (fs, Some e)" by (simp add: writeManifestResults_def)
  then show ?thesis by simp
qed

lemma output_path_not_root:
  assumes "validateResultOutputPath fs path = None"
  shows "\<not> list_all (\<lambda>x. x = CHR ''/'') (filepath_Clean path)"
proof
  assume "list_all (\<lambda>x. x = CHR ''/'') (filepath_Clean path)"
  then have "filepath_Clean path = ''/''" using Clean_not_slashes by simp
  then show False using assms
    by (auto simp: validateResultOutputPath_def Let_def os_Stat_def node_at_def split: if_splits option.splits)
qed

lemma write_results_file:
  assumes "writeManifestResults unmarshal random path job fs = (fs', r)" and "CHR ''/'' \<notin> set random"
  defines "c \<equiv> filepath_Clean path"
  shows "(\<forall>p. p \<noteq> c \<and> p \<noteq> temp_path c random \<longrightarrow> fs_node fs' p = fs_node fs p) \<and>
    (r \<noteq> None \<longrightarrow> fs_node fs' c = fs_node fs c) \<and>
    (r = None \<longrightarrow> (\<exists>d. buildManifestResults unmarshal job = Inr d \<and> fs_node fs' c = Some (RegularFile 384 (results_text d))))"
proof (cases "validateResultOutputPath fs path = None \<and> (\<exists>d. buildManifestResults unmarshal job = Inr d)")
  case False
  from write_results_refused [OF this assms(1)] show ?thesis by auto
next
  case True
  then obtain d where v: "validateResultOutputPath fs path = None" and d: "buildManifestResults unmarshal job = Inr d" by blast
  let ?t = "temp_path c random"
  have tc: "?t \<noteq> c" using temp_differs output_path_not_root [OF v] assms(2) by (simp add: c_def)
  obtain f1 r1 where o: "open_exclusive ?t 384 fs = (f1, r1)" by (meson surj_pair)
  note o' = exclusive_node [OF o]
  show ?thesis
  proof (cases r1)
    case (Some e)
    then have "fs' = f1 \<and> r \<noteq> None" using assms(1) v d o by (auto simp: writeManifestResults_def Let_def c_def)
    then show ?thesis using o' tc by auto
  next
    case None
    obtain f2 r2 where w: "file_Write ?t (results_text d) f1 = (f2, r2)" by (meson surj_pair)
    have w': "(\<forall>p. p \<noteq> ?t \<longrightarrow> fs_node f2 p = fs_node fs p) \<and> (r2 = None \<longrightarrow> fs_node f2 ?t = Some (RegularFile 384 (results_text d)))"
      using write_node [OF w] o' None by simp
    obtain f3 r3 where m: "os_Rename ?t c f2 = (f3, r3)" by (meson surj_pair)
    note m' = rename_node [OF m tc]
    have fin: "(fs' = os_Remove ?t f2 \<and> r \<noteq> None) \<or> (r2 = None \<and> fs' = os_Remove ?t f3 \<and> (r = None \<longleftrightarrow> r3 = None))"
      using assms(1) v d o None w m
      by (auto simp: writeManifestResults_def Let_def c_def [symmetric] split: option.splits)
    then show ?thesis
    proof
      assume "fs' = os_Remove ?t f2 \<and> r \<noteq> None"
      then show ?thesis using w' tc Remove_node by auto
    next
      assume a: "r2 = None \<and> fs' = os_Remove ?t f3 \<and> (r = None \<longleftrightarrow> r3 = None)"
      then have "fs_node f2 ?t = Some (RegularFile 384 (results_text d))" using w' by simp
      with a m' w' tc d Remove_node show ?thesis by (cases "r3 = None") auto
    qed
  qed
qed

lemma task_result_faithful:
  "task_result unmarshal t = Inr r \<Longrightarrow> mr_Key r = tp_Key t \<and> mr_State r = tp_State t \<and> mr_Attempts r = tp_Attempt t \<and>
     mr_Worker r = tp_WorkerID t \<and> (mr_Output r = None) = (tp_Output t = []) \<and> (tp_Error t \<noteq> [] \<longrightarrow> mr_Error r \<noteq> None)"
  by (auto simp: task_result_def Let_def split: if_splits sum.splits)

lemma task_results_faithful:
  "task_results unmarshal ts = Inr rs \<Longrightarrow> list_all2 (\<lambda>t r. task_result unmarshal t = Inr r) ts rs"
  by (induction ts arbitrary: rs) (auto split: sum.splits)

text \<open>
  C40. The results file is complete or untouched. When writing reports success, the file holds the
  whole document, which lists every task of the job in order with its key, state, attempts and
  worker, with an output exactly for the tasks that had one and an error for every task that
  reported one. When it reports a failure, at whatever point, the file is what it was before. No
  other file changes but the temporary one.
\<close>

theorem results_file_atomic:
  assumes "writeManifestResults unmarshal random path job fs = (fs', r)" and "CHR ''/'' \<notin> set random"
  shows "(r \<noteq> None \<longrightarrow> fs_node fs' (filepath_Clean path) = fs_node fs (filepath_Clean path)) \<and>
    (r = None \<longrightarrow> (\<exists>d. fs_node fs' (filepath_Clean path) = Some (RegularFile 384 (results_text d)) \<and>
       md_JobID d = jp_JobID job \<and> md_State d = jp_State job \<and>
       list_all2 (\<lambda>t r. mr_Key r = tp_Key t \<and> mr_State r = tp_State t \<and> mr_Attempts r = tp_Attempt t \<and> mr_Worker r = tp_WorkerID t \<and>
         (mr_Output r = None) = (tp_Output t = []) \<and> (tp_Error t \<noteq> [] \<longrightarrow> mr_Error r \<noteq> None)) (jp_Tasks job) (md_Tasks d))) \<and>
    (\<forall>p. p \<noteq> filepath_Clean path \<and> p \<noteq> temp_path (filepath_Clean path) random \<longrightarrow> fs_node fs' p = fs_node fs p)"
proof -
  have d: "buildManifestResults unmarshal job = Inr d \<Longrightarrow> md_JobID d = jp_JobID job \<and> md_State d = jp_State job \<and>
       list_all2 (\<lambda>t r. mr_Key r = tp_Key t \<and> mr_State r = tp_State t \<and> mr_Attempts r = tp_Attempt t \<and> mr_Worker r = tp_WorkerID t \<and>
         (mr_Output r = None) = (tp_Output t = []) \<and> (tp_Error t \<noteq> [] \<longrightarrow> mr_Error r \<noteq> None)) (jp_Tasks job) (md_Tasks d)" for d
    by (auto simp: buildManifestResults_def split: sum.splits
        dest!: task_results_faithful elim!: list_all2_mono dest!: task_result_faithful)
  from write_results_file [OF assms] show ?thesis using d by blast
qed

definition ex_done_job :: JobProgress where
  "ex_done_job = empty_JobProgress\<lparr>jp_JobID := ''job-1'', jp_State := ''failed'', jp_Total := 1, jp_Failed := 1, jp_Tasks :=
     [\<lparr>tp_TaskID = ''t'', tp_Key = ''k'', tp_State = ''failed'', tp_WorkerID = ''w'', tp_Attempt = 3, tp_StartedAt = 0, tp_Duration = 0,
       tp_Output = [], tp_Error = ''lost''\<rparr>]\<rparr>"

definition ex_results_disk :: FS where
  "ex_results_disk = \<lparr>fs_node = Map.empty, fs_fault = (\<lambda>c p. None), fs_partial = (\<lambda>p. 0)\<rparr>"

theorem results_file_atomic_witness:
  "\<exists>fs' d. writeManifestResults (\<lambda>s. Inl []) ''7'' ''out.json'' ex_done_job ex_results_disk = (fs', None) \<and>
     fs_node fs' ''out.json'' = Some (RegularFile 384 (results_text d)) \<and> map mr_Key (md_Tasks d) = [''k'']"
proof -
  obtain fs' r where w: "writeManifestResults (\<lambda>s. Inl []) ''7'' ''out.json'' ex_done_job ex_results_disk = (fs', r)" by (meson surj_pair)
  have p: "filepath_Clean ''out.json'' = ''out.json''" "temp_path ''out.json'' ''7'' = ''.out.json-7''" "filepath_Dir ''out.json'' = ''.''"
    "filepath_Dir ''.out.json-7'' = ''.''" "TrimSpace ''out.json'' = ''out.json''"
    by code_simp+
  obtain d where d: "buildManifestResults (\<lambda>s. Inl []) ex_done_job = Inr d"
    by (simp add: buildManifestResults_def ex_done_job_def task_result_def)
  have "r = None"
    using w by (auto simp: writeManifestResults_def validateResultOutputPath_def p d os_Stat_def node_at_def ex_results_disk_def Let_def
      open_exclusive_def file_Write_def file_append_def file_call_def os_Rename_def fs_put_def)
  moreover have "CHR ''/'' \<notin> set ''7''" by simp
  note results_file_atomic [OF w this, unfolded p(1)]
  ultimately obtain d where d: "fs_node fs' ''out.json'' = Some (RegularFile 384 (results_text d))"
    and l: "list_all2 (\<lambda>t r. mr_Key r = tp_Key t \<and> mr_State r = tp_State t \<and> mr_Attempts r = tp_Attempt t \<and> mr_Worker r = tp_WorkerID t \<and>
         (mr_Output r = None) = (tp_Output t = []) \<and> (tp_Error t \<noteq> [] \<longrightarrow> mr_Error r \<noteq> None)) (jp_Tasks ex_done_job) (md_Tasks d)" by blast
  from l have "map mr_Key (md_Tasks d) = [''k'']" by (auto simp: ex_done_job_def list_all2_Cons1)
  with w d \<open>r = None\<close> show ?thesis by (intro exI [of _ fs'] exI [of _ d]) simp
qed

end
