(* ===== verification/Plain.thy ===== *)
theory Plain
  imports Layout
begin

text \<open>
  \<open>internal/presentation/plain\<close>: line-oriented output. A function that prints is the text it
  writes. Which runes \<open>strconv.IsPrint\<close> accepts is a table of the library and an argument.
\<close>

abbreviation NL :: string where "NL \<equiv> [CHR 0x0A]"

definition quote_rune :: "(rune \<Rightarrow> bool) \<Rightarrow> rune \<times> string \<Rightarrow> string" where
  "quote_rune isPrint = (\<lambda>(r, b).
     if r = runeError \<and> length b = 1
     then [CHR 0x5C, CHR ''x'', hex_digit (byte (hd b) div 16), hex_digit (byte (hd b) mod 16)]
     else if r = 34 \<or> r = 92 then [CHR 0x5C, char_of r]
     else if isPrint r then b
     else if IsControl r then quote_control r
     else CHR 0x5C # (if r < 65536 then CHR ''u'' # map (\<lambda>k. hex_digit (r div 16 ^ k mod 16)) [3, 2, 1, 0]
          else CHR ''U'' # map (\<lambda>k. hex_digit (r div 16 ^ k mod 16)) [7, 6, 5, 4, 3, 2, 1, 0]))"

text \<open>The verb \<open>%q\<close>.\<close>

definition go_quote :: "(rune \<Rightarrow> bool) \<Rightarrow> string \<Rightarrow> string" where
  "go_quote isPrint s = CHR 0x22 # concat (map (quote_rune isPrint) (utf8_chunks s)) @ [CHR 0x22]"

definition CoordinatorStarted :: "(rune \<Rightarrow> bool) \<Rightarrow> CoordinatorSnapshot \<Rightarrow> bool \<Rightarrow> string" where
  "CoordinatorStarted isPrint snapshot verbose =
     ''coordinator online address='' @ (case co_Addresses snapshot of [] \<Rightarrow> '':unknown'' | a # _ \<Rightarrow> a) @ NL
     @ (if co_Fingerprint snapshot \<noteq> [] then ''coordinator fingerprint='' @ co_Fingerprint snapshot @ NL else [])
     @ (if verbose \<and> length (co_Addresses snapshot) > 1
        then ''coordinator addresses=['' @ join_with '' '' (map (go_quote isPrint) (co_Addresses snapshot)) @ '']'' @ NL else [])"

definition WorkerStarted :: "WorkerSnapshot \<Rightarrow> string" where
  "WorkerStarted snapshot =
     ''worker starting id='' @ SafeText (wk_WorkerID snapshot) @ '' coordinator='' @ SafeText (wk_Coordinator snapshot)
     @ '' concurrency='' @ show_int (wk_Concurrency snapshot) @ NL"

definition SubmitProgress :: "JobProgress \<Rightarrow> string" where
  "SubmitProgress job =
     ''job='' @ SafeText (jp_JobID job) @ '' queued='' @ show_int (jp_Queued job) @ '' running='' @ show_int (jp_Running job)
     @ '' completed='' @ show_int (jp_Completed job) @ '' failed='' @ show_int (jp_Failed job) @ NL"

definition verbose_task :: "(rune \<Rightarrow> bool) \<Rightarrow> TaskProgress \<Rightarrow> string" where
  "verbose_task isPrint task =
     SafeText (tp_TaskID task) @ '' state='' @ SafeText (tp_State task) @ '' attempts='' @ show_int (tp_Attempt task)
     @ '' worker='' @ SafeText (tp_WorkerID task) @ '' duration='' @ CompactDuration (tp_Duration task)
     @ (if tp_Error task \<noteq> [] then '' error='' @ go_quote isPrint (SafeText (tp_Error task))
        else if tp_Output task \<noteq> [] then '' output='' @ go_quote isPrint (SafeText (tp_Output task)) else []) @ NL"

definition submitSummary :: "(rune \<Rightarrow> bool) \<Rightarrow> JobProgress \<Rightarrow> bool \<Rightarrow> bool \<Rightarrow> bool \<Rightarrow> string" where
  "submitSummary isPrint job verbose unicode showFailures =
     (let failed = (jp_Failed job > 0 \<or> jp_State job = ''failed'');
          symbol = (if failed then ''X'' else if unicode then utf_check else ''OK'');
          state = (if failed then ''failed'' else ''completed'');
          workers = sort_by (\<lambda>a b. string_le (wc_WorkerID a) (wc_WorkerID b)) (jp_Workers job)
      in symbol @ '' Job '' @ state @ NL @ NL
         @ ''Job        '' @ SafeText (jp_JobID job) @ NL
         @ ''Completed  '' @ show_int (jp_Completed job) @ NL
         @ ''Failed     '' @ show_int (jp_Failed job) @ NL
         @ ''Elapsed    '' @ CompactDuration (jp_Elapsed job) @ NL
         @ (if workers \<noteq> [] then NL @ ''Workers'' @ NL
              @ concat (map (\<lambda>w. pad_right 20 (SafeText (wc_WorkerID w)) @ '' '' @ show_int (wc_Completed w) @ '' completed'' @ NL) workers)
            else [])
         @ (if jp_Failed job > 0 \<and> showFailures then NL @ ''Failures'' @ NL
              @ concat (map (\<lambda>t. if tp_State t = ''failed''
                   then SafeText (tp_TaskID t) @ '': '' @ SafeText (tp_Error t) @ '' ('' @ show_int (tp_Attempt t) @ '' attempts exhausted)'' @ NL
                   else []) (jp_Tasks job))
            else [])
         @ (if verbose then NL @ ''Tasks'' @ NL @ concat (map (verbose_task isPrint) (jp_Tasks job)) else []))"

definition SubmitSummary :: "(rune \<Rightarrow> bool) \<Rightarrow> JobProgress \<Rightarrow> bool \<Rightarrow> bool \<Rightarrow> string" where
  "SubmitSummary isPrint job verbose unicode = submitSummary isPrint job verbose unicode True"

definition ManifestSubmitSummary :: "(rune \<Rightarrow> bool) \<Rightarrow> JobProgress \<Rightarrow> bool \<Rightarrow> string" where
  "ManifestSubmitSummary isPrint job unicode = submitSummary isPrint job False unicode False"

definition StoppedWaiting :: "string \<Rightarrow> string \<Rightarrow> string" where
  "StoppedWaiting jobID wait =
     ''! Stopped waiting after '' @ wait @ NL @ NL
     @ ''The job was not marked failed and may still be running.'' @ NL
     @ (if jobID \<noteq> [] then NL @ ''Job'' @ NL @ SafeText jobID @ NL else [])"

end
