(* ===== verification/Flags.thy ===== *)
theory Flags
  imports Plain Executor
begin

text \<open>
  The part of the package \<open>flag\<close> that the commands use: parsing of the arguments against the flags
  of a set, the message for a wrong argument, and the list of the flags in a usage text. A flag has
  a setter, which gives the error of a value that does not parse. No usage has back quotes, so a
  value is named after its type.
\<close>

datatype flag_kind = BoolFlag | StringFlag | IntFlag | DurationFlag

record 'o flag_def =
  fl_name :: string
  fl_kind :: flag_kind
  fl_default :: string
  fl_usage :: string
  fl_set :: "string \<Rightarrow> 'o \<Rightarrow> string + 'o"

definition fl_bool :: "'o flag_def \<Rightarrow> bool" where
  "fl_bool f = (fl_kind f = BoolFlag)"

datatype flag_error =
    BadFlagSyntax string
  | UndefinedFlag string
  | NeedsArgument string
  | InvalidValue string string string
  | InvalidBoolean string string string

definition flag_error_text :: "(rune \<Rightarrow> bool) \<Rightarrow> flag_error \<Rightarrow> string" where
  "flag_error_text p e = (case e of
       BadFlagSyntax s \<Rightarrow> ''bad flag syntax: '' @ s
     | UndefinedFlag name \<Rightarrow> ''flag provided but not defined: -'' @ name
     | NeedsArgument name \<Rightarrow> ''flag needs an argument: -'' @ name
     | InvalidValue name v err \<Rightarrow> ''invalid value '' @ go_quote p v @ '' for flag -'' @ name @ '': '' @ err
     | InvalidBoolean name v err \<Rightarrow> ''invalid boolean value '' @ go_quote p v @ '' for -'' @ name @ '': '' @ err)"

text \<open>The options, the names of the flags that were set, and the remaining arguments.\<close>

datatype 'o flags_result = FlagsParsed 'o "string list" "string list" | FlagsHelp | FlagsFail flag_error

definition find_flag :: "'o flag_def list \<Rightarrow> string \<Rightarrow> 'o flag_def option" where
  "find_flag fs name = find (\<lambda>f. fl_name f = name) fs"

definition flag_name :: "string \<Rightarrow> string" where
  "flag_name body = takeWhile (\<lambda>c. c \<noteq> CHR ''='') body"

definition flag_value :: "string \<Rightarrow> string option" where
  "flag_value body = (case dropWhile (\<lambda>c. c \<noteq> CHR ''='') body of [] \<Rightarrow> None | _ # v \<Rightarrow> Some v)"

fun parse_flags :: "'o flag_def list \<Rightarrow> string list \<Rightarrow> 'o \<Rightarrow> string list \<Rightarrow> 'o flags_result" where
  "parse_flags fs [] opts visited = FlagsParsed opts visited []"
| "parse_flags fs (s # args) opts visited =
     (if length s < 2 \<or> hd s \<noteq> CHR ''-'' then FlagsParsed opts visited (s # args)
      else if s = ''--'' then FlagsParsed opts visited args
      else let body = (if s ! 1 = CHR ''-'' then drop 2 s else tl s)
           in if body = [] \<or> hd body = CHR ''-'' \<or> hd body = CHR ''='' then FlagsFail (BadFlagSyntax s)
              else case find_flag fs (flag_name body) of
                None \<Rightarrow> if flag_name body = ''help'' \<or> flag_name body = ''h'' then FlagsHelp
                        else FlagsFail (UndefinedFlag (flag_name body))
              | Some f \<Rightarrow>
                  if fl_bool f then
                    (let v = (case flag_value body of None \<Rightarrow> ''true'' | Some v \<Rightarrow> v)
                     in case fl_set f v opts of
                          Inl err \<Rightarrow> FlagsFail (InvalidBoolean (fl_name f) v err)
                        | Inr opts' \<Rightarrow> parse_flags fs args opts' (fl_name f # visited))
                  else
                    (case flag_value body of
                       Some v \<Rightarrow>
                         (case fl_set f v opts of
                            Inl err \<Rightarrow> FlagsFail (InvalidValue (fl_name f) v err)
                          | Inr opts' \<Rightarrow> parse_flags fs args opts' (fl_name f # visited))
                     | None \<Rightarrow>
                         (case args of
                            [] \<Rightarrow> FlagsFail (NeedsArgument (fl_name f))
                          | v # rest \<Rightarrow>
                              (case fl_set f v opts of
                                 Inl err \<Rightarrow> FlagsFail (InvalidValue (fl_name f) v err)
                               | Inr opts' \<Rightarrow> parse_flags fs rest opts' (fl_name f # visited)))))"

text \<open>\<open>strconv.ParseBool\<close>.\<close>

definition parse_bool :: "string \<Rightarrow> bool option" where
  "parse_bool s =
     (if s \<in> {''1'', ''t'', ''T'', ''true'', ''TRUE'', ''True''} then Some True
      else if s \<in> {''0'', ''f'', ''F'', ''false'', ''FALSE'', ''False''} then Some False else None)"

text \<open>The text of a value error is the one that package \<open>flag\<close> gives it, \<open>parse error\<close> but for a number out of range.\<close>

definition string_flag :: "string \<Rightarrow> string \<Rightarrow> string \<Rightarrow> (string \<Rightarrow> 'o \<Rightarrow> 'o) \<Rightarrow> 'o flag_def" where
  "string_flag name dflt usage upd =
     \<lparr>fl_name = name, fl_kind = StringFlag, fl_default = dflt, fl_usage = usage, fl_set = (\<lambda>v opts. Inr (upd v opts))\<rparr>"

definition bool_flag :: "string \<Rightarrow> string \<Rightarrow> (bool \<Rightarrow> 'o \<Rightarrow> 'o) \<Rightarrow> 'o flag_def" where
  "bool_flag name usage upd = \<lparr>fl_name = name, fl_kind = BoolFlag, fl_default = ''false'', fl_usage = usage,
     fl_set = (\<lambda>v opts. case parse_bool v of None \<Rightarrow> Inl ''parse error'' | Some b \<Rightarrow> Inr (upd b opts))\<rparr>"

definition int_flag :: "(string \<Rightarrow> string + int) \<Rightarrow> string \<Rightarrow> int \<Rightarrow> string \<Rightarrow> (int \<Rightarrow> 'o \<Rightarrow> 'o) \<Rightarrow> 'o flag_def" where
  "int_flag parse name dflt usage upd = \<lparr>fl_name = name, fl_kind = IntFlag, fl_default = show_int dflt, fl_usage = usage,
     fl_set = (\<lambda>v opts. map_sum id (\<lambda>x. upd x opts) (parse v))\<rparr>"

definition duration_flag :: "(nat \<Rightarrow> nat \<Rightarrow> nat \<Rightarrow> nat) \<Rightarrow> string \<Rightarrow> duration \<Rightarrow> string \<Rightarrow> (duration \<Rightarrow> 'o \<Rightarrow> 'o) \<Rightarrow> 'o flag_def" where
  "duration_flag frac name dflt usage upd = \<lparr>fl_name = name, fl_kind = DurationFlag, fl_default = Duration_String dflt,
     fl_usage = usage, fl_set = (\<lambda>v opts. case ParseDuration frac v of None \<Rightarrow> Inl ''parse error'' | Some d \<Rightarrow> Inr (upd d opts))\<rparr>"

section \<open>Usage texts\<close>

function replace_all :: "string \<Rightarrow> string \<Rightarrow> string \<Rightarrow> string" where
  "replace_all old new [] = []"
| "replace_all old new (c # cs) =
     (if old \<noteq> [] \<and> HasPrefix (c # cs) old then new @ replace_all old new (drop (length old - 1) cs)
      else c # replace_all old new cs)"
  by pat_completeness auto
termination by (relation "measure (\<lambda>(old, new, s). length s)") auto

definition kind_name :: "flag_kind \<Rightarrow> string" where
  "kind_name k = (case k of BoolFlag \<Rightarrow> [] | StringFlag \<Rightarrow> ''string'' | IntFlag \<Rightarrow> ''int'' | DurationFlag \<Rightarrow> ''duration'')"

definition kind_zero :: "flag_kind \<Rightarrow> string" where
  "kind_zero k = (case k of BoolFlag \<Rightarrow> ''false'' | StringFlag \<Rightarrow> [] | IntFlag \<Rightarrow> ''0'' | DurationFlag \<Rightarrow> ''0s'')"

text \<open>\<open>PrintDefaults\<close>: the flags by name, each with its usage and, unless it is the zero value, its default.\<close>

definition flag_lines :: "(rune \<Rightarrow> bool) \<Rightarrow> 'o flag_def \<Rightarrow> string" where
  "flag_lines p f =
     (let k = fl_kind f;
          head = ''  -'' @ fl_name f @ (if kind_name k = [] then [] else '' '' @ kind_name k);
          gap = (if length head \<le> 4 then [CHR 0x09] else NL @ ''    '' @ [CHR 0x09])
      in head @ gap @ replace_all NL (NL @ ''    '' @ [CHR 0x09]) (fl_usage f)
         @ (if fl_default f = kind_zero k then []
            else '' (default '' @ (if k = StringFlag then go_quote p (fl_default f) else fl_default f) @ '')'') @ NL)"

definition PrintDefaults :: "(rune \<Rightarrow> bool) \<Rightarrow> 'o flag_def list \<Rightarrow> string" where
  "PrintDefaults p fs = concat (map (flag_lines p) (sort_by (\<lambda>f g. string_le (fl_name f) (fl_name g)) fs))"

end
