(* ===== verification/Cli.thy ===== *)
theory Cli
  imports Flags Results Plain Worker Coordinator
begin

text \<open>
  \<open>internal/cli\<close>: the three commands, the root command and their exit codes. The environment of a
  command is made of arguments: the variables, the file system, the answers of the coordinator,
  the ends of contexts, the clock. What a command prints is text; the error that the root command prints at
  the end on standard error is kept as a value.
\<close>

section \<open>Library\<close>

text \<open>SHA-256, \<open>strconv.ParseInt\<close>, the fractions of durations, \<open>strconv.IsPrint\<close>, \<open>json.Unmarshal\<close>.\<close>

record cli_lib =
  cb_sha256 :: "string \<Rightarrow> string"
  cb_parseInt :: "string \<Rightarrow> string + int"
  cb_frac :: "nat \<Rightarrow> nat \<Rightarrow> nat \<Rightarrow> nat"
  cb_isPrint :: "rune \<Rightarrow> bool"
  cb_unmarshal :: "string \<Rightarrow> string + HTTPProbeOutput"

section \<open>Errors and exit codes (errors.go)\<close>

datatype ctx_err = CtxCanceled | CtxDeadline

fun ctx_err_text :: "ctx_err \<Rightarrow> string" where
  "ctx_err_text CtxCanceled = ''context canceled''"
| "ctx_err_text CtxDeadline = ''context deadline exceeded''"

datatype exec_error =
    CallError string
  | WaitTimeout string duration ctx_err
  | JobFailed string

fun exec_error_text :: "exec_error \<Rightarrow> string" where
  "exec_error_text (CallError e) = e"
| "exec_error_text (JobFailed jobID) = ''job '' @ jobID @ '' failed''"
| "exec_error_text (WaitTimeout jobID timeout cause) =
     ''client stopped waiting after '' @ Duration_String timeout @ '' for job '' @ jobID @ '': '' @ ctx_err_text cause
     @ ''; the coordinator job was not marked failed and may still be running''"

datatype run_problem =
    PathsProblem string
  | ClientProblem crypto_error
  | ExecProblem exec_error
  | ResultsProblem results_error
  | WorkerProblem worker_error
  | AuditProblem string string
  | IdentityProblem string crypto_error
  | ServerProblem lq_error
  | ListenProblem string

datatype usage_problem =
    FlagProblem flag_error
  | UnexpectedArguments "string list"
  | UsageText string
  | BadManifest workload_error
  | BadTaskType workload_error
  | BadOutputPath results_error
  | BadWorkerID string

text \<open>A usage error may have been reported already; a command error carries \<open>verbose\<close> and \<open>reported\<close>.\<close>

datatype cli_error = ErrHelp | UsageError usage_problem bool | CommandError run_problem bool bool

definition runtimeError :: "run_problem option \<Rightarrow> bool \<Rightarrow> cli_error option" where
  "runtimeError err verbose = map_option (\<lambda>e. CommandError e verbose False) err"

definition reportedRuntimeError :: "run_problem option \<Rightarrow> cli_error option" where
  "reportedRuntimeError err = map_option (\<lambda>e. CommandError e False True) err"

datatype reported = NothingPrinted | PrintsUsage usage_problem | PrintsFriendly run_problem bool

definition renderExit :: "cli_error option \<Rightarrow> int \<times> reported" where
  "renderExit err = (case err of
       None \<Rightarrow> (0, NothingPrinted)
     | Some ErrHelp \<Rightarrow> (0, NothingPrinted)
     | Some (UsageError u reported) \<Rightarrow> (2, if reported then NothingPrinted else PrintsUsage u)
     | Some (CommandError p verbose reported) \<Rightarrow> (1, if reported then NothingPrinted else PrintsFriendly p verbose))"

section \<open>Common parts (common.go)\<close>

record presentationFlags =
  pf_plain :: bool
  pf_verbose :: bool
  pf_noColor :: bool
  pf_ascii :: bool
  pf_logFile :: string

definition addPresentationFlags :: "((presentationFlags \<Rightarrow> presentationFlags) \<Rightarrow> 'o \<Rightarrow> 'o) \<Rightarrow> string \<Rightarrow> 'o flag_def list" where
  "addPresentationFlags upd defaultLogFile =
     [string_flag ''log-file'' defaultLogFile ''Operational log used by the interactive terminal UI'' (\<lambda>v. upd (pf_logFile_update (\<lambda>_. v))),
      bool_flag ''plain'' ''Use stable line-oriented terminal output'' (\<lambda>b. upd (pf_plain_update (\<lambda>_. b))),
      bool_flag ''verbose'' ''Show additional diagnostic detail'' (\<lambda>b. upd (pf_verbose_update (\<lambda>_. b))),
      bool_flag ''no-color'' ''Disable terminal colors'' (\<lambda>b. upd (pf_noColor_update (\<lambda>_. b))),
      bool_flag ''ascii'' ''Use ASCII symbols only'' (\<lambda>b. upd (pf_ascii_update (\<lambda>_. b)))]"

definition presentation_defaults :: "string \<Rightarrow> presentationFlags" where
  "presentation_defaults logFile = \<lparr>pf_plain = False, pf_verbose = False, pf_noColor = False, pf_ascii = False, pf_logFile = logFile\<rparr>"

text \<open>When the log file cannot be opened the command goes on in plain mode with its log on stderr.\<close>

definition configurePresentation :: "(string \<Rightarrow> string) \<Rightarrow> bool \<Rightarrow> bool \<Rightarrow> string option \<Rightarrow> presentationFlags \<Rightarrow> log_target \<Rightarrow>
    Capabilities \<times> log_target" where
  "configurePresentation getenv stdinTTY stdoutTTY openErr options target =
     (let caps = Detect getenv \<lparr>mo_Plain = pf_plain options, mo_Verbose = pf_verbose options, mo_NoColor = pf_noColor options,
                   mo_ASCII = pf_ascii options\<rparr> stdinTTY stdoutTTY
      in case ConfigureOperationalLogging (ca_Interactive caps) (pf_logFile options) openErr target of
           (t, None) \<Rightarrow> (caps, t)
         | (t, Some e) \<Rightarrow> (caps\<lparr>ca_Interactive := False\<rparr>, fst (ConfigureOperationalLogging False [] None t)))"

definition resolveToken :: "(string \<Rightarrow> string) \<Rightarrow> string \<Rightarrow> cli_error + string" where
  "resolveToken getenv flagValue =
     (if flagValue \<noteq> [] then Inr flagValue
      else if getenv ''INOCULUM_TOKEN'' \<noteq> [] then Inr (getenv ''INOCULUM_TOKEN'')
      else Inl (UsageError (UsageText ''--token or INOCULUM_TOKEN is required'') False))"

text \<open>
  A flag set of \<open>newFlagSet\<close>. Parsing prints: the first text goes to standard output, the second to
  standard error. Package \<open>flag\<close> itself prints what is wrong with an argument, then the usage.
\<close>

record 'o flag_set =
  st_description :: string
  st_usage :: string
  st_flags :: "'o flag_def list"

text \<open>\<open>defaults\<close> is the text of \<open>PrintDefaults\<close>; flags are spelled with two dashes in it.\<close>

definition printFlagDefaults :: "string \<Rightarrow> string" where
  "printFlagDefaults defaults =
     (let t = (if HasPrefix defaults ''  -'' then ''  --'' @ drop 3 defaults else defaults)
      in replace_all (NL @ ''  -'') (NL @ ''  --'') t)"

definition flag_usage :: "(rune \<Rightarrow> bool) \<Rightarrow> 'o flag_set \<Rightarrow> string" where
  "flag_usage p flags = st_description flags @ NL @ NL @ ''Usage:'' @ NL @ ''  '' @ st_usage flags @ NL @ NL @ ''Flags:'' @ NL
     @ printFlagDefaults (PrintDefaults p (st_flags flags))"

type_synonym printed = "string \<times> string"

definition parseFlagSet :: "(rune \<Rightarrow> bool) \<Rightarrow> 'o flag_set \<Rightarrow> 'o \<Rightarrow> string list \<Rightarrow> printed \<times> (cli_error + 'o \<times> string list)" where
  "parseFlagSet p flags defaults args = (case parse_flags (st_flags flags) args defaults [] of
       FlagsHelp \<Rightarrow> ((flag_usage p flags, []), Inl ErrHelp)
     | FlagsFail e \<Rightarrow> ((flag_usage p flags, flag_error_text p e @ NL), Inl (UsageError (FlagProblem e) True))
     | FlagsParsed opts visited rest \<Rightarrow>
         if rest \<noteq> []
         then ((flag_usage p flags, ''unexpected arguments: ['' @ join_with '' '' rest @ '']'' @ NL), Inl (UsageError (UnexpectedArguments rest) True))
         else (([], []), Inr (opts, visited)))"

section \<open>The submit command (submit.go)\<close>

definition manifestPlainProgressInterval :: duration where "manifestPlainProgressInterval = 2 * Second"

record submitOptions =
  so_coordinator :: string
  so_token :: string
  so_fingerprint :: string
  so_taskType :: string
  so_input :: string
  so_taskCount :: int
  so_timeout :: duration
  so_manifestPath :: string
  so_outputPath :: string
  so_manifest :: "Manifest option"
  so_presentation :: presentationFlags

definition submit_defaults :: submitOptions where
  "submit_defaults = \<lparr>so_coordinator = ''localhost:8080'', so_token = [], so_fingerprint = [], so_taskType = ''diagnostic_sleep'',
     so_input = ''1s'', so_taskCount = 1, so_timeout = 30 * Minute, so_manifestPath = [], so_outputPath = [], so_manifest = None,
     so_presentation = presentation_defaults ''inoculum-submit.log''\<rparr>"

definition submit_flags :: "cli_lib \<Rightarrow> submitOptions flag_set" where
  "submit_flags lib =
     \<lparr>st_description = ''Submit independent tasks and wait for completion.'', st_usage = ''inoculum submit [flags]'', st_flags =
     [string_flag ''coordinator'' ''localhost:8080'' ''Coordinator address (host:port)'' (\<lambda>v. so_coordinator_update (\<lambda>_. v)),
      string_flag ''token'' [] ''Shared bearer token; prefer INOCULUM_TOKEN'' (\<lambda>v. so_token_update (\<lambda>_. v)),
      string_flag ''coordinator-fingerprint'' [] ''Coordinator fingerprint required on first trust or intentional identity replacement'' (\<lambda>v. so_fingerprint_update (\<lambda>_. v)),
      string_flag ''type'' ''diagnostic_sleep'' ''Task type'' (\<lambda>v. so_taskType_update (\<lambda>_. v)),
      string_flag ''input'' ''1s'' ''Input repeated for each task'' (\<lambda>v. so_input_update (\<lambda>_. v)),
      int_flag (cb_parseInt lib) ''tasks'' 1 ''Number of independent tasks'' (\<lambda>v. so_taskCount_update (\<lambda>_. v)),
      duration_flag (cb_frac lib) ''timeout'' (30 * Minute) ''Maximum client wait; the coordinator job continues after timeout'' (\<lambda>v. so_timeout_update (\<lambda>_. v)),
      string_flag ''manifest'' [] ''Versioned JSON workload manifest'' (\<lambda>v. so_manifestPath_update (\<lambda>_. v)),
      string_flag ''output'' [] ''Final JSON results path; strongly recommended with --manifest'' (\<lambda>v. so_outputPath_update (\<lambda>_. v))]
     @ addPresentationFlags so_presentation_update ''inoculum-submit.log''\<rparr>"

definition parseSubmitOptions :: "cli_lib \<Rightarrow> string list \<Rightarrow> printed \<times> (cli_error + submitOptions)" where
  "parseSubmitOptions lib args = apsnd (\<lambda>parsed. case parsed of
       Inl e \<Rightarrow> Inl e
     | Inr (options, visited) \<Rightarrow>
         if ''manifest'' \<in> set visited \<and> so_manifestPath options = []
         then Inl (UsageError (UsageText ''--manifest requires a path'') False)
         else if so_manifestPath options \<noteq> [] \<and> list_ex (\<lambda>f. f \<in> set visited) [''type'', ''input'', ''tasks'']
         then Inl (UsageError (UsageText (''--manifest cannot be combined with --'' @ hd (filter (\<lambda>f. f \<in> set visited) [''type'', ''input'', ''tasks'']))) False)
         else if ''output'' \<in> set visited \<and> so_outputPath options = []
         then Inl (UsageError (UsageText ''--output requires a path'') False)
         else if so_outputPath options \<noteq> [] \<and> so_manifestPath options = []
         then Inl (UsageError (UsageText ''--output requires --manifest'') False)
         else Inr options)
     (parseFlagSet (cb_isPrint lib) (submit_flags lib) submit_defaults args)"

text \<open>The checks of \<open>RunSubmit\<close> before it connects; \<open>file\<close> is what opening the manifest gives.\<close>

definition checkSubmit :: "file_contents \<Rightarrow> submitOptions \<Rightarrow> cli_error + submitOptions" where
  "checkSubmit file options =
     (if so_manifestPath options \<noteq> [] then
        (case LoadManifest (so_manifestPath options) file of
           Inl e \<Rightarrow> Inl (UsageError (BadManifest e) False)
         | Inr m \<Rightarrow> Inr (options\<lparr>so_manifest := Some m, so_taskType := mf_Type m, so_taskCount := int (length (mf_Tasks m))\<rparr>))
      else if so_taskCount options \<le> 0 then Inl (UsageError (UsageText ''--tasks must be positive'') False)
      else if so_taskCount options > int MaxTasks
      then Inl (UsageError (UsageText (''--tasks must not exceed '' @ show_nat MaxTasks)) False)
      else case ValidateTaskType (so_taskType options) of
          Some e \<Rightarrow> Inl (UsageError (BadTaskType e) False)
        | None \<Rightarrow>
            if length (so_input options) > MaxInputBytes
            then Inl (UsageError (UsageText (''--input exceeds the '' @ show_nat MaxInputBytes @ ''-byte limit'')) False)
            else Inr options)"

definition submit_request :: "submitOptions \<Rightarrow> PullSubmitRequest" where
  "submit_request options = (case so_manifest options of
       Some m \<Rightarrow> \<lparr>sq_TaskType = so_taskType options, sq_Inputs = [],
         sq_Tasks = map (\<lambda>t. \<lparr>st_Key = wt_Key t, st_Input = wt_Input t\<rparr>) (mf_Tasks m)\<rparr>
     | None \<Rightarrow> \<lparr>sq_TaskType = so_taskType options, sq_Inputs = replicate (nat (so_taskCount options)) (so_input options), sq_Tasks = []\<rparr>)"

text \<open>
  A call of the client: the error of \<open>do\<close>, or the status, the body and what decoding the body
  gives.
\<close>

datatype 'r client_outcome = CallFails string | CallAnswers int string "string + 'r"

definition client_call :: "string \<Rightarrow> 'r client_outcome \<Rightarrow> string + 'r" where
  "client_call what outcome = (case outcome of
       CallFails e \<Rightarrow> Inl e
     | CallAnswers status body decoded \<Rightarrow>
         if status \<noteq> 200 then Inl (''coordinator returned HTTP '' @ show_int status @ '': '' @ TrimSpace body)
         else (case decoded of Inl e \<Rightarrow> Inl (''decode '' @ what @ '' response: '' @ e) | Inr r \<Rightarrow> Inr r))"

definition client_submit :: "PullSubmitResponse client_outcome \<Rightarrow> string + PullSubmitResponse" where
  "client_submit = client_call ''submit''"

definition client_job :: "PullJobResponse client_outcome \<Rightarrow> string + PullJobResponse" where
  "client_job = client_call ''job''"

definition progressKey :: "JobProgress \<Rightarrow> string" where
  "progressKey job = show_int (jp_Queued job) @ ''/'' @ show_int (jp_Running job) @ ''/'' @ show_int (jp_Completed job) @ ''/'' @ show_int (jp_Failed job)"

definition waitedDuration :: "time \<Rightarrow> time \<Rightarrow> duration \<Rightarrow> ctx_err \<Rightarrow> duration" where
  "waitedDuration now startedAt configured cause =
     (if cause = CtxCanceled \<and> \<not> time_IsZero startedAt
      then duration_Round (time_Sub now startedAt) (100 * Millisecond) else configured)"

text \<open>
  Progress lines: printed in plain mode only, for a manifest at most every two seconds until the
  job is over.
\<close>

datatype progress_mode = NoProgress | PlainProgress bool

record Watch =
  wa_lastKey :: string
  wa_lastPrint :: time
  wa_out :: string

definition show_progress :: "bool \<Rightarrow> time \<Rightarrow> JobProgress \<Rightarrow> Watch \<Rightarrow> Watch" where
  "show_progress manifest now job w =
     (if manifest \<and> jp_Completed job + jp_Failed job \<noteq> jp_Total job \<and> \<not> time_IsZero (wa_lastPrint w)
         \<and> time_Sub now (wa_lastPrint w) < manifestPlainProgressInterval
      then w else w\<lparr>wa_out := wa_out w @ SubmitProgress job, wa_lastPrint := now\<rparr>)"

definition note_progress :: "progress_mode \<Rightarrow> time \<Rightarrow> JobProgress \<Rightarrow> Watch \<Rightarrow> Watch" where
  "note_progress mode now job w = (case mode of
       NoProgress \<Rightarrow> w
     | PlainProgress manifest \<Rightarrow>
         if progressKey job \<noteq> wa_lastKey w then (show_progress manifest now job w)\<lparr>wa_lastKey := progressKey job\<rparr> else w)"

record executionResult =
  er_job :: JobProgress
  er_err :: "exec_error option"

text \<open>
  A round of the polling loop: the answer, the end of the context if it is seen after a failed
  call, what the \<open>select\<close> chooses (\<open>None\<close>: the timer), and the time.
\<close>

record PollRound =
  po_outcome :: "PullJobResponse client_outcome"
  po_ctxErr :: "ctx_err option"
  po_select :: "ctx_err option"
  po_now :: time

definition finish_wait :: "exec_error \<Rightarrow> bool \<Rightarrow> time \<Rightarrow> SubmitTracker \<Rightarrow> SubmitTracker \<times> executionResult" where
  "finish_wait err timedOut now tracker =
     (let tracker1 = sb_Finish (Some (exec_error_text err)) timedOut tracker
      in (tracker1, \<lparr>er_job = sn_Job (sb_Snapshot now tracker1), er_err = Some err\<rparr>))"

definition poll_round :: "string \<Rightarrow> duration \<Rightarrow> time \<Rightarrow> progress_mode \<Rightarrow> PollRound \<Rightarrow> SubmitTracker \<Rightarrow> Watch \<Rightarrow>
    SubmitTracker \<times> Watch \<times> executionResult option" where
  "poll_round jobID timeout startedAt mode r tracker w =
     (case client_job (po_outcome r) of
        Inl requestErr \<Rightarrow>
          (let err = (case po_ctxErr r of
                 Some c \<Rightarrow> WaitTimeout jobID (waitedDuration (po_now r) startedAt timeout c) c
               | None \<Rightarrow> CallError requestErr);
               (tracker1, result) = finish_wait err (po_ctxErr r = Some CtxDeadline) (po_now r) tracker
           in (tracker1, w, Some result))
      | Inr response \<Rightarrow>
          (let (tracker1, progressJob) = sb_Update response (po_now r) tracker;
               w1 = note_progress mode (po_now r) progressJob w
           in if jr_State response = PullJobCompleted
              then (sb_Finish None False tracker1, w1, Some \<lparr>er_job = progressJob, er_err = None\<rparr>)
              else if jr_State response = PullJobFailed
              then (let err = JobFailed (jr_JobID response)
                    in (sb_Finish (Some (exec_error_text err)) False tracker1, w1, Some \<lparr>er_job = progressJob, er_err = Some err\<rparr>))
              else (case po_select r of
                  Some c \<Rightarrow>
                    (let err = WaitTimeout jobID (waitedDuration (po_now r) startedAt timeout c) c;
                         (tracker2, result) = finish_wait err (c = CtxDeadline) (po_now r) tracker1
                     in (tracker2, w1, Some result))
                | None \<Rightarrow> (tracker1, w1, None))))"

fun poll_rounds :: "string \<Rightarrow> duration \<Rightarrow> time \<Rightarrow> progress_mode \<Rightarrow> PollRound list \<Rightarrow> SubmitTracker \<Rightarrow> Watch \<Rightarrow>
    SubmitTracker \<times> Watch \<times> executionResult option" where
  "poll_rounds jobID timeout startedAt mode [] tracker w = (tracker, w, None)"
| "poll_rounds jobID timeout startedAt mode (r # rs) tracker w =
     (case poll_round jobID timeout startedAt mode r tracker w of
        (tracker1, w1, Some result) \<Rightarrow> (tracker1, w1, Some result)
      | (tracker1, w1, None) \<Rightarrow> poll_rounds jobID timeout startedAt mode rs tracker1 w1)"

text \<open>\<open>submitCtxErr\<close> is \<open>ctx.Err()\<close> after a failed submission. \<open>None\<close> at the end: still polling.\<close>

definition execute :: "PullSubmitResponse client_outcome \<Rightarrow> ctx_err option \<Rightarrow> time \<Rightarrow> duration \<Rightarrow> progress_mode \<Rightarrow> PollRound list \<Rightarrow>
    SubmitTracker \<Rightarrow> SubmitTracker \<times> Watch \<times> executionResult option" where
  "execute submitOutcome submitCtxErr startedAt timeout mode rounds tracker =
     (let w = \<lparr>wa_lastKey = [], wa_lastPrint = 0, wa_out = []\<rparr>
      in case client_submit submitOutcome of
           Inl e \<Rightarrow> (sb_Finish (Some e) (submitCtxErr = Some CtxDeadline) tracker, w,
             Some \<lparr>er_job = empty_JobProgress, er_err = Some (CallError e)\<rparr>)
         | Inr job \<Rightarrow>
             poll_rounds (ss_JobID job) timeout startedAt mode rounds
               (sb_Submitted (ss_JobID job) (int (length (ss_TaskIDs job))) startedAt tracker) w)"

definition job_over :: "JobProgress \<Rightarrow> bool" where
  "job_over job = (jp_JobID job \<noteq> [] \<and> jp_Completed job + jp_Failed job = jp_Total job)"

text \<open>The text printed, the files afterwards, and the error.\<close>

definition finishSubmit :: "cli_lib \<Rightarrow> string \<Rightarrow> executionResult \<Rightarrow> Capabilities \<Rightarrow> string \<Rightarrow> bool \<Rightarrow> FS \<Rightarrow> string \<times> FS \<times> run_problem option" where
  "finishSubmit lib random result caps outputPath manifestMode fs =
     (let job = er_job result;
          terminal = job_over job;
          out1 = (if terminal then
                    (if manifestMode then ManifestSubmitSummary (cb_isPrint lib) job (ca_Unicode caps)
                     else SubmitSummary (cb_isPrint lib) job (ca_Verbose caps) (ca_Unicode caps))
                  else []);
          (fs1, writeErr) = (if terminal \<and> outputPath \<noteq> [] then writeManifestResults (cb_unmarshal lib) random outputPath job fs else (fs, None))
      in case writeErr of
           Some e \<Rightarrow> (out1, fs1, Some (ResultsProblem e))
         | None \<Rightarrow>
             (let out2 = (if terminal \<and> outputPath \<noteq> [] then out1 @ NL @ ''Results written to '' @ outputPath @ NL else out1)
              in case er_err result of
                   Some (WaitTimeout jobID timeout cause) \<Rightarrow>
                     (out2 @ StoppedWaiting jobID (Duration_String timeout), fs1, Some (ExecProblem (WaitTimeout jobID timeout cause)))
                 | e \<Rightarrow> (out2, fs1, map_option ExecProblem e)))"

text \<open>
  How the terminal interface ended: not used, with the job, by the user, or with an error (then the
  command goes on in plain mode).
\<close>

datatype tui_end = TuiOff | TuiDone | TuiQuit | TuiFailed string

definition with_quit :: "tui_end \<Rightarrow> duration \<Rightarrow> executionResult \<Rightarrow> executionResult" where
  "with_quit t timeout result =
     (if t = TuiQuit \<and> er_err result = None
      then result\<lparr>er_err := Some (WaitTimeout (jp_JobID (er_job result)) timeout CtxCanceled)\<rparr> else result)"

text \<open>\<open>watchPlainSubmit\<close>: the jobs that the tracker shows at successive ticks.\<close>

fun watch_plain :: "JobProgress list \<Rightarrow> string \<Rightarrow> string" where
  "watch_plain [] key = []"
| "watch_plain (job # jobs) key =
     (if jp_JobID job \<noteq> [] \<and> progressKey job \<noteq> key then SubmitProgress job @ watch_plain jobs (progressKey job)
      else watch_plain jobs key)"

record SubmitRun =
  sr_userConfigDir :: "string + string"
  sr_goos :: string
  sr_caps :: Capabilities
  sr_submit :: "PullSubmitResponse client_outcome"
  sr_submitCtxErr :: "ctx_err option"
  sr_startedAt :: time
  sr_rounds :: "PollRound list"
  sr_tui :: tui_end
  sr_ticks :: "JobProgress list"
  sr_peers :: "string list list"
  sr_random :: string

text \<open>
  \<open>None\<close>: still running after these rounds. The connections made may write the trust record.
\<close>

definition runSubmit :: "cli_lib \<Rightarrow> SubmitRun \<Rightarrow> submitOptions \<Rightarrow> FS \<Rightarrow> (string \<times> FS \<times> run_problem option) option" where
  "runSubmit lib r options fs =
     (case DefaultPaths (sr_userConfigDir r) (sr_goos r) of
        Inl e \<Rightarrow> Some ([], fs, Some (PathsProblem e))
      | Inr paths \<Rightarrow>
          (case NewCoordinatorClientConfig fs (pa_TrustedCoordinator paths) (so_fingerprint options) of
             Inl e \<Rightarrow> Some ([], fs, Some (ClientProblem e))
           | Inr tlsConfig \<Rightarrow>
               (let mode = (if ca_Interactive (sr_caps r) then NoProgress else PlainProgress (so_manifest options \<noteq> None))
                in case execute (sr_submit r) (sr_submitCtxErr r) (sr_startedAt r) (so_timeout options) mode (sr_rounds r)
                          (NewSubmitTracker (so_taskCount options)) of
                     (_, _, None) \<Rightarrow> None
                   | (_, w, Some result) \<Rightarrow>
                       (let watched = (case sr_tui r of TuiFailed _ \<Rightarrow> watch_plain (sr_ticks r) [] | _ \<Rightarrow> []);
                            (out, fs1, err) = finishSubmit lib (sr_random r) (with_quit (sr_tui r) (so_timeout options) result)
                              (sr_caps r) (so_outputPath options) (so_manifest options \<noteq> None)
                              (fst (connections (cb_sha256 lib) (sr_peers r) fs tlsConfig))
                        in Some (wa_out w @ watched @ out, fs1, err)))))"

definition submit_error :: "run_problem option \<Rightarrow> bool \<Rightarrow> cli_error option" where
  "submit_error err verbose = (case err of
       Some (ExecProblem (WaitTimeout j t c)) \<Rightarrow> reportedRuntimeError err
     | Some (ExecProblem (JobFailed j)) \<Rightarrow> reportedRuntimeError err
     | _ \<Rightarrow> runtimeError err verbose)"

section \<open>The worker command (worker.go)\<close>

record workerOptions =
  wo_coordinator :: string
  wo_workerID :: string
  wo_concurrency :: int
  wo_token :: string
  wo_fingerprint :: string
  wo_presentation :: presentationFlags

definition worker_flags :: "cli_lib \<Rightarrow> workerOptions flag_set" where
  "worker_flags lib =
     \<lparr>st_description = ''Connect an outbound worker to an Inoculum coordinator.'',
      st_usage = ''inoculum worker --coordinator <host:port> [flags]'', st_flags =
     [string_flag ''coordinator'' [] ''Coordinator address (host:port)'' (\<lambda>v. wo_coordinator_update (\<lambda>_. v)),
      string_flag ''id'' [] ''Worker ID; defaults from hostname'' (\<lambda>v. wo_workerID_update (\<lambda>_. v)),
      int_flag (cb_parseInt lib) ''concurrency'' 1 ''Number of independent execution loops'' (\<lambda>v. wo_concurrency_update (\<lambda>_. v)),
      string_flag ''token'' [] ''Shared bearer token; prefer INOCULUM_TOKEN'' (\<lambda>v. wo_token_update (\<lambda>_. v)),
      string_flag ''coordinator-fingerprint'' [] ''Coordinator fingerprint required on first trust or intentional identity replacement'' (\<lambda>v. wo_fingerprint_update (\<lambda>_. v))]
     @ addPresentationFlags wo_presentation_update ''inoculum-worker.log''\<rparr>"

definition worker_defaults :: workerOptions where
  "worker_defaults = \<lparr>wo_coordinator = [], wo_workerID = [], wo_concurrency = 1, wo_token = [], wo_fingerprint = [],
      wo_presentation = presentation_defaults ''inoculum-worker.log''\<rparr>"

definition parseWorkerOptions :: "cli_lib \<Rightarrow> string list \<Rightarrow> printed \<times> (cli_error + workerOptions)" where
  "parseWorkerOptions lib args = apsnd (map_sum id fst) (parseFlagSet (cb_isPrint lib) (worker_flags lib) worker_defaults args)"

definition worker_config :: "string \<Rightarrow> workerOptions \<Rightarrow> string \<Rightarrow> PullConfig" where
  "worker_config hostname options token =
     \<lparr>pc_CoordinatorAddr = wo_coordinator options,
      pc_WorkerID = (if wo_workerID options = [] then ''worker-'' @ hostname else wo_workerID options),
      pc_Token = token, pc_Fingerprint = wo_fingerprint options, pc_TrustFile = [], pc_Concurrency = wo_concurrency options\<rparr>"

section \<open>The coordinator command (coordinator.go)\<close>

record coordinatorOptions =
  oo_port :: int
  oo_token :: string
  oo_auditLog :: string
  oo_leaseDuration :: duration
  oo_maxAttempts :: int
  oo_presentation :: presentationFlags

definition coordinator_flags :: "cli_lib \<Rightarrow> coordinatorOptions flag_set" where
  "coordinator_flags lib =
     \<lparr>st_description = ''Start the Inoculum coordinator.'', st_usage = ''inoculum coordinator [flags]'', st_flags =
     [int_flag (cb_parseInt lib) ''port'' 8080 ''HTTPS listen port'' (\<lambda>v. oo_port_update (\<lambda>_. v)),
      duration_flag (cb_frac lib) ''lease-duration'' DefaultLeaseDuration ''Time a worker owns a claimed task before the lease expires unless renewed'' (\<lambda>v. oo_leaseDuration_update (\<lambda>_. v)),
      int_flag (cb_parseInt lib) ''max-attempts'' DefaultMaxAttempts ''Maximum execution attempts before a task is permanently failed'' (\<lambda>v. oo_maxAttempts_update (\<lambda>_. v)),
      string_flag ''token'' [] ''Shared bearer token; prefer INOCULUM_TOKEN'' (\<lambda>v. oo_token_update (\<lambda>_. v)),
      string_flag ''audit-log'' [] ''Optional path for sanitized JSON security events'' (\<lambda>v. oo_auditLog_update (\<lambda>_. v))]
     @ addPresentationFlags oo_presentation_update ''inoculum-coordinator.log''\<rparr>"

definition coordinator_defaults :: coordinatorOptions where
  "coordinator_defaults = \<lparr>oo_port = 8080, oo_token = [], oo_auditLog = [], oo_leaseDuration = DefaultLeaseDuration,
      oo_maxAttempts = DefaultMaxAttempts, oo_presentation = presentation_defaults ''inoculum-coordinator.log''\<rparr>"

definition parseCoordinatorOptions :: "cli_lib \<Rightarrow> string list \<Rightarrow> printed \<times> (cli_error + coordinatorOptions)" where
  "parseCoordinatorOptions lib args = apsnd (map_sum id fst) (parseFlagSet (cb_isPrint lib) (coordinator_flags lib) coordinator_defaults args)"

text \<open>
  \<open>runCoordinator\<close> up to the server that starts to listen: the audit log, the identity files, the
  server. The result has the audit log and the files as they are then, whatever follows.
\<close>

definition start_coordinator :: "x509 \<Rightarrow> string + string \<times> string \<Rightarrow> string option \<Rightarrow> string + string \<Rightarrow> string \<Rightarrow> time \<Rightarrow>
    coordinatorOptions \<Rightarrow> string \<Rightarrow> Audit \<Rightarrow> FS \<Rightarrow> Audit \<times> FS \<times> (run_problem + Server \<times> CoordinatorIdentity)" where
  "start_coordinator lib generated auditErr userConfigDir goos now options token audit fs =
     (case InitLogger (oo_auditLog options) auditErr audit of
        (audit1, Some e) \<Rightarrow> (audit1, fs, Inl (AuditProblem (oo_auditLog options) e))
      | (audit1, None) \<Rightarrow>
          (case DefaultPaths userConfigDir goos of
             Inl e \<Rightarrow> (audit1, fs, Inl (PathsProblem e))
           | Inr paths \<Rightarrow>
               (case LoadOrCreateCoordinatorIdentity lib generated
                       \<lparr>io_CertFile = pa_CoordinatorCert paths, io_KeyFile = pa_CoordinatorKey paths,
                        io_LegacyCertFile = ''.inoculum-coordinator-cert.pem'', io_LegacyKeyFile = ''.inoculum-coordinator-key.pem''\<rparr> fs of
                  (fs1, Inl e) \<Rightarrow> (audit1, fs1, Inl (IdentityProblem (pa_Dir paths) e))
                | (fs1, Inr identity) \<Rightarrow>
                    (case NewServer \<lparr>sc_Port = oo_port options, sc_Token = token, sc_LeaseDuration = oo_leaseDuration options,
                            sc_MaxAttempts = oo_maxAttempts options\<rparr> now of
                       Inl e \<Rightarrow> (audit1, fs1, Inl (ServerProblem e))
                     | Inr server \<Rightarrow> (audit1, fs1, Inr (server, identity))))))"

definition checkCoordinator :: "(string \<Rightarrow> string) \<Rightarrow> coordinatorOptions \<Rightarrow> cli_error + string" where
  "checkCoordinator getenv options =
     (if oo_port options < 1 \<or> oo_port options > 65535 then Inl (UsageError (UsageText ''--port must be between 1 and 65535'') False)
      else if oo_leaseDuration options \<le> 0 then Inl (UsageError (UsageText ''--lease-duration must be greater than 0'') False)
      else if oo_maxAttempts options < 1 then Inl (UsageError (UsageText ''--max-attempts must be at least 1'') False)
      else resolveToken getenv (oo_token options))"

section \<open>The root command (root.go)\<close>

definition isRootHelp :: "string \<Rightarrow> bool" where
  "isRootHelp a = (a = ''--help'' \<or> a = ''-h'' \<or> a = ''-help'')"

definition root_help :: string where
  "root_help = concat (map (\<lambda>l. l @ NL)
     [''Inoculum runs independent tasks across machines on a trusted LAN.'', [],
      ''Usage:'', ''  inoculum <command> [flags]'', [],
      ''Commands:'', ''  coordinator   Start the task coordinator'', ''  worker        Connect a worker to a coordinator'',
      ''  submit        Submit independent tasks and wait for completion'', [],
      ''Options:'', ''  --version     Print the Inoculum version'', [],
      ''Run '' @ [CHR 0x22] @ ''inoculum <command> --help'' @ [CHR 0x22] @ '' for command-specific options.''])"

definition available_commands :: string where
  "available_commands = ''Run '' @ [CHR 0x22] @ ''inoculum --help'' @ [CHR 0x22] @ '' for available commands.'' @ NL"

text \<open>
  A command is a function from its arguments to its error, and to whatever else it does (\<open>'s\<close>). The
  result has the exit code, the texts of the root command itself, what \<open>renderExit\<close> prints, and the
  effects of the command that ran.
\<close>

record 's root_result =
  rr_code :: int
  rr_stdout :: string
  rr_stderr :: string
  rr_report :: reported
  rr_effects :: "'s option"

definition root_only :: "int \<Rightarrow> string \<Rightarrow> string \<Rightarrow> 's root_result" where
  "root_only code out err = \<lparr>rr_code = code, rr_stdout = out, rr_stderr = err, rr_report = NothingPrinted, rr_effects = None\<rparr>"

definition mainWithCommands :: "(rune \<Rightarrow> bool) \<Rightarrow> string \<Rightarrow> (string \<Rightarrow> (string list \<Rightarrow> cli_error option \<times> 's) option) \<Rightarrow> string list \<Rightarrow> 's root_result" where
  "mainWithCommands isPrint version commands args =
     (case args of
        [] \<Rightarrow> root_only 2 [] (''A command is required.'' @ NL @ NL @ root_help)
      | a # rest \<Rightarrow>
          if isRootHelp a then
            (if rest \<noteq> [] then root_only 2 [] (''root help does not accept additional arguments'' @ NL) else root_only 0 root_help [])
          else if a = ''--version'' then
            (if rest \<noteq> [] then root_only 2 [] (''--version does not accept additional arguments'' @ NL)
             else root_only 0 (''inoculum '' @ version @ NL) [])
          else if HasPrefix a ''-'' then
            root_only 2 [] (''unknown root flag '' @ go_quote isPrint a @ ''; runtime flags must follow a command'' @ NL @ NL @ available_commands)
          else (case commands a of
              None \<Rightarrow> root_only 2 [] (''Unknown command '' @ go_quote isPrint a @ ''.'' @ NL @ NL @ available_commands)
            | Some runner \<Rightarrow>
                (case runner rest of (err, effects) \<Rightarrow>
                   \<lparr>rr_code = fst (renderExit err), rr_stdout = [], rr_stderr = [], rr_report = snd (renderExit err), rr_effects = Some effects\<rparr>)))"

end
