(* ===== verification/CliTheorems.thy ===== *)
theory CliTheorems
  imports Cli ResultsTheorems CryptoTheorems
begin

text \<open>The properties of the commands: what the exit code of \<open>submit\<close> means, and of the root command.\<close>

section \<open>Polling\<close>

definition live_round :: "PollRound \<Rightarrow> bool" where
  "live_round r = (\<exists>resp. client_job (po_outcome r) = Inr resp \<and> jr_State resp \<noteq> PullJobCompleted \<and> jr_State resp \<noteq> PullJobFailed \<and>
     po_select r = None)"

definition completed_round :: "PollRound \<Rightarrow> bool" where
  "completed_round r = (\<exists>resp. client_job (po_outcome r) = Inr resp \<and> jr_State resp = PullJobCompleted)"

lemma poll_round_cases:
  obtains (live) t w' where "live_round r" "poll_round j d s m r tr w = (t, w', None)"
  | (completed) t w' res where "completed_round r" "poll_round j d s m r tr w = (t, w', Some res)" "er_err res = None"
  | (ended) t w' res e where "\<not> live_round r" "\<not> completed_round r" "poll_round j d s m r tr w = (t, w', Some res)" "er_err res = Some e"
proof (cases "client_job (po_outcome r)")
  case (Inl e)
  then have "\<not> live_round r" "\<not> completed_round r" by (simp_all add: live_round_def completed_round_def)
  with Inl show ?thesis using ended by (simp add: poll_round_def Let_def finish_wait_def)
next
  case (Inr resp)
  obtain t1 pj where u: "sb_Update resp (po_now r) tr = (t1, pj)" by (meson surj_pair)
  consider "jr_State resp = PullJobCompleted" | "jr_State resp = PullJobFailed"
    | "jr_State resp \<noteq> PullJobCompleted" "jr_State resp \<noteq> PullJobFailed" by blast
  then show ?thesis
  proof cases
    case 1
    with Inr have "completed_round r" by (simp add: completed_round_def)
    with 1 Inr u show ?thesis using completed by (simp add: poll_round_def Let_def)
  next
    case 2
    with Inr have "\<not> live_round r" "\<not> completed_round r" by (simp_all add: live_round_def completed_round_def)
    with 2 Inr u show ?thesis using ended by (simp add: poll_round_def Let_def)
  next
    case 3
    show ?thesis
    proof (cases "po_select r")
      case None
      with 3 Inr have "live_round r" by (simp add: live_round_def)
      with 3 None Inr u show ?thesis using live by (simp add: poll_round_def Let_def)
    next
      case (Some c)
      with 3 Inr have "\<not> live_round r" "\<not> completed_round r" by (simp_all add: live_round_def completed_round_def)
      with 3 Some Inr u show ?thesis using ended by (simp add: poll_round_def Let_def finish_wait_def)
    qed
  qed
qed

lemma live_not_completed: "live_round r \<Longrightarrow> \<not> completed_round r"
  by (auto simp: live_round_def completed_round_def)

lemma poll_rounds_completed:
  "poll_rounds j d s m rs tr w = (t, w', Some res) \<Longrightarrow>
   er_err res = None \<longleftrightarrow> (\<exists>pre q post. rs = pre @ q # post \<and> list_all live_round pre \<and> completed_round q)"
proof (induction rs arbitrary: tr w)
  case (Cons r rs)
  show ?case
  proof (cases rule: poll_round_cases [of r j d s m tr w])
    case (live t1 w1)
    with Cons.prems have "poll_rounds j d s m rs t1 w1 = (t, w', Some res)" by simp
    from Cons.IH [OF this] show ?thesis unfolding split_Cons using live(1) live_not_completed by blast
  next
    case (completed t1 w1 res1)
    with Cons.prems show ?thesis unfolding split_Cons by simp
  next
    case (ended t1 w1 res1 e)
    with Cons.prems show ?thesis unfolding split_Cons by simp
  qed
qed simp

definition completed_run :: "SubmitRun \<Rightarrow> bool" where
  "completed_run r = (\<exists>job pre q post. client_submit (sr_submit r) = Inr job \<and> sr_rounds r = pre @ q # post \<and>
     list_all live_round pre \<and> completed_round q)"

lemma execute_completed:
  assumes "execute (sr_submit r) c s d m (sr_rounds r) tr = (t, w, Some res)"
  shows "er_err res = None \<longleftrightarrow> completed_run r"
proof (cases "client_submit (sr_submit r)")
  case (Inl e)
  with assms show ?thesis by (auto simp: execute_def completed_run_def)
next
  case (Inr job)
  with assms have "poll_rounds (ss_JobID job) d s m (sr_rounds r) (sb_Submitted (ss_JobID job) (int (length (ss_TaskIDs job))) s tr)
    \<lparr>wa_lastKey = [], wa_lastPrint = 0, wa_out = []\<rparr> = (t, w, Some res)" by (simp add: execute_def)
  from poll_rounds_completed [OF this] Inr show ?thesis by (simp add: completed_run_def)
qed

text \<open>The job of the first answer after which the polling does not go on.\<close>

definition answer_job :: "time \<Rightarrow> PollRound \<Rightarrow> JobProgress option" where
  "answer_job s q = (case client_job (po_outcome q) of Inl e \<Rightarrow> None | Inr resp \<Rightarrow> Some (JobFromResponse resp s (po_now q)))"

fun last_job :: "time \<Rightarrow> PollRound list \<Rightarrow> JobProgress option" where
  "last_job s [] = None"
| "last_job s (r # rs) = (if live_round r then last_job s rs else answer_job s r)"

definition final_job :: "SubmitRun \<Rightarrow> JobProgress option" where
  "final_job r = last_job (sr_startedAt r) (sr_rounds r)"

lemma poll_round_job:
  "completed_round r \<Longrightarrow> poll_round j d s m r tr w = (t, w', Some res) \<Longrightarrow>
   answer_job (sb_startedAt tr) r = Some (er_job res)"
  by (auto simp: answer_job_def completed_round_def poll_round_def Let_def sb_Update_def)

lemma poll_round_startedAt:
  "live_round r \<Longrightarrow> poll_round j d s m r tr w = (t, w', x) \<Longrightarrow> sb_startedAt t = sb_startedAt tr"
  by (auto simp: live_round_def poll_round_def Let_def sb_Update_def)

lemma poll_rounds_job:
  "poll_rounds j d s m rs tr w = (t, w', Some res) \<Longrightarrow> er_err res = None \<Longrightarrow>
   last_job (sb_startedAt tr) rs = Some (er_job res)"
proof (induction rs arbitrary: tr w)
  case (Cons r rs)
  show ?case
  proof (cases rule: poll_round_cases [of r j d s m tr w])
    case (live t1 w1)
    with Cons.prems have "poll_rounds j d s m rs t1 w1 = (t, w', Some res)" by simp
    from Cons.IH [OF this Cons.prems(2)] live(1) poll_round_startedAt [OF live] show ?thesis by simp
  next
    case (completed t1 w1 res1)
    with Cons.prems have "res1 = res" by simp
    with completed poll_round_job live_not_completed show ?thesis by auto
  next
    case (ended t1 w1 res1 e)
    with Cons.prems show ?thesis by simp
  qed
qed simp

lemma execute_job:
  assumes "execute (sr_submit r) c (sr_startedAt r) d m (sr_rounds r) tr = (t, w, Some res)" and "er_err res = None"
  shows "final_job r = Some (er_job res)"
proof (cases "client_submit (sr_submit r)")
  case (Inl e)
  with assms show ?thesis by (auto simp: execute_def)
next
  case (Inr job)
  with assms have "poll_rounds (ss_JobID job) d (sr_startedAt r) m (sr_rounds r)
      (sb_Submitted (ss_JobID job) (int (length (ss_TaskIDs job))) (sr_startedAt r) tr)
    \<lparr>wa_lastKey = [], wa_lastPrint = 0, wa_out = []\<rparr> = (t, w, Some res)" by (simp add: execute_def)
  from poll_rounds_job [OF this assms(2)] show ?thesis by (simp add: final_job_def sb_Submitted_def)
qed

section \<open>Exit codes\<close>

lemma finish_error:
  assumes "finishSubmit lib random result caps path manifest fs = (out, fs', err)"
  shows "(\<exists>e. err = Some (ResultsProblem e)) \<or> err = map_option ExecProblem (er_err result)"
    and "path = [] \<Longrightarrow> err = map_option ExecProblem (er_err result)"
    and "err = None \<Longrightarrow> path \<noteq> [] \<Longrightarrow> job_over (er_job result) \<Longrightarrow>
      writeManifestResults (cb_unmarshal lib) random path (er_job result) fs = (fs', None)"
  using assms by (auto simp: finishSubmit_def Let_def split: prod.splits option.splits exec_error.splits if_splits)

lemma submit_error_code:
  "fst (renderExit (submit_error err v)) = (if err = None then 0 else 1)"
proof (cases err)
  case (Some p)
  then show ?thesis
    by (cases p) (auto simp: submit_error_def renderExit_def runtimeError_def reportedRuntimeError_def split: exec_error.splits)
qed (simp add: submit_error_def renderExit_def runtimeError_def)

lemma runSubmit_parts:
  assumes "runSubmit lib r options fs = Some (out, fs', err)"
    and "DefaultPaths (sr_userConfigDir r) (sr_goos r) = Inr paths"
    and "NewCoordinatorClientConfig fs (pa_TrustedCoordinator paths) (so_fingerprint options) = Inr v"
  obtains t w res out1 where "execute (sr_submit r) (sr_submitCtxErr r) (sr_startedAt r) (so_timeout options)
      (if ca_Interactive (sr_caps r) then NoProgress else PlainProgress (so_manifest options \<noteq> None)) (sr_rounds r)
      (NewSubmitTracker (so_taskCount options)) = (t, w, Some res)"
    and "finishSubmit lib (sr_random r) (with_quit (sr_tui r) (so_timeout options) res) (sr_caps r) (so_outputPath options)
      (so_manifest options \<noteq> None) (fst (connections (cb_sha256 lib) (sr_peers r) fs v)) = (out1, fs', err)"
  using assms by (auto simp: runSubmit_def Let_def split: prod.splits option.splits)

text \<open>
  C39. The exit code of \<open>submit\<close> tells the truth. Once a client is configured, the command exits
  with 0 exactly when the submission was accepted, every answer before some round said that the job
  is still queued or running, that round said completed, the user did not quit the interface, and
  the results were written if that was asked for; in every other case it exits with 1. And when it
  exits with 0 and the job of that last answer is over in all its tasks, a results file that was
  asked for holds the whole document of that job.
\<close>

theorem submit_exit_code:
  assumes "runSubmit lib r options fs = Some (out, fs', err)"
    and "DefaultPaths (sr_userConfigDir r) (sr_goos r) = Inr paths"
    and "NewCoordinatorClientConfig fs (pa_TrustedCoordinator paths) (so_fingerprint options) = Inr v"
    and "code = fst (renderExit (submit_error err verbose))"
  shows "code = (if completed_run r \<and> sr_tui r \<noteq> TuiQuit \<and> (\<forall>e. err \<noteq> Some (ResultsProblem e)) then 0 else 1) \<and>
    (so_outputPath options = [] \<longrightarrow> (\<forall>e. err \<noteq> Some (ResultsProblem e))) \<and>
    (code = 0 \<and> so_outputPath options \<noteq> [] \<and> CHR ''/'' \<notin> set (sr_random r) \<longrightarrow>
       (\<exists>job. final_job r = Some job \<and> (job_over job \<longrightarrow> (\<exists>d. buildManifestResults (cb_unmarshal lib) job = Inr d \<and>
          fs_node fs' (filepath_Clean (so_outputPath options)) = Some (RegularFile 384 (results_text d))))))"
proof -
  obtain t w res out1 where ex: "execute (sr_submit r) (sr_submitCtxErr r) (sr_startedAt r) (so_timeout options)
      (if ca_Interactive (sr_caps r) then NoProgress else PlainProgress (so_manifest options \<noteq> None)) (sr_rounds r)
      (NewSubmitTracker (so_taskCount options)) = (t, w, Some res)"
    and fin: "finishSubmit lib (sr_random r) (with_quit (sr_tui r) (so_timeout options) res) (sr_caps r) (so_outputPath options)
      (so_manifest options \<noteq> None) (fst (connections (cb_sha256 lib) (sr_peers r) fs v)) = (out1, fs', err)"
    using runSubmit_parts [OF assms(1,2,3)] by blast
  let ?res = "with_quit (sr_tui r) (so_timeout options) res"
  have q: "er_err ?res = None \<longleftrightarrow> completed_run r \<and> sr_tui r \<noteq> TuiQuit"
    using execute_completed [OF ex] by (auto simp: with_quit_def)
  note fe = finish_error [OF fin]
  have none: "err = None \<longleftrightarrow> er_err ?res = None \<and> (\<forall>e. err \<noteq> Some (ResultsProblem e))" using fe(1) by auto
  then have "code = (if completed_run r \<and> sr_tui r \<noteq> TuiQuit \<and> (\<forall>e. err \<noteq> Some (ResultsProblem e)) then 0 else 1)"
    using q by (simp only: assms(4) submit_error_code) simp
  moreover have "so_outputPath options = [] \<Longrightarrow> \<forall>e. err \<noteq> Some (ResultsProblem e)" using fe(2) by auto
  moreover have "\<exists>job. final_job r = Some job \<and> (job_over job \<longrightarrow> (\<exists>d. buildManifestResults (cb_unmarshal lib) job = Inr d \<and>
          fs_node fs' (filepath_Clean (so_outputPath options)) = Some (RegularFile 384 (results_text d))))"
    if "code = 0" "so_outputPath options \<noteq> []" "CHR ''/'' \<notin> set (sr_random r)"
  proof -
    from that(1) have e: "err = None" by (simp add: assms(4) submit_error_code split: if_splits)
    with none have n: "er_err ?res = None" by simp
    then have n': "er_err res = None" and j: "er_job ?res = er_job res" by (auto simp: with_quit_def split: if_splits)
    have "final_job r = Some (er_job res)" by (rule execute_job [OF ex n'])
    moreover have "job_over (er_job res) \<longrightarrow> (\<exists>d. buildManifestResults (cb_unmarshal lib) (er_job res) = Inr d \<and>
          fs_node fs' (filepath_Clean (so_outputPath options)) = Some (RegularFile 384 (results_text d)))"
      using write_results_file [OF fe(3) [OF e that(2)] that(3)] j by auto
    ultimately show ?thesis by blast
  qed
  ultimately show ?thesis by blast
qed

definition ex_cli :: cli_lib where
  "ex_cli = \<lparr>cb_sha256 = ex_sha, cb_parseInt = (\<lambda>s. Inl ''parse error''), cb_frac = (\<lambda>f u s. 0), cb_isPrint = (\<lambda>r. 32 \<le> r), cb_unmarshal = (\<lambda>s. Inl [])\<rparr>"

definition ex_answer :: "PullJobState \<Rightarrow> PollRound" where
  "ex_answer st = \<lparr>po_outcome = CallAnswers 200 [] (Inr \<lparr>jr_JobID = ''job-1'', jr_State = st, jr_Tasks = []\<rparr>),
     po_ctxErr = None, po_select = None, po_now = 9\<rparr>"

definition ex_run :: SubmitRun where
  "ex_run = \<lparr>sr_userConfigDir = Inr ''/c'', sr_goos = ''linux'',
     sr_caps = \<lparr>ca_Interactive = False, ca_Verbose = False, ca_Color = False, ca_Unicode = False\<rparr>,
     sr_submit = CallAnswers 200 [] (Inr \<lparr>ss_JobID = ''job-1'', ss_TaskIDs = [''job-1-task-1'']\<rparr>), sr_submitCtxErr = None, sr_startedAt = 7,
     sr_rounds = [ex_answer PullJobQueued, ex_answer PullJobCompleted], sr_tui = TuiOff, sr_ticks = [], sr_peers = [], sr_random = []\<rparr>"

definition ex_submit_options :: submitOptions where
  "ex_submit_options = submit_defaults\<lparr>so_fingerprint := ex_pin\<rparr>"

theorem submit_exit_code_witness:
  "\<exists>out fs' err. runSubmit ex_cli ex_run ex_submit_options (ex_disk Map.empty) = Some (out, fs', err) \<and> fst (renderExit (submit_error err False)) = 0"
proof -
  have p: "DefaultPaths (sr_userConfigDir ex_run) (sr_goos ex_run) = Inr (PathsAt ''/c'' ''linux'')"
    by (simp add: DefaultPaths_def ex_run_def)
  have tf: "pa_TrustedCoordinator (PathsAt ''/c'' ''linux'') = ''/c/inoculum/trusted-coordinator''" by code_simp
  have fp: "so_fingerprint ex_submit_options = ex_pin" and op: "so_outputPath ex_submit_options = []"
    by (simp_all add: ex_submit_options_def submit_defaults_def)
  have c: "NewCoordinatorClientConfig (ex_disk Map.empty) (pa_TrustedCoordinator (PathsAt ''/c'' ''linux'')) (so_fingerprint ex_submit_options)
      = Inr (ex_verifier\<lparr>tv_trustFile := ''/c/inoculum/trusted-coordinator''\<rparr>)"
    unfolding tf fp by (rule ex_config_at) simp
  have l: "live_round (ex_answer PullJobQueued)" and d: "completed_round (ex_answer PullJobCompleted)"
    by (simp_all add: live_round_def completed_round_def ex_answer_def client_job_def client_call_def)
  have "completed_run ex_run"
    unfolding completed_run_def
    by (intro exI [of _ "\<lparr>ss_JobID = ''job-1'', ss_TaskIDs = [''job-1-task-1'']\<rparr>"] exI [of _ "[ex_answer PullJobQueued]"]
        exI [of _ "ex_answer PullJobCompleted"] exI [of _ "[]"]) (simp add: l d ex_run_def client_submit_def client_call_def)
  moreover have "sr_tui ex_run \<noteq> TuiQuit" by (simp add: ex_run_def)
  moreover have "runSubmit ex_cli ex_run ex_submit_options (ex_disk Map.empty) \<noteq> None"
    unfolding runSubmit_def p c [unfolded tf fp] sum.case tf fp
    by (simp add: ex_run_def ex_answer_def execute_def client_submit_def client_job_def client_call_def poll_round_def sb_Update_def Let_def
        split_beta)
  then obtain out fs' err where r: "runSubmit ex_cli ex_run ex_submit_options (ex_disk Map.empty) = Some (out, fs', err)" by auto
  ultimately show ?thesis using submit_exit_code [OF r p c refl, of False] op by auto
qed

end
