(* ===== verification/PoolTheorems.thy ===== *)
theory PoolTheorems
  imports WorkerTheorems "HOL-Library.Multiset"
begin

text \<open>All slots of a worker together: the books they share.\<close>

section \<open>Lists updated in one place\<close>

lemma mset_concat_update:
  "i < length xs \<Longrightarrow> mset (concat (map f (xs[i := y]))) + mset (f (xs ! i)) = mset (concat (map f xs)) + mset (f y)"
proof (induction xs arbitrary: i)
  case (Cons x xs)
  show ?case
  proof (cases i)
    case (Suc j)
    with Cons.prems Cons.IH [of j] show ?thesis by (simp add: ac_simps)
  qed (simp add: ac_simps)
qed simp

lemma start_task_ids:
  "tp_TaskID p \<notin> tp_TaskID ` set as \<Longrightarrow> mset (map tp_TaskID (start_task p as)) = add_mset (tp_TaskID p) (mset (map tp_TaskID as))"
  by (induction as) auto

lemma finish_task_ids: "mset (map tp_TaskID (finish_task tid as)) = mset (map tp_TaskID as) - {#tid#}"
proof -
  have "map tp_TaskID (finish_task tid as) = remove1 tid (map tp_TaskID as)" by (induction as) auto
  then show ?thesis by (simp only: mset_remove1)
qed

section \<open>The books of the pool\<close>

definition slot_task :: "slot \<Rightarrow> string list" where
  "slot_task s = (case s of SlotRunning t _ _ _ \<Rightarrow> [pt_TaskID t] | _ \<Rightarrow> [])"

definition running_ids :: "Pool \<Rightarrow> string list" where
  "running_ids p = concat (map slot_task (pl_slots p))"

definition pool_ok :: "Pool \<Rightarrow> bool" where
  "pool_ok p = (distinct (running_ids p) \<and> mset (map tp_TaskID (fst (book (pl_worker p)))) = mset (running_ids p))"

text \<open>A claim that brings a task which no slot is running; other events are no claims of a task.\<close>

fun fresh_event :: "pool_event \<Rightarrow> Pool \<Rightarrow> bool" where
  "fresh_event (SlotClaims i r) p = (case claim (sl_claim r) of Inr (Some t, st) \<Rightarrow> pt_TaskID t \<notin> set (running_ids p) | _ \<Rightarrow> True)"
| "fresh_event _ p = True"

definition fresh_step :: "pool_event \<Rightarrow> Pool \<Rightarrow> Pool option" where
  "fresh_step e p = (if fresh_event e p then Some (pool_step e p) else None)"

lemma start_claim_book:
  "\<exists>p. tp_TaskID p = pt_TaskID t \<and> book (start_claim t1 t2 t w) = (start_task p (fst (book w)), snd (book w))"
  by (intro exI conjI) (auto simp: start_claim_def Let_def book_def pw_record_def wt_TaskStarted_def)

lemma slot_claim_book:
  assumes "slot_claim r b n w = (w1, x)"
  shows "(\<exists>t p st. x = ClaimedTask t \<and> claim (sl_claim r) = Inr (Some t, st) \<and> tp_TaskID p = pt_TaskID t \<and>
      book w1 = (start_task p (fst (book w)), snd (book w))) \<or> ((\<forall>t. x \<noteq> ClaimedTask t) \<and> book w1 = book w)"
proof (cases x)
  case (ClaimNext y)
  with assms have "book w1 = book w"
    by (auto simp: slot_claim_def Let_def split: if_splits sum.splits option.splits)
  with ClaimNext show ?thesis by simp
next
  case (ClaimedTask t)
  with assms obtain st where "claim (sl_claim r) = Inr (Some t, st)"
    and "w1 = start_claim (sl_clk r 2) (sl_clk r 3) t (markConnected (sl_clk r) w)"
    by (auto simp: slot_claim_def Let_def split: if_splits sum.splits option.splits)
  with start_claim_book [of t "sl_clk r 2" "sl_clk r 3" "markConnected (sl_clk r) w"] ClaimedTask show ?thesis by simp
qed

text \<open>Of the events of a running slot only the end of its claim changes the books.\<close>

lemma claim_event_ends:
  assumes "\<not> xc_finished x"
  shows "if xc_finished (claim_event i t ev x)
    then ev = CFinish \<and> (\<exists>res st. xc_delivery x = Delivered res st \<and>
      book (xc_worker (claim_event i t ev x)) = (finish_task (pt_TaskID t) (fst (book (xc_worker x))),
        fst (snd (book (xc_worker x))) + (if st = ''task_completed'' then 1 else 0),
        snd (snd (book (xc_worker x))) + (if st = ''task_failed'' then 1 else 0)))
    else book (xc_worker (claim_event i t ev x)) = book (xc_worker x)"
proof (cases "ev = CFinish")
  case True
  with assms show ?thesis
    by (cases "xc_delivery x") (auto simp: book_def wt_TaskFinished_def Let_def)
next
  case False
  from claim_event_keeps [OF assms this, of i t] show ?thesis by simp
qed

lemma pool_claim_effect:
  defines "p' \<equiv> \<lambda>i r p. pool_step (SlotClaims i r) p"
  shows "snd (book (pl_worker (p' i r p))) = snd (book (pl_worker p)) \<and>
    (fst (book (pl_worker (p' i r p))) = fst (book (pl_worker p)) \<and> mset (running_ids (p' i r p)) = mset (running_ids p) \<or>
     (\<exists>t q st. claim (sl_claim r) = Inr (Some t, st) \<and> tp_TaskID q = pt_TaskID t \<and>
        fst (book (pl_worker (p' i r p))) = start_task q (fst (book (pl_worker p))) \<and>
        mset (running_ids (p' i r p)) = add_mset (pt_TaskID t) (mset (running_ids p))))"
proof (cases "i < length (pl_slots p) \<and> (\<exists>b n. pl_slots p ! i = SlotIdle b n)")
  case False
  then have "p' i r p = p" by (auto simp: p'_def split: slot.splits)
  then show ?thesis by simp
next
  case True
  then obtain b n where i: "i < length (pl_slots p)" "pl_slots p ! i = SlotIdle b n" by blast
  obtain w x where c: "slot_claim r b n (pl_worker p) = (w, x)" by (meson surj_pair)
  let ?s = "slot_after (sl_clk r 4) x"
  have run: "mset (running_ids (p' i r p)) = mset (running_ids p) + mset (slot_task ?s)"
    using mset_concat_update [OF i(1), of slot_task ?s] i c by (simp add: p'_def running_ids_def slot_task_def)
  have wk: "pl_worker (p' i r p) = w" using i c by (simp add: p'_def)
  from slot_claim_book [OF c] show ?thesis
  proof (elim disjE exE conjE)
    fix t q st
    assume "x = ClaimedTask t" and t: "claim (sl_claim r) = Inr (Some t, st)" and q: "tp_TaskID q = pt_TaskID t"
      and bk: "book w = (start_task q (fst (book (pl_worker p))), snd (book (pl_worker p)))"
    with run have "mset (running_ids (p' i r p)) = add_mset (pt_TaskID t) (mset (running_ids p))"
      by (simp add: slot_after_def slot_task_def)
    with t q bk wk show ?thesis by auto
  next
    assume "\<forall>t. x \<noteq> ClaimedTask t" and bk: "book w = book (pl_worker p)"
    then have "slot_task ?s = []" by (cases x) (auto simp: slot_after_def slot_task_def split: slot_next.splits)
    with run bk wk show ?thesis by simp
  qed
qed

text \<open>The status with which the claim of a slot ends at an event, if it does.\<close>

fun ends_with :: "pool_event \<Rightarrow> Pool \<Rightarrow> string option" where
  "ends_with (SlotEvent i CFinish) p =
     (if i < length (pl_slots p) then
        (case pl_slots p ! i of SlotRunning t interval False (Delivered res st) \<Rightarrow> Some st | _ \<Rightarrow> None) else None)"
| "ends_with _ p = None"

fun answers :: "string \<Rightarrow> pool_event list \<Rightarrow> Pool \<Rightarrow> int" where
  "answers st [] p = 0"
| "answers st (e # es) p = (if ends_with e p = Some st then 1 else 0) + answers st es (pool_step e p)"

definition counted :: "pool_event \<Rightarrow> Pool \<Rightarrow> int \<times> int" where
  "counted e p = (case book (pl_worker p) of (as, c, f) \<Rightarrow>
     (c + (if ends_with e p = Some ''task_completed'' then 1 else 0), f + (if ends_with e p = Some ''task_failed'' then 1 else 0)))"

lemma pool_event_effect:
  defines "p' \<equiv> \<lambda>i ev p. pool_step (SlotEvent i ev) p"
  shows "snd (book (pl_worker (p' i ev p))) = counted (SlotEvent i ev) p \<and>
    (fst (book (pl_worker (p' i ev p))) = fst (book (pl_worker p)) \<and> mset (running_ids (p' i ev p)) = mset (running_ids p) \<or>
     (\<exists>tid. fst (book (pl_worker (p' i ev p))) = finish_task tid (fst (book (pl_worker p))) \<and>
        mset (running_ids p) = mset (tid # running_ids (p' i ev p))))"
proof (cases "i < length (pl_slots p) \<and> (\<exists>t iv rn d. pl_slots p ! i = SlotRunning t iv rn d)")
  case False
  then have "p' i ev p = p" by (auto simp: p'_def split: slot.splits)
  moreover have "ends_with (SlotEvent i ev) p = None" using False by (cases ev) (auto split: slot.splits)
  ultimately show ?thesis by (simp add: counted_def split: prod.splits)
next
  case True
  then obtain t iv rn d where i: "i < length (pl_slots p)" "pl_slots p ! i = SlotRunning t iv rn d" by blast
  define x where "x = \<lparr>xc_worker = pl_worker p, xc_renewing = rn, xc_delivery = d, xc_finished = False\<rparr>"
  define y where "y = claim_event iv t ev x"
  let ?s = "if xc_finished y then SlotIdle defaultMinBackoff 0 else SlotRunning t iv (xc_renewing y) (xc_delivery y)"
  have st: "p' i ev p = p\<lparr>pl_worker := xc_worker y, pl_slots := (pl_slots p)[i := ?s]\<rparr>"
    using i by (simp add: p'_def x_def y_def Let_def)
  have run: "mset (running_ids (p' i ev p)) + {#pt_TaskID t#} = mset (running_ids p) + mset (slot_task ?s)"
    using mset_concat_update [OF i(1), of slot_task ?s] i(2) unfolding st by (simp add: running_ids_def slot_task_def)
  have x: "\<not> xc_finished x" "xc_delivery x = d" "xc_worker x = pl_worker p" by (simp_all add: x_def)
  have e: "ends_with (SlotEvent i ev) p = (if xc_finished y then (case d of Delivered res st \<Rightarrow> Some st | _ \<Rightarrow> None) else None)"
    using i claim_event_keeps [OF x(1), of ev iv t] by (cases ev; cases d; cases rn) (simp_all add: y_def x_def)
  note ends = claim_event_ends [OF x(1), of iv t ev, folded y_def]
  show ?thesis
  proof (cases "xc_finished y")
    case True
    with ends x obtain res r where d: "d = Delivered res r"
      and bk: "book (xc_worker y) = (finish_task (pt_TaskID t) (fst (book (pl_worker p))),
        fst (snd (book (pl_worker p))) + (if r = ''task_completed'' then 1 else 0),
        snd (snd (book (pl_worker p))) + (if r = ''task_failed'' then 1 else 0))" by auto
    have "mset (running_ids p) = mset (pt_TaskID t # running_ids (p' i ev p))" using run True by (simp add: slot_task_def)
    moreover have "snd (book (xc_worker y)) = counted (SlotEvent i ev) p" using bk e d True by (simp add: counted_def split_beta)
    ultimately show ?thesis using st bk by auto
  next
    case False
    with ends x have bk: "book (xc_worker y) = book (pl_worker p)" by simp
    have "mset (running_ids (p' i ev p)) = mset (running_ids p)" using run False by (simp add: slot_task_def)
    moreover have "snd (book (xc_worker y)) = counted (SlotEvent i ev) p" using bk e False by (simp add: counted_def split_beta)
    ultimately show ?thesis using st bk by simp
  qed
qed

lemma context_done_effect: "book (pl_worker (pool_step ContextDone p)) = book (pl_worker p) \<and> running_ids (pool_step ContextDone p) = running_ids p"
  by (simp add: book_def wt_Stopping_def Let_def running_ids_def)

text \<open>Every step counts what it should and keeps the number of slots.\<close>

lemma pool_step_counts:
  "snd (book (pl_worker (pool_step e p))) = counted e p \<and> length (pl_slots (pool_step e p)) = length (pl_slots p)"
proof (cases e)
  case (SlotClaims i r)
  have "length (pl_slots (pool_step e p)) = length (pl_slots p)"
    by (simp add: SlotClaims split: slot.splits prod.splits)
  with pool_claim_effect [of i r p] show ?thesis by (simp add: SlotClaims counted_def split_beta del: pool_step.simps)
next
  case (SlotEvent i ev)
  have "length (pl_slots (pool_step e p)) = length (pl_slots p)" by (simp add: SlotEvent Let_def split: slot.splits)
  with pool_event_effect [of i ev p] show ?thesis by (simp add: SlotEvent del: pool_step.simps)
next
  case ContextDone
  with context_done_effect [of p] show ?thesis by (simp add: counted_def split_beta)
qed

section \<open>Any interleaving\<close>

text \<open>What is listed is listed once, and some slot is running it.\<close>

definition listed_ok :: "Pool \<Rightarrow> bool" where
  "listed_ok p = (distinct (map tp_TaskID (fst (book (pl_worker p)))) \<and>
     set (map tp_TaskID (fst (book (pl_worker p)))) \<subseteq> set (running_ids p))"

lemma start_task_listed:
  "set (map tp_TaskID (start_task q as)) = insert (tp_TaskID q) (set (map tp_TaskID as))"
  "distinct (map tp_TaskID as) \<Longrightarrow> distinct (map tp_TaskID (start_task q as))"
proof -
  show s: "set (map tp_TaskID (start_task q as)) = insert (tp_TaskID q) (set (map tp_TaskID as))" for as
    by (induction as) auto
  show "distinct (map tp_TaskID as) \<Longrightarrow> distinct (map tp_TaskID (start_task q as))"
    by (induction as) (auto simp: s [simplified])
qed

lemma finish_task_listed: "map tp_TaskID (finish_task tid as) = remove1 tid (map tp_TaskID as)"
  by (induction as) auto

lemma listed_step:
  assumes "listed_ok p"
  shows "listed_ok (pool_step e p)"
proof (cases e)
  case (SlotClaims i r)
  from pool_claim_effect [of i r p] show ?thesis
  proof (elim conjE disjE exE)
    assume "fst (book (pl_worker (pool_step (SlotClaims i r) p))) = fst (book (pl_worker p))"
      and "mset (running_ids (pool_step (SlotClaims i r) p)) = mset (running_ids p)"
    with assms mset_eq_setD show ?thesis unfolding SlotClaims listed_ok_def by metis
  next
    fix t q st
    assume q: "tp_TaskID q = pt_TaskID t"
      and b: "fst (book (pl_worker (pool_step (SlotClaims i r) p))) = start_task q (fst (book (pl_worker p)))"
      and m: "mset (running_ids (pool_step (SlotClaims i r) p)) = add_mset (pt_TaskID t) (mset (running_ids p))"
    from m have "set (running_ids (pool_step (SlotClaims i r) p)) = insert (pt_TaskID t) (set (running_ids p))"
      using mset_eq_setD [of _ "pt_TaskID t # running_ids p"] by simp
    moreover have "distinct (map tp_TaskID (start_task q (fst (book (pl_worker p)))))"
      using assms start_task_listed(2) unfolding listed_ok_def by blast
    ultimately show ?thesis using assms unfolding SlotClaims listed_ok_def b start_task_listed(1) q by blast
  qed
next
  case (SlotEvent i ev)
  from pool_event_effect [of i ev p] show ?thesis
  proof (elim conjE disjE exE)
    assume "fst (book (pl_worker (pool_step (SlotEvent i ev) p))) = fst (book (pl_worker p))"
      and "mset (running_ids (pool_step (SlotEvent i ev) p)) = mset (running_ids p)"
    with assms mset_eq_setD show ?thesis unfolding SlotEvent listed_ok_def by metis
  next
    fix tid
    assume b: "fst (book (pl_worker (pool_step (SlotEvent i ev) p))) = finish_task tid (fst (book (pl_worker p)))"
      and m: "mset (running_ids p) = mset (tid # running_ids (pool_step (SlotEvent i ev) p))"
    have "set (running_ids p) = insert tid (set (running_ids (pool_step (SlotEvent i ev) p)))" using mset_eq_setD [OF m] by simp
    with assms show ?thesis unfolding SlotEvent listed_ok_def b finish_task_listed
      by (auto simp: set_remove1_eq simp del: pool_step.simps)
  qed
next
  case ContextDone
  with assms context_done_effect [of p] show ?thesis by (simp add: listed_ok_def del: pool_step.simps)
qed

lemma pool_run_counts:
  "length (pl_slots (fold pool_step evs p)) = length (pl_slots p) \<and>
   snd (book (pl_worker (fold pool_step evs p))) = (fst (snd (book (pl_worker p))) + answers ''task_completed'' evs p,
     snd (snd (book (pl_worker p))) + answers ''task_failed'' evs p)"
proof (induction evs arbitrary: p)
  case (Cons e evs)
  from pool_step_counts [of e p] Cons.IH [of "pool_step e p"] show ?case by (auto simp: counted_def split_beta)
qed simp

lemma listed_run: "listed_ok p \<Longrightarrow> listed_ok (fold pool_step evs p)"
  by (induction evs arbitrary: p) (simp_all add: listed_step)

section \<open>Claims of fresh tasks\<close>

lemma pool_ok_finishes:
  assumes "pool_ok p" and "fst (book (pl_worker p')) = finish_task tid (fst (book (pl_worker p)))"
    and m: "mset (running_ids p) = mset (tid # running_ids p')"
  shows "pool_ok p'"
proof -
  have "distinct (tid # running_ids p')" using mset_eq_imp_distinct_iff [OF m] assms(1) unfolding pool_ok_def by blast
  moreover have "mset (map tp_TaskID (fst (book (pl_worker p')))) = mset (running_ids p) - {#tid#}"
    using assms(1,2) finish_task_ids by (simp add: pool_ok_def)
  ultimately show ?thesis using m by (simp add: pool_ok_def)
qed

lemma pool_ok_same:
  assumes "pool_ok p" and "fst (book (pl_worker p')) = fst (book (pl_worker p))" and m: "mset (running_ids p') = mset (running_ids p)"
  shows "pool_ok p'"
  using assms mset_eq_imp_distinct_iff [OF m] by (simp add: pool_ok_def)

lemma pool_step_ok:
  assumes ok: "pool_ok p" and fresh: "fresh_event e p"
  shows "pool_ok (pool_step e p)"
proof (cases e)
  case (SlotClaims i r)
  from pool_claim_effect [of i r p] show ?thesis
  proof (elim conjE disjE exE)
    fix t q st
    assume t: "claim (sl_claim r) = Inr (Some t, st)" and q: "tp_TaskID q = pt_TaskID t"
      and b: "fst (book (pl_worker (pool_step (SlotClaims i r) p))) = start_task q (fst (book (pl_worker p)))"
      and m: "mset (running_ids (pool_step (SlotClaims i r) p)) = add_mset (pt_TaskID t) (mset (running_ids p))"
    have new: "pt_TaskID t \<notin> set (running_ids p)" using fresh t by (simp add: SlotClaims)
    have "tp_TaskID ` set (fst (book (pl_worker p))) = set (running_ids p)"
      using ok unfolding pool_ok_def by (metis list.set_map mset_eq_setD)
    with new q have "mset (map tp_TaskID (start_task q (fst (book (pl_worker p))))) = add_mset (pt_TaskID t) (mset (running_ids p))"
      using ok start_task_ids [of q] by (simp add: pool_ok_def)
    moreover have "distinct (running_ids (pool_step (SlotClaims i r) p))"
      using mset_eq_imp_distinct_iff [of _ "pt_TaskID t # running_ids p"] m ok new by (simp add: pool_ok_def)
    ultimately show ?thesis unfolding SlotClaims pool_ok_def b m by simp
  qed (auto simp: SlotClaims intro: pool_ok_same [OF ok] simp del: pool_step.simps)
next
  case (SlotEvent i ev)
  from pool_event_effect [of i ev p] pool_ok_same [OF ok] pool_ok_finishes [OF ok] show ?thesis
    unfolding SlotEvent by metis
next
  case ContextDone
  with context_done_effect [of p] pool_ok_same [OF ok] show ?thesis by simp
qed

lemma pool_run_ok:
  "pool_ok p \<Longrightarrow> run_steps fresh_step evs p = Some p' \<Longrightarrow> p' = fold pool_step evs p \<and> pool_ok p'"
proof (induction evs arbitrary: p)
  case (Cons e evs)
  then obtain p1 where p1: "fresh_step e p = Some p1" and r1: "run_steps fresh_step evs p1 = Some p'"
    by (auto split: option.splits)
  from p1 have f: "fresh_event e p" and "p1 = pool_step e p" by (simp_all add: fresh_step_def split: if_splits)
  with pool_step_ok [OF Cons.prems(1) f] Cons.IH [of p1] r1 show ?case by auto
qed simp

lemma running_bound: "length (running_ids p) \<le> length (pl_slots p)"
proof -
  have "length (concat (map slot_task ss)) \<le> length ss" for ss
    by (induction ss) (auto simp: slot_task_def split: slot.splits)
  then show ?thesis by (simp add: running_ids_def)
qed

text \<open>
  C31. The books of the worker. All slots run on one worker, and claims, executions, renewals
  and deliveries of different slots interleave in any order. At every moment the tasks listed as active
  are tasks that slots are running, each listed once and at most as many as there are slots, and the counters
  are the numbers of claims that ended with the coordinator's answer that the task completed or
  failed. They are all the tasks that the slots are running as long as no claim brings a task
  that another slot is running still (whose lease must have expired); after such a claim the slot
  that ends first takes the other's task from the list, as the second half of the witness shows.
\<close>

theorem pool_books_balance:
  fixes w evs
  defines "p \<equiv> fold pool_step evs (Run w)"
  defines "s \<equiv> wt_snapshot (pw_monitor w)" and "s' \<equiv> wt_snapshot (pw_monitor (pl_worker p))"
  assumes "wk_ActiveTasks s = []"
  shows "distinct (map tp_TaskID (wk_ActiveTasks s')) \<and> set (map tp_TaskID (wk_ActiveTasks s')) \<subseteq> set (running_ids p) \<and>
    length (wk_ActiveTasks s') \<le> nat (pc_Concurrency (pw_config w)) \<and>
    wk_Completed s' = wk_Completed s + answers ''task_completed'' evs (Run w) \<and>
    wk_Failed s' = wk_Failed s + answers ''task_failed'' evs (Run w) \<and>
    (run_steps fresh_step evs (Run w) \<noteq> None \<longrightarrow>
       distinct (running_ids p) \<and> mset (map tp_TaskID (wk_ActiveTasks s')) = mset (running_ids p))"
proof -
  have bk: "book v = (wk_ActiveTasks (wt_snapshot (pw_monitor v)), wk_Completed (wt_snapshot (pw_monitor v)), wk_Failed (wt_snapshot (pw_monitor v)))" for v
    by (simp add: book_def Let_def)
  have "slot_task (SlotIdle defaultMinBackoff 0) = []" by (simp add: slot_task_def)
  then have r: "running_ids (Run w) = []" by (simp add: running_ids_def Run_def)
  have "listed_ok (Run w)" and ok0: "pool_ok (Run w)" using r assms(4) by (simp_all add: listed_ok_def pool_ok_def bk s_def Run_def)
  from listed_run [OF this(1)] have l: "distinct (map tp_TaskID (wk_ActiveTasks s'))" "set (map tp_TaskID (wk_ActiveTasks s')) \<subseteq> set (running_ids p)"
    by (simp_all add: listed_ok_def bk s'_def p_def)
  from pool_run_counts [of evs "Run w"] have n: "length (pl_slots p) = nat (pc_Concurrency (pw_config w))"
    and c: "wk_Completed s' = wk_Completed s + answers ''task_completed'' evs (Run w)"
      "wk_Failed s' = wk_Failed s + answers ''task_failed'' evs (Run w)"
    by (simp_all add: bk s_def s'_def p_def Run_def)
  have "length (wk_ActiveTasks s') = card (set (map tp_TaskID (wk_ActiveTasks s')))" using distinct_card [OF l(1)] by simp
  also have "\<dots> \<le> card (set (running_ids p))" using l(2) by (intro card_mono) simp_all
  also have "\<dots> \<le> length (running_ids p)" by (rule card_length)
  finally have "length (wk_ActiveTasks s') \<le> nat (pc_Concurrency (pw_config w))" using running_bound [of p] n by simp
  moreover have "distinct (running_ids p) \<and> mset (map tp_TaskID (wk_ActiveTasks s')) = mset (running_ids p)"
    if "run_steps fresh_step evs (Run w) \<noteq> None"
    using that pool_run_ok [OF ok0] by (auto simp: p_def pool_ok_def bk s'_def)
  ultimately show ?thesis using l c by blast
qed

text \<open>Two slots, one task each, of which the first is over; and one task in both slots, of which the first is over.\<close>

definition ex_pool_claim :: "string \<Rightarrow> string \<Rightarrow> SlotRound" where
  "ex_pool_claim tid lease = \<lparr>sl_ctxDone = False, sl_claim = Responds 200 (Inr \<lparr>cl_Status = ''task_available'',
       cl_Task = Some (ex_pull_task\<lparr>pt_TaskID := tid, pt_LeaseID := lease\<rparr>)\<rparr>), sl_ctxDoneAfter = False, sl_waited = (\<lambda>d. True),
     sl_clk = (\<lambda>n. 7), sl_events = []\<rparr>"

definition ex_pool_events :: "pool_event list" where
  "ex_pool_events = SlotClaims 0 (ex_pool_claim ''t'' ''L'') # SlotClaims 1 (ex_pool_claim ''u'' ''M'') # map (SlotEvent 0) ex_events"

definition ex_reclaim_events :: "pool_event list" where
  "ex_reclaim_events = SlotClaims 0 (ex_pool_claim ''t'' ''L'') # SlotClaims 1 (ex_pool_claim ''t'' ''M'')
     # map (SlotEvent 0) [CExecuted ''ok'' 1 None, CSubmit (ex_send (Responds 409 (Inr ''stale_lease''))), CRenew RenewDone, CFinish]"

definition ex_pool_worker :: PullWorker where
  "ex_pool_worker = ex_worker\<lparr>pw_config := (pw_config ex_worker)\<lparr>pc_Concurrency := 2\<rparr>\<rparr>"

theorem pool_books_balance_witness:
  "(let p = fold pool_step ex_pool_events (Run ex_pool_worker)
    in map tp_TaskID (wk_ActiveTasks (wt_snapshot (pw_monitor (pl_worker p)))) = [''u''] \<and> wk_Completed (wt_snapshot (pw_monitor (pl_worker p))) = 1) \<and>
   (let p = fold pool_step ex_reclaim_events (Run ex_pool_worker)
    in wk_ActiveTasks (wt_snapshot (pw_monitor (pl_worker p))) = [] \<and> running_ids p = [''t''] \<and> wk_Completed (wt_snapshot (pw_monitor (pl_worker p))) = 0)"
proof -
  have a: "wk_ActiveTasks (wt_snapshot (pw_monitor ex_pool_worker)) = []" and z: "wk_Completed (wt_snapshot (pw_monitor ex_pool_worker)) = 0"
    by code_simp+
  let ?p = "fold pool_step ex_pool_events (Run ex_pool_worker)"
  have "run_steps fresh_step ex_pool_events (Run ex_pool_worker) \<noteq> None \<and> running_ids ?p = [''u'']" by code_simp
  then have "mset (map tp_TaskID (wk_ActiveTasks (wt_snapshot (pw_monitor (pl_worker ?p))))) = {#''u''#}"
    using pool_books_balance [OF a, of ex_pool_events] by simp
  then have "map tp_TaskID (wk_ActiveTasks (wt_snapshot (pw_monitor (pl_worker ?p)))) = [''u'']" by (simp only: mset_single_iff)
  moreover have "answers ''task_completed'' ex_pool_events (Run ex_pool_worker) = 1"
    and "answers ''task_completed'' ex_reclaim_events (Run ex_pool_worker) = 0" by code_simp+
  moreover have "wk_ActiveTasks (wt_snapshot (pw_monitor (pl_worker (fold pool_step ex_reclaim_events (Run ex_pool_worker))))) = [] \<and>
      running_ids (fold pool_step ex_reclaim_events (Run ex_pool_worker)) = [''t'']" by code_simp
  ultimately show ?thesis using pool_books_balance [OF a, of ex_pool_events] pool_books_balance [OF a, of ex_reclaim_events] z
    by (simp add: Let_def)
qed

end
