(* ===== verification/Wire.thy ===== *)
theory Wire
  imports JsonText Utf8 Types
begin

text \<open>
  What crosses the network: the wire types of \<open>internal/types\<close> as the JSON that \<open>json.Marshal\<close>
  writes for their tags, what a decoder at the other end makes of that text, and the proof that
  decoding gives the value back. Strings come over with malformed UTF-8 replaced by U+FFFD; an
  instant is a text whose writing and reading (\<open>time.MarshalJSON\<close>, \<open>time.UnmarshalJSON\<close>) are
  arguments.
\<close>

section \<open>Text on the wire\<close>

definition wire_text :: "string \<Rightarrow> string" where
  "wire_text s = string_of_runes (runes s)"

text \<open>
  The value that a decoder reads from the text of a value. The keys here are tags, which are
  ASCII and come over unchanged.
\<close>

fun received :: "json \<Rightarrow> json" where
  "received (JString s) = JString (wire_text s)"
| "received (JArray vs) = JArray (map received vs)"
| "received (JObject kvs) = JObject (map (\<lambda>kv. (fst kv, received (snd kv))) kvs)"
| "received v = v"

text \<open>The body of a request: the text of one value.\<close>

definition json_body :: "json \<Rightarrow> json_doc" where
  "json_body v = \<lparr>doc_len = int (length (json_text v)), doc_vals = [Some (received v)]\<rparr>"

text \<open>Decoding without \<open>DisallowUnknownFields\<close>, as the clients do: unknown keys are skipped.\<close>

fun decode_members_any :: "'s fields \<Rightarrow> (string \<times> json) list \<Rightarrow> 's \<Rightarrow> 's option" where
  "decode_members_any fs [] s = Some s"
| "decode_members_any fs ((k, v) # kvs) s =
     (case find_field fs k of
        None \<Rightarrow> decode_members_any fs kvs s
      | Some f \<Rightarrow> (case f v s of None \<Rightarrow> None | Some s' \<Rightarrow> decode_members_any fs kvs s'))"

fun decode_any :: "'s fields \<Rightarrow> json \<Rightarrow> 's \<Rightarrow> 's option" where
  "decode_any fs JNull s = Some s"
| "decode_any fs (JObject kvs) s = decode_members_any fs kvs s"
| "decode_any fs _ s = None"

lemma decode_members_any: "decode_members fs kvs s = Some x \<Longrightarrow> decode_members_any fs kvs s = Some x"
  by (induction fs kvs s rule: decode_members.induct) (auto split: option.splits)

lemma decode_any: "decode_struct fs v s = Some x \<Longrightarrow> decode_any fs v s = Some x"
  by (cases v) (auto dest: decode_members_any)

lemma wire_text_ascii: "list_all (\<lambda>c. byte c < 128) s \<Longrightarrow> wire_text s = s"
  using runes_of_ascii by (simp add: wire_text_def)

lemma wire_text_wire [simp]: "wire_text (wire_text s) = wire_text s"
  using runes_of_runes [OF runes_valid [of s]] by (simp add: wire_text_def)

lemma wire_text_Nil [simp]: "wire_text [] = []"
  by (simp add: wire_text_def string_of_runes_def)

lemma wire_text_eq_Nil [simp]: "wire_text s = [] \<longleftrightarrow> s = []"
proof
  assume a: "wire_text s = []"
  have "encode_rune r \<noteq> []" for r by (simp add: encode_rune_def Let_def)
  with a have "runes s = []" by (cases "runes s") (auto simp: wire_text_def string_of_runes_def)
  then show "s = []" by (cases s) (simp_all add: runes_def utf8_chunks.simps(2) Let_def)
qed simp

lemma wire_text_safe: "list_all safe_byte s \<Longrightarrow> wire_text s = s"
  by (rule wire_text_ascii) (auto simp: list_all_iff safe_byte_def dest: safe_rune_ascii)

section \<open>The contract of a wire type\<close>

text \<open>
  \<open>enc\<close> is what a value is written as, \<open>norm\<close> what is left of it at the other end. Under this
  contract a body decodes at the server, with its strict decoder, and at a client, with the lenient
  one, and so does a list of values as a field.
\<close>

locale wire_type =
  fixes fs :: "'a fields" and zero :: 'a and enc :: "'a \<Rightarrow> json" and norm :: "'a \<Rightarrow> 'a" and ok :: "'a \<Rightarrow> bool"
  assumes crosses: "ok x \<Longrightarrow> decode_struct fs (received (enc x)) zero = Some (norm x)"
begin

lemma crosses_any: "ok x \<Longrightarrow> decode_any fs (received (enc x)) zero = Some (norm x)"
  using crosses by (rule decode_any)

lemma elems_cross: "list_all ok xs \<Longrightarrow> decode_elems (decode_struct fs) zero (map (\<lambda>x. received (enc x)) xs) [] = Some (map norm xs)"
  by (induction xs) (simp_all add: crosses)

lemma slice_crosses: "list_all ok xs \<Longrightarrow> decode_slice (decode_struct fs) zero (received (JArray (map enc xs))) [] = Some (map norm xs)"
  using elems_cross by (simp add: comp_def)

end

section \<open>Requests\<close>

text \<open>\<open>omitempty\<close> leaves out an empty string or slice.\<close>

definition omit_string :: "string \<Rightarrow> string \<Rightarrow> (string \<times> json) list" where
  "omit_string k s = (if s = [] then [] else [(k, JString s)])"

definition omit_list :: "string \<Rightarrow> json list \<Rightarrow> (string \<times> json) list" where
  "omit_list k vs = (if vs = [] then [] else [(k, JArray vs)])"

definition json_PullClaimRequest :: "PullClaimRequest \<Rightarrow> json" where
  "json_PullClaimRequest r = JObject [(''worker_id'', JString (cq_WorkerID r))]"

definition json_PullRenewRequest :: "PullRenewRequest \<Rightarrow> json" where
  "json_PullRenewRequest r = JObject [(''worker_id'', JString (rq_WorkerID r)), (''task_id'', JString (rq_TaskID r)),
     (''lease_id'', JString (rq_LeaseID r))]"

definition json_TResult :: "TResult \<Rightarrow> json" where
  "json_TResult r = JObject ([(''task_id'', JString (tr_TaskID r)), (''output'', JString (tr_Output r)),
     (''duration_ns'', JInt (tr_Duration r)), (''duration'', JString (tr_DurationStr r))] @ omit_string ''error'' (tr_Error r))"

definition json_PullResultRequest :: "PullResultRequest \<Rightarrow> json" where
  "json_PullResultRequest r = JObject [(''worker_id'', JString (uq_WorkerID r)), (''task_id'', JString (uq_TaskID r)),
     (''lease_id'', JString (uq_LeaseID r)), (''result'', json_TResult (uq_Result r))]"

definition json_PullSubmitTask :: "PullSubmitTask \<Rightarrow> json" where
  "json_PullSubmitTask t = JObject [(''key'', JString (st_Key t)), (''input'', JString (st_Input t))]"

definition json_PullSubmitRequest :: "PullSubmitRequest \<Rightarrow> json" where
  "json_PullSubmitRequest r = JObject ([(''task_type'', JString (sq_TaskType r))]
     @ omit_list ''inputs'' (map JString (sq_Inputs r)) @ omit_list ''tasks'' (map json_PullSubmitTask (sq_Tasks r)))"

text \<open>What comes over of each.\<close>

definition wire_TResult :: "TResult \<Rightarrow> TResult" where
  "wire_TResult r = \<lparr>tr_TaskID = wire_text (tr_TaskID r), tr_Output = wire_text (tr_Output r), tr_Duration = tr_Duration r,
     tr_DurationStr = wire_text (tr_DurationStr r), tr_Error = wire_text (tr_Error r)\<rparr>"

definition wire_result :: "PullResultRequest \<Rightarrow> PullResultRequest" where
  "wire_result r = \<lparr>uq_WorkerID = wire_text (uq_WorkerID r), uq_TaskID = wire_text (uq_TaskID r),
     uq_LeaseID = wire_text (uq_LeaseID r), uq_Result = wire_TResult (uq_Result r)\<rparr>"

definition wire_renew :: "PullRenewRequest \<Rightarrow> PullRenewRequest" where
  "wire_renew r = \<lparr>rq_WorkerID = wire_text (rq_WorkerID r), rq_TaskID = wire_text (rq_TaskID r), rq_LeaseID = wire_text (rq_LeaseID r)\<rparr>"

definition wire_submit_task :: "PullSubmitTask \<Rightarrow> PullSubmitTask" where
  "wire_submit_task t = \<lparr>st_Key = wire_text (st_Key t), st_Input = wire_text (st_Input t)\<rparr>"

definition wire_submit :: "PullSubmitRequest \<Rightarrow> PullSubmitRequest" where
  "wire_submit r = \<lparr>sq_TaskType = wire_text (sq_TaskType r), sq_Inputs = map wire_text (sq_Inputs r),
     sq_Tasks = map wire_submit_task (sq_Tasks r)\<rparr>"

definition int64_ok :: "int \<Rightarrow> bool" where
  "int64_ok i = (minInt64 \<le> i \<and> i \<le> maxInt64)"

interpretation claim_wire: wire_type fields_PullClaimRequest zero_PullClaimRequest json_PullClaimRequest
  "\<lambda>r. \<lparr>cq_WorkerID = wire_text (cq_WorkerID r)\<rparr>" "\<lambda>_. True"
  by unfold_locales (simp add: json_PullClaimRequest_def fields_PullClaimRequest_def zero_PullClaimRequest_def find_field_def)

interpretation renew_wire: wire_type fields_PullRenewRequest zero_PullRenewRequest json_PullRenewRequest wire_renew "\<lambda>_. True"
  by unfold_locales (simp add: json_PullRenewRequest_def fields_PullRenewRequest_def zero_PullRenewRequest_def find_field_def wire_renew_def)

interpretation tresult_wire: wire_type fields_TResult zero_TResult json_TResult wire_TResult "\<lambda>r. int64_ok (tr_Duration r)"
  by unfold_locales (simp add: json_TResult_def fields_TResult_def zero_TResult_def find_field_def wire_TResult_def omit_string_def int64_ok_def)

interpretation result_wire: wire_type fields_PullResultRequest zero_PullResultRequest json_PullResultRequest wire_result
  "\<lambda>r. int64_ok (tr_Duration (uq_Result r))"
  by unfold_locales
    (simp add: json_PullResultRequest_def fields_PullResultRequest_def zero_PullResultRequest_def find_field_def wire_result_def tresult_wire.crosses)

interpretation submit_task_wire: wire_type fields_PullSubmitTask zero_PullSubmitTask json_PullSubmitTask wire_submit_task "\<lambda>_. True"
  by unfold_locales (simp add: json_PullSubmitTask_def fields_PullSubmitTask_def zero_PullSubmitTask_def find_field_def wire_submit_task_def)

lemma strings_cross: "decode_slice decode_string [] (received (JArray (map JString ss))) [] = Some (map wire_text ss)"
  by (induction ss) simp_all

lemma find_submit_fields:
  "find_field fields_PullSubmitRequest ''task_type'' = Some (\<lambda>v r. map_option (\<lambda>x. r\<lparr>sq_TaskType := x\<rparr>) (decode_string v (sq_TaskType r)))"
  "find_field fields_PullSubmitRequest ''inputs'' = Some (\<lambda>v r. map_option (\<lambda>x. r\<lparr>sq_Inputs := x\<rparr>) (decode_slice decode_string [] v (sq_Inputs r)))"
  "find_field fields_PullSubmitRequest ''tasks'' = Some (\<lambda>v r. map_option (\<lambda>x. r\<lparr>sq_Tasks := x\<rparr>)
        (decode_slice (decode_struct fields_PullSubmitTask) zero_PullSubmitTask v (sq_Tasks r)))"
  by (simp_all add: find_field_def fields_PullSubmitRequest_def)

interpretation submit_wire: wire_type fields_PullSubmitRequest zero_PullSubmitRequest json_PullSubmitRequest wire_submit "\<lambda>_. True"
proof
  fix x :: PullSubmitRequest
  have t: "decode_slice (decode_struct fields_PullSubmitTask) zero_PullSubmitTask (received (JArray (map json_PullSubmitTask ts))) [] = Some (map wire_submit_task ts)" for ts
    by (rule submit_task_wire.slice_crosses) (simp add: list_all_iff)
  note c = strings_cross t
  show "decode_struct fields_PullSubmitRequest (received (json_PullSubmitRequest x)) zero_PullSubmitRequest = Some (wire_submit x)"
    using c by (auto simp: json_PullSubmitRequest_def omit_list_def find_submit_fields zero_PullSubmitRequest_def wire_submit_def
        simp del: decode_slice.simps received.simps(2))
qed

end
