(* ===== verification/Network.thy ===== *)
theory Network
  imports Wire CoordinatorJobs Worker
begin

text \<open>
  The worker and the coordinator put together: a call of \<open>PullWorker.post\<close> as a connection, a
  request with the worker's header and body, the coordinator's routes, and the decoding of the
  answer. The same for the requests of the submit client. The coordinator behind a connection that
  is accepted is the one modelled.
\<close>

section \<open>Answers\<close>

fun PullStatus_str :: "PullStatus \<Rightarrow> string" where
  "PullStatus_str PullTaskAvailable = ''task_available''"
| "PullStatus_str PullNoTask = ''no_task_available''"
| "PullStatus_str PullLeaseRenewed = ''lease_renewed''"
| "PullStatus_str PullTaskCompleted = ''task_completed''"
| "PullStatus_str PullTaskRequeued = ''task_requeued''"
| "PullStatus_str PullTaskFailed = ''task_failed''"
| "PullStatus_str PullStaleLease = ''stale_lease''"
| "PullStatus_str PullRejected = ''rejected''"

text \<open>The text of an instant and its reading; reading fails on other text.\<close>

record time_format =
  tf_text :: "time \<Rightarrow> string"
  tf_parse :: "string \<Rightarrow> time option"

text \<open>What the package \<open>time\<close> documents: a text that is read back gives the instant it was written for.\<close>

definition time_faithful :: "time_format \<Rightarrow> bool" where
  "time_faithful tf = (\<forall>t x. tf_parse tf (wire_text (tf_text tf t)) = Some x \<longrightarrow> x = t)"

definition json_time :: "time_format \<Rightarrow> time \<Rightarrow> json" where
  "json_time tf t = JString (tf_text tf t)"

fun decode_time :: "time_format \<Rightarrow> json \<Rightarrow> time \<Rightarrow> time option" where
  "decode_time tf JNull old = Some old"
| "decode_time tf (JString s) old = tf_parse tf s"
| "decode_time tf _ old = None"

definition json_PullTask :: "time_format \<Rightarrow> PullTask \<Rightarrow> json" where
  "json_PullTask tf t = JObject [(''task_id'', JString (pt_TaskID t)), (''job_id'', JString (pt_JobID t)),
     (''type'', JString (pt_Type t)), (''input'', JString (pt_Input t)), (''lease_id'', JString (pt_LeaseID t)),
     (''attempt'', JInt (pt_Attempt t)), (''lease_expires_at'', json_time tf (pt_LeaseExpiresAt t))]"

definition json_PullClaimResponse :: "time_format \<Rightarrow> PullClaimResponse \<Rightarrow> json" where
  "json_PullClaimResponse tf r = JObject ([(''status'', JString (PullStatus_str (cs_Status r)))]
     @ (case cs_Task r of None \<Rightarrow> [] | Some t \<Rightarrow> [(''task'', json_PullTask tf t)]) @ omit_string ''message'' (cs_Message r))"

definition json_PullRenewResponse :: "time_format \<Rightarrow> PullRenewResponse \<Rightarrow> json" where
  "json_PullRenewResponse tf r = JObject ([(''status'', JString (PullStatus_str (rs_Status r))),
     (''lease_expires_at'', json_time tf (rs_LeaseExpiresAt r))] @ omit_string ''message'' (rs_Message r))"

definition json_PullResultResponse :: "PullResultResponse \<Rightarrow> json" where
  "json_PullResultResponse r = JObject ([(''status'', JString (PullStatus_str (us_Status r)))] @ omit_string ''message'' (us_Message r))"

text \<open>The JSON answers of the worker API; every other answer of the routes is plain text to it.\<close>

fun worker_answer :: "time_format \<Rightarrow> Body \<Rightarrow> json option" where
  "worker_answer tf (BClaim r) = Some (json_PullClaimResponse tf r)"
| "worker_answer tf (BRenew r) = Some (json_PullRenewResponse tf r)"
| "worker_answer tf (BResult r) = Some (json_PullResultResponse r)"
| "worker_answer tf _ = None"

section \<open>Decoding of the answers\<close>

definition zero_PullTask :: PullTask where
  "zero_PullTask = \<lparr>pt_TaskID = [], pt_JobID = [], pt_Type = [], pt_Input = [], pt_LeaseID = [], pt_Attempt = 0, pt_LeaseExpiresAt = 0\<rparr>"

definition fields_PullTask :: "time_format \<Rightarrow> PullTask fields" where
  "fields_PullTask tf =
    [(''task_id'', \<lambda>v r. map_option (\<lambda>x. r\<lparr>pt_TaskID := x\<rparr>) (decode_string v (pt_TaskID r))),
     (''job_id'', \<lambda>v r. map_option (\<lambda>x. r\<lparr>pt_JobID := x\<rparr>) (decode_string v (pt_JobID r))),
     (''type'', \<lambda>v r. map_option (\<lambda>x. r\<lparr>pt_Type := x\<rparr>) (decode_string v (pt_Type r))),
     (''input'', \<lambda>v r. map_option (\<lambda>x. r\<lparr>pt_Input := x\<rparr>) (decode_string v (pt_Input r))),
     (''lease_id'', \<lambda>v r. map_option (\<lambda>x. r\<lparr>pt_LeaseID := x\<rparr>) (decode_string v (pt_LeaseID r))),
     (''attempt'', \<lambda>v r. map_option (\<lambda>x. r\<lparr>pt_Attempt := x\<rparr>) (decode_int64 v (pt_Attempt r))),
     (''lease_expires_at'', \<lambda>v r. map_option (\<lambda>x. r\<lparr>pt_LeaseExpiresAt := x\<rparr>) (decode_time tf v (pt_LeaseExpiresAt r)))]"

text \<open>A pointer to a struct: \<open>null\<close> makes it nil, anything else fills a struct.\<close>

fun decode_pointer :: "(json \<Rightarrow> 'a \<Rightarrow> 'a option) \<Rightarrow> 'a \<Rightarrow> json \<Rightarrow> 'a option \<Rightarrow> 'a option option" where
  "decode_pointer f z JNull old = Some None"
| "decode_pointer f z v old = map_option Some (f v (case old of None \<Rightarrow> z | Some x \<Rightarrow> x))"

text \<open>Of an answer the worker uses the status and the task; the message only has to be a string.\<close>

definition fields_ClaimReply :: "time_format \<Rightarrow> ClaimReply fields" where
  "fields_ClaimReply tf =
    [(''status'', \<lambda>v r. map_option (\<lambda>x. r\<lparr>cl_Status := x\<rparr>) (decode_string v (cl_Status r))),
     (''task'', \<lambda>v r. map_option (\<lambda>x. r\<lparr>cl_Task := x\<rparr>) (decode_pointer (decode_any (fields_PullTask tf)) zero_PullTask v (cl_Task r))),
     (''message'', \<lambda>v r. map_option (\<lambda>_. r) (decode_string v []))]"

definition fields_renew_reply :: "time_format \<Rightarrow> string fields" where
  "fields_renew_reply tf = [(''status'', decode_string), (''lease_expires_at'', \<lambda>v r. map_option (\<lambda>_. r) (decode_time tf v 0)),
     (''message'', \<lambda>v r. map_option (\<lambda>_. r) (decode_string v []))]"

definition fields_result_reply :: "string fields" where
  "fields_result_reply = [(''status'', decode_string), (''message'', \<lambda>v r. map_option (\<lambda>_. r) (decode_string v []))]"

text \<open>What \<open>client.Do\<close> and the decoder make of a response; the text of a decoding error is left out.\<close>

definition answer :: "time_format \<Rightarrow> 'r fields \<Rightarrow> 'r \<Rightarrow> Response \<Rightarrow> 'r http_outcome" where
  "answer tf fs zero resp = Responds (rsp_Status resp) (case worker_answer tf (rsp_Body resp) of
       None \<Rightarrow> Inl []
     | Some v \<Rightarrow> (case decode_any fs (received v) zero of None \<Rightarrow> Inl [] | Some r \<Rightarrow> Inr r))"

section \<open>Calls\<close>

text \<open>
  The surroundings of a call: the certificates that the peer presents when a connection is opened
  (\<open>None\<close>: an open one is used again), the worker's address, the coordinator's clock and the lease
  ID that it would draw.
\<close>

record NetCall =
  nc_peer :: "string list option"
  nc_addr :: string
  nc_clk :: "nat \<Rightarrow> time"
  nc_leaseID :: string

text \<open>\<open>httpguts.ValidHeaderFieldValue\<close>, without which \<open>client.Do\<close> sends nothing.\<close>

definition valid_header_value :: "string \<Rightarrow> bool" where
  "valid_header_value v = list_all (\<lambda>c. byte c = 9 \<or> (32 \<le> byte c \<and> byte c \<noteq> 127)) v"

definition worker_request :: "PullWorker \<Rightarrow> string \<Rightarrow> string \<Rightarrow> json \<Rightarrow> Request" where
  "worker_request w addr path v = \<lparr>r_Method = ''POST'', r_Path = path, r_Authorization = [clientHeader (pc_Token (pw_config w))],
     r_RemoteAddr = addr, r_QueryID = [], r_Body = json_body v\<rparr>"

definition connect :: "(string \<Rightarrow> string) \<Rightarrow> string list option \<Rightarrow> FS \<Rightarrow> PullWorker \<Rightarrow> FS \<times> PullWorker \<times> crypto_error option" where
  "connect sha256 peer fs w = (case peer of
       None \<Rightarrow> (fs, w, None)
     | Some certs \<Rightarrow> (case verifyConnection sha256 certs fs (pw_tls w) of (fs1, v, e) \<Rightarrow> (fs1, w\<lparr>pw_tls := v\<rparr>, e)))"

text \<open>\<open>None\<close>: the coordinator panics. \<open>tls_text\<close> gives the text of an error of the TLS layer.\<close>

definition post_over :: "(string \<Rightarrow> string) \<Rightarrow> (crypto_error \<Rightarrow> string) \<Rightarrow> time_format \<Rightarrow> 'r fields \<Rightarrow> 'r \<Rightarrow> NetCall \<Rightarrow> string \<Rightarrow> json \<Rightarrow>
    FS \<times> PullWorker \<Rightarrow> Audit \<times> Server \<Rightarrow> ((FS \<times> PullWorker) \<times> (Audit \<times> Server) \<times> 'r http_outcome) option" where
  "post_over sha256 tls_text tf fds zero n path v = (\<lambda>(fs, w) st.
     if \<not> valid_header_value (clientHeader (pc_Token (pw_config w)))
     then Some ((fs, w), st, DoFails ''net/http: invalid header field value for Authorization'')
     else case connect sha256 (nc_peer n) fs w of
         (fs1, w1, Some e) \<Rightarrow> Some ((fs1, w1), st, DoFails (tls_text e))
       | (fs1, w1, None) \<Rightarrow> map_option (\<lambda>(st1, resp). ((fs1, w1), st1, answer tf fds zero resp))
           (routes sha256 (nc_clk n) (nc_leaseID n) (worker_request w1 (nc_addr n) path v) st))"

definition claim_over :: "(string \<Rightarrow> string) \<Rightarrow> (crypto_error \<Rightarrow> string) \<Rightarrow> time_format \<Rightarrow> NetCall \<Rightarrow>
    FS \<times> PullWorker \<Rightarrow> Audit \<times> Server \<Rightarrow> ((FS \<times> PullWorker) \<times> (Audit \<times> Server) \<times> ClaimReply http_outcome) option" where
  "claim_over sha256 tls_text tf n fw st = post_over sha256 tls_text tf (fields_ClaimReply tf) \<lparr>cl_Status = [], cl_Task = None\<rparr> n
     ''/worker/claim'' (json_PullClaimRequest \<lparr>cq_WorkerID = pc_WorkerID (pw_config (snd fw))\<rparr>) fw st"

definition renew_over :: "(string \<Rightarrow> string) \<Rightarrow> (crypto_error \<Rightarrow> string) \<Rightarrow> time_format \<Rightarrow> NetCall \<Rightarrow> PullTask \<Rightarrow>
    FS \<times> PullWorker \<Rightarrow> Audit \<times> Server \<Rightarrow> ((FS \<times> PullWorker) \<times> (Audit \<times> Server) \<times> string http_outcome) option" where
  "renew_over sha256 tls_text tf n task fw st = post_over sha256 tls_text tf (fields_renew_reply tf) [] n
     ''/worker/renew'' (json_PullRenewRequest (renew_request (snd fw) task)) fw st"

definition result_over :: "(string \<Rightarrow> string) \<Rightarrow> (crypto_error \<Rightarrow> string) \<Rightarrow> time_format \<Rightarrow> NetCall \<Rightarrow> PullTask \<Rightarrow> TResult \<Rightarrow>
    FS \<times> PullWorker \<Rightarrow> Audit \<times> Server \<Rightarrow> ((FS \<times> PullWorker) \<times> (Audit \<times> Server) \<times> string http_outcome) option" where
  "result_over sha256 tls_text tf n task result fw st = post_over sha256 tls_text tf fields_result_reply [] n
     ''/worker/result'' (json_PullResultRequest (result_request (snd fw) task result)) fw st"

section \<open>Requests of the submit client (submit.go)\<close>

definition client_submit_request :: "string \<Rightarrow> string \<Rightarrow> PullSubmitRequest \<Rightarrow> Request" where
  "client_submit_request token addr req = \<lparr>r_Method = ''POST'', r_Path = ''/pull/submit'', r_Authorization = [clientHeader token],
     r_RemoteAddr = addr, r_QueryID = [], r_Body = json_body (json_PullSubmitRequest req)\<rparr>"

text \<open>The query escapes the ID and the coordinator unescapes it; there is no body.\<close>

definition client_job_request :: "string \<Rightarrow> string \<Rightarrow> string \<Rightarrow> Request" where
  "client_job_request token addr jobID = \<lparr>r_Method = ''GET'', r_Path = ''/pull/job'', r_Authorization = [clientHeader token],
     r_RemoteAddr = addr, r_QueryID = jobID, r_Body = \<lparr>doc_len = 0, doc_vals = []\<rparr>\<rparr>"

end
