(* ===== verification/NetworkTheorems.thy ===== *)
theory NetworkTheorems
  imports Network CoordinatorTheorems
begin

text \<open>
  The worker and the coordinator over the network: what the worker decodes is what the coordinator
  answered, and a result that it delivers in time is recorded.
\<close>

section \<open>Decoding of the answers\<close>

lemma wire_status [simp]: "wire_text (PullStatus_str st) = PullStatus_str st"
  by (cases st) (simp_all add: wire_text_ascii byte_def)

lemma folded_tags:
  "fold_name ''status'' = ''STATUS''" "fold_name ''task'' = ''TASK''" "fold_name ''message'' = ''MESSAGE''"
  "fold_name ''lease_expires_at'' = ''LEASE_EXPIRES_AT''"
  by code_simp+

lemma find_claim_fields:
  "find_field (fields_ClaimReply tf) ''status'' = Some (\<lambda>v r. map_option (\<lambda>x. r\<lparr>cl_Status := x\<rparr>) (decode_string v (cl_Status r)))"
  "find_field (fields_ClaimReply tf) ''task'' = Some (\<lambda>v r. map_option (\<lambda>x. r\<lparr>cl_Task := x\<rparr>)
     (decode_pointer (decode_any (fields_PullTask tf)) zero_PullTask v (cl_Task r)))"
  "find_field (fields_ClaimReply tf) ''message'' = Some (\<lambda>v r. map_option (\<lambda>_. r) (decode_string v []))"
  "find_field (fields_ClaimReply tf) ''lease_expires_at'' = None"
  by (simp_all add: find_field_def fields_ClaimReply_def folded_tags)

lemma find_result_fields:
  "find_field fields_result_reply ''status'' = Some decode_string"
  "find_field fields_result_reply ''message'' = Some (\<lambda>v r. map_option (\<lambda>_. r) (decode_string v []))"
  by (simp_all add: find_field_def fields_result_reply_def)

lemma task_decoded:
  assumes "decode_any (fields_PullTask tf) (received (json_PullTask tf pt)) zero_PullTask = Some t"
  shows "pt_TaskID t = wire_text (pt_TaskID pt) \<and> pt_JobID t = wire_text (pt_JobID pt) \<and> pt_Type t = wire_text (pt_Type pt) \<and>
    pt_Input t = wire_text (pt_Input pt) \<and> pt_LeaseID t = wire_text (pt_LeaseID pt) \<and> pt_Attempt t = pt_Attempt pt \<and>
    tf_parse tf (wire_text (tf_text tf (pt_LeaseExpiresAt pt))) = Some (pt_LeaseExpiresAt t)"
  using assms by (auto simp: json_PullTask_def json_time_def fields_PullTask_def zero_PullTask_def find_field_def split: if_splits option.splits)

lemma decode_pointer_task:
  "decode_pointer f z (received (json_PullTask tf pt)) None = map_option Some (f (received (json_PullTask tf pt)) z)"
  by (simp add: json_PullTask_def)

lemma claim_decoded:
  assumes "claim (answer tf (fields_ClaimReply tf) \<lparr>cl_Status = [], cl_Task = None\<rparr> resp) = Inr (Some t, st)"
  shows "\<exists>cs pt. rsp_Body resp = BClaim cs \<and> cs_Task cs = Some pt \<and>
    decode_any (fields_PullTask tf) (received (json_PullTask tf pt)) zero_PullTask = Some t"
proof -
  obtain v r where v: "worker_answer tf (rsp_Body resp) = Some v"
    and r: "decode_any (fields_ClaimReply tf) (received v) \<lparr>cl_Status = [], cl_Task = None\<rparr> = Some r" "cl_Task r = Some t"
    using assms by (auto simp: claim_def post_def answer_def split: option.splits if_splits)
  show ?thesis
  proof (cases "rsp_Body resp")
    case (BClaim cs)
    show ?thesis
    proof (cases "cs_Task cs")
      case None
      with v r BClaim show ?thesis
        by (auto simp: json_PullClaimResponse_def omit_string_def find_claim_fields split: if_splits)
    next
      case (Some pt)
      with v r BClaim show ?thesis
        by (auto simp: decode_pointer_task json_PullClaimResponse_def omit_string_def find_claim_fields split: if_splits option.splits)
    qed
  next
    case (BRenew x)
    with v r show ?thesis
      by (auto simp: json_PullRenewResponse_def json_time_def omit_string_def find_claim_fields split: if_splits)
  next
    case (BResult x)
    with v r show ?thesis
      by (auto simp: json_PullResultResponse_def omit_string_def find_claim_fields split: if_splits)
  qed (use v in simp_all)
qed

lemma result_decoded:
  "rsp_Status resp \<noteq> 401 \<Longrightarrow> rsp_Body resp = BResult us \<Longrightarrow>
   submitResult (answer tf fields_result_reply [] resp) = Inr (PullStatus_str (us_Status us))"
  by (simp add: submitResult_def post_def answer_def json_PullResultResponse_def omit_string_def find_result_fields)

section \<open>Calls\<close>

lemma connect_config: "connect sha256 peer fs w = (fs1, w1, e) \<Longrightarrow> pw_config w1 = pw_config w"
  by (auto simp: connect_def split: option.splits prod.splits)

text \<open>A call that comes back with an answer has been through the routes.\<close>

lemma post_overD:
  assumes "post_over sha256 tls_text tf fds zero n path v (fs, w) st = Some ((fs1, w1), st1, out)" and "\<And>e. out \<noteq> DoFails e"
  shows "\<exists>resp. routes sha256 (nc_clk n) (nc_leaseID n) (worker_request w (nc_addr n) path v) st = Some (st1, resp) \<and>
    out = answer tf fds zero resp \<and> valid_header_value (clientHeader (pc_Token (pw_config w)))"
  using assms connect_config [of sha256 "nc_peer n" fs w]
  by (auto simp: post_over_def worker_request_def split: if_splits prod.splits option.splits)

lemma post_over_sent:
  assumes "valid_header_value (clientHeader (pc_Token (pw_config w)))" and "connect sha256 (nc_peer n) fs w = (fs1, w1, None)"
    and "routes sha256 (nc_clk n) (nc_leaseID n) (worker_request w (nc_addr n) path v) st = Some (st1, resp)"
  shows "post_over sha256 tls_text tf fds zero n path v (fs, w) st = Some ((fs1, w1), st1, answer tf fds zero resp)"
  using assms connect_config [OF assms(2)] by (simp add: post_over_def worker_request_def)

lemma claim_authorized:
  assumes "routes sha256 clk i r (a, s) = Some (st1, resp)" and "rsp_Body resp = BClaim cs"
  shows "authorized sha256 (sv_token s) (r_Authorization r)"
  using assms by (auto simp: routes_def WithBearerAuth_eq split: option.splits if_splits)

text \<open>What a worker that has been given a task knows agrees with what the coordinator keeps.\<close>

lemma claim_over_granted:
  assumes "server_reach sha256 cfg s" and tf: "time_faithful tf" and i: "ValidateLeaseID (nc_leaseID n) = None"
    and "claim_over sha256 tls_text tf n (fs, w) (a, s) = Some ((fs1, w1), (a1, s1), out)"
    and c: "claim out = Inr (Some task, st)"
  defines "r \<equiv> worker_request w (nc_addr n) ''/worker/claim'' (json_PullClaimRequest \<lparr>cq_WorkerID = pc_WorkerID (pw_config w)\<rparr>)"
  shows "\<exists>resp cs pt. routes sha256 (nc_clk n) (nc_leaseID n) r (a, s) = Some ((a1, s1), resp) \<and> rsp_Body resp = BClaim cs \<and>
    cs_Task cs = Some pt \<and> authorized sha256 (sv_token s) (r_Authorization r) \<and>
    valid_header_value (clientHeader (pc_Token (pw_config w))) \<and>
    claim_call r = Some (ClaimCall (wire_text (pc_WorkerID (pw_config w)))) \<and>
    pt_TaskID task = pt_TaskID pt \<and> wire_text (pt_TaskID pt) = pt_TaskID pt \<and> length (pt_TaskID pt) \<le> 256 \<and>
    pt_LeaseID task = pt_LeaseID pt \<and> wire_text (pt_LeaseID pt) = pt_LeaseID pt \<and>
    pt_LeaseExpiresAt task = pt_LeaseExpiresAt pt"
proof -
  have r: "r_Path r = ''/worker/claim''" "r_Method r = ''POST''"
    "r_Body r = json_body (json_PullClaimRequest \<lparr>cq_WorkerID = pc_WorkerID (pw_config w)\<rparr>)"
    by (simp_all add: r_def worker_request_def)
  have "out \<noteq> DoFails e" for e using c by (auto simp: claim_def post_def)
  from post_overD [OF assms(4) [unfolded claim_over_def snd_conv] this] obtain resp where
    rt: "routes sha256 (nc_clk n) (nc_leaseID n) r (a, s) = Some ((a1, s1), resp)"
    and out: "out = answer tf (fields_ClaimReply tf) \<lparr>cl_Status = [], cl_Task = None\<rparr> resp"
    and hd: "valid_header_value (clientHeader (pc_Token (pw_config w)))" unfolding r_def by blast
  from claim_decoded [OF c [unfolded out]] obtain cs pt where b: "rsp_Body resp = BClaim cs" "cs_Task cs = Some pt"
    and d: "decode_any (fields_PullTask tf) (received (json_PullTask tf pt)) zero_PullTask = Some task" by blast
  note au = claim_authorized [OF rt b(1)]
  from claimed_queue [OF server_reach_inv [OF assms(1)] r(1,2) au rt b] obtain v t where
    cc: "claim_call r = Some (ClaimCall v)" and t: "gm_get (tasks (sv_pullQueue s1)) (pt_TaskID pt) = Some t"
    and li: "pt_LeaseID pt = nc_leaseID n" by blast
  have "v = wire_text (pc_WorkerID (pw_config w))"
    using cc claim_wire.crosses by (auto simp: claim_call_def r(3) decodeJSONRequest_def json_body_def split: if_splits)
  moreover have "ValidateTaskID (pt_TaskID pt) = None"
    by (rule reach_task_id_valid [OF server_reach.handled [OF assms(1) rt] t])
  ultimately show ?thesis
    using rt b au hd cc i li task_decoded [OF d] tf wire_text_safe
    by (auto simp: ValidateTaskID_None ValidateLeaseID_None time_faithful_def)
qed

text \<open>What the request of a delivery says when the coordinator reads it.\<close>

lemma delivery_reports:
  assumes "pt_TaskID task = pt_TaskID pt" and "wire_text (pt_TaskID pt) = pt_TaskID pt" and "length (pt_TaskID pt) \<le> 256"
    and "pt_LeaseID task = pt_LeaseID pt" and "wire_text (pt_LeaseID pt) = pt_LeaseID pt"
    and "tr_TaskID result = pt_TaskID pt" and "int64_ok (tr_Duration result)"
    and "length (wire_text (tr_Output result)) \<le> 64 * 1024" and "length (wire_text (tr_Error result)) \<le> 4 * 1024"
    and "length (json_text (json_PullResultRequest (result_request w task result))) \<le> 128 * 1024"
  shows "reports (worker_request w addr ''/worker/result'' (json_PullResultRequest (result_request w task result)))
    (wire_text (pc_WorkerID (pw_config w))) pt (wire_TResult result)"
proof -
  have "decode_struct fields_PullResultRequest (received (json_PullResultRequest (result_request w task result))) zero_PullResultRequest
      = Some \<lparr>uq_WorkerID = wire_text (pc_WorkerID (pw_config w)), uq_TaskID = pt_TaskID pt, uq_LeaseID = pt_LeaseID pt,
          uq_Result = wire_TResult result\<rparr>"
    using assms(1-7) by (subst result_wire.crosses) (simp_all add: result_request_def wire_result_def)
  moreover have "ValidateResult (wire_TResult result) = None"
    using assms(2,3,6,8,9) by (simp add: ValidateResult_def wire_TResult_def limit_defs)
  ultimately show ?thesis
    using assms(2,6,10) by (simp add: reports_def worker_request_def decodeJSONRequest_def json_body_def MaxWorkerRequestBytes_def wire_TResult_def)
qed

text \<open>The limits on a delivery: on the body of the request, and on the output and the error as they arrive.\<close>

definition fits_limits :: "PullWorker \<Rightarrow> PullTask \<Rightarrow> TResult \<Rightarrow> bool" where
  "fits_limits w task result = (length (json_text (json_PullResultRequest (result_request w task result))) \<le> 128 * 1024 \<and>
     length (wire_text (tr_Output result)) \<le> 64 * 1024 \<and> length (wire_text (tr_Error result)) \<le> 4 * 1024)"

lemma oversized_delivery:
  assumes "pt_TaskID task = pt_TaskID pt" and "wire_text (pt_TaskID pt) = pt_TaskID pt"
    and "pt_LeaseID task = pt_LeaseID pt" and "wire_text (pt_LeaseID pt) = pt_LeaseID pt"
    and "tr_TaskID result = pt_TaskID pt" and "int64_ok (tr_Duration result)" and "\<not> fits_limits w task result"
    and au: "authorized sha256 (sv_token s) (r_Authorization (worker_request w addr ''/worker/result'' (json_PullResultRequest (result_request w task result))))"
  shows "\<exists>st msg. routes sha256 clk i (worker_request w addr ''/worker/result'' (json_PullResultRequest (result_request w task result))) (a, s)
    = Some ((a, s), \<lparr>rsp_Status = st, rsp_Body = result_reply PullRejected msg\<rparr>) \<and> st \<noteq> 401"
proof -
  let ?r = "worker_request w addr ''/worker/result'' (json_PullResultRequest (result_request w task result))"
  have "dispatch clk i ?r = Some (handlePullResult clk ?r)" by (simp add: dispatch_def worker_request_def)
  note rt = routes_handler [OF au this, of a]
  have "\<exists>st msg. handlePullResult clk ?r s = Some (s, \<lparr>rsp_Status = st, rsp_Body = result_reply PullRejected msg\<rparr>) \<and> st \<noteq> 401"
  proof (cases "length (json_text (json_PullResultRequest (result_request w task result))) \<le> 128 * 1024")
    case False
    then have "decodeJSONRequest fields_PullResultRequest zero_PullResultRequest (r_Body ?r) MaxWorkerRequestBytes = None"
      by (simp add: worker_request_def decodeJSONRequest_def json_body_def MaxWorkerRequestBytes_def)
    then show ?thesis by (auto simp: handlePullResult_def worker_request_def writeJSONStatus_def)
  next
    case True
    have "decode_struct fields_PullResultRequest (received (json_PullResultRequest (result_request w task result))) zero_PullResultRequest
        = Some \<lparr>uq_WorkerID = wire_text (pc_WorkerID (pw_config w)), uq_TaskID = pt_TaskID pt, uq_LeaseID = pt_LeaseID pt,
            uq_Result = wire_TResult result\<rparr>"
      using assms(1-6) by (subst result_wire.crosses) (simp_all add: result_request_def wire_result_def)
    then have d: "decodeJSONRequest fields_PullResultRequest zero_PullResultRequest (r_Body ?r) MaxWorkerRequestBytes
        = Some \<lparr>uq_WorkerID = wire_text (pc_WorkerID (pw_config w)), uq_TaskID = pt_TaskID pt, uq_LeaseID = pt_LeaseID pt,
            uq_Result = wire_TResult result\<rparr>"
      using True by (simp add: worker_request_def decodeJSONRequest_def json_body_def MaxWorkerRequestBytes_def)
    have "ValidateResult (wire_TResult result) \<noteq> None"
      using True assms(7) by (auto simp: fits_limits_def ValidateResult_def wire_TResult_def limit_defs)
    moreover have "tr_TaskID (wire_TResult result) = pt_TaskID pt" using assms(2,5) by (simp add: wire_TResult_def)
    moreover have "r_Method ?r = ''POST''" by (simp add: worker_request_def)
    ultimately show ?thesis using d
      by (cases "validateLeaseRequest (wire_text (pc_WorkerID (pw_config w))) (pt_TaskID pt) (pt_LeaseID pt)")
        (auto simp: handlePullResult_def writeJSONStatus_def)
  qed
  with rt show ?thesis by auto
qed


definition net_disk :: FS where
  "net_disk = \<lparr>fs_node = Map.empty, fs_fault = (\<lambda>c p. None), fs_partial = (\<lambda>p. 0)\<rparr>"

definition net_worker :: PullWorker where
  "net_worker = \<lparr>pw_config = \<lparr>pc_CoordinatorAddr = ''c:7443'', pc_WorkerID = ''w'', pc_Token = ''tok'', pc_Fingerprint = [],
     pc_TrustFile = ''t'', pc_Concurrency = 1\<rparr>, pw_tls = \<lparr>tv_trustFile = ''t'', tv_trusted = [], tv_explicit = [], tv_needsUpdate = False\<rparr>,
     pw_state = \<lparr>cn_everConnected = False, cn_unavailable = False\<rparr>, pw_monitor = NewWorkerTracker ''w'' ''c:7443'' 1\<rparr>"

definition net_call :: "int \<Rightarrow> NetCall" where
  "net_call t = \<lparr>nc_peer = None, nc_addr = ''peer'', nc_clk = ex_clock t, nc_leaseID = ''L1''\<rparr>"

definition net_time :: time_format where
  "net_time = \<lparr>tf_text = (\<lambda>t. if t = unixEpoch + 16 then ''T'' else []), tf_parse = (\<lambda>s. if s = ''T'' then Some (unixEpoch + 16) else None)\<rparr>"

lemma net_claim:
  "map_option (\<lambda>(_, _, out). claim out) (claim_over (\<lambda>x. x) (\<lambda>_. []) net_time (net_call 6) (net_disk, net_worker) (ex_audit, ex_server 1))
     = Some (Inr (Some ex_task, ''task_available''))"
  by code_simp

lemma net_faithful: "time_faithful net_time"
proof -
  have "wire_text ''T'' = ''T''" by code_simp
  then show ?thesis by (simp add: time_faithful_def net_time_def)
qed


end
