(* ===== verification/ClientNet.thy ===== *)
theory ClientNet
  imports Network Cli
begin

text \<open>
  The submit client and the coordinator put together: the answers to \<open>/pull/submit\<close> and \<open>/pull/job\<close> as
  text, a call of \<open>client.do\<close> as a connection, a request, the coordinator's routes and the body that
  is read, and what the client decodes from it.
\<close>

section \<open>Error texts of the coordinator\<close>

text \<open>What the JSON decoder says about a manifest is left out; the coordinator never sends it.\<close>

fun workload_error_text :: "(rune \<Rightarrow> bool) \<Rightarrow> workload_error \<Rightarrow> string" where
  "workload_error_text p ManifestPathRequired = ''manifest path is required''"
| "workload_error_text p (ManifestReadFailed e) = ''read manifest '' @ e"
| "workload_error_text p ManifestTooLarge = ''manifest exceeds the '' @ show_int MaxManifestBytes @ ''-byte limit''"
| "workload_error_text p ManifestInvalidJSON = ''invalid manifest JSON: ''"
| "workload_error_text p ManifestMultipleValues = ''invalid manifest JSON: multiple JSON values are not allowed''"
| "workload_error_text p (UnsupportedVersion v) = ''unsupported manifest version '' @ show_int v @ ''; supported version is '' @ show_int ManifestVersion"
| "workload_error_text p ManifestTypeRequired = ''manifest type is required''"
| "workload_error_text p TaskTypeRequired = ''task type is required''"
| "workload_error_text p TaskTypeTooLong = ''task type exceeds the '' @ show_nat MaxTaskTypeBytes @ ''-byte limit''"
| "workload_error_text p TaskTypeBadCharacter = ''task type may contain only lowercase letters and '' @ [CHR 0x27] @ ''_'' @ [CHR 0x27]"
| "workload_error_text p (InManifest e) = ''manifest '' @ workload_error_text p e"
| "workload_error_text p (UnsupportedTaskType t) = ''unsupported manifest task type '' @ go_quote p t @ ''; supported type is '' @ go_quote p HTTPProbeType"
| "workload_error_text p NoTasks = ''manifest must contain at least one task''"
| "workload_error_text p (TooManyTasks n) = ''manifest contains '' @ show_nat n @ '' tasks; maximum is '' @ show_nat MaxTasks"
| "workload_error_text p (EmptyKey i) = ''manifest task '' @ show_nat i @ '' has an empty key''"
| "workload_error_text p (KeyTooLong k) = ''manifest task '' @ go_quote p k @ '' key exceeds the '' @ show_nat MaxKeyBytes @ ''-byte limit''"
| "workload_error_text p (DuplicateKey k) = ''manifest contains duplicate task key '' @ go_quote p k"
| "workload_error_text p (EmptyInput k) = ''manifest task '' @ go_quote p k @ '' has an empty input''"
| "workload_error_text p (InputTooLong k) = ''manifest task '' @ go_quote p k @ '' input exceeds the '' @ show_nat MaxInputBytes @ ''-byte limit''"
| "workload_error_text p NoInputs = ''at least one input is required''"
| "workload_error_text p (TooManyInputs n) = ''simple submission contains '' @ show_nat n @ '' tasks; maximum is '' @ show_nat MaxTasks"
| "workload_error_text p (SimpleInputTooLong i) = ''simple submission input '' @ show_nat i @ '' exceeds the '' @ show_nat MaxInputBytes @ ''-byte limit''"

fun submit_error_text :: "(rune \<Rightarrow> bool) \<Rightarrow> submit_error \<Rightarrow> string" where
  "submit_error_text p InvalidSubmitJSON = ''task_type and valid task inputs are required''"
| "submit_error_text p (WorkloadError e) = workload_error_text p e"
| "submit_error_text p InputsAndTasks = ''inputs and keyed tasks cannot be combined''"
| "submit_error_text p KeyedTasksNeedType = ''keyed manifest tasks require task type '' @ go_quote p HTTPProbeType"
| "submit_error_text p (QueueError e) = lq_error_msg e"

section \<open>The answers as text\<close>

definition json_PullSubmitResponse :: "PullSubmitResponse \<Rightarrow> json" where
  "json_PullSubmitResponse r = JObject [(''job_id'', JString (ss_JobID r)), (''task_ids'', JArray (map JString (ss_TaskIDs r)))]"

definition json_PullJobTask :: "PullJobTask \<Rightarrow> json" where
  "json_PullJobTask t = JObject ([(''task_id'', JString (jt_TaskID t))] @ omit_string ''key'' (jt_Key t)
     @ [(''state'', JString (jt_State t)), (''attempts'', JInt (jt_Attempts t))] @ omit_string ''worker_id'' (jt_WorkerID t)
     @ (case jt_Result t of None \<Rightarrow> [] | Some r \<Rightarrow> [(''result'', json_TResult r)]))"

definition json_PullJobResponse :: "PullJobResponse \<Rightarrow> json" where
  "json_PullJobResponse r = JObject [(''job_id'', JString (jr_JobID r)), (''state'', JString (PullJobState_str (jr_State r))),
     (''tasks'', JArray (map json_PullJobTask (jr_Tasks r)))]"

fun client_answer :: "(rune \<Rightarrow> bool) \<Rightarrow> Body \<Rightarrow> json option" where
  "client_answer p (BSubmit r) = Some (json_PullSubmitResponse r)"
| "client_answer p (BJob r) = Some (json_PullJobResponse r)"
| "client_answer p (BSubmitError e) = Some (JObject [(''error'', JString (submit_error_text p e))])"
| "client_answer p (BErrorText e) = Some (JObject [(''error'', JString e)])"
| "client_answer p _ = None"

text \<open>The encoder and \<open>http.Error\<close> end the body with a line feed. Other bodies never answer these requests.\<close>

definition body_text :: "(rune \<Rightarrow> bool) \<Rightarrow> Body \<Rightarrow> string" where
  "body_text p b = (case b of BText s \<Rightarrow> s | _ \<Rightarrow> (case client_answer p b of None \<Rightarrow> [] | Some v \<Rightarrow> json_text v)) @ [CHR 0x0A]"

section \<open>Decoding of the answers\<close>

text \<open>A state is a string in the code; one that is none of the four has no counterpart here.\<close>

definition decode_job_state :: "json \<Rightarrow> PullJobState \<Rightarrow> PullJobState option" where
  "decode_job_state v old = (case decode_string v (PullJobState_str old) of
       None \<Rightarrow> None
     | Some s \<Rightarrow> find (\<lambda>st. PullJobState_str st = s) [PullJobQueued, PullJobRunning, PullJobCompleted, PullJobFailed])"

definition zero_PullJobTask :: PullJobTask where
  "zero_PullJobTask = \<lparr>jt_TaskID = [], jt_Key = [], jt_State = [], jt_Attempts = 0, jt_WorkerID = [], jt_Result = None\<rparr>"

definition fields_PullJobTask :: "PullJobTask fields" where
  "fields_PullJobTask =
    [(''task_id'', \<lambda>v r. map_option (\<lambda>x. r\<lparr>jt_TaskID := x\<rparr>) (decode_string v (jt_TaskID r))),
     (''key'', \<lambda>v r. map_option (\<lambda>x. r\<lparr>jt_Key := x\<rparr>) (decode_string v (jt_Key r))),
     (''state'', \<lambda>v r. map_option (\<lambda>x. r\<lparr>jt_State := x\<rparr>) (decode_string v (jt_State r))),
     (''attempts'', \<lambda>v r. map_option (\<lambda>x. r\<lparr>jt_Attempts := x\<rparr>) (decode_int64 v (jt_Attempts r))),
     (''worker_id'', \<lambda>v r. map_option (\<lambda>x. r\<lparr>jt_WorkerID := x\<rparr>) (decode_string v (jt_WorkerID r))),
     (''result'', \<lambda>v r. map_option (\<lambda>x. r\<lparr>jt_Result := x\<rparr>) (decode_pointer (decode_any fields_TResult) zero_TResult v (jt_Result r)))]"

definition fields_PullJobResponse :: "PullJobResponse fields" where
  "fields_PullJobResponse =
    [(''job_id'', \<lambda>v r. map_option (\<lambda>x. r\<lparr>jr_JobID := x\<rparr>) (decode_string v (jr_JobID r))),
     (''state'', \<lambda>v r. map_option (\<lambda>x. r\<lparr>jr_State := x\<rparr>) (decode_job_state v (jr_State r))),
     (''tasks'', \<lambda>v r. map_option (\<lambda>x. r\<lparr>jr_Tasks := x\<rparr>) (decode_slice (decode_any fields_PullJobTask) zero_PullJobTask v (jr_Tasks r)))]"

definition fields_PullSubmitResponse :: "PullSubmitResponse fields" where
  "fields_PullSubmitResponse =
    [(''job_id'', \<lambda>v r. map_option (\<lambda>x. r\<lparr>ss_JobID := x\<rparr>) (decode_string v (ss_JobID r))),
     (''task_ids'', \<lambda>v r. map_option (\<lambda>x. r\<lparr>ss_TaskIDs := x\<rparr>) (decode_slice decode_string [] v (ss_TaskIDs r)))]"

definition zero_PullJobResponse :: PullJobResponse where
  "zero_PullJobResponse = \<lparr>jr_JobID = [], jr_State = PullJobQueued, jr_Tasks = []\<rparr>"

definition zero_PullSubmitResponse :: PullSubmitResponse where
  "zero_PullSubmitResponse = \<lparr>ss_JobID = [], ss_TaskIDs = []\<rparr>"

section \<open>Calls (client.do, client.submit, client.job)\<close>

definition client_outcome_of :: "(rune \<Rightarrow> bool) \<Rightarrow> 'r fields \<Rightarrow> 'r \<Rightarrow> Response \<Rightarrow> 'r client_outcome" where
  "client_outcome_of p fs zero resp = CallAnswers (rsp_Status resp) (body_text p (rsp_Body resp))
     (case client_answer p (rsp_Body resp) of
        None \<Rightarrow> Inl []
      | Some v \<Rightarrow> (case decode_any fs (received v) zero of None \<Rightarrow> Inl [] | Some r \<Rightarrow> Inr r))"

text \<open>
  A call with the request that \<open>do\<close> makes; the state is the disk and the check of the peer's certificate.
  \<open>None\<close>: the coordinator panics.
\<close>

definition client_do_over :: "(string \<Rightarrow> string) \<Rightarrow> (crypto_error \<Rightarrow> string) \<Rightarrow> (rune \<Rightarrow> bool) \<Rightarrow> 'r fields \<Rightarrow> 'r \<Rightarrow> NetCall \<Rightarrow> Request \<Rightarrow>
    FS \<times> trustVerifier \<Rightarrow> Audit \<times> Server \<Rightarrow> ((FS \<times> trustVerifier) \<times> (Audit \<times> Server) \<times> 'r client_outcome) option" where
  "client_do_over sha256 tls_text p fds zero n req = (\<lambda>(fs, tv) st.
     if \<not> list_all valid_header_value (r_Authorization req)
     then Some ((fs, tv), st, CallFails ''net/http: invalid header field value for Authorization'')
     else case (case nc_peer n of None \<Rightarrow> (fs, tv, None) | Some certs \<Rightarrow> verifyConnection sha256 certs fs tv) of
         (fs1, tv1, Some e) \<Rightarrow> Some ((fs1, tv1), st, CallFails (tls_text e))
       | (fs1, tv1, None) \<Rightarrow> map_option (\<lambda>(st1, resp). ((fs1, tv1), st1, client_outcome_of p fds zero resp))
           (routes sha256 (nc_clk n) (nc_leaseID n) req st))"

definition client_submit_over :: "(string \<Rightarrow> string) \<Rightarrow> (crypto_error \<Rightarrow> string) \<Rightarrow> (rune \<Rightarrow> bool) \<Rightarrow> NetCall \<Rightarrow> string \<Rightarrow> PullSubmitRequest \<Rightarrow>
    FS \<times> trustVerifier \<Rightarrow> Audit \<times> Server \<Rightarrow> ((FS \<times> trustVerifier) \<times> (Audit \<times> Server) \<times> PullSubmitResponse client_outcome) option" where
  "client_submit_over sha256 tls_text p n token req = client_do_over sha256 tls_text p fields_PullSubmitResponse zero_PullSubmitResponse n
     (client_submit_request token (nc_addr n) req)"

definition client_job_over :: "(string \<Rightarrow> string) \<Rightarrow> (crypto_error \<Rightarrow> string) \<Rightarrow> (rune \<Rightarrow> bool) \<Rightarrow> NetCall \<Rightarrow> string \<Rightarrow> string \<Rightarrow>
    FS \<times> trustVerifier \<Rightarrow> Audit \<times> Server \<Rightarrow> ((FS \<times> trustVerifier) \<times> (Audit \<times> Server) \<times> PullJobResponse client_outcome) option" where
  "client_job_over sha256 tls_text p n token jobID = client_do_over sha256 tls_text p fields_PullJobResponse zero_PullJobResponse n
     (client_job_request token (nc_addr n) jobID)"

text \<open>The progress line of a job, which only the tests of the client use.\<close>

definition jobProgress :: "time \<Rightarrow> PullJobResponse \<Rightarrow> string" where
  "jobProgress now job = (let progress = JobFromResponse job 0 now
     in ''queued='' @ show_int (jp_Queued progress) @ '' leased='' @ show_int (jp_Running progress)
        @ '' completed='' @ show_int (jp_Completed progress) @ '' failed='' @ show_int (jp_Failed progress))"

end
