(* ===== verification/ManifestTheorems.thy ===== *)
theory ManifestTheorems
  imports CliTheorems ViewTheorems NetworkTheorems ClientNet
begin

text \<open>
  A manifest on its way through the program: loaded and checked by the command line, submitted over
  the network, kept by the coordinator, reported to the client and written to the results file.
\<close>

text \<open>The strings of a manifest come out of the JSON decoder, which replaces malformed UTF-8.\<close>

definition decoded_text :: "Manifest \<Rightarrow> bool" where
  "decoded_text m = list_all (\<lambda>t. wire_text (wt_Key t) = wt_Key t \<and> wire_text (wt_Input t) = wt_Input t) (mf_Tasks m)"

lemma manifest_request:
  assumes "checkSubmit file options0 = Inr options" and "so_manifest options = Some m" and "so_manifest options0 = None"
  shows "ValidateTasks (mf_Tasks m) = None \<and> so_taskType options = HTTPProbeType"
proof -
  from assms obtain path where "LoadManifest path file = Inr m" and "so_taskType options = mf_Type m"
    by (auto simp: checkSubmit_def split: if_splits sum.splits option.splits)
  then show ?thesis by (auto simp: LoadManifest_Inr ValidateManifest_None)
qed

lemma manifest_over_wire:
  assumes "so_manifest options = Some m" and "so_taskType options = HTTPProbeType" and "decoded_text m"
  shows "wire_submit (submit_request options) = submit_request options"
proof -
  have "wire_text HTTPProbeType = HTTPProbeType" by code_simp
  with assms show ?thesis
    by (simp add: submit_request_def wire_submit_def wire_submit_task_def decoded_text_def list_all_iff)
qed

lemma manifest_call:
  assumes "checkSubmit file options0 = Inr options" and "so_manifest options = Some m" and "so_manifest options0 = None"
    and "decoded_text m" and "int (length (json_text (json_PullSubmitRequest (submit_request options)))) \<le> MaxManifestBytes"
  shows "call_of (client_submit_request token addr (submit_request options)) = Some (SubmitCall HTTPProbeType (mf_Tasks m))"
proof -
  note mr = manifest_request [OF assms(1-3)]
  let ?r = "client_submit_request token addr (submit_request options)"
  have "decode_struct fields_PullSubmitRequest (received (json_PullSubmitRequest (submit_request options))) zero_PullSubmitRequest
      = Some (submit_request options)"
    using submit_wire.crosses manifest_over_wire [OF assms(2) _ assms(4)] mr by simp
  then have d: "decodeJSONRequest fields_PullSubmitRequest zero_PullSubmitRequest (r_Body ?r) MaxManifestBytes = Some (submit_request options)"
    using assms(5) by (simp add: client_submit_request_def decodeJSONRequest_def json_body_def)
  have "map (\<lambda>t. \<lparr>wt_Key = wt_Key t, wt_Input = wt_Input t\<rparr>) ts = ts" for ts :: "WTask list"
    by (rule map_idI) simp
  moreover have "mf_Tasks m \<noteq> []" using mr by (auto simp: ValidateTasks_None)
  ultimately have "submit_tasks (submit_request options) = Inr (mf_Tasks m)"
    using mr assms(2) HTTPProbeType_ok by (simp add: submit_tasks_def submit_request_def comp_def)
  with d show ?thesis using mr assms(2)
    by (simp add: call_of_def submit_call_def client_submit_request_def submit_request_def)
qed

lemma JobFromResponse_tasks: "jp_Tasks (JobFromResponse resp t0 t1) = map progress_of (jr_Tasks resp)"
proof -
  define job0 where "job0 = empty_JobProgress\<lparr>jp_JobID := jr_JobID resp, jp_State := PullJobState_str (jr_State resp),
    jp_Total := int (length (jr_Tasks resp)), jp_StartedAt := t0, jp_Elapsed := (if time_IsZero t0 then 0 else time_Sub t1 t0)\<rparr>"
  obtain m where "fold job_loop_step (jr_Tasks resp) (job0, []) = (job0\<lparr>jp_Queued := jp_Queued job0 + tasks_in ''queued'' (jr_Tasks resp),
      jp_Running := jp_Running job0 + tasks_in ''leased'' (jr_Tasks resp), jp_Completed := jp_Completed job0 + tasks_in ''completed'' (jr_Tasks resp),
      jp_Failed := jp_Failed job0 + tasks_in ''failed'' (jr_Tasks resp), jp_Tasks := jp_Tasks job0 @ map progress_of (jr_Tasks resp)\<rparr>, m)"
    using job_loop_eq [of "jr_Tasks resp" job0] by blast
  then show ?thesis unfolding JobFromResponse_def Let_def job0_def [symmetric] by (simp add: job0_def empty_JobProgress_def)
qed

lemma document_of_report:
  assumes "buildManifestResults unmarshal (JobFromResponse jr t0 t1) = Inr d"
  shows "map mr_Key (md_Tasks d) = map jt_Key (jr_Tasks jr) \<and> map mr_State (md_Tasks d) = map jt_State (jr_Tasks jr)"
proof -
  from assms have "list_all2 (\<lambda>t r. task_result unmarshal t = Inr r) (map progress_of (jr_Tasks jr)) (md_Tasks d)"
    by (auto simp: buildManifestResults_def JobFromResponse_tasks split: sum.splits dest: task_results_faithful)
  then have "list_all2 (\<lambda>t r. mr_Key r = jt_Key t \<and> mr_State r = jt_State t) (jr_Tasks jr) (md_Tasks d)"
    by (auto simp: list.rel_map progress_of_def elim!: list_all2_mono dest!: task_result_faithful)
  then show ?thesis by (induction rule: list_all2_induct) simp_all
qed

section \<open>What the client decodes\<close>

lemma elems_decoded: "decode_elems f z (map g xs) [] = Some ys \<Longrightarrow> list_all2 (\<lambda>x y. f (g x) z = Some y) xs ys"
  by (induction xs arbitrary: ys) (auto split: option.splits)

lemma find_job_task_fields:
  "find_field fields_PullJobTask ''task_id'' = Some (\<lambda>v r. map_option (\<lambda>x. r\<lparr>jt_TaskID := x\<rparr>) (decode_string v (jt_TaskID r)))"
  "find_field fields_PullJobTask ''key'' = Some (\<lambda>v r. map_option (\<lambda>x. r\<lparr>jt_Key := x\<rparr>) (decode_string v (jt_Key r)))"
  "find_field fields_PullJobTask ''state'' = Some (\<lambda>v r. map_option (\<lambda>x. r\<lparr>jt_State := x\<rparr>) (decode_string v (jt_State r)))"
  "find_field fields_PullJobTask ''attempts'' = Some (\<lambda>v r. map_option (\<lambda>x. r\<lparr>jt_Attempts := x\<rparr>) (decode_int64 v (jt_Attempts r)))"
  "find_field fields_PullJobTask ''worker_id'' = Some (\<lambda>v r. map_option (\<lambda>x. r\<lparr>jt_WorkerID := x\<rparr>) (decode_string v (jt_WorkerID r)))"
  "find_field fields_PullJobTask ''result'' = Some (\<lambda>v r. map_option (\<lambda>x. r\<lparr>jt_Result := x\<rparr>)
     (decode_pointer (decode_any fields_TResult) zero_TResult v (jt_Result r)))"
  by (simp_all add: find_field_def fields_PullJobTask_def)

lemma job_task_decoded:
  assumes "decode_any fields_PullJobTask (received (json_PullJobTask t)) zero_PullJobTask = Some t'"
  shows "jt_Key t' = wire_text (jt_Key t) \<and> jt_State t' = wire_text (jt_State t)"
  using assms by (auto simp: json_PullJobTask_def omit_string_def find_job_task_fields zero_PullJobTask_def split: if_splits option.splits)

lemma job_decoded:
  assumes "decode_any fields_PullJobResponse (received (json_PullJobResponse jr)) zero_PullJobResponse = Some jr'"
  shows "map jt_Key (jr_Tasks jr') = map (\<lambda>t. wire_text (jt_Key t)) (jr_Tasks jr)"
proof -
  from assms have "decode_elems (decode_any fields_PullJobTask) zero_PullJobTask (map (\<lambda>t. received (json_PullJobTask t)) (jr_Tasks jr)) []
      = Some (jr_Tasks jr')"
    by (auto simp: json_PullJobResponse_def fields_PullJobResponse_def zero_PullJobResponse_def find_field_def comp_def split: option.splits)
  from elems_decoded [OF this] show ?thesis by (induction rule: list_all2_induct) (simp_all add: job_task_decoded)
qed

lemma submit_decoded:
  "decode_any fields_PullSubmitResponse (received (json_PullSubmitResponse r)) zero_PullSubmitResponse
     = Some \<lparr>ss_JobID = wire_text (ss_JobID r), ss_TaskIDs = map wire_text (ss_TaskIDs r)\<rparr>"
  using strings_cross [of "ss_TaskIDs r"]
  by (simp add: json_PullSubmitResponse_def fields_PullSubmitResponse_def zero_PullSubmitResponse_def find_field_def del: decode_slice.simps)

lemma wire_job_id: "wire_text (job_id now) = job_id now"
proof -
  have "list_all safe_byte (job_id now)"
    by (simp add: job_id_def all_safe_show_int safe_byte_def safe_rune_def byte_def)
  then show ?thesis by (rule wire_text_safe)
qed

text \<open>A call that is answered went through the routes; a call that fails leaves the coordinator alone.\<close>

lemma client_do_cases:
  assumes "client_do_over sha256 tls_text p fds zero n req (fs, tv) st = Some (ftv, st1, out)"
  shows "st1 = st \<and> (\<exists>e. out = CallFails e) \<or>
    (\<exists>resp. routes sha256 (nc_clk n) (nc_leaseID n) req st = Some (st1, resp) \<and> out = client_outcome_of p fds zero resp)"
  using assms by (auto simp: client_do_over_def split: if_splits prod.splits option.splits)

lemma client_job_answer:
  assumes "client_job (client_outcome_of p fields_PullJobResponse zero_PullJobResponse resp) = Inr jr'" and "rsp_Body resp = BJob jr"
  shows "decode_any fields_PullJobResponse (received (json_PullJobResponse jr)) zero_PullJobResponse = Some jr'"
  using assms by (auto simp: client_job_def client_call_def client_outcome_of_def split: if_splits option.splits)

lemma reported_keys:
  assumes "server_reach sha256 cfg s" and "authorized sha256 (sv_token s) (r_Authorization r)" and "call_of r = Some (SubmitCall ty ts)"
    and "routes sha256 (nc_clk n) (nc_leaseID n) r (a, s) = Some ((a1, s1), resp)" and "rsp_Status resp = 200"
    and "run_steps (server_step sha256) ls (a1, s1) = Some (a2, s2)" and tk: "sc_Token cfg \<noteq> []" "list_all (\<lambda>r. \<not> IsSpace r) (runes (sc_Token cfg))"
    and job: "client_job_over sha256 tls_text p n' (sc_Token cfg) (job_id (nc_clk n 0)) ftv (a2, s2) = Some (ftv2, st3, out)"
    and j: "client_job out = Inr jr"
  shows "map jt_Key (jr_Tasks jr) = map (\<lambda>t. wire_text (wt_Key t)) ts"
proof -
  let ?r = "client_job_request (sc_Token cfg) (nc_addr n') (job_id (nc_clk n 0))"
  obtain fs tv a3 s3 where p: "ftv = (fs, tv)" "st3 = (a3, s3)" by (cases ftv; cases st3)
  note reach2 = server_reach_run [OF server_reach.handled [OF assms(1,4)] assms(6)]
  have au: "authorized sha256 (sv_token s2) (r_Authorization ?r)"
    using authorized_client [OF tk] server_reach_token [OF reach2] by (simp add: client_job_request_def)
  have r: "r_Path ?r = ''/pull/job''" "r_Method ?r = ''GET''" "r_QueryID ?r = job_id (nc_clk n 0)"
    by (simp_all add: client_job_request_def)
  from client_do_cases [OF job [unfolded client_job_over_def p]] j obtain resp' where
    rt: "routes sha256 (nc_clk n') (nc_leaseID n') ?r (a2, s2) = Some ((a3, s3), resp')"
    and out: "out = client_outcome_of p fields_PullJobResponse zero_PullJobResponse resp'"
    by (auto simp: client_job_def client_call_def)
  from report_lists_submission [OF assms(1-6) au r rt] obtain jr0 where
    b: "rsp_Body resp' = BJob jr0" and k: "map jt_Key (jr_Tasks jr0) = map wt_Key ts" by blast
  from job_decoded [OF client_job_answer [OF j [unfolded out] b]]
  have "map jt_Key (jr_Tasks jr) = map wire_text (map jt_Key (jr_Tasks jr0))" by (simp add: comp_def)
  then show ?thesis by (simp add: k comp_def)
qed

text \<open>A request over the limit of the coordinator.\<close>

lemma oversized_submission:
  assumes "authorized sha256 (sv_token s) (r_Authorization (client_submit_request token addr req))"
    and "MaxManifestBytes < int (length (json_text (json_PullSubmitRequest req)))"
    and "routes sha256 clk i (client_submit_request token addr req) (a, s) = Some ((a1, s1), resp)"
  shows "s1 = s \<and> rsp_Status resp = 400"
proof -
  let ?r = "client_submit_request token addr req"
  have "dispatch clk i ?r = Some (handlePullSubmit clk ?r)" by (simp add: dispatch_def client_submit_request_def)
  from routes_handlerD [OF assms(1) this assms(3)] have "handlePullSubmit clk ?r s = Some (s1, resp)" ..
  with assms(2) show ?thesis
    by (auto simp: handlePullSubmit_def client_submit_request_def decodeJSONRequest_def json_body_def writeJSONStatus_def)
qed


definition ex_manifest :: file_contents where
  "ex_manifest = Contents \<lparr>doc_len = 120, doc_vals = [Some (JObject [(''version'', JInt 1), (''type'', JString ''http_probe''),
     (''tasks'', JArray [JObject [(''key'', JString ''home''), (''input'', JString ''https://a/'')],
        JObject [(''key'', JString ''api''), (''input'', JString ''https://b/'')]])])]\<rparr>"

definition ex_manifest_options :: submitOptions where
  "ex_manifest_options = (case checkSubmit ex_manifest (submit_defaults\<lparr>so_manifestPath := ''m.json''\<rparr>) of
     Inl e \<Rightarrow> submit_defaults | Inr options \<Rightarrow> options)"

text \<open>Whether the submission is accepted, and whether the report that follows can be written out.\<close>

definition ex_manifest_run :: "(bool \<times> bool) option" where
  "ex_manifest_run =
     (case client_submit_over (\<lambda>x. x) (\<lambda>_. []) (\<lambda>_. False) (net_call 5) (sc_Token ex_scfg) (submit_request ex_manifest_options)
         (net_disk, pw_tls net_worker) (ex_audit, ex_server 0) of
        None \<Rightarrow> None
      | Some (ftv, st, out) \<Rightarrow>
          (case client_job_over (\<lambda>x. x) (\<lambda>_. []) (\<lambda>_. False) (net_call 9) (sc_Token ex_scfg) (job_id (nc_clk (net_call 5) 0)) ftv st of
             None \<Rightarrow> None
           | Some (_, _, out') \<Rightarrow> Some ((case client_submit out of Inl _ \<Rightarrow> False | Inr _ \<Rightarrow> True), (case client_job out' of
               Inr jr \<Rightarrow> (case buildManifestResults (\<lambda>_. Inl []) (JobFromResponse jr 1 2) of Inl _ \<Rightarrow> False | Inr _ \<Rightarrow> True)
             | Inl _ \<Rightarrow> False))))"

lemma succeeds_iff: "(case x of Inl _ \<Rightarrow> False | Inr _ \<Rightarrow> True) \<longleftrightarrow> (\<exists>d. x = Inr d)"
  by (cases x) simp_all


section \<open>A manifest that grows\<close>

text \<open>
  The limit of 5 MiB is on the file for the command line and on the request for the coordinator, and
  \<open>json.Marshal\<close> writes \<open><\<close>, \<open>>\<close> and \<open>&\<close> in six bytes each: a manifest that the command line
  accepts can make a request that the coordinator rejects.
\<close>

lemma join_with_length: "sum_list (map length xs) \<le> length (join_with sep xs)"
  by (induction sep xs rule: join_with.induct) simp_all

lemma quote_less: "length (json_quote (replicate n CHR 0x3C)) = 6 * n + 2"
proof -
  have "utf8_chunks (replicate n CHR 0x3C) = replicate n (60, [CHR 0x3C])"
    by (induction n) (simp_all add: utf8_chunks_ascii byte_def)
  then show ?thesis by (simp add: json_quote_def json_chunk_def hex4_def map_replicate_const length_concat sum_list_replicate)
qed

lemma array_length: "\<forall>v \<in> set vs. n \<le> length (json_text v) \<Longrightarrow> n * length vs \<le> length (json_text (JArray vs))"
proof -
  assume a: "\<forall>v \<in> set vs. n \<le> length (json_text v)"
  have "n * length vs = sum_list (map (\<lambda>v. n) vs)" by (simp add: sum_list_triv)
  also have "\<dots> \<le> sum_list (map (\<lambda>v. length (json_text v)) vs)" using a by (intro sum_list_mono) simp
  also have "\<dots> \<le> length (join_with '','' (map json_text vs))" using join_with_length [of "map json_text vs"] by (simp add: comp_def)
  finally show ?thesis by simp
qed

definition big_task :: "nat \<Rightarrow> WTask" where
  "big_task i = \<lparr>wt_Key = show_nat i, wt_Input = replicate 4096 CHR 0x3C\<rparr>"

definition big_doc :: json_doc where
  "big_doc = \<lparr>doc_len = 1300000, doc_vals = [Some (JObject [(''version'', JInt 1), (''type'', JString HTTPProbeType),
     (''tasks'', JArray (map (\<lambda>i. JObject [(''key'', JString (wt_Key (big_task i))), (''input'', JString (wt_Input (big_task i)))]) [0..<300]))])]\<rparr>"

lemma big_task_ok: "i < 1000 \<Longrightarrow> task_ok (big_task i)"
proof -
  assume "i < 1000"
  then have "length (show_nat i) \<le> 3" using show_nat_length [of 3 i] by simp
  moreover have "list_all plain_char (show_nat i)"
    using show_nat_digits [of i] by (auto simp: list_all_iff plain_char_def is_digit_def byte_def IsSpace_def)
  ultimately show ?thesis by (simp add: task_ok_def big_task_def TrimSpace_plain)
qed

lemma manifest_outgrows_request:
  "\<exists>m. LoadManifest ''m.json'' (Contents big_doc) = Inr m \<and>
     MaxManifestBytes < int (length (json_text (json_PullSubmitRequest (submit_request (submit_defaults\<lparr>so_manifest := Some m\<rparr>)))))"
proof -
  let ?m = "\<lparr>mf_Version = 1, mf_Type = HTTPProbeType, mf_Tasks = map big_task [0..<300]\<rparr>"
  have "decode_elems (decode_struct fields_WTask) zero_WTask
      (map (\<lambda>i. JObject [(''key'', JString (wt_Key (big_task i))), (''input'', JString (wt_Input (big_task i)))]) ns) []
      = Some (map big_task ns)" for ns
    by (induction ns) (simp_all add: fields_WTask_def zero_WTask_def find_field_def big_task_def)
  then have "decode_struct fields_Manifest (the (hd (doc_vals big_doc))) zero_Manifest = Some ?m"
    by (simp add: big_doc_def fields_Manifest_def zero_Manifest_def find_field_def minInt64_def maxInt64_def del: upt_rec_numeral)
  moreover have "ValidateTasks (map big_task [0..<300]) = None"
    using big_task_ok by (simp add: ValidateTasks_None list_all_iff distinct_map inj_on_def comp_def del: upt_rec_numeral)
      (simp add: big_task_def show_nat_inj)
  moreover have "TrimSpace ''m.json'' \<noteq> []" by code_simp
  ultimately have "LoadManifest ''m.json'' (Contents big_doc) = Inr ?m"
    by (simp add: LoadManifest_Inr ValidateManifest_None) (simp add: big_doc_def MaxManifestBytes_def del: upt_rec_numeral)
  moreover have "24578 * 300 \<le> length (json_text (json_PullSubmitRequest (submit_request (submit_defaults\<lparr>so_manifest := Some ?m\<rparr>))))"
  proof -
    have "\<forall>v \<in> set (map (\<lambda>i. json_PullSubmitTask \<lparr>st_Key = wt_Key (big_task i), st_Input = wt_Input (big_task i)\<rparr>) [0..<300]). 24578 \<le> length (json_text v)"
      using quote_less [of 4096] by (simp add: json_PullSubmitTask_def big_task_def)
    from array_length [OF this] show ?thesis
      by (simp add: json_PullSubmitRequest_def submit_request_def omit_list_def submit_defaults_def comp_def del: upt_rec_numeral json_text.simps(6))
  qed
  ultimately show ?thesis by (auto simp: MaxManifestBytes_def)
qed

end
