(* ===== verification/Fleet.thy ===== *)
theory Fleet
  imports Network
begin

text \<open>
  The whole system: one coordinator, any number of worker processes with all their slots, and
  whoever else sends requests. The coordinator handles a call of a worker at one moment, and the
  worker reads the answer, or loses it, at a later one; between the two anything may happen
  anywhere. A call that fails before the coordinator sees it is an event of the worker alone; when
  its request arrives later all the same, it is a request of somebody else.
\<close>

section \<open>The state of the system\<close>

text \<open>
  Each worker process has its own disk. The three maps hold the answers on their way to the slots
  (a slot's renewal runs beside its delivery); \<open>wd_started\<close> records the attempts that slots have
  started to execute, and decides nothing.
\<close>

record World =
  wd_server :: "Audit \<times> Server"
  wd_workers :: "(FS \<times> Pool) list"
  wd_claims :: "nat \<times> nat \<Rightarrow> ClaimReply http_outcome option"
  wd_renewals :: "nat \<times> nat \<Rightarrow> string http_outcome option"
  wd_results :: "nat \<times> nat \<Rightarrow> string http_outcome option"
  wd_started :: "(string \<times> int) list"

definition new_fleet :: "Audit \<times> Server \<Rightarrow> (FS \<times> PullWorker) list \<Rightarrow> World" where
  "new_fleet st ws = \<lparr>wd_server = st, wd_workers = map (\<lambda>(fs, v). (fs, Run v)) ws, wd_claims = (\<lambda>x. None),
     wd_renewals = (\<lambda>x. None), wd_results = (\<lambda>x. None), wd_started = []\<rparr>"

definition slot_of :: "World \<Rightarrow> nat \<Rightarrow> nat \<Rightarrow> slot option" where
  "slot_of w k i = (if k < length (wd_workers w) \<and> i < length (pl_slots (snd (wd_workers w ! k)))
     then Some (pl_slots (snd (wd_workers w ! k)) ! i) else None)"

definition in_pool :: "nat \<Rightarrow> pool_event \<Rightarrow> World \<Rightarrow> World" where
  "in_pool k e w = w\<lparr>wd_workers := (wd_workers w)[k := apsnd (pool_step e) (wd_workers w ! k)]\<rparr>"

section \<open>Steps\<close>

text \<open>The numbers are those of the worker and of its slot. The text is the error of an answer that is lost.\<close>

datatype fleet_event =
    CallClaim nat nat NetCall
  | CallRenew nat nat NetCall
  | CallResult nat nat NetCall
  | ReadClaim nat nat "string option" SlotRound
  | ReadRenew nat nat "string option" bool "nat \<Rightarrow> time"
  | ReadResult nat nat "string option" SubmitRound
  | Locally nat pool_event
  | Requests "nat \<Rightarrow> time" string Request

definition worker_call :: "nat \<Rightarrow> (FS \<times> PullWorker \<Rightarrow> Audit \<times> Server \<Rightarrow> ((FS \<times> PullWorker) \<times> (Audit \<times> Server) \<times> 'r http_outcome) option) \<Rightarrow>
    World \<Rightarrow> (World \<times> 'r http_outcome) option" where
  "worker_call k f w = (case wd_workers w ! k of (fs, p) \<Rightarrow>
     map_option (\<lambda>((fs1, v), st, out). (w\<lparr>wd_server := st, wd_workers := (wd_workers w)[k := (fs1, p\<lparr>pl_worker := v\<rparr>)]\<rparr>, out))
       (f (fs, pl_worker p) (wd_server w)))"

definition read_answer :: "string option \<Rightarrow> 'r http_outcome \<Rightarrow> 'r http_outcome" where
  "read_answer lost out = (case lost of None \<Rightarrow> out | Some e \<Rightarrow> DoFails e)"

fun never_sent :: "'r http_outcome \<Rightarrow> bool" where
  "never_sent (DoFails e) = True"
| "never_sent (Responds st b) = False"

text \<open>What a slot does without the coordinator. A goroutine that waits for an answer does nothing else.\<close>

fun alone :: "nat \<Rightarrow> pool_event \<Rightarrow> World \<Rightarrow> bool" where
  "alone k (SlotClaims i r) w = (wd_claims w (k, i) = None \<and> (sl_ctxDone r \<or> never_sent (sl_claim r)))"
| "alone k (SlotEvent i (CRenew RenewDone)) w = (wd_renewals w (k, i) = None)"
| "alone k (SlotEvent i (CRenew (RenewTick out b clk))) w = (wd_renewals w (k, i) = None \<and> never_sent out)"
| "alone k (SlotEvent i (CSubmit r)) w = (wd_results w (k, i) = None \<and> (sr_ctxDone r \<or> never_sent (sr_outcome r)))"
| "alone k e w = True"

definition note_started :: "nat \<Rightarrow> nat \<Rightarrow> World \<Rightarrow> World" where
  "note_started k i w = (case slot_of w k i of
       Some (SlotRunning t iv rn d) \<Rightarrow> w\<lparr>wd_started := wd_started w @ [(pt_TaskID t, pt_Attempt t)]\<rparr>
     | _ \<Rightarrow> w)"

text \<open>\<open>None\<close>: the coordinator panics. An event that cannot happen changes nothing.\<close>

fun fleet_step :: "(string \<Rightarrow> string) \<Rightarrow> (crypto_error \<Rightarrow> string) \<Rightarrow> time_format \<Rightarrow> fleet_event \<Rightarrow> World \<Rightarrow> World option" where
  "fleet_step sha256 tls_text tf (CallClaim k i n) w =
     (case slot_of w k i of
        Some (SlotIdle b m) \<Rightarrow>
          if wd_claims w (k, i) \<noteq> None then Some w
          else map_option (\<lambda>(w1, out). w1\<lparr>wd_claims := (wd_claims w1)((k, i) := Some out)\<rparr>)
                 (worker_call k (claim_over sha256 tls_text tf n) w)
      | _ \<Rightarrow> Some w)"
| "fleet_step sha256 tls_text tf (CallRenew k i n) w =
     (case slot_of w k i of
        Some (SlotRunning t iv True d) \<Rightarrow>
          if wd_renewals w (k, i) \<noteq> None then Some w
          else map_option (\<lambda>(w1, out). w1\<lparr>wd_renewals := (wd_renewals w1)((k, i) := Some out)\<rparr>)
                 (worker_call k (renew_over sha256 tls_text tf n t) w)
      | _ \<Rightarrow> Some w)"
| "fleet_step sha256 tls_text tf (CallResult k i n) w =
     (case slot_of w k i of
        Some (SlotRunning t iv rn (Delivering res b m)) \<Rightarrow>
          if wd_results w (k, i) \<noteq> None then Some w
          else map_option (\<lambda>(w1, out). w1\<lparr>wd_results := (wd_results w1)((k, i) := Some out)\<rparr>)
                 (worker_call k (result_over sha256 tls_text tf n t res) w)
      | _ \<Rightarrow> Some w)"
| "fleet_step sha256 tls_text tf (ReadClaim k i lost r) w =
     (case wd_claims w (k, i) of
        None \<Rightarrow> Some w
      | Some out \<Rightarrow> Some (note_started k i
          (in_pool k (SlotClaims i (r\<lparr>sl_ctxDone := False, sl_claim := read_answer lost out\<rparr>))
             (w\<lparr>wd_claims := (wd_claims w)((k, i) := None)\<rparr>))))"
| "fleet_step sha256 tls_text tf (ReadRenew k i lost ctxDoneAfter clk) w =
     (case wd_renewals w (k, i) of
        None \<Rightarrow> Some w
      | Some out \<Rightarrow> Some (in_pool k (SlotEvent i (CRenew (RenewTick (read_answer lost out) ctxDoneAfter clk)))
          (w\<lparr>wd_renewals := (wd_renewals w)((k, i) := None)\<rparr>)))"
| "fleet_step sha256 tls_text tf (ReadResult k i lost r) w =
     (case wd_results w (k, i) of
        None \<Rightarrow> Some w
      | Some out \<Rightarrow> Some (in_pool k (SlotEvent i (CSubmit (r\<lparr>sr_ctxDone := False, sr_outcome := read_answer lost out\<rparr>)))
          (w\<lparr>wd_results := (wd_results w)((k, i) := None)\<rparr>)))"
| "fleet_step sha256 tls_text tf (Locally k e) w =
     Some (if k < length (wd_workers w) \<and> alone k e w then in_pool k e w else w)"
| "fleet_step sha256 tls_text tf (Requests clk leaseID r) w =
     map_option (\<lambda>(st, resp). w\<lparr>wd_server := st\<rparr>) (routes sha256 clk leaseID r (wd_server w))"

end
