(* ===== verification/FleetTheorems.thy ===== *)
theory FleetTheorems
  imports Fleet NetworkTheorems PoolTheorems
begin

text \<open>The whole system: what holds over all workers at once.\<close>

section \<open>What a slot knows\<close>

text \<open>The attempt that a task handed out stands for, and what it says about the task.\<close>

abbreviation attempt_of :: "PullTask \<Rightarrow> string \<times> int" where
  "attempt_of t \<equiv> (pt_TaskID t, pt_Attempt t)"

definition made :: "Queue \<Rightarrow> string \<times> int \<Rightarrow> bool" where
  "made q x = (\<exists>task. gm_get (tasks q) (fst x) = Some task \<and> 1 \<le> snd x \<and> snd x \<le> t_Attempts task)"

definition handed_out :: "Queue \<Rightarrow> PullTask \<Rightarrow> bool" where
  "handed_out q t = (\<exists>task. gm_get (tasks q) (pt_TaskID t) = Some task \<and> 1 \<le> pt_Attempt t \<and> pt_Attempt t \<le> t_Attempts task \<and>
     pt_Type t = wire_text (t_Type task) \<and> pt_Input t = wire_text (t_Input task))"

definition told :: "Queue \<Rightarrow> PullTask \<Rightarrow> string \<Rightarrow> bool" where
  "told q t st = (\<forall>task. gm_get (tasks q) (pt_TaskID t) = Some task \<longrightarrow>
     (st = ''task_completed'' \<longrightarrow> t_State task = StateCompleted) \<and> (st = ''task_failed'' \<longrightarrow> t_State task = StateFailed))"

text \<open>The queue only moves up, and all this stays.\<close>

lemma made_le: "queue_le q q' \<Longrightarrow> made q x \<Longrightarrow> made q' x"
  by (fastforce simp: made_def queue_le_def task_le_def)

lemma handed_out_le: "queue_le q q' \<Longrightarrow> handed_out q t \<Longrightarrow> handed_out q' t"
  unfolding handed_out_def queue_le_def task_le_def same_payload_def spec_of_def by fastforce

lemma handed_out_made: "handed_out q t \<Longrightarrow> made q (attempt_of t)"
  by (auto simp: handed_out_def made_def)

lemma told_le: "queue_le q q' \<Longrightarrow> handed_out q t \<Longrightarrow> told q t st \<Longrightarrow> told q' t st"
  using queue_le_terminal [of q q' "pt_TaskID t"] by (fastforce simp: told_def handed_out_def)

section \<open>What the coordinator does to a call\<close>

lemma routes_le:
  assumes "server_reach sha256 cfg s" and "routes sha256 clk i r (a, s) = Some ((a1, s1), resp)"
  shows "queue_le (sv_pullQueue s) (sv_pullQueue s1)"
proof -
  note inv = server_reach_inv [OF assms(1)]
  from routes_served [OF inv, of sha256 clk i r a] assms(2)
  have "run_steps lq_step (server_calls sha256 clk i r s) (sv_pullQueue s) = Some (sv_pullQueue s1)" by auto
  with inv show ?thesis by (intro lqm.run_le) (simp_all add: server_inv_def)
qed

text \<open>A call fails on its way, and then nothing happened, or it went through the routes.\<close>

lemma post_over_cases:
  assumes "post_over sha256 tls_text tf fds zero n path v (fs, w) st = Some ((fs1, w1), st1, out)"
  shows "st1 = st \<and> (\<exists>e. out = DoFails e) \<or>
    (\<exists>resp. routes sha256 (nc_clk n) (nc_leaseID n) (worker_request w (nc_addr n) path v) st = Some (st1, resp) \<and>
      out = answer tf fds zero resp)"
  using assms connect_config [of sha256 "nc_peer n" fs w]
  by (auto simp: post_over_def worker_request_def split: if_splits prod.splits option.splits)

lemma post_over_served:
  assumes "server_reach sha256 cfg (snd st)"
  shows "\<exists>fw st1 out. post_over sha256 tls_text tf fds zero n path v (fs, w) st = Some (fw, st1, out)"
proof -
  obtain a s where st: "st = (a, s)" by (cases st)
  have "routes sha256 (nc_clk n) (nc_leaseID n) r st \<noteq> None" for r
    using routes_served [OF server_reach_inv [OF assms], of sha256 "nc_clk n" "nc_leaseID n" r a] by (auto simp: st)
  then show ?thesis by (auto simp: post_over_def split: prod.splits option.splits)
qed

text \<open>A claim hands out an attempt that was never made before.\<close>

lemma claim_hands_out:
  assumes "server_reach sha256 cfg s"
    and "claim_over sha256 tls_text tf n (fs, w) (a, s) = Some ((fs1, w1), (a1, s1), out)" and c: "claim out = Inr (Some t, st)"
  shows "handed_out (sv_pullQueue s1) t \<and> \<not> made (sv_pullQueue s) (attempt_of t)"
proof -
  define r where "r = worker_request w (nc_addr n) ''/worker/claim'' (json_PullClaimRequest \<lparr>cq_WorkerID = pc_WorkerID (pw_config w)\<rparr>)"
  have r: "r_Path r = ''/worker/claim''" "r_Method r = ''POST''" by (simp_all add: r_def worker_request_def)
  have "out \<noteq> DoFails e" for e using c by (auto simp: claim_def post_def)
  from post_overD [OF assms(2) [unfolded claim_over_def snd_conv] this] obtain resp where
    rt: "routes sha256 (nc_clk n) (nc_leaseID n) r (a, s) = Some ((a1, s1), resp)"
    and out: "out = answer tf (fields_ClaimReply tf) \<lparr>cl_Status = [], cl_Task = None\<rparr> resp" unfolding r_def by blast
  from claim_decoded [OF c [unfolded out]] obtain cs pt where b: "rsp_Body resp = BClaim cs" "cs_Task cs = Some pt"
    and d: "decode_any (fields_PullTask tf) (received (json_PullTask tf pt)) zero_PullTask = Some t" by blast
  from claimed_queue [OF server_reach_inv [OF assms(1)] r claim_authorized [OF rt b(1)] rt b] obtain t1 t0 where
    t1: "gm_get (tasks (sv_pullQueue s1)) (pt_TaskID pt) = Some t1" "pt_Attempt pt = t_Attempts t1" "pt_Type pt = t_Type t1" "pt_Input pt = t_Input t1"
    and t0: "gm_get (tasks (sv_pullQueue s)) (pt_TaskID pt) = Some t0" "t_Attempts t1 = t_Attempts t0 + 1" "0 \<le> t_Attempts t0" by blast
  have "wire_text (pt_TaskID pt) = pt_TaskID pt"
    using reach_task_id_valid [OF server_reach.handled [OF assms(1) rt] t1(1)] by (auto simp: ValidateTaskID_None wire_text_safe)
  with t1 t0 task_decoded [OF d] show ?thesis by (auto simp: handed_out_def made_def)
qed

text \<open>What the answer to a result says is true of the task.\<close>

definition in_state :: "Queue \<Rightarrow> string \<Rightarrow> TaskState \<Rightarrow> bool" where
  "in_state q tid x = (\<forall>task. gm_get (tasks q) tid = Some task \<longrightarrow> t_State task = x)"

lemma Complete_tells:
  assumes inv: "queue_inv q" and c: "Complete tid i w r now q = (q1, res)"
  shows "(res = Inr OutcomeCompleted \<longrightarrow> in_state q1 tid StateCompleted) \<and> (res = Inr OutcomeFailed \<longrightarrow> in_state q1 tid StateFailed) \<and>
    (res = Inl ErrAlreadyCompleted \<longrightarrow> in_state q1 tid StateCompleted) \<and> (res = Inl ErrTaskFailed \<longrightarrow> in_state q1 tid StateFailed)"
proof -
  have "snd (activeLeaseLocked tid i w now q) = Inl ErrAlreadyCompleted \<Longrightarrow> fst (activeLeaseLocked tid i w now q) = q \<and> in_state q tid StateCompleted"
    and "snd (activeLeaseLocked tid i w now q) = Inl ErrTaskFailed \<Longrightarrow> fst (activeLeaseLocked tid i w now q) = q \<and> in_state q tid StateFailed"
    by (auto simp: activeLeaseLocked_def in_state_def split: option.splits if_splits)
  with c show ?thesis by (auto simp: Complete_def in_state_def split: prod.splits sum.splits if_splits)
qed

definition result_fate :: "Queue \<Rightarrow> Request \<Rightarrow> PullStatus \<Rightarrow> bool" where
  "result_fate q r st = (case result_call r of
       Some (ResultCall req) \<Rightarrow> (st = PullTaskCompleted \<longrightarrow> in_state q (uq_TaskID req) StateCompleted) \<and>
         (st = PullTaskFailed \<longrightarrow> in_state q (uq_TaskID req) StateFailed)
     | _ \<Rightarrow> st = PullRejected)"

lemma handlePullResult_tells:
  assumes inv: "server_inv s" and c: "r_Method r = ''POST''" and h: "handlePullResult clk r s = Some (s1, resp)"
  shows "\<exists>us. rsp_Body resp = BResult us \<and> result_fate (sv_pullQueue s1) r (us_Status us)"
proof (cases "result_call r")
  case None
  with h c show ?thesis
    by (auto simp: handlePullResult_def result_call_def result_fate_def writeJSONStatus_def result_reply_def split: option.splits if_splits)
next
  case (Some d)
  from handlePullResult_eq [OF c Some, of clk s] obtain req where d: "d = ResultCall req" and e: "handlePullResult clk r s =
    (case Complete (uq_TaskID req) (uq_LeaseID req) (uq_WorkerID req) (lresult_of (uq_Result req)) (clk 1) (sv_pullQueue s) of
       (q1, Inl err) \<Rightarrow> Some ((recordWorkerActivity (uq_WorkerID req) (clk 0) s)\<lparr>sv_pullQueue := q1\<rparr>,
         writeJSONStatus (snd (pullErrorResponse err)) (result_reply (fst (pullErrorResponse err)) (lq_error_msg err)))
     | (q1, Inr out) \<Rightarrow> Some (result_outcome (clk 2) (uq_TaskID req) (uq_WorkerID req) out
         ((recordWorkerActivity (uq_WorkerID req) (clk 0) s)\<lparr>sv_pullQueue := q1\<rparr>)))" by blast
  obtain q1 res where q1: "Complete (uq_TaskID req) (uq_LeaseID req) (uq_WorkerID req) (lresult_of (uq_Result req))
      (clk 1) (sv_pullQueue s) = (q1, res)" by (meson surj_pair)
  have "queue_inv (sv_pullQueue s)" using inv by (simp add: server_inv_def)
  note tells = Complete_tells [OF this q1]
  show ?thesis
  proof (cases res)
    case (Inl err)
    with h e q1 Some d tells show ?thesis
      by (cases err) (auto simp: result_fate_def writeJSONStatus_def result_reply_def simp del: One_nat_def)
  next
    case (Inr out)
    with h e q1 Some d tells show ?thesis
      by (cases out) (auto simp: result_fate_def writeJSON_def result_reply_def simp del: One_nat_def)
  qed
qed

lemma PullStatus_str_inj: "PullStatus_str a = PullStatus_str b \<Longrightarrow> a = b"
  by (cases a; cases b) simp_all

lemma result_reply_decoded:
  assumes "submitResult (answer tf fields_result_reply [] resp) = Inr st" and "rsp_Body resp = BResult us"
  shows "st = PullStatus_str (us_Status us)"
  using assms by (auto simp: submitResult_def post_def answer_def json_PullResultResponse_def omit_string_def find_result_fields
      split: if_splits)

lemma result_tells:
  assumes reach: "server_reach sha256 cfg s" and t: "handed_out (sv_pullQueue s) t"
    and "result_over sha256 tls_text tf n t res (fs, w) (a, s) = Some ((fs1, w1), (a1, s1), out)" and c: "submitResult out = Inr st"
  shows "told (sv_pullQueue s1) t st"
proof -
  define r where "r = worker_request w (nc_addr n) ''/worker/result'' (json_PullResultRequest (result_request w t res))"
  have r: "r_Path r = ''/worker/result''" "r_Method r = ''POST''" "r_Body r = json_body (json_PullResultRequest (result_request w t res))"
    by (simp_all add: r_def worker_request_def)
  have "out \<noteq> DoFails e" for e using c by (auto simp: submitResult_def post_def)
  from post_overD [OF assms(3) [unfolded result_over_def snd_conv] this] obtain resp where
    rt: "routes sha256 (nc_clk n) (nc_leaseID n) r (a, s) = Some ((a1, s1), resp)"
    and out: "out = answer tf fields_result_reply [] resp" unfolding r_def by blast
  have au: "authorized sha256 (sv_token s) (r_Authorization r)"
  proof (rule ccontr)
    assume "\<not> authorized sha256 (sv_token s) (r_Authorization r)"
    then have "rsp_Status resp = 401" using rt r WithBearerAuth_eq [of sha256 "sv_token s" r a]
      by (auto simp: routes_def dispatch_def)
    with c out show False by (simp add: submitResult_def post_def answer_def)
  qed
  have "dispatch (nc_clk n) (nc_leaseID n) r = Some (handlePullResult (nc_clk n) r)" by (simp add: dispatch_def r)
  from routes_handlerD [OF au this rt] have "handlePullResult (nc_clk n) r s = Some (s1, resp)" by blast
  from handlePullResult_tells [OF server_reach_inv [OF reach] r(2) this] obtain us where
    us: "rsp_Body resp = BResult us" "result_fate (sv_pullQueue s1) r (us_Status us)" by blast
  have st: "st = PullStatus_str (us_Status us)" by (rule result_reply_decoded [OF c [unfolded out] us(1)])
  obtain task where task: "gm_get (tasks (sv_pullQueue s)) (pt_TaskID t) = Some task" using t by (auto simp: handed_out_def)
  have id: "wire_text (pt_TaskID t) = pt_TaskID t"
    using reach_task_id_valid [OF reach task] by (auto simp: ValidateTaskID_None wire_text_safe)
  show ?thesis
  proof (cases "result_call r")
    case None
    with us st show ?thesis by (auto simp: result_fate_def told_def)
  next
    case (Some d)
    then obtain req where d: "d = ResultCall req"
      and dec: "decodeJSONRequest fields_PullResultRequest zero_PullResultRequest (r_Body r) MaxWorkerRequestBytes = Some req"
      by (auto simp: result_call_def split: option.splits if_splits)
    from dec have "decode_struct fields_PullResultRequest (received (json_PullResultRequest (result_request w t res))) zero_PullResultRequest = Some req"
      by (simp add: r decodeJSONRequest_def json_body_def split: if_splits option.splits)
    then have "uq_TaskID req = pt_TaskID t"
      using id by (auto simp: json_PullResultRequest_def fields_PullResultRequest_def zero_PullResultRequest_def find_field_def
          result_request_def split: option.splits)
    with us(2) Some d st show ?thesis
      using PullStatus_str_inj [of "us_Status us" PullTaskCompleted] PullStatus_str_inj [of "us_Status us" PullTaskFailed]
      by (auto simp: result_fate_def told_def in_state_def)
  qed
qed

section \<open>The invariant of the system\<close>

abbreviation queue_of :: "World \<Rightarrow> Queue" where
  "queue_of w \<equiv> sv_pullQueue (snd (wd_server w))"

definition running :: "World \<Rightarrow> nat \<Rightarrow> nat \<Rightarrow> PullTask option" where
  "running w k i = (case slot_of w k i of Some (SlotRunning t iv rn d) \<Rightarrow> Some t | _ \<Rightarrow> None)"

text \<open>The task in an answer to a claim that is still on its way.\<close>

definition coming :: "World \<Rightarrow> nat \<times> nat \<Rightarrow> PullTask option" where
  "coming w x = (case wd_claims w x of
       None \<Rightarrow> None
     | Some out \<Rightarrow> (case claim out of Inr (t, st) \<Rightarrow> t | Inl e \<Rightarrow> None))"

definition slot_ok :: "World \<Rightarrow> slot \<Rightarrow> bool" where
  "slot_ok w s = (case s of
       SlotRunning t iv rn d \<Rightarrow> handed_out (queue_of w) t \<and> attempt_of t \<in> set (wd_started w) \<and>
         (case d of Delivered res st \<Rightarrow> told (queue_of w) t st | _ \<Rightarrow> True)
     | _ \<Rightarrow> True)"

definition slots_ok :: "World \<Rightarrow> bool" where
  "slots_ok w = ((\<forall>k i s. slot_of w k i = Some s \<longrightarrow> slot_ok w s) \<and>
     (\<forall>k i k' i' t t'. running w k i = Some t \<longrightarrow> running w k' i' = Some t' \<longrightarrow> attempt_of t = attempt_of t' \<longrightarrow> (k, i) = (k', i')))"

definition claims_ok :: "World \<Rightarrow> bool" where
  "claims_ok w = ((\<forall>k i. wd_claims w (k, i) \<noteq> None \<longrightarrow> (\<exists>b m. slot_of w k i = Some (SlotIdle b m))) \<and>
     (\<forall>x t. coming w x = Some t \<longrightarrow> handed_out (queue_of w) t \<and> attempt_of t \<notin> set (wd_started w)) \<and>
     (\<forall>x y t t'. coming w x = Some t \<longrightarrow> coming w y = Some t' \<longrightarrow> attempt_of t = attempt_of t' \<longrightarrow> x = y))"

definition results_ok :: "World \<Rightarrow> bool" where
  "results_ok w = (\<forall>k i out. wd_results w (k, i) = Some out \<longrightarrow>
     (\<exists>t iv rn res b m. slot_of w k i = Some (SlotRunning t iv rn (Delivering res b m)) \<and>
        (\<forall>st. submitResult out = Inr st \<longrightarrow> told (queue_of w) t st)))"

definition started_ok :: "World \<Rightarrow> bool" where
  "started_ok w = (distinct (wd_started w) \<and> (\<forall>x \<in> set (wd_started w). made (queue_of w) x))"

definition fleet_ok :: "(string \<Rightarrow> string) \<Rightarrow> ServerConfig \<Rightarrow> World \<Rightarrow> bool" where
  "fleet_ok sha256 cfg w = (server_reach sha256 cfg (snd (wd_server w)) \<and> slots_ok w \<and> claims_ok w \<and> results_ok w \<and> started_ok w)"

lemmas fleet_parts = fleet_ok_def slots_ok_def claims_ok_def results_ok_def started_ok_def

lemma fleet_okD:
  assumes "fleet_ok sha256 cfg w"
  shows "server_reach sha256 cfg (snd (wd_server w))"
    and "slot_of w k i = Some s \<Longrightarrow> slot_ok w s"
    and "running w k i = Some t \<Longrightarrow> running w k' i' = Some t' \<Longrightarrow> attempt_of t = attempt_of t' \<Longrightarrow> (k, i) = (k', i')"
    and "wd_claims w (k, i) \<noteq> None \<Longrightarrow> \<exists>b m. slot_of w k i = Some (SlotIdle b m)"
    and "coming w x = Some t \<Longrightarrow> handed_out (queue_of w) t" and "coming w x = Some t \<Longrightarrow> attempt_of t \<notin> set (wd_started w)"
    and "coming w x = Some t \<Longrightarrow> coming w y = Some t' \<Longrightarrow> attempt_of t = attempt_of t' \<Longrightarrow> x = y"
    and "wd_results w (k, i) = Some out \<Longrightarrow> \<exists>t iv rn res b m. slot_of w k i = Some (SlotRunning t iv rn (Delivering res b m)) \<and>
      (\<forall>st. submitResult out = Inr st \<longrightarrow> told (queue_of w) t st)"
proof -
  from assms have r: "server_reach sha256 cfg (snd (wd_server w))" and s: "slots_ok w" and c: "claims_ok w" and u: "results_ok w"
    by (simp_all add: fleet_ok_def)
  show "server_reach sha256 cfg (snd (wd_server w))" by (rule r)
  show "slot_of w k i = Some s \<Longrightarrow> slot_ok w s" using s unfolding slots_ok_def by blast
  show "running w k i = Some t \<Longrightarrow> running w k' i' = Some t' \<Longrightarrow> attempt_of t = attempt_of t' \<Longrightarrow> (k, i) = (k', i')"
    using s [unfolded slots_ok_def, THEN conjunct2] by blast
  show "wd_claims w (k, i) \<noteq> None \<Longrightarrow> \<exists>b m. slot_of w k i = Some (SlotIdle b m)"
    using c [unfolded claims_ok_def, THEN conjunct1] by blast
  note c2 = c [unfolded claims_ok_def, THEN conjunct2]
  show "coming w x = Some t \<Longrightarrow> handed_out (queue_of w) t" and "coming w x = Some t \<Longrightarrow> attempt_of t \<notin> set (wd_started w)"
    using c2 [THEN conjunct1] by blast+
  show "coming w x = Some t \<Longrightarrow> coming w y = Some t' \<Longrightarrow> attempt_of t = attempt_of t' \<Longrightarrow> x = y"
    using c2 [THEN conjunct2] by blast
  show "wd_results w (k, i) = Some out \<Longrightarrow> \<exists>t iv rn res b m. slot_of w k i = Some (SlotRunning t iv rn (Delivering res b m)) \<and>
      (\<forall>st. submitResult out = Inr st \<longrightarrow> told (queue_of w) t st)"
    using u unfolding results_ok_def by blast
qed

text \<open>The invariant looks at the slots, the queue and the answers on their way only.\<close>

lemma fleet_ok_cong:
  assumes "fleet_ok sha256 cfg w" and "\<And>k i. slot_of w' k i = slot_of w k i" and "wd_server w' = wd_server w"
    and "wd_claims w' = wd_claims w" and "wd_results w' = wd_results w" and "wd_started w' = wd_started w"
  shows "fleet_ok sha256 cfg w'"
  using assms by (simp add: fleet_parts slot_ok_def running_def coming_def cong: slot.case_cong delivery.case_cong)

lemma fleet_ok_up:
  assumes ok: "fleet_ok sha256 cfg w" and s: "server_reach sha256 cfg (snd st)" "queue_le (queue_of w) (sv_pullQueue (snd st))"
    and w': "\<And>k i. slot_of w' k i = slot_of w k i" "wd_server w' = st" "wd_claims w' = wd_claims w"
      "wd_results w' = wd_results w" "wd_started w' = wd_started w"
  shows "fleet_ok sha256 cfg w'"
proof -
  have run: "running w' k i = running w k i" and co: "coming w' x = coming w x" for k i x
    using w' by (simp_all add: running_def coming_def)
  have sl: "slot_ok w sl \<Longrightarrow> slot_ok w' sl" for sl
    using w' handed_out_le [OF s(2)] told_le [OF s(2)] by (auto simp: slot_ok_def split: slot.splits delivery.splits)
  have "slots_ok w'" using ok sl by (auto simp: fleet_ok_def slots_ok_def run w'(1))
  moreover have "claims_ok w'"
    using ok handed_out_le [OF s(2)] by (auto simp: fleet_ok_def claims_ok_def co w')
  moreover have "results_ok w'"
    unfolding results_ok_def w'
  proof (intro allI impI)
    fix k i out
    assume out: "wd_results w (k, i) = Some out"
    from fleet_okD(8) [OF ok this] obtain t iv rn res b m where t: "slot_of w k i = Some (SlotRunning t iv rn (Delivering res b m))"
      and td: "\<forall>st. submitResult out = Inr st \<longrightarrow> told (queue_of w) t st" by blast
    from ok t have "handed_out (queue_of w) t" by (fastforce simp: fleet_ok_def slots_ok_def slot_ok_def)
    with td told_le [OF s(2)] t show "\<exists>t iv rn res b m. slot_of w k i = Some (SlotRunning t iv rn (Delivering res b m)) \<and>
        (\<forall>x. submitResult out = Inr x \<longrightarrow> told (sv_pullQueue (snd st)) t x)" by blast
  qed
  moreover have "started_ok w'" using ok made_le [OF s(2)] by (auto simp: fleet_ok_def started_ok_def w')
  ultimately show ?thesis using s(1) w'(2) by (simp add: fleet_ok_def)
qed

section \<open>One slot changes\<close>

lemma claims_ok_taken:
  assumes ok: "fleet_ok sha256 cfg w" and q: "queue_of w' = queue_of w"
    and sl: "\<And>k' i'. (k', i') \<noteq> (k, i) \<Longrightarrow> slot_of w' k' i' = slot_of w k' i'"
    and c: "\<And>x. wd_claims w' x = None \<or> wd_claims w' x = wd_claims w x" "wd_claims w' (k, i) = None"
    and st: "\<And>x t. x \<noteq> (k, i) \<Longrightarrow> coming w x = Some t \<Longrightarrow> attempt_of t \<notin> set (wd_started w')"
  shows "claims_ok w'"
proof -
  have co: "coming w x = Some t \<and> x \<noteq> (k, i)" if "coming w' x = Some t" for x t
    using c(1) [of x] c(2) that by (cases "x = (k, i)") (auto simp: coming_def)
  show ?thesis
    unfolding claims_ok_def
  proof (intro conjI allI impI)
    fix k' i'
    assume "wd_claims w' (k', i') \<noteq> None"
    with c have ne: "(k', i') \<noteq> (k, i)" and "wd_claims w (k', i') \<noteq> None" by (auto, metis)
    from fleet_okD(4) [OF ok this(2)] show "\<exists>b m. slot_of w' k' i' = Some (SlotIdle b m)" by (simp only: sl [OF ne])
  next
    fix x t
    assume "coming w' x = Some t"
    from co [OF this] fleet_okD(5) [OF ok] st show "handed_out (queue_of w') t" and "attempt_of t \<notin> set (wd_started w')"
      unfolding q by blast+
  next
    fix x y t t'
    assume "coming w' x = Some t" "coming w' y = Some t'" "attempt_of t = attempt_of t'"
    with co fleet_okD(7) [OF ok] show "x = y" by blast
  qed
qed

lemma results_ok_kept:
  assumes ok: "fleet_ok sha256 cfg w" and q: "queue_of w' = queue_of w"
    and sl: "\<And>k' i'. (k', i') \<noteq> (k, i) \<Longrightarrow> slot_of w' k' i' = slot_of w k' i'"
    and r: "\<And>x. wd_results w' x = None \<or> wd_results w' x = wd_results w x"
    and here: "\<And>t iv rn res b m. wd_results w' (k, i) \<noteq> None \<Longrightarrow> slot_of w k i = Some (SlotRunning t iv rn (Delivering res b m)) \<Longrightarrow>
      \<exists>iv rn res b m. slot_of w' k i = Some (SlotRunning t iv rn (Delivering res b m))"
  shows "results_ok w'"
  unfolding results_ok_def
proof (intro allI impI)
  fix k' i' out
  assume a: "wd_results w' (k', i') = Some out"
  with r [of "(k', i')"] have "wd_results w (k', i') = Some out" by simp
  from fleet_okD(8) [OF ok this] obtain t iv rn res b m where t: "slot_of w k' i' = Some (SlotRunning t iv rn (Delivering res b m))"
    and td: "\<forall>st. submitResult out = Inr st \<longrightarrow> told (queue_of w) t st" by blast
  show "\<exists>t iv rn res b m. slot_of w' k' i' = Some (SlotRunning t iv rn (Delivering res b m)) \<and>
      (\<forall>st. submitResult out = Inr st \<longrightarrow> told (queue_of w') t st)"
  proof (cases "(k', i') = (k, i)")
    case True
    with here a t have "\<exists>iv rn res b m. slot_of w' k' i' = Some (SlotRunning t iv rn (Delivering res b m))" by simp
    with td show ?thesis unfolding q by blast
  qed (use t td sl [of k' i'] q in auto)
qed

text \<open>A slot that does not start anything: what it runs it ran before, and answers are only taken away.\<close>

lemma fleet_ok_slot:
  assumes ok: "fleet_ok sha256 cfg w" and s: "slot_of w k i = Some s"
    and sl: "\<And>k' i'. slot_of w' k' i' = (if (k', i') = (k, i) then Some s' else slot_of w k' i')"
    and same: "wd_server w' = wd_server w" "wd_started w' = wd_started w"
    and c: "\<And>x. wd_claims w' x = None \<or> wd_claims w' x = wd_claims w x" "wd_claims w' (k, i) = None"
    and r: "\<And>x. wd_results w' x = None \<or> wd_results w' x = wd_results w x"
    and rr: "wd_results w' (k, i) \<noteq> None \<Longrightarrow> \<exists>t iv rn res b m. s' = SlotRunning t iv rn (Delivering res b m)"
    and run: "\<And>t iv rn d. s' = SlotRunning t iv rn d \<Longrightarrow> (\<exists>iv0 rn0 d0. s = SlotRunning t iv0 rn0 d0) \<and>
      (\<forall>res st. d = Delivered res st \<longrightarrow> told (queue_of w) t st)"
  shows "fleet_ok sha256 cfg w'"
proof -
  have ru: "running w' k' i' = Some t \<Longrightarrow> running w k' i' = Some t" for k' i' t
    using s sl run by (auto simp: running_def split: if_splits slot.splits option.splits)
  have "slot_ok w s" using ok s by (auto simp: fleet_ok_def slots_ok_def)
  then have "slot_ok w' s'"
    using run same by (fastforce simp: slot_ok_def split: slot.splits delivery.splits)
  moreover have "slot_ok w x \<Longrightarrow> slot_ok w' x" for x using same by (simp add: slot_ok_def cong: slot.case_cong delivery.case_cong)
  ultimately have "\<forall>k i s. slot_of w' k i = Some s \<longrightarrow> slot_ok w' s" using ok by (simp add: fleet_ok_def slots_ok_def sl)
  then have "slots_ok w'" using ok ru unfolding fleet_ok_def slots_ok_def by blast
  moreover have "claims_ok w'"
  proof (rule claims_ok_taken [OF ok _ _ c])
    show "coming w x = Some t \<Longrightarrow> attempt_of t \<notin> set (wd_started w')" for x t
      using fleet_okD(6) [OF ok] by (simp add: same)
  qed (simp_all only: same sl if_False)
  moreover have "results_ok w'"
  proof (rule results_ok_kept [OF ok _ _ r])
    fix t iv rn res b m
    assume "wd_results w' (k, i) \<noteq> None" and "slot_of w k i = Some (SlotRunning t iv rn (Delivering res b m))"
    with rr run s obtain iv' rn' res' b' m' where "s' = SlotRunning t iv' rn' (Delivering res' b' m')" by fastforce
    then show "\<exists>iv rn res b m. slot_of w' k i = Some (SlotRunning t iv rn (Delivering res b m))" by (simp add: sl)
  qed (simp_all only: same sl if_False)
  moreover have "started_ok w'" using ok by (simp add: fleet_ok_def started_ok_def same)
  ultimately show ?thesis using ok same by (simp add: fleet_ok_def)
qed

text \<open>A slot that starts the task in the answer to its claim.\<close>

lemma fleet_ok_start:
  assumes ok: "fleet_ok sha256 cfg w" and s: "coming w (k, i) = Some t"
    and sl: "\<And>k' i'. slot_of w' k' i' = (if (k', i') = (k, i) then Some (SlotRunning t iv rn Executing) else slot_of w k' i')"
    and same: "wd_server w' = wd_server w" "wd_started w' = wd_started w @ [attempt_of t]" "wd_results w' = wd_results w"
    and c: "wd_claims w' = (wd_claims w)((k, i) := None)"
  shows "fleet_ok sha256 cfg w'"
proof -
  from s ok have t: "handed_out (queue_of w) t" "attempt_of t \<notin> set (wd_started w)" by (auto simp: fleet_ok_def claims_ok_def)
  have old: "attempt_of t' \<in> set (wd_started w)" if "running w k' i' = Some t'" for k' i' t'
    using ok that by (auto simp: fleet_ok_def slots_ok_def slot_ok_def running_def split: slot.splits option.splits)
  have ru: "running w' k' i' = (if (k', i') = (k, i) then Some t else running w k' i')" for k' i'
    by (simp add: running_def sl)
  have "wd_claims w (k, i) \<noteq> None" using s by (cases "wd_claims w (k, i)") (simp_all add: coming_def)
  with ok obtain b m where idle: "slot_of w k i = Some (SlotIdle b m)" unfolding fleet_ok_def claims_ok_def by blast
  have "slot_ok w x \<Longrightarrow> slot_ok w' x" for x using same by (auto simp: slot_ok_def split: slot.splits delivery.splits)
  moreover have "slot_ok w' (SlotRunning t iv rn Executing)" using t same by (simp add: slot_ok_def)
  ultimately have "\<forall>k i s. slot_of w' k i = Some s \<longrightarrow> slot_ok w' s" using ok by (simp add: fleet_ok_def slots_ok_def sl)
  moreover have "(k', i') = (k'', i'')"
    if "running w' k' i' = Some t'" "running w' k'' i'' = Some t''" "attempt_of t' = attempt_of t''" for k' i' k'' i'' t' t''
    using that ok old t(2) unfolding ru fleet_ok_def slots_ok_def by (metis option.inject)
  ultimately have "slots_ok w'" by (simp add: slots_ok_def)
  moreover have "claims_ok w'"
  proof (rule claims_ok_taken [OF ok])
    fix x t'
    assume "x \<noteq> (k, i)" and x: "coming w x = Some t'"
    then have "attempt_of t' \<noteq> attempt_of t" using fleet_okD(7) [OF ok x s] by blast
    with fleet_okD(6) [OF ok x] show "attempt_of t' \<notin> set (wd_started w')" by (simp add: same)
  qed (simp_all only: same c sl if_False fun_upd_apply, simp_all)
  moreover have "results_ok w'"
  proof (rule results_ok_kept [OF ok])
    fix t iv rn res b m
    assume "slot_of w k i = Some (SlotRunning t iv rn (Delivering res b m))"
    with idle show "\<exists>iv rn res b m. slot_of w' k i = Some (SlotRunning t iv rn (Delivering res b m))" by simp
  qed (simp_all only: same sl if_False simp_thms)
  moreover have "started_ok w'" using ok t by (auto simp: fleet_ok_def started_ok_def same handed_out_made)
  ultimately show ?thesis using ok same by (simp add: fleet_ok_def)
qed

section \<open>Steps\<close>

lemma slot_of_in_pool:
  "slot_of (in_pool k e w) k' i' = (if k' = k \<and> k < length (wd_workers w)
     then (let ss = pl_slots (pool_step e (snd (wd_workers w ! k))) in if i' < length ss then Some (ss ! i') else None)
     else slot_of w k' i')"
  by (cases "k' = k") (auto simp: slot_of_def in_pool_def Let_def nth_list_update simp del: pool_step.simps)

lemma in_pool_sel [simp]:
  "wd_server (in_pool k e w) = wd_server w" "wd_claims (in_pool k e w) = wd_claims w"
  "wd_renewals (in_pool k e w) = wd_renewals w" "wd_results (in_pool k e w) = wd_results w" "wd_started (in_pool k e w) = wd_started w"
  by (simp_all add: in_pool_def)

lemma in_pool_claim:
  "slot_of (in_pool k (SlotClaims i r) w) k' i' = (case slot_of w k i of
       Some (SlotIdle b m) \<Rightarrow> if (k', i') = (k, i)
         then Some (slot_after (sl_clk r 4) (snd (slot_claim r b m (pl_worker (snd (wd_workers w ! k)))))) else slot_of w k' i'
     | _ \<Rightarrow> slot_of w k' i')"
  unfolding slot_of_in_pool by (auto simp: Let_def slot_of_def split: slot.splits prod.splits)

text \<open>What an event in a running slot makes of it.\<close>

definition after_event :: "ClaimEvent \<Rightarrow> PullTask \<Rightarrow> duration \<Rightarrow> bool \<Rightarrow> delivery \<Rightarrow> PullWorker \<Rightarrow> slot" where
  "after_event ev t iv rn d v = (let x = claim_event iv t ev \<lparr>xc_worker = v, xc_renewing = rn, xc_delivery = d, xc_finished = False\<rparr>
     in if xc_finished x then SlotIdle defaultMinBackoff 0 else SlotRunning t iv (xc_renewing x) (xc_delivery x))"

lemma in_pool_event:
  "slot_of (in_pool k (SlotEvent i ev) w) k' i' = (case slot_of w k i of
       Some (SlotRunning t iv rn d) \<Rightarrow> if (k', i') = (k, i)
         then Some (after_event ev t iv rn d (pl_worker (snd (wd_workers w ! k)))) else slot_of w k' i'
     | _ \<Rightarrow> slot_of w k' i')"
  unfolding slot_of_in_pool by (auto simp: Let_def slot_of_def after_event_def split: slot.splits)

lemma in_pool_done: "slot_of (in_pool k ContextDone w) k' i' = slot_of w k' i'"
  unfolding slot_of_in_pool by (auto simp: Let_def slot_of_def)

text \<open>A slot keeps its task, and a new status in it is that of an answer that was read.\<close>

lemma after_event_running:
  assumes "after_event ev t iv rn d v = SlotRunning t' iv' rn' d'"
  shows "t' = t \<and> (d' = d \<or> (\<exists>res b m. d' = Delivering res b m) \<or> (\<exists>r res b m st. ev = CSubmit r \<and> d = Delivering res b m \<and>
    d' = Delivered res st \<and> (st = [] \<or> \<not> sr_ctxDone r \<and> submitResult (sr_outcome r) = Inr st)))"
proof (cases ev)
  case (CSubmit r)
  with assms show ?thesis
    by (cases d) (auto simp: after_event_def Let_def submit_round_def split: if_splits sum.splits)
qed (use assms in \<open>auto simp: after_event_def Let_def split: delivery.splits if_splits prod.splits\<close>)

lemma after_event_delivering:
  assumes "d = Delivering res b m" and "\<And>r. ev \<noteq> CSubmit r"
  shows "\<exists>rn'. after_event ev t iv rn d v = SlotRunning t iv rn' d"
  using assms by (cases ev) (auto simp: after_event_def Let_def split: prod.splits)

lemma told_Nil [simp]: "told q t []"
  by (simp add: told_def)

lemma slot_of_flights [simp]:
  "slot_of (w\<lparr>wd_claims := c\<rparr>) k i = slot_of w k i" "slot_of (w\<lparr>wd_renewals := u\<rparr>) k i = slot_of w k i"
  "slot_of (w\<lparr>wd_results := u\<rparr>) k i = slot_of w k i" "slot_of (w\<lparr>wd_started := l\<rparr>) k i = slot_of w k i"
  "slot_of (w\<lparr>wd_server := st\<rparr>) k i = slot_of w k i"
  by (simp_all add: slot_of_def)

text \<open>A call of a worker leaves the slots as they are.\<close>

lemma worker_call_slots:
  assumes "worker_call k f w = Some (w1, out)"
  shows "slot_of w1 k' i' = slot_of w k' i' \<and> wd_claims w1 = wd_claims w \<and> wd_renewals w1 = wd_renewals w \<and>
    wd_results w1 = wd_results w \<and> wd_started w1 = wd_started w"
  using assms by (cases "k' = k") (auto simp: worker_call_def slot_of_def nth_list_update split: prod.splits option.splits)

lemma worker_call_server:
  assumes "worker_call k f w = Some (w1, out)"
  shows "\<exists>fs v fw. f (fs, v) (wd_server w) = Some (fw, wd_server w1, out)"
  using assms by (auto simp: worker_call_def split: prod.splits option.splits) metis

lemma post_over_up:
  assumes "server_reach sha256 cfg (snd st)" and "post_over sha256 tls_text tf fds zero n path v fw st = Some (fw1, st1, out)"
  shows "server_reach sha256 cfg (snd st1) \<and> queue_le (sv_pullQueue (snd st)) (sv_pullQueue (snd st1))"
proof -
  obtain fs w fs1 w1 a s a1 s1 where p: "fw = (fs, w)" "fw1 = (fs1, w1)" "st = (a, s)" "st1 = (a1, s1)"
    by (cases fw; cases fw1; cases st; cases st1)
  from post_over_cases [OF assms(2) [unfolded p(1,2)]] show ?thesis
  proof (elim disjE exE conjE)
    fix resp
    assume r: "routes sha256 (nc_clk n) (nc_leaseID n) (worker_request w (nc_addr n) path v) st = Some (st1, resp)"
    have reach: "server_reach sha256 cfg s" using assms(1) p by simp
    from server_reach.handled [OF reach r [unfolded p]] routes_le [OF reach r [unfolded p]] show ?thesis by (simp add: p)
  qed (use assms(1) in simp)
qed

text \<open>A call on which the coordinator acts: it is answered, and the rest of the system only sees the queue move up.\<close>

lemma worker_call_ok:
  assumes ok: "fleet_ok sha256 cfg w"
    and f: "f = (\<lambda>fw st. post_over sha256 tls_text tf fds zero n path (v (snd fw)) fw st)"
  shows "\<exists>w1 out. worker_call k f w = Some (w1, out) \<and> fleet_ok sha256 cfg w1"
proof -
  obtain fs p where p: "wd_workers w ! k = (fs, p)" by (cases "wd_workers w ! k")
  note reach = fleet_okD(1) [OF ok]
  from post_over_served [OF reach] obtain fs1 v1 st1 out where
    c: "f (fs, pl_worker p) (wd_server w) = Some ((fs1, v1), st1, out)" unfolding f by (metis surj_pair)
  then obtain w1 where w1: "worker_call k f w = Some (w1, out)" "wd_server w1 = st1" by (simp add: worker_call_def p)
  from post_over_up [OF reach c [unfolded f]] have "server_reach sha256 cfg (snd st1)" "queue_le (queue_of w) (sv_pullQueue (snd st1))"
    by simp_all
  from fleet_ok_up [OF ok this, of w1] worker_call_slots [OF w1(1)] w1 show ?thesis by auto
qed

lemma coming_flight_one:
  assumes "coming (w\<lparr>wd_claims := (wd_claims w)((k, i) := Some out)\<rparr>) z = Some u" and "attempt_of u = attempt_of v"
    and "claim out = Inr (Some v, st)" and "\<forall>x t'. coming w x = Some t' \<longrightarrow> attempt_of t' \<noteq> attempt_of v"
  shows "z = (k, i)"
proof (rule ccontr)
  assume "z \<noteq> (k, i)"
  then have "coming w z = Some u" using assms(1) by (simp add: coming_def)
  with assms(2,4) show False by blast
qed

lemma fleet_ok_claim_flight:
  assumes ok: "fleet_ok sha256 cfg w" and s: "slot_of w k i = Some (SlotIdle b m)"
    and c: "\<And>t st. claim out = Inr (Some t, st) \<Longrightarrow> handed_out (queue_of w) t \<and> attempt_of t \<notin> set (wd_started w) \<and>
      (\<forall>x t'. coming w x = Some t' \<longrightarrow> attempt_of t' \<noteq> attempt_of t)"
  shows "fleet_ok sha256 cfg (w\<lparr>wd_claims := (wd_claims w)((k, i) := Some out)\<rparr>)" (is "fleet_ok _ _ ?w")
proof -
  have co: "coming ?w x = (if x = (k, i) then case claim out of Inr (t, st) \<Rightarrow> t | Inl e \<Rightarrow> None else coming w x)" for x
    by (simp add: coming_def)
  have new: "\<exists>st. claim out = Inr (Some t, st)" if "coming ?w (k, i) = Some t" for t
    using that by (auto simp: co split: sum.splits)
  have "slots_ok ?w" using ok by (simp add: fleet_ok_def slots_ok_def slot_ok_def running_def cong: slot.case_cong delivery.case_cong)
  moreover have "claims_ok ?w"
    unfolding claims_ok_def
  proof (intro conjI allI impI)
    fix k' i'
    assume "wd_claims ?w (k', i') \<noteq> None"
    then show "\<exists>b m. slot_of ?w k' i' = Some (SlotIdle b m)"
      using s fleet_okD(4) [OF ok, of k' i'] by (cases "k' = k"; cases "i' = i") simp_all
  next
    fix x t
    assume a: "coming ?w x = Some t"
    have "handed_out (queue_of w) t \<and> attempt_of t \<notin> set (wd_started w)"
    proof (cases "x = (k, i)")
      case True
      with a new c show ?thesis by blast
    next
      case False
      with a have "coming w x = Some t" by (simp add: co)
      from fleet_okD(5,6) [OF ok this] show ?thesis ..
    qed
    then show "handed_out (queue_of ?w) t" and "attempt_of t \<notin> set (wd_started ?w)" by simp_all
  next
    fix x y t t'
    assume "coming ?w x = Some t" "coming ?w y = Some t'" "attempt_of t = attempt_of t'"
    note xy = this
    have one: "z = (k, i)" if "coming ?w z = Some u" "attempt_of u = attempt_of v" "coming ?w (k, i) = Some v" for z u v
      using coming_flight_one [OF that(1,2)] new [OF that(3)] c by blast
    consider "x = (k, i)" | "y = (k, i)" | "x \<noteq> (k, i)" "y \<noteq> (k, i)" by blast
    then show "x = y"
    proof cases
      case 1
      with one [OF xy(2) xy(3) [symmetric]] xy(1) show ?thesis by simp
    next
      case 2
      with one [OF xy(1,3)] xy(2) show ?thesis by simp
    next
      case 3
      with xy(1,2) have "coming w x = Some t" "coming w y = Some t'" by (simp_all add: co)
      with xy(3) fleet_okD(7) [OF ok] show ?thesis by blast
    qed
  qed
  moreover have "results_ok ?w" using ok by (simp add: fleet_ok_def results_ok_def)
  ultimately show ?thesis using ok by (simp add: fleet_ok_def started_ok_def)
qed

lemma fleet_ok_result_flight:
  assumes ok: "fleet_ok sha256 cfg w" and s: "slot_of w k i = Some (SlotRunning t iv rn (Delivering res b m))"
    and c: "\<And>st. submitResult out = Inr st \<Longrightarrow> told (queue_of w) t st"
  shows "fleet_ok sha256 cfg (w\<lparr>wd_results := (wd_results w)((k, i) := Some out)\<rparr>)" (is "fleet_ok _ _ ?w")
proof -
  have co: "coming ?w x = coming w x" for x by (simp add: coming_def)
  have "results_ok ?w"
    unfolding results_ok_def
  proof (intro allI impI)
    fix k' i' out'
    assume "wd_results ?w (k', i') = Some out'"
    then show "\<exists>t iv rn res b m. slot_of ?w k' i' = Some (SlotRunning t iv rn (Delivering res b m)) \<and>
        (\<forall>st. submitResult out' = Inr st \<longrightarrow> told (queue_of ?w) t st)"
      using s c fleet_okD(8) [OF ok, of k' i' out'] by (cases "k' = k"; cases "i' = i") auto
  qed
  then show ?thesis
    using ok by (simp add: fleet_ok_def slots_ok_def claims_ok_def started_ok_def slot_ok_def running_def co cong: slot.case_cong delivery.case_cong)
qed

section \<open>Every step keeps the invariant\<close>

lemma call_claim_ok:
  assumes ok: "fleet_ok sha256 cfg w"
  shows "\<exists>w'. fleet_step sha256 tls_text tf (CallClaim k i n) w = Some w' \<and> fleet_ok sha256 cfg w'"
proof (cases "\<exists>b m. slot_of w k i = Some (SlotIdle b m) \<and> wd_claims w (k, i) = None")
  case True
  then obtain b m where s: "slot_of w k i = Some (SlotIdle b m)" and none: "wd_claims w (k, i) = None" by blast
  have f: "claim_over sha256 tls_text tf n = (\<lambda>fw st. post_over sha256 tls_text tf (fields_ClaimReply tf) \<lparr>cl_Status = [], cl_Task = None\<rparr> n
     ''/worker/claim'' (json_PullClaimRequest \<lparr>cq_WorkerID = pc_WorkerID (pw_config (snd fw))\<rparr>) fw st)"
    by (simp add: fun_eq_iff claim_over_def)
  obtain w1 out where w1: "worker_call k (claim_over sha256 tls_text tf n) w = Some (w1, out)" and ok1: "fleet_ok sha256 cfg w1"
    using worker_call_ok [OF ok f] by blast
  note same = worker_call_slots [OF w1]
  obtain fs v fw where c: "claim_over sha256 tls_text tf n (fs, v) (wd_server w) = Some (fw, wd_server w1, out)"
    using worker_call_server [OF w1] by blast
  have "handed_out (queue_of w1) t \<and> attempt_of t \<notin> set (wd_started w1) \<and>
      (\<forall>x t'. coming w1 x = Some t' \<longrightarrow> attempt_of t' \<noteq> attempt_of t)" if "claim out = Inr (Some t, st)" for t st
  proof -
    obtain a s a1 s1 fs1 v1 where p: "wd_server w = (a, s)" "wd_server w1 = (a1, s1)" "fw = (fs1, v1)"
      by (cases "wd_server w"; cases "wd_server w1"; cases fw)
    have new: "handed_out (queue_of w1) t \<and> \<not> made (queue_of w) (attempt_of t)"
      using claim_hands_out [OF _ c [unfolded p] that] fleet_okD(1) [OF ok] by (simp add: p)
    moreover have "coming w1 x = coming w x" for x using same by (simp add: coming_def)
    moreover have "made (queue_of w) (attempt_of t')" if "coming w x = Some t'" for x t'
      using fleet_okD(5) [OF ok that] by (rule handed_out_made)
    moreover have "\<forall>x \<in> set (wd_started w). made (queue_of w) x" using ok by (simp add: fleet_ok_def started_ok_def)
    ultimately show ?thesis using same by metis
  qed
  from fleet_ok_claim_flight [OF ok1 _ this] s same w1 none show ?thesis by simp
next
  case False
  then have "fleet_step sha256 tls_text tf (CallClaim k i n) w = Some w" by (auto split: option.splits slot.splits)
  with ok show ?thesis by blast
qed

lemma call_renew_ok:
  assumes ok: "fleet_ok sha256 cfg w"
  shows "\<exists>w'. fleet_step sha256 tls_text tf (CallRenew k i n) w = Some w' \<and> fleet_ok sha256 cfg w'"
proof (cases "\<exists>t iv d. slot_of w k i = Some (SlotRunning t iv True d) \<and> wd_renewals w (k, i) = None")
  case True
  then obtain t iv d where s: "slot_of w k i = Some (SlotRunning t iv True d)" and none: "wd_renewals w (k, i) = None" by blast
  have f: "renew_over sha256 tls_text tf n t = (\<lambda>fw st. post_over sha256 tls_text tf (fields_renew_reply tf) [] n
     ''/worker/renew'' (json_PullRenewRequest (renew_request (snd fw) t)) fw st)"
    by (simp add: fun_eq_iff renew_over_def)
  obtain w1 out where w1: "worker_call k (renew_over sha256 tls_text tf n t) w = Some (w1, out)" and ok1: "fleet_ok sha256 cfg w1"
    using worker_call_ok [OF ok f] by blast
  have "fleet_ok sha256 cfg (w1\<lparr>wd_renewals := (wd_renewals w1)((k, i) := Some out)\<rparr>)"
    by (rule fleet_ok_cong [OF ok1]) simp_all
  with s none w1 show ?thesis by simp
next
  case False
  then have "fleet_step sha256 tls_text tf (CallRenew k i n) w = Some w" by (auto split: option.splits slot.splits bool.splits)
  with ok show ?thesis by blast
qed

lemma call_result_ok:
  assumes ok: "fleet_ok sha256 cfg w"
  shows "\<exists>w'. fleet_step sha256 tls_text tf (CallResult k i n) w = Some w' \<and> fleet_ok sha256 cfg w'"
proof (cases "\<exists>t iv rn res b m. slot_of w k i = Some (SlotRunning t iv rn (Delivering res b m)) \<and> wd_results w (k, i) = None")
  case True
  then obtain t iv rn res b m where s: "slot_of w k i = Some (SlotRunning t iv rn (Delivering res b m))"
    and none: "wd_results w (k, i) = None" by blast
  have f: "result_over sha256 tls_text tf n t res = (\<lambda>fw st. post_over sha256 tls_text tf fields_result_reply [] n
     ''/worker/result'' (json_PullResultRequest (result_request (snd fw) t res)) fw st)"
    by (simp add: fun_eq_iff result_over_def)
  obtain w1 out where w1: "worker_call k (result_over sha256 tls_text tf n t res) w = Some (w1, out)" and ok1: "fleet_ok sha256 cfg w1"
    using worker_call_ok [OF ok f] by blast
  note same = worker_call_slots [OF w1]
  obtain fs v fw where c: "result_over sha256 tls_text tf n t res (fs, v) (wd_server w) = Some (fw, wd_server w1, out)"
    using worker_call_server [OF w1] by blast
  obtain a s0 a1 s1 fs1 v1 where p: "wd_server w = (a, s0)" "wd_server w1 = (a1, s1)" "fw = (fs1, v1)"
    by (cases "wd_server w"; cases "wd_server w1"; cases fw)
  have t: "handed_out (queue_of w) t" using fleet_okD(2) [OF ok s] by (simp add: slot_ok_def)
  have "told (queue_of w1) t st" if "submitResult out = Inr st" for st
    using result_tells [OF _ _ c [unfolded p] that] fleet_okD(1) [OF ok] t by (simp add: p)
  from fleet_ok_result_flight [OF ok1 _ this] s same w1 none show ?thesis by simp
next
  case False
  then have "fleet_step sha256 tls_text tf (CallResult k i n) w = Some w"
    by (auto split: option.splits slot.splits delivery.splits)
  with ok show ?thesis by blast
qed

lemma requests_ok:
  assumes ok: "fleet_ok sha256 cfg w"
  shows "\<exists>w'. fleet_step sha256 tls_text tf (Requests clk leaseID r) w = Some w' \<and> fleet_ok sha256 cfg w'"
proof -
  obtain a s where p: "wd_server w = (a, s)" by (cases "wd_server w")
  have reach: "server_reach sha256 cfg s" using fleet_okD(1) [OF ok] by (simp add: p)
  from routes_served [OF server_reach_inv [OF reach], of sha256 clk leaseID r a] obtain a1 s1 resp where
    r: "routes sha256 clk leaseID r (a, s) = Some ((a1, s1), resp)" by blast
  have "fleet_ok sha256 cfg (w\<lparr>wd_server := (a1, s1)\<rparr>)"
    using routes_le [OF reach r] server_reach.handled [OF reach r] by (intro fleet_ok_up [OF ok]) (simp_all add: p)
  with r show ?thesis by (simp add: p)
qed

lemma event_ok:
  assumes ok: "fleet_ok sha256 cfg w" and res: "\<And>r. ev = CSubmit r \<Longrightarrow> wd_results w (k, i) = None"
    and sub: "\<And>r st t iv rn d. ev = CSubmit r \<Longrightarrow> slot_of w k i = Some (SlotRunning t iv rn d) \<Longrightarrow> \<not> sr_ctxDone r \<Longrightarrow>
      submitResult (sr_outcome r) = Inr st \<Longrightarrow> told (queue_of w) t st"
  shows "fleet_ok sha256 cfg (in_pool k (SlotEvent i ev) w)"
proof (cases "\<exists>t iv rn d. slot_of w k i = Some (SlotRunning t iv rn d)")
  case False
  then have "slot_of (in_pool k (SlotEvent i ev) w) k' i' = slot_of w k' i'" for k' i'
    by (auto simp: in_pool_event split: option.splits slot.splits)
  then show ?thesis by (intro fleet_ok_cong [OF ok]) simp_all
next
  case True
  then obtain t iv rn d where s: "slot_of w k i = Some (SlotRunning t iv rn d)" by blast
  let ?s = "after_event ev t iv rn d (pl_worker (snd (wd_workers w ! k)))"
  have sl: "slot_of (in_pool k (SlotEvent i ev) w) k' i' = (if (k', i') = (k, i) then Some ?s else slot_of w k' i')" for k' i'
    using s by (simp add: in_pool_event)
  have "wd_claims w (k, i) = None" using fleet_okD(4) [OF ok, of k i] s by fastforce
  moreover have "\<exists>t iv rn res b m. ?s = SlotRunning t iv rn (Delivering res b m)" if "wd_results w (k, i) \<noteq> None"
  proof -
    from that obtain out where "wd_results w (k, i) = Some out" by blast
    from fleet_okD(8) [OF ok this] s obtain res' b m where d: "d = Delivering res' b m" by auto
    have "ev \<noteq> CSubmit r" for r using that res [of r] by auto
    from after_event_delivering [OF d this] obtain rn' where "?s = SlotRunning t iv rn' d" by blast
    then show ?thesis by (simp add: d)
  qed
  moreover have "(\<exists>iv0 rn0 d0. SlotRunning t iv rn d = SlotRunning t' iv0 rn0 d0) \<and>
      (\<forall>res st. d' = Delivered res st \<longrightarrow> told (queue_of w) t' st)" if "?s = SlotRunning t' iv' rn' d'" for t' iv' rn' d'
    using after_event_running [OF that] fleet_okD(2) [OF ok s] sub [OF _ s] by (fastforce simp: slot_ok_def)
  ultimately show ?thesis by (intro fleet_ok_slot [OF ok s sl]) simp_all
qed

lemma idle_ok:
  assumes ok: "fleet_ok sha256 cfg w" and s: "slot_of w k i = Some (SlotIdle b m)"
    and sl: "\<And>k' i'. slot_of w' k' i' = (if (k', i') = (k, i) then Some s' else slot_of w k' i')"
    and s': "\<And>t iv rn d. s' \<noteq> SlotRunning t iv rn d"
    and same: "wd_server w' = wd_server w" "wd_started w' = wd_started w" "wd_results w' = wd_results w"
    and c: "\<And>x. wd_claims w' x = None \<or> wd_claims w' x = wd_claims w x" "wd_claims w' (k, i) = None"
  shows "fleet_ok sha256 cfg w'"
proof (rule fleet_ok_slot [OF ok s sl same(1,2) c])
  assume "wd_results w' (k, i) \<noteq> None"
  then obtain out where "wd_results w (k, i) = Some out" using same by auto
  from fleet_okD(8) [OF ok this] s show "\<exists>t iv rn res b m. s' = SlotRunning t iv rn (Delivering res b m)" by simp
qed (use s' same in auto)

lemma slot_after_running: "slot_after now x = SlotRunning t iv rn d \<Longrightarrow> x = ClaimedTask t \<and> rn \<and> d = Executing"
  by (auto simp: slot_after_def split: claim_next.splits slot_next.splits)

lemma slot_claim_task:
  assumes "snd (slot_claim r b m v) = ClaimedTask t"
  shows "\<not> sl_ctxDone r \<and> (\<exists>st. claim (sl_claim r) = Inr (Some t, st))"
  using assms by (auto simp: slot_claim_def Let_def split: if_splits sum.splits option.splits)

lemma read_claim_ok:
  assumes ok: "fleet_ok sha256 cfg w"
  shows "\<exists>w'. fleet_step sha256 tls_text tf (ReadClaim k i lost r) w = Some w' \<and> fleet_ok sha256 cfg w'"
proof (cases "wd_claims w (k, i)")
  case None
  with ok show ?thesis by simp
next
  case (Some out)
  then obtain b m where s: "slot_of w k i = Some (SlotIdle b m)" using fleet_okD(4) [OF ok, of k i] by blast
  let ?w0 = "w\<lparr>wd_claims := (wd_claims w)((k, i) := None)\<rparr>" and ?r = "r\<lparr>sl_ctxDone := False, sl_claim := read_answer lost out\<rparr>"
  define x where "x = snd (slot_claim ?r b m (pl_worker (snd (wd_workers w ! k))))"
  define w1 where "w1 = in_pool k (SlotClaims i ?r) ?w0"
  have sl: "slot_of w1 k' i' = (if (k', i') = (k, i) then Some (slot_after (sl_clk r 4) x) else slot_of w k' i')" for k' i'
    using s by (simp add: w1_def in_pool_claim x_def)
  have st: "fleet_step sha256 tls_text tf (ReadClaim k i lost r) w = Some (note_started k i w1)"
    by (simp add: Some w1_def)
  have "fleet_ok sha256 cfg (note_started k i w1)"
  proof (cases "\<exists>t iv rn d. slot_after (sl_clk r 4) x = SlotRunning t iv rn d")
    case True
    then obtain t iv rn d where a: "slot_after (sl_clk r 4) x = SlotRunning t iv rn d" by blast
    from slot_after_running [OF a] have xt: "x = ClaimedTask t" and d: "d = Executing" by simp_all
    from slot_claim_task [OF xt [unfolded x_def]] obtain st where "claim (read_answer lost out) = Inr (Some t, st)" by auto
    then have co: "coming w (k, i) = Some t"
      by (cases lost) (simp_all add: read_answer_def coming_def Some claim_def post_def)
    have n: "note_started k i w1 = w1\<lparr>wd_started := wd_started w @ [attempt_of t]\<rparr>"
      using sl [of k i] a by (simp add: note_started_def) (simp add: w1_def)
    show ?thesis
      using sl a d unfolding n by (intro fleet_ok_start [OF ok co, where iv = iv and rn = rn]) (simp_all add: w1_def)
  next
    case False
    then have "note_started k i w1 = w1" using sl [of k i] by (auto simp: note_started_def split: slot.splits)
    moreover have "fleet_ok sha256 cfg w1"
      by (rule idle_ok [OF ok s sl]) (use False in \<open>auto simp: w1_def\<close>)
    ultimately show ?thesis by simp
  qed
  with st show ?thesis by blast
qed

lemma read_renew_ok:
  assumes ok: "fleet_ok sha256 cfg w"
  shows "\<exists>w'. fleet_step sha256 tls_text tf (ReadRenew k i lost c clk) w = Some w' \<and> fleet_ok sha256 cfg w'"
proof (cases "wd_renewals w (k, i)")
  case (Some out)
  have "fleet_ok sha256 cfg (w\<lparr>wd_renewals := (wd_renewals w)((k, i) := None)\<rparr>)" by (rule fleet_ok_cong [OF ok]) simp_all
  from event_ok [OF this, of "CRenew (RenewTick (read_answer lost out) c clk)"] Some show ?thesis by simp
qed (use ok in simp)

lemma read_result_ok:
  assumes ok: "fleet_ok sha256 cfg w"
  shows "\<exists>w'. fleet_step sha256 tls_text tf (ReadResult k i lost r) w = Some w' \<and> fleet_ok sha256 cfg w'"
proof (cases "wd_results w (k, i)")
  case (Some out)
  from fleet_okD(8) [OF ok this] obtain t iv rn res b m where s: "slot_of w k i = Some (SlotRunning t iv rn (Delivering res b m))"
    and td: "\<forall>st. submitResult out = Inr st \<longrightarrow> told (queue_of w) t st" by blast
  let ?w0 = "w\<lparr>wd_results := (wd_results w)((k, i) := None)\<rparr>"
  have "fleet_ok sha256 cfg ?w0"
  proof (rule fleet_ok_slot [OF ok s])
    show "slot_of ?w0 k' i' = (if (k', i') = (k, i) then Some (SlotRunning t iv rn (Delivering res b m)) else slot_of w k' i')" for k' i'
      using s by simp
    show "wd_claims ?w0 (k, i) = None" using fleet_okD(4) [OF ok, of k i] s by fastforce
  qed auto
  moreover have "told (queue_of w) t st" if "submitResult (read_answer lost out) = Inr st" for st
    using that td by (cases lost) (simp_all add: read_answer_def submitResult_def post_def)
  ultimately have "fleet_ok sha256 cfg (in_pool k (SlotEvent i (CSubmit (r\<lparr>sr_ctxDone := False, sr_outcome := read_answer lost out\<rparr>))) ?w0)"
    by (intro event_ok) (use s in auto)
  with Some show ?thesis by simp
qed (use ok in simp)

fun_cases never_sentE: "never_sent out"

lemma never_sent_fails: "never_sent out \<Longrightarrow> \<exists>e. post out = Inl e"
  by (erule never_sentE) (simp add: post_def)

lemma locally_ok:
  assumes ok: "fleet_ok sha256 cfg w"
  shows "\<exists>w'. fleet_step sha256 tls_text tf (Locally k e) w = Some w' \<and> fleet_ok sha256 cfg w'"
proof -
  have "fleet_ok sha256 cfg (in_pool k e w)" if a: "alone k e w"
  proof (cases e)
    case (SlotClaims i r)
    show ?thesis
    proof (cases "\<exists>b m. slot_of w k i = Some (SlotIdle b m)")
      case True
      then obtain b m where s: "slot_of w k i = Some (SlotIdle b m)" by blast
      let ?x = "snd (slot_claim r b m (pl_worker (snd (wd_workers w ! k))))"
      have "?x \<noteq> ClaimedTask t" for t
        using slot_claim_task [of r b m "pl_worker (snd (wd_workers w ! k))" t] a never_sent_fails [of "sl_claim r"]
        by (auto simp: SlotClaims claim_def)
      then have "slot_after (sl_clk r 4) ?x \<noteq> SlotRunning t iv rn d" for t iv rn d
        using slot_after_running by blast
      with s a show ?thesis unfolding SlotClaims by (intro idle_ok [OF ok s]) (simp_all add: in_pool_claim)
    next
      case False
      then have "slot_of (in_pool k e w) k' i' = slot_of w k' i'" for k' i'
        by (auto simp: in_pool_claim SlotClaims split: option.splits slot.splits)
      then show ?thesis by (intro fleet_ok_cong [OF ok]) simp_all
    qed
  next
    case (SlotEvent i ev)
    have "told (queue_of w) t st" if "ev = CSubmit r" "\<not> sr_ctxDone r" "submitResult (sr_outcome r) = Inr st" for r t st
      using that a never_sent_fails [of "sr_outcome r"] by (auto simp: SlotEvent submitResult_def)
    with a show ?thesis unfolding SlotEvent by (intro event_ok [OF ok]) auto
  next
    case ContextDone
    then show ?thesis by (intro fleet_ok_cong [OF ok]) (simp_all add: in_pool_done)
  qed
  with ok show ?thesis by simp
qed

lemma fleet_step_ok:
  assumes "fleet_ok sha256 cfg w"
  shows "\<exists>w'. fleet_step sha256 tls_text tf e w = Some w' \<and> fleet_ok sha256 cfg w'"
  by (cases e) (simp_all only: call_claim_ok call_renew_ok call_result_ok read_claim_ok read_renew_ok read_result_ok locally_ok requests_ok assms)

interpretation fleet: invariant_machine "fleet_step sha256 tls_text tf" "fleet_ok sha256 cfg" for sha256 tls_text tf cfg
  by unfold_locales (rule fleet_step_ok)

lemma new_fleet_ok:
  assumes "server_reach sha256 cfg (snd st)"
  shows "fleet_ok sha256 cfg (new_fleet st ws)"
proof -
  have "slot_of (new_fleet st ws) k i = Some s \<Longrightarrow> s = SlotIdle defaultMinBackoff 0" for k i s
    by (auto simp: slot_of_def new_fleet_def Run_def split: if_splits prod.splits)
  then have "running (new_fleet st ws) k i = None" and "slot_of (new_fleet st ws) k i = Some s \<Longrightarrow> slot_ok (new_fleet st ws) s" for k i s
    by (auto simp: running_def slot_ok_def split: option.splits slot.splits)
  moreover have "coming (new_fleet st ws) x = None" for x by (simp add: coming_def new_fleet_def)
  ultimately show ?thesis using assms by (simp add: fleet_parts) (simp add: new_fleet_def)
qed

section \<open>Each attempt runs once\<close>

lemma attempts_in_range:
  assumes "distinct xs" and "\<forall>x \<in> set xs. fst x = tid \<longrightarrow> 1 \<le> snd x \<and> snd x \<le> m"
  shows "int (length (filter (\<lambda>x. fst x = tid) xs)) \<le> max 0 m"
proof -
  let ?ys = "filter (\<lambda>x. fst x = tid) xs"
  have "distinct (map snd ?ys)" using assms(1) by (auto simp: distinct_map inj_on_def prod_eq_iff)
  moreover have "set (map snd ?ys) \<subseteq> {1..m}" using assms(2) by auto
  ultimately have "length (map snd ?ys) \<le> card {1..m}" by (metis card_mono distinct_card finite_atLeastAtMost_int)
  then show ?thesis by simp
qed

lemma made_bounded:
  assumes "server_reach sha256 cfg s" and "made (sv_pullQueue s) x"
  shows "1 \<le> snd x \<and> snd x \<le> sc_MaxAttempts cfg"
proof -
  note q = server_reach_queue [OF assms(1)]
  from assms(2) obtain task where t: "gm_get (tasks (sv_pullQueue s)) (fst x) = Some task" "1 \<le> snd x" "snd x \<le> t_Attempts task"
    by (auto simp: made_def)
  from queue_inv_task(2) [OF lq_reach_inv [OF q] t(1)] lq_reach_params [OF q] t show ?thesis
    by (auto simp: task_wf_def queue_config_def)
qed

text \<open>What can be relied on of a running slot.\<close>

definition slot_sound :: "World \<Rightarrow> nat \<Rightarrow> nat \<Rightarrow> PullTask \<Rightarrow> delivery \<Rightarrow> bool" where
  "slot_sound w k i t d =
     ((pt_TaskID t, pt_Attempt t) \<in> set (wd_started w) \<and>
      (\<forall>k' i' t' iv rn d'. slot_of w k' i' = Some (SlotRunning t' iv rn d') \<and> pt_TaskID t' = pt_TaskID t \<and> pt_Attempt t' = pt_Attempt t
         \<longrightarrow> k' = k \<and> i' = i) \<and>
      (\<exists>task. gm_get (tasks (sv_pullQueue (snd (wd_server w)))) (pt_TaskID t) = Some task \<and>
         pt_Type t = wire_text (t_Type task) \<and> pt_Input t = wire_text (t_Input task) \<and>
         (\<forall>res. d = Delivered res ''task_completed'' \<longrightarrow> t_State task = StateCompleted) \<and>
         (\<forall>res. d = Delivered res ''task_failed'' \<longrightarrow> t_State task = StateFailed)))"

lemma fleet_ok_sound:
  assumes ok: "fleet_ok sha256 cfg w" and r: "slot_of w k i = Some (SlotRunning t iv rn d)"
  shows "slot_sound w k i t d"
proof -
  note s = fleet_okD(2) [OF ok r]
  have "k' = k \<and> i' = i" if "slot_of w k' i' = Some (SlotRunning t' iv' rn' d')" "attempt_of t' = attempt_of t" for k' i' t' iv' rn' d'
    using fleet_okD(3) [OF ok, of k' i' t' k i t] that r by (simp add: running_def)
  moreover obtain task where "gm_get (tasks (queue_of w)) (pt_TaskID t) = Some task" "pt_Type t = wire_text (t_Type task)" "pt_Input t = wire_text (t_Input task)"
    using s by (auto simp: slot_ok_def handed_out_def)
  ultimately show ?thesis using s by (auto simp: slot_sound_def slot_ok_def told_def)
qed

text \<open>
  C26. Each attempt runs once, on whatever worker. Any number of workers with any number of slots, and
  anybody else who sends requests, share one coordinator; their events interleave in any order, and
  answers may be read late or lost. The coordinator never panics. No attempt of a task is
  started twice in the whole system, so no task is started more often than \<open>MaxAttempts\<close>. No two slots run
  the same attempt at once. What a slot runs is the type and the input that the coordinator keeps
  for the task; and when a slot has been told that its task is completed or has failed, it is.
\<close>

theorem fleet_runs_attempts_once:
  assumes "server_reach sha256 cfg s"
  shows "\<exists>w. run_steps (fleet_step sha256 tls_text tf) evs (new_fleet (a, s) ws) = Some w \<and> distinct (wd_started w) \<and>
    (\<forall>tid. int (length (filter (\<lambda>x. fst x = tid) (wd_started w))) \<le> sc_MaxAttempts cfg) \<and>
    (\<forall>k i t iv rn d. slot_of w k i = Some (SlotRunning t iv rn d) \<longrightarrow> slot_sound w k i t d)"
proof -
  have "fleet_ok sha256 cfg (new_fleet (a, s) ws)" using assms by (intro new_fleet_ok) simp
  from fleet.run_safe [OF this] obtain w where w: "run_steps (fleet_step sha256 tls_text tf) evs (new_fleet (a, s) ws) = Some w"
    and ok: "fleet_ok sha256 cfg w" by blast
  have st: "distinct (wd_started w)" "\<forall>x \<in> set (wd_started w). made (queue_of w) x"
    using ok by (simp_all add: fleet_ok_def started_ok_def)
  have "0 < sc_MaxAttempts cfg"
    using server_reach_queue [OF assms] lq_reach_inv lq_reach_params by (fastforce simp: queue_inv_def queue_config_def)
  then have "int (length (filter (\<lambda>x. fst x = tid) (wd_started w))) \<le> sc_MaxAttempts cfg" for tid
    using attempts_in_range [OF st(1), of tid "sc_MaxAttempts cfg"] st(2) made_bounded [OF fleet_okD(1) [OF ok]] by fastforce
  with w st(1) fleet_ok_sound [OF ok] show ?thesis by blast
qed

text \<open>Two workers: the first runs the task, the second claims in vain; the first delivers its result.\<close>

definition ex_fleet :: World where
  "ex_fleet = new_fleet (ex_audit, ex_server 1) [(net_disk, net_worker), (net_disk, net_worker)]"

definition ex_round :: SlotRound where
  "ex_round = \<lparr>sl_ctxDone = False, sl_claim = DoFails [], sl_ctxDoneAfter = False, sl_waited = (\<lambda>d. True), sl_clk = (\<lambda>n. 7), sl_events = []\<rparr>"

definition ex_fleet_events :: "fleet_event list" where
  "ex_fleet_events = [CallClaim 0 0 (net_call 6), CallClaim 1 0 (net_call 7), ReadClaim 1 0 None ex_round, ReadClaim 0 0 None ex_round,
     Locally 0 (SlotEvent 0 (CExecuted ''ok'' 5 None)), CallResult 0 0 (net_call 9),
     ReadResult 0 0 None \<lparr>sr_ctxDone = False, sr_outcome = DoFails [], sr_ctxDoneAfter = False, sr_waited = (\<lambda>d. True), sr_clk = (\<lambda>n. 9)\<rparr>]"

theorem fleet_runs_attempts_once_witness:
  "\<exists>w t iv rn res task. run_steps (fleet_step (\<lambda>x. x) (\<lambda>_. []) net_time) ex_fleet_events ex_fleet = Some w \<and>
     slot_of w 0 0 = Some (SlotRunning t iv rn (Delivered res ''task_completed'')) \<and> wd_started w = [(''pull-job-5-task-0'', 1)] \<and>
     gm_get (tasks (sv_pullQueue (snd (wd_server w)))) (pt_TaskID t) = Some task \<and> t_State task = StateCompleted"
proof -
  from fleet_runs_attempts_once [OF exs_reach [of 1], of "\<lambda>_. []" net_time ex_fleet_events ex_audit "[(net_disk, net_worker), (net_disk, net_worker)]"]
  obtain w where w: "run_steps (fleet_step (\<lambda>x. x) (\<lambda>_. []) net_time) ex_fleet_events ex_fleet = Some w"
    and sl: "\<forall>k i t iv rn d. slot_of w k i = Some (SlotRunning t iv rn d) \<longrightarrow> slot_sound w k i t d"
    unfolding ex_fleet_def by blast
  have "map_option (\<lambda>w. (wd_started w, case slot_of w 0 0 of Some (SlotRunning t iv rn (Delivered res st)) \<Rightarrow> st | _ \<Rightarrow> []))
      (run_steps (fleet_step (\<lambda>x. x) (\<lambda>_. []) net_time) ex_fleet_events ex_fleet)
      = Some ([(''pull-job-5-task-0'', 1)], ''task_completed'')" by code_simp
  with w have "wd_started w = [(''pull-job-5-task-0'', 1)]"
    and "(case slot_of w 0 0 of Some (SlotRunning t iv rn (Delivered res st)) \<Rightarrow> st | _ \<Rightarrow> []) = ''task_completed''" by simp_all
  moreover from this(2) obtain t iv rn res where s: "slot_of w 0 0 = Some (SlotRunning t iv rn (Delivered res ''task_completed''))"
    by (auto split: option.splits slot.splits delivery.splits)
  moreover from sl s have "slot_sound w 0 0 t (Delivered res ''task_completed'')" by blast
  then obtain task where "gm_get (tasks (sv_pullQueue (snd (wd_server w)))) (pt_TaskID t) = Some task" "t_State task = StateCompleted"
    unfolding slot_sound_def by blast
  ultimately show ?thesis using w by blast
qed

end
