(* ===== verification/Keygen.thy ===== *)
theory Keygen
  imports Crypto
begin

text \<open>
  The generation of a coordinator identity (\<open>generateIdentityPEM\<close> of \<open>crypto/tls.go\<close>): the certificate
  template and the two PEM texts. Keys, random numbers and DER come from the library.
\<close>

section \<open>PEM (encoding/pem, encoding/base64)\<close>

definition base64_char :: "nat \<Rightarrow> char" where
  "base64_char n = ''ABCDEFGHIJKLMNOPQRSTUVWXYZabcdefghijklmnopqrstuvwxyz0123456789+/'' ! (n mod 64)"

fun base64 :: "string \<Rightarrow> string" where
  "base64 [] = []"
| "base64 [a] = [base64_char (byte a div 4), base64_char (byte a mod 4 * 16), CHR 0x3D, CHR 0x3D]"
| "base64 [a, b] = [base64_char (byte a div 4), base64_char (byte a mod 4 * 16 + byte b div 16), base64_char (byte b mod 16 * 4), CHR 0x3D]"
| "base64 (a # b # c # s) = [base64_char (byte a div 4), base64_char (byte a mod 4 * 16 + byte b div 16),
     base64_char (byte b mod 16 * 4 + byte c div 64), base64_char (byte c mod 64)] @ base64 s"

function pem_lines :: "string \<Rightarrow> string" where
  "pem_lines s = (if s = [] then [] else take 64 s @ [CHR 0x0A] @ pem_lines (drop 64 s))"
  by auto
termination by (relation "measure length") auto

declare pem_lines.simps [simp del]

definition pem_EncodeToMemory :: "string \<Rightarrow> string \<Rightarrow> string" where
  "pem_EncodeToMemory kind der = ''-----BEGIN '' @ kind @ ''-----'' @ [CHR 0x0A] @ pem_lines (base64 der) @ ''-----END '' @ kind @ ''-----'' @ [CHR 0x0A]"

section \<open>The certificate\<close>

record Certificate =
  ct_SerialNumber :: nat
  ct_Organization :: "string list"
  ct_NotBefore :: time
  ct_NotAfter :: time
  ct_DigitalSignature :: bool
  ct_ServerAuth :: bool
  ct_BasicConstraintsValid :: bool

text \<open>
  What the library calls give: the key, a number below the limit, the DER of the certificate (self-signed
  with the key) and of the key. A private key is whatever the library takes it to be.
\<close>

record 'k keygen =
  kg_GenerateKey :: "string + 'k"
  kg_Int :: "nat \<Rightarrow> string + nat"
  kg_CreateCertificate :: "Certificate \<Rightarrow> 'k \<Rightarrow> string + string"
  kg_MarshalECPrivateKey :: "'k \<Rightarrow> string + string"

definition identity_template :: "nat \<Rightarrow> time \<Rightarrow> Certificate" where
  "identity_template serial now = \<lparr>ct_SerialNumber = serial, ct_Organization = [''Inoculum Coordinator''],
     ct_NotBefore = time_Add now (- Hour), ct_NotAfter = time_Add now (10 * 365 * 24 * Hour),
     ct_DigitalSignature = True, ct_ServerAuth = True, ct_BasicConstraintsValid = True\<rparr>"

definition generateIdentityPEM :: "'k keygen \<Rightarrow> time \<Rightarrow> string + string \<times> string" where
  "generateIdentityPEM lib now = (case kg_GenerateKey lib of
       Inl e \<Rightarrow> Inl (''generate coordinator private key: '' @ e)
     | Inr key \<Rightarrow> (case kg_Int lib (2 ^ 128) of
           Inl e \<Rightarrow> Inl (''generate certificate serial number: '' @ e)
         | Inr serial \<Rightarrow> (case kg_CreateCertificate lib (identity_template serial now) key of
               Inl e \<Rightarrow> Inl (''create coordinator certificate: '' @ e)
             | Inr der \<Rightarrow> (case kg_MarshalECPrivateKey lib key of
                   Inl e \<Rightarrow> Inl (''marshal coordinator private key: '' @ e)
                 | Inr keyDER \<Rightarrow> Inr (pem_EncodeToMemory ''CERTIFICATE'' der, pem_EncodeToMemory ''EC PRIVATE KEY'' keyDER)))))"

end
