(* ===== verification/Commands.thy ===== *)
theory Commands
  imports Cli CoordinatorMonitor Layout Keygen
begin

text \<open>
  From the process to the components: \<open>main\<close>, the three production commands to their ends, the
  listening server, and the generation of a coordinator identity. What happens while a command
  runs is an argument: how the interface ended, which channel a \<open>select\<close> saw first, the
  requests that were served, the events in the slots of the worker. A command that is still
  waiting has the value \<open>None\<close>.
\<close>

section \<open>Opening the interactive view (run.go)\<close>

text \<open>
  The errors of \<open>tcell.NewScreen\<close> and \<open>Init\<close>, and what \<open>RunWithScreen\<close> is given: the size of the screen,
  the source of the frames at the first drawing, and the events with both as they are then.
  \<open>None\<close>: the interface is still running.
\<close>

record Terminal =
  tm_newErr :: "string option"
  tm_initErr :: "string option"
  tm_size :: "int \<times> int"
  tm_source :: "int \<Rightarrow> int \<Rightarrow> Frame"
  tm_events :: "(tui_event \<times> (int \<times> int) \<times> (int \<Rightarrow> int \<Rightarrow> Frame)) list"

definition tui_Run :: "Capabilities \<Rightarrow> Terminal \<Rightarrow> tui_end option" where
  "tui_Run caps t = (case tm_newErr t of
       Some e \<Rightarrow> Some (TuiFailed e)
     | None \<Rightarrow> (case tm_initErr t of
           Some e \<Rightarrow> Some (TuiFailed e)
         | None \<Rightarrow> map_option (\<lambda>r. case r of ReturnsNil \<Rightarrow> TuiDone | ReturnsErrQuit \<Rightarrow> TuiQuit)
             (snd (RunWithScreen caps (tm_size t) (tm_source t) (tm_events t)))))"

definition tui_notice :: "string \<Rightarrow> string" where
  "tui_notice e = ''interactive terminal unavailable: '' @ e @ ''; continuing in plain mode'' @ NL"

text \<open>
  The streams of the process: whether standard input and output are terminals, and the error of
  opening an operational log (\<open>None\<close>: it opens). The lines of the log are left out.
\<close>

record Streams =
  sm_stdinTTY :: bool
  sm_stdoutTTY :: bool
  sm_openLog :: "string \<Rightarrow> string option"

text \<open>What a command leaves behind; the log is the one in use at the end.\<close>

record outcome =
  oc_stdout :: string
  oc_stderr :: string
  oc_fs :: FS
  oc_audit :: Audit
  oc_log :: log_target
  oc_err :: "run_problem option"

definition present :: "(string \<Rightarrow> string) \<Rightarrow> Streams \<Rightarrow> presentationFlags \<Rightarrow> Capabilities \<times> log_target" where
  "present getenv streams options = configurePresentation getenv (sm_stdinTTY streams) (sm_stdoutTTY streams)
     (sm_openLog streams (pf_logFile options)) options LogStderr"

text \<open>A command that ends before it starts anything has only printed.\<close>

definition refused :: "printed \<Rightarrow> Audit \<Rightarrow> FS \<Rightarrow> cli_error \<Rightarrow> (outcome \<times> cli_error option) option" where
  "refused texts audit fs e = Some (\<lparr>oc_stdout = fst texts, oc_stderr = snd texts, oc_fs = fs, oc_audit = audit,
     oc_log = LogStderr, oc_err = None\<rparr>, Some e)"

section \<open>The submit command (submit.go)\<close>

definition manifest_warning :: string where
  "manifest_warning = ''Manifest mode will not save detailed results without --output; using --output is strongly recommended.'' @ NL"

definition manifest_notice :: "submitOptions \<Rightarrow> string" where
  "manifest_notice options = (if so_manifestPath options \<noteq> [] \<and> so_outputPath options = [] then manifest_warning else [])"

text \<open>The interface is opened only after the client has been configured.\<close>

definition submit_tui_notice :: "SubmitRun \<Rightarrow> submitOptions \<Rightarrow> FS \<Rightarrow> string" where
  "submit_tui_notice r options fs =
     (case DefaultPaths (sr_userConfigDir r) (sr_goos r) of
        Inl e \<Rightarrow> []
      | Inr paths \<Rightarrow>
          (case NewCoordinatorClientConfig fs (pa_TrustedCoordinator paths) (so_fingerprint options) of
             Inl e \<Rightarrow> []
           | Inr tlsConfig \<Rightarrow>
               (case sr_tui r of TuiFailed e \<Rightarrow> if ca_Interactive (sr_caps r) then tui_notice e else [] | _ \<Rightarrow> [])))"

text \<open>The presentation is configured first in \<open>runSubmit\<close>, which gets its result with \<open>sr_caps\<close>.\<close>

definition RunSubmit :: "cli_lib \<Rightarrow> (string \<Rightarrow> string) \<Rightarrow> Streams \<Rightarrow> file_contents \<Rightarrow> SubmitRun \<Rightarrow> string list \<Rightarrow> Audit \<Rightarrow> FS \<Rightarrow>
    (outcome \<times> cli_error option) option" where
  "RunSubmit lib getenv streams file r args audit fs =
     (case parseSubmitOptions lib args of
        (texts, Inl e) \<Rightarrow> refused texts audit fs e
      | (texts, Inr options0) \<Rightarrow>
          (case checkSubmit file options0 of
             Inl e \<Rightarrow> refused texts audit fs e
           | Inr options \<Rightarrow>
               (let notice = manifest_notice options
                in case (if so_outputPath options \<noteq> [] then validateResultOutputPath fs (so_outputPath options) else None) of
                     Some e \<Rightarrow> refused ([], notice) audit fs (UsageError (BadOutputPath e) False)
                   | None \<Rightarrow>
                       (case resolveToken getenv (so_token options) of
                          Inl e \<Rightarrow> refused ([], notice) audit fs e
                        | Inr token \<Rightarrow>
                            (let (caps, log) = present getenv streams (so_presentation options); r1 = r\<lparr>sr_caps := caps\<rparr>
                             in map_option (\<lambda>(out, fs1, err).
                                  (\<lparr>oc_stdout = out, oc_stderr = notice @ submit_tui_notice r1 options fs, oc_fs = fs1, oc_audit = audit,
                                    oc_log = log, oc_err = err\<rparr>, submit_error err (pf_verbose (so_presentation options))))
                                (runSubmit lib r1 options fs))))))"

section \<open>The worker command to its end (worker.go)\<close>

text \<open>
  \<open>wr_before\<close> are the events up to the end of the interface (or of the wait that replaces it),
  \<open>wr_after\<close> those after it. \<open>wr_ctxFirst\<close>: the \<open>select\<close> after a failed interface saw the end of the
  context before the return of the worker. The connections may write the trust record.
\<close>

record WorkerRun =
  wr_hostname :: string
  wr_userConfigDir :: "string + string"
  wr_goos :: string
  wr_now :: time
  wr_before :: "pool_event list"
  wr_after :: "pool_event list"
  wr_terminal :: Terminal
  wr_ctxFirst :: bool
  wr_peers :: "string list list"

definition PullWorker_MonitorSnapshot :: "time \<Rightarrow> PullWorker \<Rightarrow> WorkerSnapshot" where
  "PullWorker_MonitorSnapshot now w = wt_Snapshot now (pw_monitor w)"

definition stopping_notice :: "PullWorker \<Rightarrow> string" where
  "stopping_notice w = (let n = length (wk_ActiveTasks (wt_snapshot (pw_monitor w)))
     in if n > 0 then ''Stopping worker. '' @ show_nat n @ '' active task(s) may continue until the executor returns.'' @ NL else [])"

text \<open>\<open>Run\<close> returns no error, so neither does the command once the worker has been made.\<close>

definition runWorker :: "cli_lib \<Rightarrow> (string \<Rightarrow> string) \<Rightarrow> Streams \<Rightarrow> WorkerRun \<Rightarrow> workerOptions \<Rightarrow> string \<Rightarrow> Audit \<Rightarrow> FS \<Rightarrow> outcome option" where
  "runWorker lib getenv streams r options token audit fs =
     (let (caps, log) = present getenv streams (wo_presentation options)
      in case NewPullWorker (wr_userConfigDir r) (wr_goos r) fs (worker_config (wr_hostname r) options token) of
        Inl e \<Rightarrow> Some \<lparr>oc_stdout = [], oc_stderr = [], oc_fs = fs, oc_audit = audit, oc_log = log, oc_err = Some (WorkerProblem e)\<rparr>
      | Inr w \<Rightarrow>
          (let started = (\<lambda>v. WorkerStarted (PullWorker_MonitorSnapshot (wr_now r) v));
               p1 = fold pool_step (wr_before r) (Run w);
               p2 = fold pool_step (wr_after r) p1;
               fs1 = fst (connections (cb_sha256 lib) (wr_peers r) fs (pw_tls w));
               done = (\<lambda>out err log. if run_over p2
                   then Some \<lparr>oc_stdout = out, oc_stderr = err, oc_fs = fs1, oc_audit = audit, oc_log = log, oc_err = None\<rparr> else None)
           in if \<not> ca_Interactive caps then done (started w) [] log
              else case tui_Run caps (wr_terminal r) of
                  None \<Rightarrow> None
                | Some (TuiFailed e) \<Rightarrow>
                    done (started (pl_worker p1)) (tui_notice e @ (if wr_ctxFirst r then stopping_notice (pl_worker p1) else [])) LogStderr
                | Some _ \<Rightarrow> done [] (stopping_notice (pl_worker p1)) log))"

definition RunWorker :: "cli_lib \<Rightarrow> (string \<Rightarrow> string) \<Rightarrow> Streams \<Rightarrow> WorkerRun \<Rightarrow> string list \<Rightarrow> Audit \<Rightarrow> FS \<Rightarrow> (outcome \<times> cli_error option) option" where
  "RunWorker lib getenv streams r args audit fs =
     (case parseWorkerOptions lib args of
        (texts, Inl e) \<Rightarrow> refused texts audit fs e
      | (texts, Inr options) \<Rightarrow>
          if wo_coordinator options = [] then refused texts audit fs (UsageError (UsageText ''--coordinator is required'') False)
          else if wo_concurrency options \<le> 0 then refused texts audit fs (UsageError (UsageText ''--concurrency must be positive'') False)
          else case (if wo_workerID options \<noteq> [] then ValidateWorkerID (wo_workerID options) else None) of
              Some e \<Rightarrow> refused texts audit fs (UsageError (BadWorkerID e) False)
            | None \<Rightarrow>
                (case resolveToken getenv (wo_token options) of
                   Inl e \<Rightarrow> refused texts audit fs e
                 | Inr token \<Rightarrow> map_option (\<lambda>oc. (oc, runtimeError (oc_err oc) (pf_verbose (wo_presentation options))))
                     (runWorker lib getenv streams r options token audit fs)))"

section \<open>The listening server (server.go)\<close>

definition readHeaderTimeout :: duration where "readHeaderTimeout = 5 * Second"
definition writeTimeout :: duration where "writeTimeout = 30 * Second"
definition idleTimeout :: duration where "idleTimeout = 60 * Second"
definition maxHeaderBytes :: int where "maxHeaderBytes = 32 * 1024"

record HTTPServer =
  hs_Handler :: "(nat \<Rightarrow> time) \<Rightarrow> string \<Rightarrow> Request \<Rightarrow> Audit \<times> Server \<Rightarrow> ((Audit \<times> Server) \<times> Response) option"
  hs_ReadHeaderTimeout :: duration
  hs_WriteTimeout :: duration
  hs_IdleTimeout :: duration
  hs_MaxHeaderBytes :: int

definition httpServer :: "(string \<Rightarrow> string) \<Rightarrow> HTTPServer" where
  "httpServer sha256 = \<lparr>hs_Handler = routes sha256, hs_ReadHeaderTimeout = readHeaderTimeout, hs_WriteTimeout = writeTimeout,
     hs_IdleTimeout = idleTimeout, hs_MaxHeaderBytes = maxHeaderBytes\<rparr>"

text \<open>What happens to the server while it is up: requests, and the interface that looks at it.\<close>

datatype server_event = Serves "nat \<Rightarrow> time" string Request | Looks time

fun serving :: "HTTPServer option \<Rightarrow> server_event list \<Rightarrow> Audit \<times> Server \<Rightarrow> (Audit \<times> Server) option" where
  "serving h [] st = Some st"
| "serving h (Serves clk i r # es) st = (case h of
       None \<Rightarrow> serving h es st
     | Some hs \<Rightarrow> (case hs_Handler hs clk i r st of None \<Rightarrow> None | Some (st1, resp) \<Rightarrow> serving h es st1))"
| "serving h (Looks t # es) st =
     (case MonitorSnapshot t [] [] (snd st) of None \<Rightarrow> None | Some (server, snapshot) \<Rightarrow> serving h es (fst st, server))"

text \<open>
  The error of \<open>tls.Listen\<close> on the port, and nothing is served; or the error with which \<open>Serve\<close>
  ends (it always has one; \<open>None\<close>: it is still serving). The outer option is a panic of a handler.
\<close>

definition Start :: "(string \<Rightarrow> string) \<Rightarrow> (string \<Rightarrow> string option) \<Rightarrow> server_event list \<Rightarrow> string option \<Rightarrow>
    Audit \<times> Server \<Rightarrow> ((Audit \<times> Server) \<times> string option) option" where
  "Start sha256 listen es serveErr st =
     (case listen ('':'' @ show_int (sv_port (snd st))) of
        Some e \<Rightarrow> map_option (\<lambda>st1. (st1, Some (''failed to create TLS listener: '' @ e))) (serving None es st)
      | None \<Rightarrow> map_option (\<lambda>st1. (st1, serveErr)) (serving (Some (httpServer sha256)) es st))"

section \<open>The coordinator command to its end (coordinator.go)\<close>

text \<open>
  \<open>cr_before\<close> is what happens to the server before the start is printed (or the interface ends),
  \<open>cr_after\<close> what happens after it. \<open>cr_signal\<close>: the \<open>select\<close> that waits for the server or the end of the context saw the end of the context.
\<close>

record CoordinatorRun =
  cr_x509 :: x509
  cr_keygen :: "string keygen"
  cr_auditErr :: "string option"
  cr_userConfigDir :: "string + string"
  cr_goos :: string
  cr_interfaces :: "net_interface list option"
  cr_now :: time
  cr_listen :: "string \<Rightarrow> string option"
  cr_before :: "server_event list"
  cr_after :: "server_event list"
  cr_serveErr :: "string option"
  cr_terminal :: Terminal
  cr_signal :: bool

definition identity_notice :: "string \<Rightarrow> CoordinatorIdentity \<Rightarrow> string" where
  "identity_notice dir identity =
     (if ci_Migrated identity then ''Existing coordinator identity migrated to '' @ dir @ ''.'' @ NL
      else if ci_Created identity then ''New coordinator identity created in '' @ dir
        @ ''. Clients must explicitly trust the fingerprint shown below.'' @ NL
      else [])"

text \<open>
  The end of the command: the server goes on until the process ends, and what it returns counts
  only when the command sees it. \<open>NewServer\<close> cannot fail after the checks of \<open>RunCoordinator\<close>, so an
  error comes before the notice about the identity.
\<close>

definition runCoordinator :: "cli_lib \<Rightarrow> (string \<Rightarrow> string) \<Rightarrow> Streams \<Rightarrow> CoordinatorRun \<Rightarrow> coordinatorOptions \<Rightarrow> string \<Rightarrow> Audit \<Rightarrow> FS \<Rightarrow> outcome option" where
  "runCoordinator lib getenv streams r options token audit fs =
     (let (caps, log) = present getenv streams (oo_presentation options)
      in case start_coordinator (cr_x509 r) (generateIdentityPEM (cr_keygen r) (cr_now r)) (cr_auditErr r) (cr_userConfigDir r) (cr_goos r) (cr_now r) options token audit fs of
        (audit1, fs1, Inl e) \<Rightarrow>
          Some \<lparr>oc_stdout = [], oc_stderr = [], oc_fs = fs1,
            oc_audit = (case e of AuditProblem _ _ \<Rightarrow> audit1 | _ \<Rightarrow> fst (Audit_Close None audit1)), oc_log = log, oc_err = Some e\<rparr>
      | (audit1, fs1, Inr (server, identity)) \<Rightarrow>
          (let addresses = ListenAddresses (cr_interfaces r) (oo_port options);
               notice = (case DefaultPaths (cr_userConfigDir r) (cr_goos r) of Inl e \<Rightarrow> [] | Inr paths \<Rightarrow> identity_notice (pa_Dir paths) identity);
               up = (\<lambda>es. Start (cb_sha256 lib) (cr_listen r) es (cr_serveErr r) (audit1, server));
               finish = (\<lambda>out err log audit2 e. Some \<lparr>oc_stdout = out, oc_stderr = err, oc_fs = fs1, oc_audit = fst (Audit_Close None audit2),
                 oc_log = log, oc_err = map_option ListenProblem e\<rparr>);
               wait = (\<lambda>err log. case up (cr_before r) of
                   None \<Rightarrow> None
                 | Some ((_, server1), _) \<Rightarrow>
                     (case (MonitorSnapshot (cr_now r) addresses (ci_Fingerprint identity) server1, up (cr_before r @ Looks (cr_now r) # cr_after r)) of
                        (Some (_, snapshot), Some ((audit2, _), ended)) \<Rightarrow>
                          (let started = CoordinatorStarted (cb_isPrint lib) snapshot (ca_Verbose caps)
                           in if cr_signal r then finish started err log audit2 None
                              else case ended of None \<Rightarrow> None | Some e \<Rightarrow> finish started err log audit2 (Some e))
                      | _ \<Rightarrow> None))
           in if \<not> ca_Interactive caps then wait notice log
              else case tui_Run caps (cr_terminal r) of
                  None \<Rightarrow> None
                | Some (TuiFailed e) \<Rightarrow> wait (notice @ tui_notice e) LogStderr
                | Some _ \<Rightarrow> (case up (cr_before r @ cr_after r) of
                      None \<Rightarrow> None
                    | Some ((audit2, _), ended) \<Rightarrow> finish [] notice log audit2 ended)))"

definition RunCoordinator :: "cli_lib \<Rightarrow> (string \<Rightarrow> string) \<Rightarrow> Streams \<Rightarrow> CoordinatorRun \<Rightarrow> string list \<Rightarrow> Audit \<Rightarrow> FS \<Rightarrow> (outcome \<times> cli_error option) option" where
  "RunCoordinator lib getenv streams r args audit fs =
     (case parseCoordinatorOptions lib args of
        (texts, Inl e) \<Rightarrow> refused texts audit fs e
      | (texts, Inr options) \<Rightarrow>
          (case checkCoordinator getenv options of
             Inl e \<Rightarrow> refused texts audit fs e
           | Inr token \<Rightarrow> map_option (\<lambda>oc. (oc, runtimeError (oc_err oc) (pf_verbose (oo_presentation options))))
               (runCoordinator lib getenv streams r options token audit fs)))"

section \<open>The program (root.go, main.go)\<close>

record Env =
  en_lib :: cli_lib
  en_getenv :: "string \<Rightarrow> string"
  en_streams :: Streams
  en_audit :: Audit
  en_fs :: FS
  en_manifest :: file_contents
  en_submit :: SubmitRun
  en_worker :: WorkerRun
  en_coordinator :: CoordinatorRun

definition productionCommands :: "Env \<Rightarrow> string \<Rightarrow> (string list \<Rightarrow> (outcome \<times> cli_error option) option) option" where
  "productionCommands env name =
     (if name = ''coordinator'' then Some (\<lambda>args. RunCoordinator (en_lib env) (en_getenv env) (en_streams env) (en_coordinator env) args (en_audit env) (en_fs env))
      else if name = ''worker'' then Some (\<lambda>args. RunWorker (en_lib env) (en_getenv env) (en_streams env) (en_worker env) args (en_audit env) (en_fs env))
      else if name = ''submit'' then Some (\<lambda>args. RunSubmit (en_lib env) (en_getenv env) (en_streams env) (en_manifest env) (en_submit env) args (en_audit env) (en_fs env))
      else None)"

definition as_runner :: "(string list \<Rightarrow> (outcome \<times> cli_error option) option) \<Rightarrow> string list \<Rightarrow> cli_error option \<times> outcome option" where
  "as_runner f args = (case f args of None \<Rightarrow> (None, None) | Some (oc, err) \<Rightarrow> (err, Some oc))"

definition Main :: "Env \<Rightarrow> string \<Rightarrow> string list \<Rightarrow> outcome option root_result option" where
  "Main env version args =
     (let res = mainWithCommands (cb_isPrint (en_lib env)) version (\<lambda>name. map_option as_runner (productionCommands env name)) args
      in case rr_effects res of Some None \<Rightarrow> None | _ \<Rightarrow> Some res)"

text \<open>The exit code of the process; \<open>version.Value\<close> unless the build sets another.\<close>

definition version_Value :: string where "version_Value = ''dev''"

definition main :: "Env \<Rightarrow> string list \<Rightarrow> int option" where
  "main env osArgs = map_option rr_code (Main env version_Value (tl osArgs))"

end
