(* ===== verification/CommandTheorems.thy ===== *)
theory CommandTheorems
  imports Commands CliTheorems
begin

text \<open>The program as a whole: exit codes, what a wrong command line prints and what it leaves alone.\<close>

section \<open>What a command prints when it refuses its arguments\<close>

definition command_usage :: "Env \<Rightarrow> string \<Rightarrow> string" where
  "command_usage env name = (let lib = en_lib env; p = cb_isPrint lib
     in if name = ''coordinator'' then flag_usage p (coordinator_flags lib)
        else if name = ''worker'' then flag_usage p (worker_flags lib)
        else flag_usage p (submit_flags lib))"

definition command_problem :: "cli_error option \<Rightarrow> run_problem option" where
  "command_problem err = (case err of Some (CommandError p _ _) \<Rightarrow> Some p | _ \<Rightarrow> None)"

lemma command_problem_simps [simp]:
  "command_problem None = None"
  "command_problem (Some ErrHelp) = None"
  "command_problem (Some (UsageError u b)) = None"
  "command_problem (Some (CommandError p v b)) = Some p"
  by (simp_all add: command_problem_def)

definition untouched :: "Env \<Rightarrow> outcome \<Rightarrow> bool" where
  "untouched env oc = (oc_fs oc = en_fs env \<and> oc_audit oc = en_audit env \<and> oc_log oc = LogStderr \<and> oc_err oc = None)"

text \<open>
  Help is the usage text. An error of the flags has been reported with its message and the usage;
  any other usage error is left to \<open>renderExit\<close>, after the warning of manifest mode at most.
\<close>

definition usage_printed :: "string \<Rightarrow> cli_error \<Rightarrow> printed \<Rightarrow> bool" where
  "usage_printed usage e texts = (case e of
       ErrHelp \<Rightarrow> texts = (usage, [])
     | UsageError u reported \<Rightarrow>
         if reported then fst texts = usage \<and> snd texts \<noteq> [] else fst texts = [] \<and> snd texts \<in> {[], manifest_warning}
     | CommandError p v reported \<Rightarrow> False)"

text \<open>A command in its terms: its outcome and its error agree, and one that refused its arguments has only printed.\<close>

definition command_sound :: "Env \<Rightarrow> string \<Rightarrow> outcome \<Rightarrow> cli_error option \<Rightarrow> bool" where
  "command_sound env name oc err = (oc_err oc = command_problem err \<and>
     (case err of
        None \<Rightarrow> True
      | Some e \<Rightarrow> command_problem err = None \<longrightarrow> untouched env oc \<and> usage_printed (command_usage env name) e (oc_stdout oc, oc_stderr oc)))"

lemma refused_sound:
  "refused texts (en_audit env) (en_fs env) e = Some (oc, err) \<Longrightarrow> usage_printed (command_usage env name) e texts \<Longrightarrow>
   command_sound env name oc err"
  by (cases e) (auto simp: refused_def command_sound_def untouched_def usage_printed_def)

lemma run_sound: "command_sound env name oc (runtimeError (oc_err oc) v)"
  by (cases "oc_err oc") (simp_all add: command_sound_def runtimeError_def)

lemma plain_usage: "texts = ([], []) \<Longrightarrow> usage_printed usage (UsageError u False) texts"
  by (simp add: usage_printed_def)

lemma parseFlagSet_printed:
  assumes "parseFlagSet p flags d args = (texts, r)"
  shows "(case r of Inl e \<Rightarrow> usage_printed (flag_usage p flags) e texts | Inr x \<Rightarrow> texts = ([], []))"
  using assms by (auto simp: parseFlagSet_def usage_printed_def split: flags_result.splits if_splits)

lemma parse_printed:
  assumes "apsnd f (parseFlagSet p flags d args) = (texts, r)" and "\<And>e. f (Inl e) = Inl e"
    and "\<And>x e. f (Inr x) = Inl e \<Longrightarrow> \<exists>u. e = UsageError u False"
  shows "(case r of Inl e \<Rightarrow> usage_printed (flag_usage p flags) e texts | Inr x \<Rightarrow> texts = ([], []))"
proof -
  obtain q where q: "parseFlagSet p flags d args = (texts, q)" "r = f q"
    using assms(1) by (cases "parseFlagSet p flags d args") simp
  note pr = parseFlagSet_printed [OF q(1)]
  show ?thesis
  proof (cases q)
    case (Inl e)
    with pr show ?thesis by (simp add: q(2) assms(2))
  next
    case (Inr x)
    with pr show ?thesis by (auto simp: q(2) dest: assms(3) intro: plain_usage split: sum.split)
  qed
qed

lemma command_usages:
  "command_usage env ''coordinator'' = flag_usage (cb_isPrint (en_lib env)) (coordinator_flags (en_lib env))"
  "command_usage env ''worker'' = flag_usage (cb_isPrint (en_lib env)) (worker_flags (en_lib env))"
  "command_usage env ''submit'' = flag_usage (cb_isPrint (en_lib env)) (submit_flags (en_lib env))"
  by (simp_all add: command_usage_def Let_def)

lemma worker_parse:
  "parseWorkerOptions (en_lib env) args = (texts, r) \<Longrightarrow>
   (case r of Inl e \<Rightarrow> usage_printed (command_usage env ''worker'') e texts | Inr x \<Rightarrow> texts = ([], []))"
  unfolding parseWorkerOptions_def command_usages by (erule parse_printed) (auto split: if_splits)

lemma coordinator_parse:
  "parseCoordinatorOptions (en_lib env) args = (texts, r) \<Longrightarrow>
   (case r of Inl e \<Rightarrow> usage_printed (command_usage env ''coordinator'') e texts | Inr x \<Rightarrow> texts = ([], []))"
  unfolding parseCoordinatorOptions_def command_usages by (erule parse_printed) (auto split: if_splits)

lemma submit_parse:
  "parseSubmitOptions (en_lib env) args = (texts, r) \<Longrightarrow>
   (case r of Inl e \<Rightarrow> usage_printed (command_usage env ''submit'') e texts | Inr x \<Rightarrow> texts = ([], []))"
  unfolding parseSubmitOptions_def command_usages by (erule parse_printed) (auto split: if_splits)

lemma resolveToken_usage: "resolveToken getenv v = Inl e \<Longrightarrow> \<exists>u. e = UsageError u False"
  by (auto simp: resolveToken_def split: if_splits)

lemma checkCoordinator_usage: "checkCoordinator getenv options = Inl e \<Longrightarrow> \<exists>u. e = UsageError u False"
  by (auto simp: checkCoordinator_def split: if_splits dest: resolveToken_usage)

lemma checkSubmit_usage: "checkSubmit file options = Inl e \<Longrightarrow> \<exists>u. e = UsageError u False"
  by (auto simp: checkSubmit_def split: if_splits sum.splits option.splits)

section \<open>The three commands\<close>

lemma worker_sound:
  assumes "RunWorker (en_lib env) (en_getenv env) (en_streams env) r args (en_audit env) (en_fs env) = Some (oc, err)"
  shows "command_sound env ''worker'' oc err"
proof -
  obtain texts q where q: "parseWorkerOptions (en_lib env) args = (texts, q)" by (meson surj_pair)
  note pr = worker_parse [OF q]
  show ?thesis
  proof (cases q)
    case (Inl e)
    with assms q pr show ?thesis by (intro refused_sound [of texts]) (simp_all add: RunWorker_def)
  next
    case (Inr options)
    with pr have t: "texts = ([], [])" by simp
    from Inr q assms show ?thesis
      by (auto simp: RunWorker_def t dest: resolveToken_usage intro: run_sound split: if_splits option.splits sum.splits
          elim!: refused_sound intro!: plain_usage)
  qed
qed

lemma coordinator_sound:
  assumes "RunCoordinator (en_lib env) (en_getenv env) (en_streams env) r args (en_audit env) (en_fs env) = Some (oc, err)"
  shows "command_sound env ''coordinator'' oc err"
proof -
  obtain texts q where q: "parseCoordinatorOptions (en_lib env) args = (texts, q)" by (meson surj_pair)
  note pr = coordinator_parse [OF q]
  show ?thesis
  proof (cases q)
    case (Inl e)
    with assms q pr show ?thesis by (intro refused_sound [of texts]) (simp_all add: RunCoordinator_def)
  next
    case (Inr options)
    with pr have t: "texts = ([], [])" by simp
    from Inr q assms show ?thesis
      by (auto simp: RunCoordinator_def t intro: run_sound split: sum.splits elim!: refused_sound)
        (auto simp: usage_printed_def dest: checkCoordinator_usage)
  qed
qed

lemma server_always_made:
  assumes "checkCoordinator getenv options = Inr token"
  shows "start_coordinator lib generated auditErr dir goos now options token audit fs \<noteq> (audit1, fs1, Inl (ServerProblem e))"
proof -
  have "0 < oo_leaseDuration options" "1 \<le> oo_maxAttempts options" using assms by (auto simp: checkCoordinator_def split: if_splits)
  then show ?thesis by (auto simp: start_coordinator_def NewServer_def New_def split: prod.splits option.splits sum.splits)
qed

lemma submit_problem: "command_problem (submit_error err v) = err"
  by (auto simp: submit_error_def runtimeError_def reportedRuntimeError_def split: option.split run_problem.split exec_error.split)

lemma submit_run_sound: "command_sound env name \<lparr>oc_stdout = out, oc_stderr = t, oc_fs = fs, oc_audit = a, oc_log = l, oc_err = err\<rparr> (submit_error err v)"
proof (cases err)
  case None
  then show ?thesis by (simp add: command_sound_def submit_error_def runtimeError_def)
next
  case (Some p)
  with submit_problem [of err v] show ?thesis by (auto simp: command_sound_def split: option.split)
qed

lemma submit_sound:
  assumes "RunSubmit (en_lib env) (en_getenv env) (en_streams env) file r args (en_audit env) (en_fs env) = Some (oc, err)"
  shows "command_sound env ''submit'' oc err"
proof -
  obtain texts q where q: "parseSubmitOptions (en_lib env) args = (texts, q)" by (meson surj_pair)
  note pr = submit_parse [OF q]
  show ?thesis
  proof (cases q)
    case (Inl e)
    with assms q pr show ?thesis by (intro refused_sound [of texts]) (simp_all add: RunSubmit_def)
  next
    case (Inr options0)
    with pr have t: "texts = ([], [])" by simp
    have notice: "usage_printed usage (UsageError u False) ([], manifest_notice options)" for usage u options
      by (simp add: usage_printed_def manifest_notice_def)
    show ?thesis
    proof (cases "checkSubmit file options0")
      case (Inl e)
      with assms q Inr t checkSubmit_usage [OF Inl] show ?thesis
        by (intro refused_sound [of texts]) (auto simp: RunSubmit_def usage_printed_def)
    next
      case checked: (Inr options)
      with assms q Inr show ?thesis
        by (auto simp: RunSubmit_def Let_def intro: submit_run_sound split: if_splits option.splits sum.splits prod.splits
            elim!: refused_sound intro!: notice)
          (auto intro: notice dest!: resolveToken_usage)
    qed
  qed
qed

lemma command_runs:
  assumes "productionCommands env name = Some f" and "f args = Some (oc, err)"
  shows "command_sound env name oc err"
  using assms worker_sound coordinator_sound submit_sound by (auto simp: productionCommands_def split: if_splits)

lemma command_dispatched:
  assumes "productionCommands env name = Some f"
  shows "Main env version (name # rest) = (case f rest of
     None \<Rightarrow> None
   | Some (oc, err) \<Rightarrow> Some \<lparr>rr_code = fst (renderExit err), rr_stdout = [], rr_stderr = [], rr_report = snd (renderExit err), rr_effects = Some (Some oc)\<rparr>)"
proof -
  have "\<not> isRootHelp name \<and> name \<noteq> ''--version'' \<and> \<not> HasPrefix name ''-''"
    using assms by (auto simp: productionCommands_def isRootHelp_def HasPrefix_iff split: if_splits)
  then show ?thesis using assms by (simp add: Main_def mainWithCommands_def as_runner_def split: option.split prod.split)
qed

lemma root_reports:
  assumes "Main env version args = Some res" and "rr_effects res = None"
  shows "rr_code res \<in> {0, 2} \<and> (rr_code res = 2 \<longrightarrow> rr_stdout res = [] \<and> rr_stderr res \<noteq> [])"
  using assms by (auto simp: Main_def mainWithCommands_def root_only_def Let_def split: list.splits if_splits option.splits prod.splits)

text \<open>
  C12. Exit codes, and what is said about a wrong command line. The program ends with 0, 1 or 2. It ends with 1
  exactly when a command ran and had a problem, and with 2 when the command line was wrong. Then
  either no command ran, and the root command has said on standard error what is wrong; or one ran
  that left the files and the audit log as they were, opened no log, and either reported the error
  itself, with its usage text on standard output, or left it to be printed, and printed at most the warning of manifest mode
  about a missing \<open>--output\<close>. A command that is asked for help prints its usage text and nothing else and ends with 0. A
  command line that one of the three commands accepts never ends with 2.
\<close>

theorem exit_codes:
  assumes "Main env version args = Some res"
  shows "rr_code res \<in> {0, 1, 2} \<and>
    (rr_code res = 1 \<longleftrightarrow> (\<exists>oc p. rr_effects res = Some (Some oc) \<and> oc_err oc = Some p)) \<and>
    (rr_code res = 2 \<and> rr_effects res = None \<longrightarrow> rr_stdout res = [] \<and> rr_stderr res \<noteq> []) \<and>
    (\<forall>oc. rr_code res = 2 \<and> rr_effects res = Some (Some oc) \<longrightarrow>
       oc_fs oc = en_fs env \<and> oc_audit oc = en_audit env \<and> oc_log oc = LogStderr \<and>
       (if rr_report res = NothingPrinted then oc_stdout oc = command_usage env (hd args) \<and> oc_stderr oc \<noteq> []
        else oc_stdout oc = [] \<and> oc_stderr oc \<in> {[], manifest_warning})) \<and>
    (\<forall>f oc err. args \<noteq> [] \<and> productionCommands env (hd args) = Some f \<and> f (tl args) = Some (oc, err) \<longrightarrow>
       (rr_code res = 2 \<longleftrightarrow> (\<exists>u b. err = Some (UsageError u b))) \<and>
       (err = Some ErrHelp \<longrightarrow> rr_code res = 0 \<and> untouched env oc \<and> oc_stdout oc = command_usage env (hd args) \<and> oc_stderr oc = []))"
proof (cases "rr_effects res")
  case None
  have "f (tl args) \<noteq> Some (oc, err)" if "args \<noteq> []" "productionCommands env (hd args) = Some f" for f oc err
    using assms None that(1) command_dispatched [OF that(2), of version "tl args"] by auto
  with root_reports [OF assms None] None show ?thesis by auto
next
  case (Some eff)
  obtain a rest where args: "args = a # rest" using assms Some
    by (cases args) (auto simp: Main_def mainWithCommands_def root_only_def)
  obtain f where f: "productionCommands env a = Some f"
    using assms Some by (auto simp: Main_def mainWithCommands_def root_only_def args Let_def split: if_splits option.splits prod.splits)
  from assms obtain oc err where run: "f rest = Some (oc, err)" and code: "rr_code res = fst (renderExit err)"
    and report: "rr_report res = snd (renderExit err)" and eff: "rr_effects res = Some (Some oc)"
    unfolding args command_dispatched [OF f] by (auto split: option.splits)
  note s = command_runs [OF f run]
  show ?thesis
  proof (cases err)
    case None
    with s f run show ?thesis by (simp add: code eff renderExit_def command_sound_def args)
  next
    case (Some e)
    with s f run show ?thesis
      by (cases e) (auto simp: code report eff renderExit_def command_sound_def untouched_def usage_printed_def args)
  qed
qed

text \<open>The concrete program: a flag that the worker does not know.\<close>

definition ex_terminal :: Terminal where
  "ex_terminal = \<lparr>tm_newErr = None, tm_initErr = None, tm_size = (80, 24), tm_source = (\<lambda>w h. \<lparr>fr_Lines = []\<rparr>), tm_events = []\<rparr>"

definition ex_worker_run :: WorkerRun where
  "ex_worker_run = \<lparr>wr_hostname = ''h'', wr_userConfigDir = Inr ''/c'', wr_goos = ''linux'', wr_now = 5,
     wr_before = [], wr_after = [], wr_terminal = ex_terminal, wr_ctxFirst = False, wr_peers = []\<rparr>"

definition ex_keygen :: "string keygen" where
  "ex_keygen = \<lparr>kg_GenerateKey = Inr ''k'', kg_Int = (\<lambda>n. Inr 7), kg_CreateCertificate = (\<lambda>c k. Inr ''der''), kg_MarshalECPrivateKey = (\<lambda>k. Inr k)\<rparr>"

definition ex_coordinator_run :: CoordinatorRun where
  "ex_coordinator_run = \<lparr>cr_x509 = ex_lib, cr_keygen = ex_keygen, cr_auditErr = None, cr_userConfigDir = Inr ''/c'',
     cr_goos = ''linux'', cr_interfaces = None, cr_now = unixEpoch,
     cr_listen = (\<lambda>a. if a = '':8080'' then Some ''in use'' else None), cr_before = [], cr_after = [],
     cr_serveErr = None, cr_terminal = ex_terminal, cr_signal = False\<rparr>"

definition ex_env :: Env where
  "ex_env = \<lparr>en_lib = ex_cli, en_getenv = (\<lambda>v. if v = ''INOCULUM_TOKEN'' then ''tok'' else []),
     en_streams = \<lparr>sm_stdinTTY = True, sm_stdoutTTY = False, sm_openLog = (\<lambda>p. None)\<rparr>,
     en_audit = \<lparr>au_file = None, au_logger = False, au_disk = (\<lambda>f. [])\<rparr>, en_fs = ex_disk Map.empty, en_manifest = Contents \<lparr>doc_len = 0, doc_vals = []\<rparr>,
     en_submit = ex_run, en_worker = ex_worker_run, en_coordinator = ex_coordinator_run\<rparr>"

theorem exit_codes_witness:
  "\<exists>res oc. Main ex_env ''dev'' [''worker'', ''--wat''] = Some res \<and> rr_effects res = Some (Some oc) \<and> rr_code res = 2 \<and>
     oc_fs oc = en_fs ex_env \<and> oc_stdout oc = command_usage ex_env ''worker'' \<and>
     HasPrefix (oc_stdout oc) (''Connect an outbound worker to an Inoculum coordinator.'' @ NL @ NL @ ''Usage:'') \<and>
     oc_stderr oc = ''flag provided but not defined: -wat'' @ NL"
proof -
  have "parse_flags (st_flags (worker_flags ex_cli)) [''--wat''] worker_defaults [] = FlagsFail (UndefinedFlag ''wat'')"
    by (simp add: worker_flags_def addPresentationFlags_def find_flag_def flag_name_def string_flag_def bool_flag_def int_flag_def Let_def)
  then have w: "RunWorker ex_cli getenv streams wr [''--wat''] audit fs
      = refused (flag_usage (cb_isPrint ex_cli) (worker_flags ex_cli), ''flag provided but not defined: -wat'' @ NL) audit fs
          (UsageError (FlagProblem (UndefinedFlag ''wat'')) True)" for getenv streams wr audit fs
    by (simp add: RunWorker_def parseWorkerOptions_def parseFlagSet_def flag_error_text_def)
  have f: "productionCommands ex_env ''worker'' = Some (\<lambda>args. RunWorker ex_cli (en_getenv ex_env) (en_streams ex_env) (en_worker ex_env) args
      (en_audit ex_env) (en_fs ex_env))" by (simp add: productionCommands_def ex_env_def)
  obtain res oc where r: "Main ex_env ''dev'' [''worker'', ''--wat''] = Some res" "rr_code res = 2" "rr_report res = NothingPrinted"
    "rr_effects res = Some (Some oc)" "oc_stderr oc = ''flag provided but not defined: -wat'' @ NL"
    using command_dispatched [OF f, of "''dev''" "[''--wat'']"] by (simp add: w refused_def renderExit_def)
  from exit_codes [OF r(1)] r have "oc_fs oc = en_fs ex_env" "oc_stdout oc = command_usage ex_env ''worker''" by simp_all
  moreover have "HasPrefix (command_usage ex_env ''worker'') (''Connect an outbound worker to an Inoculum coordinator.'' @ NL @ NL @ ''Usage:'')"
    by (simp add: command_usage_def flag_usage_def worker_flags_def HasPrefix_iff Let_def)
  ultimately show ?thesis using r by simp
qed

end
