(* ===== verification/ProgressTheorems.thy ===== *)
theory ProgressTheorems
  imports CoordinatorTheorems
begin

text \<open>
  Progress: a task is never stuck. While it is not finished, a claim that comes when all leases have
  ended is granted (to it or to another task), and only so many claims can be granted.
\<close>

section \<open>When leases end\<close>

abbreviation leases_by :: "time \<Rightarrow> Queue \<Rightarrow> bool" where
  "leases_by e \<equiv> all_leases (\<lambda>k l. l_ExpiresAt l \<le> e)"

definition later_end :: "Task \<Rightarrow> time \<Rightarrow> time" where
  "later_end t e = (case t_Lease t of None \<Rightarrow> e | Some l \<Rightarrow> max e (l_ExpiresAt l))"

definition horizon :: "Queue \<Rightarrow> time" where
  "horizon q = fold (\<lambda>(i, t). later_end t) (tasks q) 0"

lemma later_end_ge: "e \<le> later_end t e"
  by (simp add: later_end_def split: option.split)

lemma horizon_ge: "e \<le> fold (\<lambda>(i, t). later_end t) ts e"
proof (induction ts arbitrary: e)
  case (Cons p ts)
  show ?case using order_trans [OF later_end_ge Cons] by (cases p) simp
qed simp

lemma horizon_bound:
  "(i, t) \<in> set ts \<Longrightarrow> t_Lease t = Some l \<Longrightarrow> l_ExpiresAt l \<le> fold (\<lambda>(i, t). later_end t) ts e"
proof (induction ts arbitrary: e)
  case (Cons p ts)
  show ?case
  proof (cases "p = (i, t)")
    case True
    have "l_ExpiresAt l \<le> later_end t e" using Cons.prems(2) by (simp add: later_end_def)
    with True horizon_ge [of "later_end t e" ts] show ?thesis by simp
  qed (use Cons in auto)
qed simp

lemma leases_by_horizon: "leases_by (horizon q) q"
  unfolding all_leases_def horizon_def using horizon_bound gm_get_in_set by fast

text \<open>The end of all leases after a call, when they end at \<open>e\<close> before it.\<close>

fun lease_end :: "duration \<Rightarrow> lq_op \<Rightarrow> time \<Rightarrow> time \<Rightarrow> time" where
  "lease_end d (OpClaim w i) now e = max e (time_Add now d)"
| "lease_end d (OpRenew k i w) now e = max e (time_Add now d)"
| "lease_end d opn now e = e"

lemma lease_end_ge: "e \<le> lease_end d opn now e"
  by (cases opn) simp_all

lemma leases_by_step:
  assumes "queue_inv q" and "leases_by e q" and "lq_step (opn, now) q = Some q'"
  shows "leases_by (lease_end (leaseDuration q) opn now e) q'"
proof (rule all_leases_step [OF assms(1) _ assms(3)])
  show "leases_by (lease_end (leaseDuration q) opn now e) q"
    using assms(2) order_trans [OF _ lease_end_ge] by (fastforce simp: all_leases_def)
qed (auto simp: new_lease_def)

text \<open>
  The claims in a sequence of calls that come when every lease given or renewed so far has ended.
\<close>

fun claims_by :: "lq_op \<Rightarrow> bool" where
  "claims_by (OpClaim w i) = (w \<noteq> [])"
| "claims_by _ = False"

fun patient_claims :: "duration \<Rightarrow> time \<Rightarrow> (lq_op \<times> time) list \<Rightarrow> nat" where
  "patient_claims d e [] = 0"
| "patient_claims d e ((opn, now) # ls) =
     (if claims_by opn \<and> e \<le> now then 1 else 0) + patient_claims d (lease_end d opn now e) ls"

lemma patient_claim_granted:
  assumes inv: "queue_inv q" and e: "leases_by e q" "e \<le> now" and w: "w \<noteq> []"
    and s: "lq_step (OpClaim w i, now) q = Some q'" and g: "\<not> granted (OpClaim w i, now) q"
    and t: "gm_get (tasks q) tid = Some t"
  shows "\<exists>t'. gm_get (tasks q') tid = Some t' \<and> finished t'"
proof -
  have q': "q' = expired_queue now q" "queued q' = []"
    using Claim_cases [OF inv w, of now i] s g by auto
  let ?t = "expire_task (maxAttempts q) now t"
  have t': "gm_get (tasks q') tid = Some ?t" using t by (simp add: q'(1))
  have "t_State ?t \<noteq> StateQueued"
    using queue_inv_task(3) [OF expired_queue_inv [OF inv, of now] t' [unfolded q'(1)]] q' by (simp del: expired_queue_sel)
  moreover have "t_State ?t \<noteq> StateLeased"
  proof
    assume "t_State ?t = StateLeased"
    then have "t_State t = StateLeased" "\<not> lease_expired now t" by (auto simp: expire_task_def split: if_splits)
    moreover obtain l where "t_Lease t = Some l"
      using queue_inv_task(2) [OF inv t] \<open>t_State t = StateLeased\<close> by (auto simp: task_wf_def split: option.splits)
    ultimately show False using e t by (fastforce simp: lease_expired_def all_leases_def)
  qed
  ultimately show ?thesis using t' by (cases "t_State ?t") (auto simp: finished_def)
qed

lemma step_keeps:
  "queue_inv q \<Longrightarrow> lq_step l q = Some q' \<Longrightarrow> gm_get (tasks q) tid = Some t \<Longrightarrow>
   leaseDuration q' = leaseDuration q \<and> (\<exists>t'. gm_get (tasks q') tid = Some t')"
  using lq_step_le by (fastforce simp: queue_le_def)

text \<open>While a task is not finished, every patient claim is granted.\<close>

lemma patient_claims_granted:
  assumes "queue_inv q" and "leases_by e q" and "gm_get (tasks q) tid = Some t"
    and "run_steps lq_step ls q = Some q'" and "gm_get (tasks q') tid = Some t'" and "\<not> finished t'"
  shows "int (patient_claims (leaseDuration q) e ls) \<le> grants ls q"
  using assms
proof (induction ls arbitrary: q e t)
  case (Cons l ls)
  obtain opn now where l: "l = (opn, now)" by (cases l)
  obtain q1 where q1: "lq_step l q = Some q1" "run_steps lq_step ls q1 = Some q'" "queue_inv q1"
    using lq_step_safe [OF Cons.prems(1), of l] Cons.prems(4) by auto
  obtain t1 where t1: "leaseDuration q1 = leaseDuration q" "gm_get (tasks q1) tid = Some t1"
    using step_keeps [OF Cons.prems(1) q1(1) Cons.prems(3)] by blast
  have IH: "int (patient_claims (leaseDuration q) (lease_end (leaseDuration q) opn now e) ls) \<le> grants ls q1"
    using Cons.IH [OF q1(3) leases_by_step [OF Cons.prems(1,2) q1(1) [unfolded l]] t1(2) q1(2) Cons.prems(5,6)] t1(1) by simp
  have "granted l q" if c: "claims_by opn" "e \<le> now"
  proof (rule ccontr)
    assume g: "\<not> granted l q"
    obtain w i where opn: "opn = OpClaim w i" "w \<noteq> []" using c(1) by (cases opn) auto
    from patient_claim_granted [OF Cons.prems(1,2) c(2) opn(2) _ _ Cons.prems(3), of i q1] q1(1) g
    obtain t2 where "gm_get (tasks q1) tid = Some t2" "finished t2" by (auto simp: l opn(1))
    with finished_run [OF q1(3) _ _ q1(2)] Cons.prems(5,6) show False by fastforce
  qed
  with IH q1(1) show ?case by (simp add: l)
qed simp

lemma tasks_finish:
  assumes inv: "queue_inv q" and t: "gm_get (tasks q) tid = Some t" and run: "run_steps lq_step ls q = Some q'"
    and many: "maxAttempts q * int (length (order q')) < int (patient_claims (leaseDuration q) (horizon q) ls)"
  shows "\<exists>t'. gm_get (tasks q') tid = Some t' \<and> finished t'"
proof -
  have inv': "queue_inv q'" by (rule lq.run_inv [OF inv run])
  have le: "queue_le q q'" by (rule lqm.run_le [OF inv run])
  then have m: "maxAttempts q' = maxAttempts q" by (simp add: queue_le_def)
  obtain t' where t': "gm_get (tasks q') tid = Some t'" using le t by (auto simp: queue_le_def)
  have "0 \<le> total_attempts q"
    unfolding total_attempts_def using inv by (intro sum_list_nonneg) (auto simp: queue_inv_def list_all_iff task_wf_def)
  with grants_eq [OF inv run] total_attempts_bound [OF inv'] m many
  have "\<not> int (patient_claims (leaseDuration q) (horizon q) ls) \<le> grants ls q" by simp
  with patient_claims_granted [OF inv leases_by_horizon t run t'] t' show ?thesis by blast
qed

section \<open>Jobs end\<close>

lemma listed_task:
  assumes "queue_inv q" and "t \<in> set (task_list q)"
  shows "gm_get (tasks q) (t_ID t) = Some t"
proof -
  from assms(2) obtain tid where "(tid, t) \<in> set (tasks q)" by (auto simp: task_list_def)
  then have "gm_get (tasks q) tid = Some t" by (rule gm_in_set_get [OF queue_inv_wf [OF assms(1)]])
  with queue_inv_task(1) [OF assms(1) this] show ?thesis by simp
qed

text \<open>
  C25. Every job ends, whatever becomes of the workers. Take any run of requests from any reachable state:
  claims, renewals, results right or wrong, more submissions, workers that take a task and are never
  heard of again. If more of its claims come after the end of all leases than there can be
  attempts, then every task of every job that was known at the start is finished: the report on the job
  says \<open>completed\<close> or \<open>failed\<close> and still lists exactly its tasks.
\<close>

theorem jobs_finish:
  assumes "server_reach sha256 cfg s" and "\<exists>t \<in> set (task_list (sv_pullQueue s)). t_JobID t = j" and "j \<noteq> []"
    and "run_steps (server_step sha256) ls (a, s) = Some (a1, s1)"
    and "sc_MaxAttempts cfg * int (length (order (sv_pullQueue s1)))
      < int (patient_claims (sc_LeaseDuration cfg) (horizon (sv_pullQueue s)) (server_ops sha256 ls (a, s)))"
    and "authorized sha256 (sv_token s1) (r_Authorization r)" and "r_Path r = ''/pull/job''" and "r_Method r = ''GET''" and "r_QueryID r = j"
    and "routes sha256 clk i r (a1, s1) = Some ((a2, s2), resp)"
  shows "\<exists>jr. rsp_Body resp = BJob jr \<and> (jr_State jr = PullJobCompleted \<or> jr_State jr = PullJobFailed) \<and>
    map jt_TaskID (jr_Tasks jr) = map ts_ID (specs_of_job j (sv_pullQueue s))"
proof -
  let ?q = "sv_pullQueue s" and ?tsof = "\<lambda>s. filter (\<lambda>t. t_JobID t = j) (task_list (sv_pullQueue s))"
  have qi: "queue_inv ?q" and si: "server_inv s" using server_reach_inv [OF assms(1)] by (simp_all add: server_inv_def)
  note reach1 = server_reach_run [OF assms(1,4)] and run = server_ops_run [OF si assms(4)]
  have q1: "queue_inv (sv_pullQueue s1)" using server_reach_inv [OF reach1] by (simp add: server_inv_def)
  have p: "maxAttempts ?q = sc_MaxAttempts cfg" "leaseDuration ?q = sc_LeaseDuration cfg"
    using lq_reach_params [OF server_reach_queue [OF assms(1)]] by (simp_all add: queue_config_def)
  have known: "specs_of_job j ?q \<noteq> []"
    using assms(2) by (simp add: filter_empty_conv flip: job_tasks_specs)
  from specs_of_job_run [OF assms(1) known assms(4)] have sp: "map spec_of (?tsof s1) = specs_of_job j ?q" by (simp add: job_tasks_specs)
  have "finished t" if t: "t \<in> set (?tsof s1)" for t
  proof -
    have "spec_of t \<in> set (specs_of_job j ?q)" using t by (simp flip: sp)
    then obtain t0 where t0: "t0 \<in> set (task_list ?q)" "t_ID t = t_ID t0" by (auto simp: specs_of_job_def specs_def spec_of_def)
    have "gm_get (tasks ?q) (t_ID t) = Some t0" and "gm_get (tasks (sv_pullQueue s1)) (t_ID t) = Some t"
      using listed_task [OF qi t0(1)] listed_task [OF q1, of t] t t0(2) by auto
    with tasks_finish [OF qi _ run] assms(5) p show ?thesis by fastforce
  qed
  then have fin: "list_all finished (?tsof s1)" and ne: "?tsof s1 \<noteq> []" using known sp by (auto simp: list_all_iff)
  have "run_steps (server_step sha256) [(clk, i, r)] (a1, s1) = Some (a2, s2)" using assms(10) by simp
  from finished_tasks_kept [OF reach1 this ne fin] have same: "?tsof s2 = ?tsof s1" .
  from job_request_eq [OF reach1 assms(6-9,3,10)] ne have
    "resp = writeJSON (BJob \<lparr>jr_JobID = j, jr_State = job_state (?tsof s1), jr_Tasks = map job_task_of (?tsof s1)\<rparr>)"
    by (simp add: Let_def same)
  then show ?thesis
    using arg_cong [OF sp, of "map ts_ID"] fin by (simp add: writeJSON_def job_state_eq list_all_iff job_task_of_def spec_of_def comp_def)
qed

text \<open>Five claims whose workers are never heard of again, of two tasks with two attempts each.\<close>

definition ex_claims :: "((nat \<Rightarrow> time) \<times> string \<times> Request) list" where
  "ex_claims = map (\<lambda>(t, i). (ex_clock t, i, ex_claim)) [(10, ''L1''), (25, ''L2''), (40, ''L3''), (55, ''L4''), (70, ''L5'')]"

theorem jobs_finish_witness:
  "\<exists>a1 s1 a2 s2 resp jr. run_steps (server_step (\<lambda>x. x)) ex_claims (ex_audit, ex_server 1) = Some (a1, s1) \<and>
     routes (\<lambda>x. x) (ex_clock 90) [] ex_job (a1, s1) = Some ((a2, s2), resp) \<and> rsp_Body resp = BJob jr \<and>
     (jr_State jr = PullJobCompleted \<or> jr_State jr = PullJobFailed)"
proof -
  obtain a1 s1 where ls: "run_steps (server_step (\<lambda>x. x)) ex_claims (ex_audit, ex_server 1) = Some (a1, s1)"
    using coordinator.run_safe [of "(ex_audit, ex_server 1)" "\<lambda>x. x" ex_claims] server_reach_inv [OF exs_reach] by auto
  note reach1 = server_reach_run [OF exs_reach ls]
  obtain a2 s2 resp where r: "routes (\<lambda>x. x) (ex_clock 90) [] ex_job (a1, s1) = Some ((a2, s2), resp)"
    using routes_served [OF server_reach_inv [OF reach1]] by blast
  have j: "\<exists>t \<in> set (task_list (sv_pullQueue (ex_server 1))). t_JobID t = ''pull-job-5''" by code_simp
  have "map_option (\<lambda>(a, s). length (order (sv_pullQueue s))) (run_steps (server_step (\<lambda>x. x)) ex_claims (ex_audit, ex_server 1)) = Some 2"
    and "patient_claims 10 (horizon (sv_pullQueue (ex_server 1))) (server_ops (\<lambda>x. x) ex_claims (ex_audit, ex_server 1)) = 5"
    by code_simp+
  with ls have many: "sc_MaxAttempts ex_scfg * int (length (order (sv_pullQueue s1)))
      < int (patient_claims (sc_LeaseDuration ex_scfg) (horizon (sv_pullQueue (ex_server 1))) (server_ops (\<lambda>x. x) ex_claims (ex_audit, ex_server 1)))"
    by (simp add: ex_scfg_def)
  have au: "authorized (\<lambda>x. x) (sv_token s1) (r_Authorization ex_job)"
    using ex_token [OF reach1] by (simp add: ex_job_def ex_request_def ex_authorized)
  have p: "r_Path ex_job = ''/pull/job''" "r_Method ex_job = ''GET''" "r_QueryID ex_job = ''pull-job-5''"
    by (simp_all add: ex_job_def ex_request_def)
  from jobs_finish [OF exs_reach j _ ls many au p r] ls r show ?thesis by blast
qed

end
