(* ===== verification/SubmitNet.thy ===== *)
theory SubmitNet
  imports ClientNet CoordinatorInv
begin

text \<open>
  The submit command against a coordinator: \<open>execute\<close> and \<open>runSubmit\<close> of \<open>cli/submit.go\<close> with the calls
  made over the network, while others send requests in between.
\<close>

text \<open>A call that fails may have been served all the same, when it is the answer that was lost.\<close>

datatype call_fate = Answered | AnswerLost string | NeverSent string

definition with_fate :: "call_fate \<Rightarrow> ('c \<Rightarrow> 's \<Rightarrow> ('c \<times> 's \<times> 'r client_outcome) option) \<Rightarrow> 'c \<Rightarrow> 's \<Rightarrow> ('c \<times> 's \<times> 'r client_outcome) option" where
  "with_fate fate call c st = (case fate of
       Answered \<Rightarrow> call c st
     | AnswerLost e \<Rightarrow> map_option (\<lambda>(c1, st1, out). (c1, st1, CallFails e)) (call c st)
     | NeverSent e \<Rightarrow> Some (c, st, CallFails e))"

text \<open>
  One turn of the polling loop: the requests of others before it, the call, the end of the context
  if it is seen after a failed call, what the \<open>select\<close> chooses, and the time.
\<close>

record NetRound =
  nr_others :: "((nat \<Rightarrow> time) \<times> string \<times> Request) list"
  nr_call :: NetCall
  nr_fate :: call_fate
  nr_ctxErr :: "ctx_err option"
  nr_select :: "ctx_err option"
  nr_now :: time

definition poll_ends :: "PollRound \<Rightarrow> bool" where
  "poll_ends r = (case client_job (po_outcome r) of
       Inl _ \<Rightarrow> True
     | Inr response \<Rightarrow> jr_State response = PullJobCompleted \<or> jr_State response = PullJobFailed \<or> po_select r \<noteq> None)"

text \<open>The rounds that are made, with their outcomes. \<open>None\<close>: the coordinator panics.\<close>

fun polls_over :: "(string \<Rightarrow> string) \<Rightarrow> (crypto_error \<Rightarrow> string) \<Rightarrow> (rune \<Rightarrow> bool) \<Rightarrow> string \<Rightarrow> string \<Rightarrow> NetRound list \<Rightarrow>
    FS \<times> trustVerifier \<Rightarrow> Audit \<times> Server \<Rightarrow> (PollRound list \<times> (FS \<times> trustVerifier) \<times> (Audit \<times> Server)) option" where
  "polls_over sha256 tls_text p token jobID [] ftv st = Some ([], ftv, st)"
| "polls_over sha256 tls_text p token jobID (r # rs) ftv st =
     (case run_steps (server_step sha256) (nr_others r) st of
        None \<Rightarrow> None
      | Some st1 \<Rightarrow>
          (case with_fate (nr_fate r) (client_job_over sha256 tls_text p (nr_call r) token jobID) ftv st1 of
             None \<Rightarrow> None
           | Some (ftv1, st2, out) \<Rightarrow>
               let pr = \<lparr>po_outcome = out, po_ctxErr = nr_ctxErr r, po_select = nr_select r, po_now = nr_now r\<rparr>
               in if poll_ends pr then Some ([pr], ftv1, st2)
                  else map_option (\<lambda>(prs, x). (pr # prs, x)) (polls_over sha256 tls_text p token jobID rs ftv1 st2)))"

record NetSubmit =
  ns_call :: NetCall
  ns_fate :: call_fate
  ns_rounds :: "NetRound list"

definition calls_over :: "(string \<Rightarrow> string) \<Rightarrow> (crypto_error \<Rightarrow> string) \<Rightarrow> (rune \<Rightarrow> bool) \<Rightarrow> string \<Rightarrow> PullSubmitRequest \<Rightarrow> NetSubmit \<Rightarrow>
    FS \<times> trustVerifier \<Rightarrow> Audit \<times> Server \<Rightarrow>
    (PullSubmitResponse client_outcome \<times> PollRound list \<times> (FS \<times> trustVerifier) \<times> (Audit \<times> Server)) option" where
  "calls_over sha256 tls_text p token req n ftv st =
     (case with_fate (ns_fate n) (client_submit_over sha256 tls_text p (ns_call n) token req) ftv st of
        None \<Rightarrow> None
      | Some (ftv1, st1, out) \<Rightarrow>
          (case client_submit out of
             Inl _ \<Rightarrow> Some (out, [], ftv1, st1)
           | Inr job \<Rightarrow> map_option (\<lambda>(prs, x). (out, prs, x)) (polls_over sha256 tls_text p token (ss_JobID job) (ns_rounds n) ftv1 st1)))"

text \<open>The connections that calls open: none for a call that is not sent.\<close>

definition call_peers :: "string \<Rightarrow> NetCall \<Rightarrow> call_fate \<Rightarrow> string list list" where
  "call_peers token n fate = (case fate of
       NeverSent e \<Rightarrow> []
     | _ \<Rightarrow> if valid_header_value (clientHeader token) then (case nc_peer n of None \<Rightarrow> [] | Some certs \<Rightarrow> [certs]) else [])"

definition submit_peers :: "string \<Rightarrow> NetSubmit \<Rightarrow> nat \<Rightarrow> string list list" where
  "submit_peers token n rounds = call_peers token (ns_call n) (ns_fate n)
     @ concat (map (\<lambda>r. call_peers token (nr_call r) (nr_fate r)) (take rounds (ns_rounds n)))"

text \<open>
  \<open>runSubmit\<close> with the answers that the calls get. \<open>None\<close>: the coordinator panics; the inner
  \<open>None\<close>: still polling.
\<close>

definition runSubmit_over :: "cli_lib \<Rightarrow> (crypto_error \<Rightarrow> string) \<Rightarrow> SubmitRun \<Rightarrow> NetSubmit \<Rightarrow> submitOptions \<Rightarrow> string \<Rightarrow> FS \<Rightarrow> Audit \<times> Server \<Rightarrow>
    ((Audit \<times> Server) \<times> (string \<times> FS \<times> run_problem option) option) option" where
  "runSubmit_over lib tls_text r n options token fs st =
     (case DefaultPaths (sr_userConfigDir r) (sr_goos r) of
        Inl e \<Rightarrow> Some (st, runSubmit lib r options fs)
      | Inr paths \<Rightarrow>
          (case NewCoordinatorClientConfig fs (pa_TrustedCoordinator paths) (so_fingerprint options) of
             Inl e \<Rightarrow> Some (st, runSubmit lib r options fs)
           | Inr tlsConfig \<Rightarrow>
               map_option (\<lambda>(out, prs, ftv, st1). (st1, runSubmit lib
                   (r\<lparr>sr_submit := out, sr_rounds := prs, sr_peers := submit_peers token n (length prs)\<rparr>) options fs))
                 (calls_over (cb_sha256 lib) tls_text (cb_isPrint lib) token (submit_request options) n (fs, tlsConfig) st)))"

end
