(* ===== verification/SubmitNetTheorems.thy ===== *)
theory SubmitNetTheorems
  imports SubmitNet ManifestTheorems
begin

text \<open>What the exit code 0 of \<open>submit\<close> says about the coordinator and the results file.\<close>

section \<open>Calls and connections\<close>

lemma connections_append: "connections sha256 (xs @ ys) fs v = (case connections sha256 xs fs v of (fs1, v1) \<Rightarrow> connections sha256 ys fs1 v1)"
  by (induction xs arbitrary: fs v) (auto split: prod.split)

lemma client_do_files:
  assumes "client_do_over sha256 tls_text p fds zero n req (fs, v) st = Some (ftv, st1, out)" and "r_Authorization req = [clientHeader token]"
  shows "connections sha256 (call_peers token n Answered) fs v = ftv"
  using assms by (auto simp: client_do_over_def call_peers_def split: if_splits option.splits prod.splits)

lemma fate_files:
  assumes "with_fate fate (client_do_over sha256 tls_text p fds zero n req) (fs, v) st = Some (ftv, st1, out)"
    and "r_Authorization req = [clientHeader token]"
  shows "connections sha256 (call_peers token n fate) fs v = ftv"
proof (cases "\<exists>e. fate = NeverSent e")
  case True
  with assms(1) show ?thesis by (auto simp: with_fate_def call_peers_def)
next
  case False
  then have "call_peers token n fate = call_peers token n Answered" by (cases fate) (simp_all add: call_peers_def)
  moreover obtain out' where "client_do_over sha256 tls_text p fds zero n req (fs, v) st = Some (ftv, st1, out')"
    using assms(1) False by (cases fate) (auto simp: with_fate_def)
  ultimately show ?thesis using client_do_files [OF _ assms(2)] by metis
qed

lemma polls_files:
  "polls_over sha256 tls_text p token j rs (fs, v) st = Some (prs, ftv, st1) \<Longrightarrow>
   connections sha256 (concat (map (\<lambda>r. call_peers token (nr_call r) (nr_fate r)) (take (length prs) rs))) fs v = ftv"
proof (induction rs arbitrary: fs v st prs)
  case (Cons r rs)
  then obtain st2 fs2 v2 st3 out where c: "with_fate (nr_fate r) (client_job_over sha256 tls_text p (nr_call r) token j) (fs, v) st2 = Some ((fs2, v2), st3, out)"
    and more: "(\<exists>pr. prs = [pr] \<and> ftv = (fs2, v2)) \<or>
      (\<exists>pr prs'. prs = pr # prs' \<and> polls_over sha256 tls_text p token j rs (fs2, v2) st3 = Some (prs', ftv, st1))"
    by (auto simp: Let_def split: option.splits if_splits prod.splits)
  have "connections sha256 (call_peers token (nr_call r) (nr_fate r)) fs v = (fs2, v2)"
    by (rule fate_files [OF c [unfolded client_job_over_def]]) (simp add: client_job_request_def)
  note here = this
  from more show ?case
  proof (elim disjE exE conjE)
    fix pr prs'
    assume "prs = pr # prs'" and "polls_over sha256 tls_text p token j rs (fs2, v2) st3 = Some (prs', ftv, st1)"
    from this(1) Cons.IH [OF this(2)] here show ?thesis by (simp add: connections_append)
  qed (simp add: here)
qed simp

text \<open>The files that the connections leave are those that \<open>runSubmit\<close> takes them to leave.\<close>

lemma calls_files:
  assumes "calls_over sha256 tls_text p token req n (fs, v) st = Some (out, prs, ftv, st1)"
  shows "connections sha256 (submit_peers token n (length prs)) fs v = ftv"
proof -
  from assms obtain fs2 v2 st2 where
    c: "with_fate (ns_fate n) (client_submit_over sha256 tls_text p (ns_call n) token req) (fs, v) st = Some ((fs2, v2), st2, out)"
    and more: "(prs = [] \<and> ftv = (fs2, v2)) \<or> (\<exists>job. polls_over sha256 tls_text p token job (ns_rounds n) (fs2, v2) st2 = Some (prs, ftv, st1))"
    by (auto simp: calls_over_def split: option.splits prod.splits sum.splits)
  have "connections sha256 (call_peers token (ns_call n) (ns_fate n)) fs v = (fs2, v2)"
    by (rule fate_files [OF c [unfolded client_submit_over_def]]) (simp add: client_submit_request_def)
  with more polls_files show ?thesis by (fastforce simp: submit_peers_def connections_append)
qed

section \<open>The round that says completed\<close>

lemma poll_ends_live: "poll_ends r \<longleftrightarrow> \<not> live_round r"
  by (auto simp: poll_ends_def live_round_def split: sum.splits)

lemma fate_answered:
  assumes "with_fate fate call c st = Some (c1, st1, out)" and "\<And>e. out \<noteq> CallFails e"
  shows "call c st = Some (c1, st1, out)"
  using assms by (auto simp: with_fate_def split: call_fate.splits)

lemma job_call_step:
  assumes "client_do_over sha256 tls_text p fds zero n req ftv st = Some (ftv1, st1, out)"
  shows "\<exists>ls. run_steps (server_step sha256) ls st = Some st1"
proof -
  obtain fs v where "ftv = (fs, v)" by (cases ftv)
  from client_do_cases [OF assms [unfolded this]] show ?thesis
  proof (elim disjE exE conjE)
    assume "st1 = st"
    then show ?thesis by (intro exI [of _ "[]"]) simp
  next
    fix resp
    assume "routes sha256 (nc_clk n) (nc_leaseID n) req st = Some (st1, resp)"
    then show ?thesis by (intro exI [of _ "[(nc_clk n, nc_leaseID n, req)]"]) simp
  qed
qed

lemma fate_step:
  assumes "with_fate fate (client_do_over sha256 tls_text p fds zero n req) ftv st = Some (ftv1, st1, out)"
  shows "\<exists>ls. run_steps (server_step sha256) ls st = Some st1"
proof (cases fate)
  case (NeverSent e)
  with assms show ?thesis by (auto simp: with_fate_def intro: exI [of _ "[]"])
qed (use assms job_call_step in \<open>fastforce simp: with_fate_def\<close>)+

lemma polls_completed:
  "polls_over sha256 tls_text p token j rs ftv st = Some (prs, ftv1, st1) \<Longrightarrow> prs = pre @ q # rest \<Longrightarrow>
   list_all live_round pre \<Longrightarrow> completed_round q \<Longrightarrow>
   \<exists>ls st2 ftv0 n. run_steps (server_step sha256) ls st = Some st2 \<and>
     client_job_over sha256 tls_text p n token j ftv0 st2 = Some (ftv1, st1, po_outcome q)"
proof (induction rs arbitrary: ftv st prs pre)
  case (Cons r rs)
  let ?call = "with_fate (nr_fate r) (client_job_over sha256 tls_text p (nr_call r) token j)"
  let ?pr = "\<lambda>out. \<lparr>po_outcome = out, po_ctxErr = nr_ctxErr r, po_select = nr_select r, po_now = nr_now r\<rparr>"
  obtain st2 ftv2 st3 out where o: "run_steps (server_step sha256) (nr_others r) st = Some st2" "?call ftv st2 = Some (ftv2, st3, out)"
    using Cons.prems(1) by (auto simp: Let_def split: option.splits prod.splits)
  obtain ls where ls: "run_steps (server_step sha256) ls st2 = Some st3"
    using fate_step [OF o(2) [unfolded client_job_over_def]] by blast
  show ?case
  proof (cases "poll_ends (?pr out)")
    case True
    with Cons.prems(1) o have "prs = [?pr out]" and p: "ftv1 = ftv2" "st1 = st3" by (auto simp: Let_def)
    with Cons.prems(2) have q: "q = ?pr out" by (cases pre) auto
    then have "out \<noteq> CallFails e" for e using Cons.prems(4) by (auto simp: completed_round_def client_job_def client_call_def)
    from fate_answered [OF o(2) this] o(1) show ?thesis
      unfolding p q by (intro exI conjI) simp_all
  next
    case False
    with Cons.prems(1) o obtain prs' where prs: "prs = ?pr out # prs'" "polls_over sha256 tls_text p token j rs ftv2 st3 = Some (prs', ftv1, st1)"
      by (auto simp: Let_def)
    have "live_round (?pr out)" using False by (simp add: poll_ends_live)
    with Cons.prems(2,4) prs(1) obtain pre' where pre: "pre = ?pr out # pre'" "prs' = pre' @ q # rest"
      using live_not_completed by (cases pre) auto
    from Cons.IH [OF prs(2) pre(2) _ Cons.prems(4)] Cons.prems(3) pre(1) obtain ls' st4 ftv0 n where
      "run_steps (server_step sha256) ls' st3 = Some st4" "client_job_over sha256 tls_text p n token j ftv0 st4 = Some (ftv1, st1, po_outcome q)"
      by auto
    with o(1) ls have "run_steps (server_step sha256) (nr_others r @ ls @ ls') st = Some st4" by (simp add: run_steps_append)
    with \<open>client_job_over _ _ _ _ _ _ _ _ = _\<close> show ?thesis by blast
  qed
qed simp

section \<open>What completed means\<close>

lemma answered_authorized:
  assumes "routes sha256 clk i r (a, s) = Some ((a1, s1), resp)" and "dispatch clk i r = Some h" and "rsp_Status resp = 200"
  shows "authorized sha256 (sv_token s) (r_Authorization r)"
proof (rule ccontr)
  assume "\<not> authorized sha256 (sv_token s) (r_Authorization r)"
  with assms show False by (auto simp: routes_def WithBearerAuth_eq)
qed

text \<open>A submission that is answered with 200 was authorised and well-formed.\<close>

lemma accepted_submission:
  assumes "routes sha256 clk i r (a, s) = Some ((a1, s1), resp)" and "r_Path r = ''/pull/submit''" and "r_Method r = ''POST''"
    and "rsp_Status resp = 200"
  shows "authorized sha256 (sv_token s) (r_Authorization r) \<and> (\<exists>ty ts. call_of r = Some (SubmitCall ty ts))"
proof -
  have d: "dispatch clk i r = Some (handlePullSubmit clk r)" using assms(2) by (simp add: dispatch_def)
  have au: "authorized sha256 (sv_token s) (r_Authorization r)"
    by (rule answered_authorized [OF assms(1) d assms(4)])
  from routes_handlerD [OF au d assms(1)] have "handlePullSubmit clk r s = Some (s1, resp)" ..
  with assms(2-4) have "submit_call r \<noteq> None"
    by (auto simp: handlePullSubmit_def submit_call_def writeJSONStatus_def split: option.splits sum.splits)
  then have "\<exists>ty ts. submit_call r = Some (SubmitCall ty ts)" by (auto simp: submit_call_def split: option.splits sum.splits)
  with au assms(2,3) show ?thesis by (simp add: call_of_def)
qed

lemma job_wire_fields:
  assumes "decode_any fields_PullJobResponse (received (json_PullJobResponse jr)) zero_PullJobResponse = Some jr'"
  shows "jr_JobID jr' = wire_text (jr_JobID jr) \<and> jr_State jr' = jr_State jr \<and>
    map jt_State (jr_Tasks jr') = map (\<lambda>t. wire_text (jt_State t)) (jr_Tasks jr)"
proof -
  have st: "decode_job_state (JString (wire_text (PullJobState_str st))) old = Some st" for st old
    by (cases st) (simp_all add: decode_job_state_def, code_simp+)
  from assms have "jr_JobID jr' = wire_text (jr_JobID jr)" and "jr_State jr' = jr_State jr"
    and "decode_elems (decode_any fields_PullJobTask) zero_PullJobTask (map (\<lambda>t. received (json_PullJobTask t)) (jr_Tasks jr)) []
      = Some (jr_Tasks jr')"
    by (auto simp: json_PullJobResponse_def fields_PullJobResponse_def zero_PullJobResponse_def find_field_def comp_def st split: option.splits)
  moreover from elems_decoded [OF this(3)] have "map jt_State (jr_Tasks jr') = map (\<lambda>t. wire_text (jt_State t)) (jr_Tasks jr)"
    by (induction rule: list_all2_induct) (simp_all add: job_task_decoded)
  ultimately show ?thesis by simp
qed

text \<open>An answer that says completed describes the coordinator's table at that moment.\<close>

lemma completed_report:
  assumes "server_reach sha256 cfg s" and "authorized sha256 (sv_token s) (r_Authorization r)" and "call_of r = Some (SubmitCall ty ts)"
    and "routes sha256 (nc_clk n) (nc_leaseID n) r (a, s) = Some ((a1, s1), resp)" and "rsp_Status resp = 200"
    and "run_steps (server_step sha256) ls (a1, s1) = Some (a2, s2)"
    and job: "client_job_over sha256 tls_text p n' token (job_id (nc_clk n 0)) ftv (a2, s2) = Some (ftv2, (a3, s3), out)"
    and j: "client_job out = Inr jr" "jr_State jr = PullJobCompleted"
  defines "tasks_now \<equiv> filter (\<lambda>t. t_JobID t = job_id (nc_clk n 0)) (task_list (sv_pullQueue s3))"
  shows "map spec_of tasks_now = job_specs (job_id (nc_clk n 0)) ty 0 ts" and "list_all (\<lambda>t. t_State t = StateCompleted) tasks_now"
    and "jr_JobID jr = job_id (nc_clk n 0)" and "map jt_Key (jr_Tasks jr) = map (\<lambda>t. wire_text (wt_Key t)) ts"
    and "list_all (\<lambda>t. jt_State t = ''completed'') (jr_Tasks jr)"
proof -
  let ?j = "job_id (nc_clk n 0)"
  let ?r = "client_job_request token (nc_addr n') ?j"
  obtain fs tv where p: "ftv = (fs, tv)" by (cases ftv)
  note reach2 = server_reach_run [OF server_reach.handled [OF assms(1,4)] assms(6)] and sp = submitted_specs [OF assms(1-6)]
  have r: "r_Path ?r = ''/pull/job''" "r_Method ?r = ''GET''" "r_QueryID ?r = ?j" by (simp_all add: client_job_request_def)
  from client_do_cases [OF job [unfolded client_job_over_def p]] j(1) obtain resp' where
    rt: "routes sha256 (nc_clk n') (nc_leaseID n') ?r (a2, s2) = Some ((a3, s3), resp')"
    and out: "out = client_outcome_of p fields_PullJobResponse zero_PullJobResponse resp'"
    by (auto simp: client_job_def client_call_def)
  have ok: "rsp_Status resp' = 200" using j(1) by (auto simp: out client_job_def client_call_def client_outcome_of_def split: if_splits)
  have "dispatch (nc_clk n') (nc_leaseID n') ?r = Some (handlePullJob (nc_clk n') ?r)" by (simp add: dispatch_def r)
  from answered_authorized [OF rt this ok] have au: "authorized sha256 (sv_token s2) (r_Authorization ?r)" .
  show specs: "map spec_of tasks_now = job_specs ?j ty 0 ts"
    using specs_of_job_step [OF reach2 rt, of ?j] sp by (simp add: tasks_now_def job_tasks_specs)
  with sp(2) have ne: "tasks_now \<noteq> []" by auto
  have "?j \<noteq> []" by (simp add: job_id_def)
  from job_request_eq [OF reach2 au r this rt] ne have b: "rsp_Body resp' = BJob \<lparr>jr_JobID = ?j, jr_State = job_state tasks_now, jr_Tasks = map job_task_of tasks_now\<rparr>"
    by (simp add: Let_def tasks_now_def writeJSON_def)
  note dec = client_job_answer [OF j(1) [unfolded out] b]
  from job_wire_fields [OF dec] j(2) show "jr_JobID jr = ?j" and c: "list_all (\<lambda>t. t_State t = StateCompleted) tasks_now"
    by (auto simp: wire_job_id job_state_eq finished_def list_all_iff list_ex_iff split: if_splits)
  have "map jt_State (jr_Tasks jr) = map (\<lambda>t. wire_text (TaskState_str (t_State t))) tasks_now"
    using job_wire_fields [OF dec] by (simp add: comp_def job_task_of_def)
  also have "\<dots> = map (\<lambda>t. ''completed'') tasks_now"
  proof -
    have "wire_text ''completed'' = ''completed''" by code_simp
    with c show ?thesis by (auto simp: list_all_iff)
  qed
  finally have "set (map jt_State (jr_Tasks jr)) \<subseteq> {''completed''}" by auto
  then show "list_all (\<lambda>t. jt_State t = ''completed'') (jr_Tasks jr)" by (auto simp: list_all_iff)
  have "map jt_Key (jr_Tasks jr) = map wire_text (map ts_Key (map spec_of tasks_now))"
    using job_decoded [OF dec] by (simp add: comp_def job_task_of_def spec_of_def)
  then show "map jt_Key (jr_Tasks jr) = map (\<lambda>t. wire_text (wt_Key t)) ts" by (simp only: specs job_specs_keys) (simp add: comp_def)
qed

section \<open>Exit code 0\<close>

lemma last_job_at: "list_all live_round pre \<Longrightarrow> completed_round q \<Longrightarrow> last_job t (pre @ q # rest) = answer_job t q"
  by (induction pre) (auto dest: live_not_completed)

lemma job_specs_inputs: "map ts_Input (job_specs j ty i ts) = map wt_Input ts"
  by (induction ts arbitrary: i) (simp_all add: job_specs_def submit_spec_def)

lemma accepted_manifest:
  assumes "checkSubmit file options0 = Inr options" and "so_manifest options = Some m" and "so_manifest options0 = None" and "decoded_text m"
    and "call_of (client_submit_request token addr (submit_request options)) = Some c"
  shows "c = SubmitCall HTTPProbeType (mf_Tasks m)"
proof -
  have "int (length (json_text (json_PullSubmitRequest (submit_request options)))) \<le> MaxManifestBytes"
    using assms(5) by (auto simp: call_of_def submit_call_def client_submit_request_def decodeJSONRequest_def json_body_def split: option.splits if_splits)
  from manifest_call [OF assms(1-4) this, of token addr] assms(5) show ?thesis by simp
qed

lemma completed_job_over:
  assumes "list_all (\<lambda>t. jt_State t = ''completed'') (jr_Tasks jr)" and "jr_JobID jr \<noteq> []"
  shows "job_over (JobFromResponse jr t0 t1)"
proof -
  have "tasks_in ''completed'' (jr_Tasks jr) = int (length (jr_Tasks jr))" and "tasks_in ''failed'' (jr_Tasks jr) = 0"
    using assms(1) by (induction "jr_Tasks jr" arbitrary: jr) (auto simp: tasks_in_def list_all_iff filter_id_conv filter_empty_conv)
  then show ?thesis using job_progress_counts_response [of jr t0 t1] assms(2) by (simp add: job_over_def)
qed

text \<open>The network side of a command that ends without an error.\<close>

lemma calls_completed:
  assumes reach: "server_reach sha256 cfg s"
    and m: "checkSubmit file options0 = Inr options" "so_manifest options = Some m" "so_manifest options0 = None" "decoded_text m"
    and calls: "calls_over sha256 tls_text p token (submit_request options) n ftv (a, s) = Some (out, prs, ftv', (a', s'))"
    and sub: "client_submit out = Inr job" and prs: "prs = pre @ q # rest" "list_all live_round pre" "completed_round q"
  defines "j \<equiv> job_id (nc_clk (ns_call n) 0)"
  defines "tasks_now \<equiv> filter (\<lambda>t. t_JobID t = j) (task_list (sv_pullQueue s'))"
  shows "\<exists>jr. client_job (po_outcome q) = Inr jr \<and> map spec_of tasks_now = job_specs j HTTPProbeType 0 (mf_Tasks m) \<and>
    list_all (\<lambda>t. t_State t = StateCompleted) tasks_now \<and> jr_JobID jr = j \<and> map jt_Key (jr_Tasks jr) = map wt_Key (mf_Tasks m) \<and>
    list_all (\<lambda>t. jt_State t = ''completed'') (jr_Tasks jr)"
proof -
  let ?r = "client_submit_request token (nc_addr (ns_call n)) (submit_request options)"
  obtain fs v where f: "ftv = (fs, v)" by (cases ftv)
  have "out \<noteq> CallFails e" for e using sub by (auto simp: client_submit_def client_call_def)
  note answered = fate_answered [OF _ this]
  from calls sub obtain ftv1 a1 s1 where
    w: "with_fate (ns_fate n) (client_submit_over sha256 tls_text p (ns_call n) token (submit_request options)) ftv (a, s) = Some (ftv1, (a1, s1), out)"
    and polls: "polls_over sha256 tls_text p token (ss_JobID job) (ns_rounds n) ftv1 (a1, s1) = Some (prs, ftv', (a', s'))"
    by (auto simp: calls_over_def split: option.splits prod.splits sum.splits)
  note c = answered [OF w]
  from client_do_cases [OF c [unfolded client_submit_over_def f]] \<open>\<And>e. out \<noteq> CallFails e\<close> obtain resp where
    rt: "routes sha256 (nc_clk (ns_call n)) (nc_leaseID (ns_call n)) ?r (a, s) = Some ((a1, s1), resp)"
    and out: "out = client_outcome_of p fields_PullSubmitResponse zero_PullSubmitResponse resp" by blast
  have ok: "rsp_Status resp = 200"
    using sub by (auto simp: out client_submit_def client_call_def client_outcome_of_def split: if_splits)
  have "r_Path ?r = ''/pull/submit''" "r_Method ?r = ''POST''" by (simp_all add: client_submit_request_def)
  from accepted_submission [OF rt this ok] accepted_manifest [OF m] have
    au: "authorized sha256 (sv_token s) (r_Authorization ?r)" and call: "call_of ?r = Some (SubmitCall HTTPProbeType (mf_Tasks m))" by blast+
  from submission_lemma [OF reach au call rt] ok have "rsp_Body resp = BSubmit \<lparr>ss_JobID = j,
      ss_TaskIDs = map (task_id j) [0..<length (mf_Tasks m)]\<rparr>" by (auto simp: j_def split: if_splits)
  then have "ss_JobID job = j"
    using sub ok by (simp add: out client_outcome_of_def client_submit_def client_call_def submit_decoded)
      (auto simp: j_def wire_job_id)
  with polls_completed [OF polls prs] obtain ls a2 s2 ftv0 n' where ls: "run_steps (server_step sha256) ls (a1, s1) = Some (a2, s2)"
    and jo: "client_job_over sha256 tls_text p n' token j ftv0 (a2, s2) = Some (ftv', (a', s'), po_outcome q)" by auto
  obtain jr where jr: "client_job (po_outcome q) = Inr jr" "jr_State jr = PullJobCompleted" using prs(3) by (auto simp: completed_round_def)
  note cr = completed_report [OF reach au call rt ok ls jo [unfolded j_def] jr, folded j_def, folded tasks_now_def]
  have "map (\<lambda>t. wire_text (wt_Key t)) (mf_Tasks m) = map wt_Key (mf_Tasks m)" using m(4) by (simp add: decoded_text_def list_all_iff)
  with cr jr(1) show ?thesis by auto
qed

lemma runSubmit_over_calls:
  assumes "runSubmit_over lib tls_text r n options token fs st = Some (st', Some (out, fs', None))"
  obtains paths v oc prs ftv where "DefaultPaths (sr_userConfigDir r) (sr_goos r) = Inr paths"
    and "NewCoordinatorClientConfig fs (pa_TrustedCoordinator paths) (so_fingerprint options) = Inr v"
    and "calls_over (cb_sha256 lib) tls_text (cb_isPrint lib) token (submit_request options) n (fs, v) st = Some (oc, prs, ftv, st')"
    and "runSubmit lib (r\<lparr>sr_submit := oc, sr_rounds := prs, sr_peers := submit_peers token n (length prs)\<rparr>) options fs = Some (out, fs', None)"
  using assms by (auto simp: runSubmit_over_def runSubmit_def split: sum.splits option.splits)

text \<open>
  C28. Exit code 0 of \<open>submit\<close> means that the coordinator has every task of the manifest as
  completed. Let a manifest be accepted by the command line, and the command run to its end against
  a coordinator, over calls that may fail, lose their answers or come between any requests of others.
  When it exits with 0, then at that moment the coordinator's tasks of the job are the entries of the
  manifest, in order and with their inputs, all completed; and a results file that was asked for
  holds a document of these tasks in that order, all completed.
\<close>

theorem zero_exit_means_completed:
  assumes "server_reach (cb_sha256 lib) cfg s"
    and "checkSubmit file options0 = Inr options" and "so_manifest options = Some m" and "so_manifest options0 = None" and "decoded_text m"
    and "runSubmit_over lib tls_text r n options token fs (a, s) = Some ((a', s'), Some (out, fs', err))"
    and "fst (renderExit (submit_error err verbose)) = 0"
    and "ts = filter (\<lambda>t. t_JobID t = job_id (nc_clk (ns_call n) 0)) (task_list (sv_pullQueue s'))"
  shows "map t_Key ts = map wt_Key (mf_Tasks m) \<and> map t_Input ts = map wt_Input (mf_Tasks m) \<and>
    list_all (\<lambda>t. t_State t = StateCompleted) ts \<and>
    (so_outputPath options \<noteq> [] \<and> CHR ''/'' \<notin> set (sr_random r) \<longrightarrow>
       (\<exists>d. fs_node fs' (filepath_Clean (so_outputPath options)) = Some (RegularFile 384 (results_text d)) \<and>
          map mr_Key (md_Tasks d) = map wt_Key (mf_Tasks m) \<and> list_all (\<lambda>x. mr_State x = ''completed'') (md_Tasks d)))"
proof -
  from assms(7) have none: "err = None" by (simp add: submit_error_code split: if_splits)
  obtain paths v oc prs ftv where cfg: "DefaultPaths (sr_userConfigDir r) (sr_goos r) = Inr paths"
      "NewCoordinatorClientConfig fs (pa_TrustedCoordinator paths) (so_fingerprint options) = Inr v"
    and calls: "calls_over (cb_sha256 lib) tls_text (cb_isPrint lib) token (submit_request options) n (fs, v) (a, s) = Some (oc, prs, ftv, (a', s'))"
    and run: "runSubmit lib (r\<lparr>sr_submit := oc, sr_rounds := prs, sr_peers := submit_peers token n (length prs)\<rparr>) options fs = Some (out, fs', None)"
    using runSubmit_over_calls [OF assms(6) [unfolded none]] by blast
  let ?r = "r\<lparr>sr_submit := oc, sr_rounds := prs, sr_peers := submit_peers token n (length prs)\<rparr>"
  obtain t w res out1 where ex: "execute (sr_submit ?r) (sr_submitCtxErr ?r) (sr_startedAt ?r) (so_timeout options)
      (if ca_Interactive (sr_caps ?r) then NoProgress else PlainProgress (so_manifest options \<noteq> None)) (sr_rounds ?r)
      (NewSubmitTracker (so_taskCount options)) = (t, w, Some res)"
    and fin: "finishSubmit lib (sr_random ?r) (with_quit (sr_tui ?r) (so_timeout options) res) (sr_caps ?r) (so_outputPath options)
      (so_manifest options \<noteq> None) (fst (connections (cb_sha256 lib) (sr_peers ?r) fs v)) = (out1, fs', None)"
    by (rule runSubmit_parts [OF run, of paths v]) (simp_all add: cfg)
  note fe = finish_error [OF fin]
  have "er_err (with_quit (sr_tui ?r) (so_timeout options) res) = None" using fe(1) by auto
  then have no: "er_err res = None" and q: "with_quit (sr_tui ?r) (so_timeout options) res = res"
    by (auto simp: with_quit_def split: if_splits)
  from execute_completed [OF ex] no obtain job pre c post where sub: "client_submit oc = Inr job"
    and prs: "prs = pre @ c # post" "list_all live_round pre" "completed_round c" by (auto simp: completed_run_def)
  from calls_completed [OF assms(1-5) calls sub prs] obtain jr where jr: "client_job (po_outcome c) = Inr jr"
      "map spec_of ts = job_specs (job_id (nc_clk (ns_call n) 0)) HTTPProbeType 0 (mf_Tasks m)"
      "list_all (\<lambda>t. t_State t = StateCompleted) ts" "jr_JobID jr = job_id (nc_clk (ns_call n) 0)"
      "map jt_Key (jr_Tasks jr) = map wt_Key (mf_Tasks m)" "list_all (\<lambda>t. jt_State t = ''completed'') (jr_Tasks jr)"
    unfolding assms(8) by blast
  have "map t_Key ts = map ts_Key (map spec_of ts)" "map t_Input ts = map ts_Input (map spec_of ts)" by (simp_all add: comp_def spec_of_def)
  then have "map t_Key ts = map wt_Key (mf_Tasks m)" "map t_Input ts = map wt_Input (mf_Tasks m)"
    by (simp_all only: jr(2) job_specs_keys job_specs_inputs)
  moreover have "\<exists>d. fs_node fs' (filepath_Clean (so_outputPath options)) = Some (RegularFile 384 (results_text d)) \<and>
      map mr_Key (md_Tasks d) = map wt_Key (mf_Tasks m) \<and> list_all (\<lambda>x. mr_State x = ''completed'') (md_Tasks d)"
    if p: "so_outputPath options \<noteq> []" "CHR ''/'' \<notin> set (sr_random r)"
  proof -
    have j: "er_job res = JobFromResponse jr (sr_startedAt r) (po_now c)"
      using execute_job [OF ex no] last_job_at [OF prs(2,3)] jr(1) prs(1) by (simp add: final_job_def answer_job_def)
    have "job_over (er_job res)" unfolding j by (rule completed_job_over [OF jr(6)]) (simp add: jr(4) job_id_def)
    with fe(3) p(1) q have "writeManifestResults (cb_unmarshal lib) (sr_random r) (so_outputPath options) (er_job res)
        (fst (connections (cb_sha256 lib) (sr_peers ?r) fs v)) = (fs', None)" by simp
    from write_results_file [OF this p(2)] obtain d where d: "buildManifestResults (cb_unmarshal lib) (er_job res) = Inr d"
      "fs_node fs' (filepath_Clean (so_outputPath options)) = Some (RegularFile 384 (results_text d))" by auto
    have doc: "map mr_Key (md_Tasks d) = map jt_Key (jr_Tasks jr)" "map mr_State (md_Tasks d) = map jt_State (jr_Tasks jr)"
      using document_of_report [OF d(1) [unfolded j]] by simp_all
    then have "set (map mr_State (md_Tasks d)) \<subseteq> {''completed''}" using jr(6) by (auto simp only: doc(2)) (auto simp: list_all_iff)
    with d(2) doc(1) jr(5) show ?thesis by (auto simp: list_all_iff)
  qed
  ultimately show ?thesis using jr(3) by blast
qed

text \<open>
  A run that ends with 0: the answer to the first poll says running, then a worker completes
  both tasks, and the next answer says completed.
\<close>

definition ex_done :: "string \<Rightarrow> string \<Rightarrow> Request" where
  "ex_done task lease = ex_request ''POST'' ''/worker/result'' []
     [(''worker_id'', JString ''w''), (''task_id'', JString task), (''lease_id'', JString lease), (''result'', JObject [(''task_id'', JString task)])]"

definition ex_net_submit :: NetSubmit where
  "ex_net_submit = \<lparr>ns_call = net_call 5, ns_fate = Answered, ns_rounds =
     [\<lparr>nr_others = [(ex_clock 6, ''L1'', ex_claim), (ex_clock 7, ''L2'', ex_claim)], nr_call = net_call 8, nr_fate = Answered,
        nr_ctxErr = None, nr_select = None, nr_now = unixEpoch + 8\<rparr>,
      \<lparr>nr_others = [(ex_clock 9, [], ex_done ''pull-job-5-task-0'' ''L1''), (ex_clock 10, [], ex_done ''pull-job-5-task-1'' ''L2'')],
        nr_call = net_call 11, nr_fate = Answered, nr_ctxErr = None, nr_select = None, nr_now = unixEpoch + 11\<rparr>]\<rparr>"

definition ex_net_options0 :: submitOptions where
  "ex_net_options0 = submit_defaults\<lparr>so_manifestPath := ''m.json'', so_outputPath := ''out.json'', so_fingerprint := ex_pin\<rparr>"

definition ex_net_options :: submitOptions where
  "ex_net_options = (case checkSubmit ex_manifest ex_net_options0 of Inl e \<Rightarrow> submit_defaults | Inr options \<Rightarrow> options)"

definition ex_net_run :: "((Audit \<times> Server) \<times> (string \<times> FS \<times> run_problem option) option) option" where
  "ex_net_run = runSubmit_over (ex_cli\<lparr>cb_sha256 := \<lambda>x. x\<rparr>) (\<lambda>_. []) (ex_run\<lparr>sr_random := ''7'', sr_startedAt := unixEpoch + 5\<rparr>) ex_net_submit ex_net_options
     (sc_Token ex_scfg) (ex_disk Map.empty) (ex_audit, ex_server 0)"

lemma ex_net_ends: "(case ex_net_run of None \<Rightarrow> False | Some (_, None) \<Rightarrow> False | Some (_, Some (_, _, None)) \<Rightarrow> True | _ \<Rightarrow> False)"
  by code_simp

theorem zero_exit_means_completed_witness:
  "\<exists>a' s' out fs' d. ex_net_run = Some ((a', s'), Some (out, fs', None)) \<and>
     map t_Key (filter (\<lambda>t. t_JobID t = job_id (nc_clk (ns_call ex_net_submit) 0)) (task_list (sv_pullQueue s'))) = [''home'', ''api''] \<and>
     fs_node fs' ''out.json'' = Some (RegularFile 384 (results_text d)) \<and> map mr_Key (md_Tasks d) = [''home'', ''api'']"
proof -
  let ?m = "the (so_manifest ex_net_options)"
  have chk: "checkSubmit ex_manifest ex_net_options0 = Inr ex_net_options" by code_simp
  have m: "so_manifest ex_net_options = Some ?m" and keys: "map wt_Key (mf_Tasks ?m) = [''home'', ''api'']" by code_simp+
  have none: "so_manifest ex_net_options0 = None" by (simp add: ex_net_options0_def submit_defaults_def)
  have dt: "decoded_text ?m" by code_simp
  obtain a' s' out fs' where run: "ex_net_run = Some ((a', s'), Some (out, fs', None))"
    using ex_net_ends by (auto split: option.split_asm) (metis not_None_eq)
  have reach: "server_reach (cb_sha256 (ex_cli\<lparr>cb_sha256 := \<lambda>x. x\<rparr>)) ex_scfg (ex_server 0)" using exs_reach by simp
  have code: "fst (renderExit (submit_error None False)) = 0" by (simp add: submit_error_code)
  have p: "filepath_Clean (so_outputPath ex_net_options) = ''out.json''" by code_simp
  have op: "so_outputPath ex_net_options \<noteq> []" by code_simp
  note zero = zero_exit_means_completed [OF reach chk m none dt run [unfolded ex_net_run_def] code refl]
  have kt: "map t_Key (filter (\<lambda>t. t_JobID t = job_id (nc_clk (ns_call ex_net_submit) 0)) (task_list (sv_pullQueue s'))) = [''home'', ''api'']"
    using zero unfolding keys by blast
  obtain d where d: "fs_node fs' ''out.json'' = Some (RegularFile 384 (results_text d))" "map mr_Key (md_Tasks d) = [''home'', ''api'']"
    using zero unfolding p keys using op by auto
  show ?thesis by (intro exI conjI) (rule run kt d)+
qed

end
