(* ===== verification/Spec2Isabelle.thy ===== *)
theory Spec2Isabelle
  imports QueueTheorems ViewTheorems InputTheorems WorkerTheorems CryptoTheorems ExecutorTheorems
    PresentationTheorems ResultsTheorems CliTheorems PoolTheorems NetworkTheorems ManifestTheorems
    FleetTheorems CommandTheorems ProgressTheorems SubmitNetTheorems
begin

text \<open>
  Inoculum: a coordinator that hands out independent tasks under time-limited leases, workers
  that pull and run them over HTTPS, and a command line that starts both, submits jobs and
  watches them. This library models the Go code under \<open>src/internal\<close> and proves what makes it
  correct. All names are those of the code; a name that is no Go identifier names the lines of a
  function it was cut out of.

  \<^bold>\<open>The parts and how they interact.\<close> The lease queue (\<open>leasequeue/queue.go\<close>, theory LeaseQueue)
  is the only state that decides anything: a table of tasks, each queued, leased, completed or
  failed, a list of all IDs and a list of those waiting. The coordinator (\<open>coordinator/*.go\<close>,
  theory Coordinator) guards it with a bearer token (\<open>auth/auth.go\<close>, theory Auth, with
  \<open>audit/logger.go\<close>) and turns six HTTP requests into its calls. A worker (\<open>worker/pull.go\<close>, theory
  Worker) claims tasks, runs them (\<open>worker/executor.go\<close>, theory Executor), renews their leases
  meanwhile and delivers the results. The command line (\<open>cli/*.go\<close>, theories Cli, Flags and
  Results) reads options, submits task lists or manifests (\<open>workload/manifest.go\<close>, theory
  Workload), polls the job, and writes the results file. Clients pin the coordinator's certificate
  (\<open>crypto/tls.go\<close>, theory Crypto; \<open>appconfig/paths.go\<close>, theory Files). What people see comes from
  \<open>monitor/*.go\<close> (theory Monitor) and \<open>presentation/**.go\<close> (theories Format, Layout and Plain).

  \<^bold>\<open>How the model reads.\<close> A struct is a record, an enumeration a datatype, a Go map an association
  list with distinct keys (Prelude), a string the list of its bytes (GoStrings decodes UTF-8 as
  \<open>unicode/utf8\<close> does). A method takes the state and returns it changed; an error is a value of a
  sum or an option; a nil pointer that the code would dereference makes the result \<open>None\<close>, so that
  "it does not panic" is a theorem. A mutex makes a method one step, so goroutines are sequences
  of steps in any order, and claims about them quantify over all sequences. A request to the coordinator
  is one step too, although some handlers take the lock of the queue more than once
  (to expire leases first in a claim, a job report and the status, once for each task in a submission); a path that is
  not in its clean form, which \<open>http.ServeMux\<close> redirects, is answered 404. A time is the number of
  nanoseconds since Go's zero time; durations are int64 with the wrap-around written out where the
  code can reach it (\<open>nextBackoff\<close>, \<open>ParseDuration\<close>, \<open>time_Sub\<close>).

  \<^bold>\<open>The theories.\<close>
  Prelude: maps, times, and the locales \<open>invariant_machine\<close> and \<open>monotone_machine\<close>, which lift facts
  about one step to runs; GoStrings, Utf8, Json, JsonText: the parts of the standard library in use, with the facts
  about UTF-8 that text on the wire and on the screen shares; Types: the wire types, their decoding
  and validation (\<open>types/*.go\<close>); Wire: their JSON and the locale \<open>wire_type\<close>, whose law (a value
  that is written and read back at the other end) is discharged for every request.
  LeaseQueue, LeaseQueueInv (invariant, closed form of the expiry loop), LeaseQueueSpec (task
  lifecycle as a transition relation and its refinement, locale \<open>lease_service\<close>), QueueTheorems
  (C1-C10).
  Auth, Coordinator, CoordinatorInv (which queue calls a request is), CoordinatorJobs (identifiers,
  submissions, job reports), CoordinatorMonitor, CoordinatorTheorems (C13-C21), ViewTheorems
  (C22-C24; the history of events is the locale \<open>event_history\<close>), ProgressTheorems (C25: claims that
  come after the end of all leases make every job end).
  Workload, InputTheorems (which manifests load). Worker, WorkerTheorems (C29, C30: what a wait depends on is its
  delay), PoolTheorems (C31): \<open>Run\<close> is a pool of slots on one worker, each event happens in one slot, and they
  interleave in any order; tasks are listed by their ID, so the list can lack a running task when the
  lease of a task expires in one slot and another slot claims it again.
  Network, NetworkTheorems (C11): a call of a worker as connection, request, route, answer and
  decoding. The text of an instant is an argument (\<open>time_format\<close>) with the documented law
  \<open>time_faithful\<close>; a result beyond the limits of the coordinator (\<open>fits_limits\<close>) is rejected and lost. ClientNet: the same for the calls of the submit command (\<open>client.do\<close>) and the
  answers it decodes. ManifestTheorems (C27): a manifest from its file over the network to the
  results document. SubmitNet, SubmitNetTheorems (C28): the submit command with all its calls made to
  a coordinator that others use at the same time (\<open>runSubmit_over\<close> puts \<open>runSubmit\<close>, the calls and
  the routes together); each call may fail before it is served or lose its answer (\<open>call_fate\<close>).
  Fleet, FleetTheorems (C26): the whole system. A \<open>World\<close> is one coordinator, the worker processes
  with all their slots and disks, and the answers that are on their way to a slot; a
  \<open>fleet_event\<close> is a call of a slot, the reading (or loss) of its answer, something that a worker
  does alone, or a request of anybody else. The invariant \<open>fleet_ok\<close> (an \<open>invariant_machine\<close>)
  ties every task in a slot or in flight to the coordinator's attempt counters.
  Files (paths, and a file system in which every call may fail), Crypto, Keygen (a new
  identity: certificate template and PEM), CryptoTheorems (C32-C34).
  Executor, ExecutorTheorems (C35). Format, FormatFacts, Layout, Plain, PresentationTheorems
  (C36-C38). Results, ResultsTheorems (C40). Flags (package \<open>flag\<close> as the commands use it, with its messages and
  \<open>PrintDefaults\<close>), Cli (options, usage texts, the run of \<open>submit\<close>), CliTheorems (C39).
  Commands, CommandTheorems (C12): the process from its arguments to its exit code, with the three commands
  to their ends, what they print on both streams and where their log goes (\<open>Streams\<close>: whether the streams are terminals, the
  error of opening the operational log); what happens meanwhile (slot events, requests, how the
  interface ended, which channel a \<open>select\<close> saw first) is an argument, and a command that is still
  waiting has the value \<open>None\<close>.

  \<^bold>\<open>What is shown.\<close> The queue never panics and keeps its invariant; a result counts exactly when it
  comes from the holder of a live lease; a lost lease never revives; finished tasks are final;
  tasks are served in order and attempted at most MaxAttempts times. The coordinator keeps this
  behind HTTP: every request is answered, only token holders reach a handler, malformed bodies
  change nothing, submissions are all or nothing, and reports tell the truth. Workers never give
  up a result while they run, back off within bounds and keep their books. Clients talk to the
  pinned coordinator only, its identity is never replaced, and the trust record reads back. An
  execution is confined whatever servers answer. Untrusted text reaches the screen inert and within
  bounds. The exit code of the process and the results file of a submission can be relied on: 0
  from \<open>submit\<close> means that the coordinator has completed all tasks of the manifest and that the file lists them so.
  No job is stuck: with enough claims its tasks finish whatever workers do. In the system
  of all of them together no attempt at a task is ever started twice, a task is started at most
  MaxAttempts times, and a manifest keeps its order from file to file.

  \<^bold>\<open>Arguments of the model.\<close> SHA-256 (assumed to have 32 bytes, and injective where
  comparing hashes stands for comparing tokens), the X.509 functions, the random parts of
  identifiers, the readings of the clock, the JSON tokenizer (the model starts from its values),
  \<open>json.Unmarshal\<close> of a probe output, the parser of \<open>net/url\<close>, what servers and coordinators answer,
  the faults of file-system calls, \<open>strconv.ParseInt\<close> (with the text of its error) and \<open>strconv.IsPrint\<close>, and the floating-point
  product in \<open>time.ParseDuration\<close>.

  \<^bold>\<open>Bounds and fuel.\<close> No fuel is used. Loops that wait for others (polling, delivery, claiming,
  the screen) recurse over the list of what they meet in each round and have the value \<open>None\<close> or
  \<open>Again\<close> when the list ends before they do. The redirect loop ends because the limit counts it
  (a measure), wrapping because a round takes a rune.

  \<^bold>\<open>Not modelled.\<close> Sockets, terminals, signal handlers and the goroutine that forwards the events
  of the terminal appear only through what they deliver; a request that breaks off half way is one
  that failed on its way or was served; TLS is the check of the peer's certificate. The lines
  written to the operational log and that file itself, the headers of responses, the texts that the library gives to its errors
  (of the network, of TLS, of files, of the JSON decoder), keys, DER and the parsing of certificates are arguments or left out, as are the tests.
\<close>

end
